(* ===== verification/Prelude.thy ===== *)
theory Prelude
  imports Main "HOL-Library.Word" "HOL-Library.Char_ord" "HOL-Library.List_Lexorder"
    "HOL-Library.Product_Lexorder"
begin

text \<open>
  Shared vocabulary of the development: machine integers, the result type of fallible Rust
  functions, saturating arithmetic, big-endian byte strings and the generic lemmas on them.

  A Rust \<open>String\<close> or \<open>&[u8]\<close> is a \<^typ>\<open>string\<close>: a HOL character is one byte, so lengths count
  bytes and the order is the bytewise lexicographic order of \<open>String\<close>. A Rust
  \<open>Result<A, E>\<close> is \<open>'e + 'a\<close> with the error on the left.
\<close>

type_synonym u8 = "8 word"
type_synonym u16 = "16 word"
type_synonym u32 = "32 word"
type_synonym u64 = "64 word"
type_synonym bytes = string

named_theorems result_simps \<open>inversion of successful fallible computations\<close>
named_theorems sat_simps \<open>saturating arithmetic, read through unat\<close>
named_theorems byte_simps \<open>byte strings of fixed width\<close>

section \<open>Fallible computations\<close>

definition rbind :: "'e + 'a \<Rightarrow> ('a \<Rightarrow> 'e + 'b) \<Rightarrow> 'e + 'b" where
  "rbind m f = (case m of Inl e \<Rightarrow> Inl e | Inr x \<Rightarrow> f x)"

definition map_err :: "('e \<Rightarrow> 'f) \<Rightarrow> 'e + 'a \<Rightarrow> 'f + 'a" where
  "map_err g m = (case m of Inl e \<Rightarrow> Inl (g e) | Inr x \<Rightarrow> Inr x)"

definition fail_if :: "bool \<Rightarrow> 'e \<Rightarrow> 'e + unit" where
  "fail_if c e = (if c then Inl e else Inr ())"

definition is_ok :: "'e + 'a \<Rightarrow> bool" where
  "is_ok m = (case m of Inl _ \<Rightarrow> False | Inr _ \<Rightarrow> True)"

lemma rbind_simps [simp]:
  "rbind (Inl e) f = Inl e"
  "rbind (Inr x) f = f x"
  by (simp_all add: rbind_def)

lemma map_err_simps [simp]:
  "map_err g (Inl e) = Inl (g e)"
  "map_err g (Inr x) = Inr x"
  by (simp_all add: map_err_def)

lemma is_ok_simps [simp]:
  "is_ok (Inl e) = False"
  "is_ok (Inr x) = True"
  by (simp_all add: is_ok_def)

lemma is_ok_unit: "is_ok m \<longleftrightarrow> m = Inr ()"
  by (cases m) auto

lemma rbind_assoc: "rbind (rbind m f) g = rbind m (\<lambda>x. rbind (f x) g)"
  by (cases m) simp_all

lemma rbind_eq_Inr [result_simps]: "rbind m f = Inr y \<longleftrightarrow> (\<exists>x. m = Inr x \<and> f x = Inr y)"
  by (cases m) auto

lemma rbind_unit_eq_Inr [result_simps]:
  "rbind (m :: 'e + unit) f = Inr y \<longleftrightarrow> m = Inr () \<and> f () = Inr y"
  by (cases m) auto

lemma map_err_eq_Inr [result_simps]: "map_err g m = Inr y \<longleftrightarrow> m = Inr y"
  by (cases m) auto

lemma fail_if_eq_Inr [result_simps]: "fail_if c e = Inr u \<longleftrightarrow> \<not> c"
  by (simp add: fail_if_def)

lemma fail_if_simps [simp]:
  "fail_if True e = Inl e"
  "fail_if False e = Inr ()"
  by (simp_all add: fail_if_def)

text \<open>A loop whose body is fallible and returns nothing: it stops at the first error.\<close>

fun try_each :: "('a \<Rightarrow> 'e + unit) \<Rightarrow> 'a list \<Rightarrow> 'e + unit" where
  "try_each f [] = Inr ()"
| "try_each f (x # xs) = rbind (f x) (\<lambda>_. try_each f xs)"

lemma try_each_eq_Inr [result_simps]:
  "try_each f xs = Inr u \<longleftrightarrow> (\<forall>x \<in> set xs. f x = Inr ())"
  by (induction xs) (auto simp: result_simps)

section \<open>Saturating machine arithmetic\<close>

definition sat_add :: "'a::len word \<Rightarrow> 'a word \<Rightarrow> 'a word" where
  "sat_add a b = (if unat a + unat b < 2 ^ LENGTH('a) then a + b else - 1)"

definition sat_sub :: "'a::len word \<Rightarrow> 'a word \<Rightarrow> 'a word" where
  "sat_sub a b = (if a < b then 0 else a - b)"

text \<open>\<open>u32::try_from(n).unwrap_or(u32::MAX)\<close> and its \<open>u64\<close> twin.\<close>

definition sat_of_nat :: "nat \<Rightarrow> 'a::len word" where
  "sat_of_nat n = (if n < 2 ^ LENGTH('a) then of_nat n else - 1)"

lemma unat_max_word: "unat (- 1 :: 'a::len word) = 2 ^ LENGTH('a) - 1"
  by (simp add: unsigned_minus_1_eq_mask mask_eq_exp_minus_1)

lemma unat_lt: "unat a < 2 ^ LENGTH('a)" for a :: "'a::len word"
  by (rule unsigned_less)

lemma unat_le_max: "unat a \<le> 2 ^ LENGTH('a) - Suc 0" for a :: "'a::len word"
  using unat_lt [of a] by linarith

lemma unat_sat_add [sat_simps]:
  "unat (sat_add a b) = min (unat a + unat b) (2 ^ LENGTH('a) - 1)" for a b :: "'a::len word"
proof (cases "unat a + unat b < 2 ^ LENGTH('a)")
  case True
  then have "unat (a + b) = unat a + unat b" by (simp add: unat_word_ariths)
  with True show ?thesis by (auto simp: sat_add_def)
next
  case False
  then show ?thesis by (auto simp: sat_add_def unat_max_word)
qed

lemma unat_sat_sub [sat_simps]: "unat (sat_sub a b) = unat a - unat b"
proof (cases "a < b")
  case True
  then have "unat a < unat b" by (simp add: word_less_nat_alt)
  then show ?thesis using True by (simp add: sat_sub_def)
next
  case False
  then have "b \<le> a" by simp
  then show ?thesis using False by (simp add: sat_sub_def unat_sub)
qed

lemma unat_sat_of_nat [sat_simps]:
  "unat (sat_of_nat n :: 'a::len word) = min n (2 ^ LENGTH('a) - 1)"
proof (cases "n < 2 ^ LENGTH('a)")
  case True
  then show ?thesis by (auto simp: sat_of_nat_def unat_of_nat)
next
  case False
  then show ?thesis by (auto simp: sat_of_nat_def unat_max_word)
qed

lemma sat_add_ge: "a \<le> sat_add a b"
proof -
  have "unat a \<le> unat (sat_add a b)"
    using unat_le_max [of a] by (auto simp: sat_simps)
  then show ?thesis by (simp add: word_le_nat_alt)
qed

lemma sat_of_nat_ge: "(r \<le> sat_of_nat n) \<longleftrightarrow> unat r \<le> n" for r :: "'a::len word"
proof -
  have "unat r \<le> 2 ^ LENGTH('a) - 1" using unat_le_max [of r] by simp
  then show ?thesis by (auto simp: word_le_nat_alt sat_simps)
qed

lemma sat_add_less: "b \<noteq> 0 \<Longrightarrow> a \<noteq> - 1 \<Longrightarrow> a < sat_add a b"
proof -
  assume b: "b \<noteq> 0" and a: "a \<noteq> - 1"
  have "unat b > 0" using b by (simp add: unat_gt_0)
  moreover have "unat a < 2 ^ LENGTH('a) - 1"
  proof -
    have "unat a \<noteq> unat (- 1 :: 'a word)" using a by (metis word_unat_eq_iff)
    then show ?thesis using unat_le_max [of a] by (simp add: unat_max_word)
  qed
  ultimately show ?thesis by (simp add: word_less_nat_alt sat_simps)
qed

section \<open>Big-endian byte strings\<close>

text \<open>\<open>be_bytes n v\<close> is \<open>to_be_bytes\<close> of an \<open>n\<close>-byte unsigned integer of value \<open>v\<close>.\<close>

primrec be_bytes :: "nat \<Rightarrow> nat \<Rightarrow> bytes" where
  "be_bytes 0 v = []"
| "be_bytes (Suc n) v = be_bytes n (v div 256) @ [char_of (v mod 256)]"

definition be_nat :: "bytes \<Rightarrow> nat" where
  "be_nat bs = foldl (\<lambda>a c. a * 256 + of_char c) 0 bs"

lemma length_be_bytes [simp, byte_simps]: "length (be_bytes n v) = n"
  by (induction n arbitrary: v) simp_all

lemma be_nat_snoc: "be_nat (bs @ [c]) = be_nat bs * 256 + of_char c"
  by (simp add: be_nat_def)

lemma be_nat_be_bytes [byte_simps]: "be_nat (be_bytes n v) = v mod 256 ^ n"
proof (induction n arbitrary: v)
  case 0
  show ?case by (simp add: be_nat_def)
next
  case (Suc n)
  have "be_nat (be_bytes (Suc n) v) = (v div 256) mod 256 ^ n * 256 + v mod 256"
    by (simp add: be_nat_snoc Suc.IH of_char_of)
  also have "\<dots> = v mod (256 * 256 ^ n)"
    by (simp add: mod_mult2_eq)
  finally show ?case by simp
qed

lemma be_nat_bound [byte_simps]: "be_nat bs < 256 ^ length bs"
proof (induction bs rule: rev_induct)
  case Nil
  show ?case by (simp add: be_nat_def)
next
  case (snoc c bs)
  have "of_char c < (256 :: nat)" by simp
  with snoc have "be_nat bs * 256 + of_char c < Suc (be_nat bs) * 256" by simp
  also have "\<dots> \<le> 256 ^ length bs * 256" using snoc by (intro mult_le_mono) simp_all
  finally show ?case by (simp add: be_nat_snoc mult.commute)
qed

lemma be_bytes_be_nat [byte_simps]: "length bs = n \<Longrightarrow> be_bytes n (be_nat bs) = bs"
proof (induction bs arbitrary: n rule: rev_induct)
  case Nil
  then show ?case by simp
next
  case (snoc c bs)
  have c: "of_char c < (256 :: nat)" by simp
  from snoc show ?case using c by (auto simp: be_nat_snoc char_of_def [symmetric])
qed

lemma be_bytes_inject:
  assumes "be_bytes n v = be_bytes n w" and "v < 256 ^ n" and "w < 256 ^ n"
  shows "v = w"
proof -
  have "be_nat (be_bytes n v) = be_nat (be_bytes n w)" using assms(1) by simp
  then show ?thesis using assms(2,3) by (simp add: be_nat_be_bytes)
qed

definition u16_be :: "u16 \<Rightarrow> bytes" where "u16_be w = be_bytes 2 (unat w)"
definition u32_be :: "u32 \<Rightarrow> bytes" where "u32_be w = be_bytes 4 (unat w)"
definition u64_be :: "u64 \<Rightarrow> bytes" where "u64_be w = be_bytes 8 (unat w)"

lemma length_word_be [simp]:
  "length (u16_be a) = 2" "length (u32_be b) = 4" "length (u64_be c) = 8"
  by (simp_all add: u16_be_def u32_be_def u64_be_def)

lemma word_be_inject [simp]:
  "u16_be a = u16_be a' \<longleftrightarrow> a = a'"
  "u32_be b = u32_be b' \<longleftrightarrow> b = b'"
  "u64_be c = u64_be c' \<longleftrightarrow> c = c'"
proof -
  have 16: "unat x < 256 ^ 2" for x :: u16 using unat_lt [of x] by simp
  have 32: "unat x < 256 ^ 4" for x :: u32 using unat_lt [of x] by simp
  have 64: "unat x < 256 ^ 8" for x :: u64 using unat_lt [of x] by simp
  show "u16_be a = u16_be a' \<longleftrightarrow> a = a'"
    unfolding u16_be_def using be_bytes_inject [OF _ 16 16] by (auto simp: word_unat_eq_iff)
  show "u32_be b = u32_be b' \<longleftrightarrow> b = b'"
    unfolding u32_be_def using be_bytes_inject [OF _ 32 32] by (auto simp: word_unat_eq_iff)
  show "u64_be c = u64_be c' \<longleftrightarrow> c = c'"
    unfolding u64_be_def using be_bytes_inject [OF _ 64 64] by (auto simp: word_unat_eq_iff)
qed

section \<open>Binary search\<close>

text \<open>
  \<open>slice::binary_search(x).is_ok()\<close>: the search keeps a base index and the size of the range
  that may still hold the element, halves the size, and compares once more at the end.
\<close>

function bsearch_loop :: "'a::linorder list \<Rightarrow> 'a \<Rightarrow> nat \<Rightarrow> nat \<Rightarrow> nat" where
  "bsearch_loop xs x base sz =
     (if 1 < sz then
        let half = sz div 2; mid = base + half
        in bsearch_loop xs x (if x < xs ! mid then base else mid) (sz - half)
      else base)"
  by pat_completeness auto
termination by (relation "measure (\<lambda>(xs, x, base, sz). sz)") auto

declare bsearch_loop.simps [simp del]

definition binary_search_ok :: "'a::linorder list \<Rightarrow> 'a \<Rightarrow> bool" where
  "binary_search_ok xs x = (xs \<noteq> [] \<and> xs ! bsearch_loop xs x 0 (length xs) = x)"

lemma bsearch_loop_finds:
  assumes "sorted xs" and "base + sz \<le> length xs" and "0 < sz"
    and "\<exists>i. base \<le> i \<and> i < base + sz \<and> xs ! i = x"
  shows "xs ! bsearch_loop xs x base sz = x"
  using assms
proof (induction xs x base sz rule: bsearch_loop.induct)
  case (1 xs x base sz)
  show ?case
  proof (cases "1 < sz")
    case False
    then have "sz = 1" using "1.prems" by simp
    then show ?thesis using "1.prems"(4) by (auto simp: bsearch_loop.simps le_less_Suc_eq)
  next
    case True
    define half where "half = sz div 2"
    define mid where "mid = base + half"
    define base' where "base' = (if x < xs ! mid then base else mid)"
    obtain i where i: "base \<le> i" "i < base + sz" "xs ! i = x" using "1.prems"(4) by blast
    have half: "0 < half" "half < sz" using True by (auto simp: half_def)
    have ilen: "i < length xs" and mlen: "mid < length xs"
      using i half "1.prems"(2) by (auto simp: mid_def)
    have mono: "xs ! a \<le> xs ! b" if "a \<le> b" "b < length xs" for a b
      using "1.prems"(1) that by (simp add: sorted_nth_mono)
    have ex: "\<exists>j. base' \<le> j \<and> j < base' + (sz - half) \<and> xs ! j = x"
    proof (cases "x < xs ! mid")
      case less: True
      then have "i < mid" using mono [of mid i] ilen i(3) by (meson not_le)
      moreover have "half \<le> sz - half" by (simp add: half_def)
      ultimately show ?thesis using less i by (auto simp: base'_def mid_def intro!: exI [of _ i])
    next
      case ge: False
      show ?thesis
      proof (cases "mid \<le> i")
        case True
        then show ?thesis using ge i half by (auto simp: base'_def mid_def intro!: exI [of _ i])
      next
        case False
        then have "xs ! mid = x" using ge mono [of i mid] mlen i(3) by force
        then show ?thesis using ge half by (auto simp: base'_def intro!: exI [of _ mid])
      qed
    qed
    have "base' + (sz - half) \<le> length xs" and "0 < sz - half"
      using "1.prems"(2) half by (auto simp: base'_def mid_def)
    then have "xs ! bsearch_loop xs x base' (sz - half) = x"
      using "1.IH" [OF True half_def mid_def] "1.prems"(1) ex by (simp add: base'_def)
    moreover have "bsearch_loop xs x base sz = bsearch_loop xs x base' (sz - half)"
      using True by (subst bsearch_loop.simps) (simp add: Let_def half_def mid_def base'_def)
    ultimately show ?thesis by simp
  qed
qed

lemma bsearch_loop_range: "0 < sz \<Longrightarrow> bsearch_loop xs x base sz < base + sz"
proof (induction xs x base sz rule: bsearch_loop.induct)
  case (1 xs x base sz)
  show ?case
  proof (cases "1 < sz")
    case True
    define b where "b = (if x < xs ! (base + sz div 2) then base else base + sz div 2)"
    have "bsearch_loop xs x b (sz - sz div 2) < b + (sz - sz div 2)"
      using "1.IH" [OF True refl refl] True by (simp add: b_def)
    moreover have "b + (sz - sz div 2) \<le> base + sz" by (simp add: b_def)
    moreover have "bsearch_loop xs x base sz = bsearch_loop xs x b (sz - sz div 2)"
      using True by (subst bsearch_loop.simps) (simp add: Let_def b_def)
    ultimately show ?thesis by linarith
  next
    case False
    then show ?thesis using "1.prems" by (simp add: bsearch_loop.simps)
  qed
qed

lemma binary_search_ok_iff: "sorted xs \<Longrightarrow> binary_search_ok xs x \<longleftrightarrow> x \<in> set xs"
proof
  assume "sorted xs" and "x \<in> set xs"
  then show "binary_search_ok xs x"
    unfolding binary_search_ok_def
    using bsearch_loop_finds [of xs 0 "length xs" x] by (force simp: in_set_conv_nth)
next
  assume "binary_search_ok xs x"
  then show "x \<in> set xs"
    unfolding binary_search_ok_def
    using bsearch_loop_range [of "length xs" xs x 0] by (metis add_0 length_greater_0_conv nth_mem)
qed

section \<open>Ascending lists\<close>

text \<open>\<open>values.windows(2).any(|pair| pair[0] >= pair[1])\<close>.\<close>

fun windows_not_ascending :: "'a::linorder list \<Rightarrow> bool" where
  "windows_not_ascending (x # y # xs) = (y \<le> x \<or> windows_not_ascending (y # xs))"
| "windows_not_ascending _ = False"

lemma windows_not_ascending_iff: "windows_not_ascending xs \<longleftrightarrow> \<not> sorted_wrt (<) xs"
proof (induction xs rule: windows_not_ascending.induct)
  case (1 x y xs)
  then show ?case by (auto simp: sorted_wrt2 not_le simp del: sorted_wrt.simps)
qed simp_all

end
