(* ===== verification/Text.thy ===== *)
theory Text
  imports Prelude
begin

text \<open>
  What the sources use of Rust's string library: UTF-8 validity (the invariant of \<open>String\<close> and
  the check of \<open>core::str::from_utf8\<close>), \<open>char::is_control\<close> over the characters of a string,
  decimal and zero-padded hexadecimal formatting, prefix stripping and joining.
\<close>

section \<open>UTF-8\<close>

definition in_range :: "nat \<Rightarrow> nat \<Rightarrow> char \<Rightarrow> bool" where
  "in_range lo hi c = (lo \<le> of_char c \<and> of_char c \<le> hi)"

definition cont :: "char \<Rightarrow> bool" where
  "cont c = in_range 128 191 c"

text \<open>The table of well-formed UTF-8 byte sequences.\<close>

fun utf8_valid :: "bytes \<Rightarrow> bool" where
  "utf8_valid [] = True"
| "utf8_valid (a # bs) =
     (if in_range 0 127 a then utf8_valid bs
      else if in_range 194 223 a then
        (case bs of b # cs \<Rightarrow> cont b \<and> utf8_valid cs | [] \<Rightarrow> False)
      else if in_range 224 239 a then
        (case bs of b # c # ds \<Rightarrow>
           in_range (if of_char a = (224 :: nat) then 160 else 128)
             (if of_char a = (237 :: nat) then 159 else 191) b \<and> cont c \<and> utf8_valid ds
         | _ \<Rightarrow> False)
      else if in_range 240 244 a then
        (case bs of b # c # d # es \<Rightarrow>
           in_range (if of_char a = (240 :: nat) then 144 else 128)
             (if of_char a = (244 :: nat) then 143 else 191) b \<and> cont c \<and> cont d \<and> utf8_valid es
         | _ \<Rightarrow> False)
      else False)"

text \<open>
  \<open>value.chars().any(char::is_control)\<close>: the control characters are U+0000 to U+001F and U+007F
  to U+009F; the latter block from U+0080 on is encoded as the byte C2 followed by 80 to 9F.
\<close>

fun has_control :: "bytes \<Rightarrow> bool" where
  "has_control [] = False"
| "has_control (c # cs) =
     (in_range 0 31 c \<or> of_char c = (127 :: nat)
      \<or> (of_char c = (194 :: nat) \<and> (case cs of d # _ \<Rightarrow> in_range 128 159 d | [] \<Rightarrow> False))
      \<or> has_control cs)"

definition ascii_printable :: "bytes \<Rightarrow> bool" where
  "ascii_printable s = list_all (in_range 32 126) s"

lemma ascii_printable_no_control: "ascii_printable s \<Longrightarrow> \<not> has_control s"
  by (induction s) (auto simp: ascii_printable_def in_range_def)

lemma ascii_printable_utf8: "ascii_printable s \<Longrightarrow> utf8_valid s"
  by (induction s) (auto simp: ascii_printable_def in_range_def)

lemma has_control_low: "c \<in> set s \<Longrightarrow> of_char c < (32 :: nat) \<Longrightarrow> has_control s"
  by (induction s) (auto simp: in_range_def)

section \<open>Formatting\<close>

definition digit :: "nat \<Rightarrow> char" where
  "digit n = char_of (if n < 10 then 48 + n else 87 + n)"

fun dec :: "nat \<Rightarrow> string" where
  "dec n = (if n < 10 then [digit n] else dec (n div 10) @ [digit (n mod 10)])"

declare dec.simps [simp del]

text \<open>\<open>hex_pad w n\<close>: the \<open>w\<close> low hexadecimal digits; \<open>{:016x}\<close> of a \<open>u64\<close> has exactly 16.\<close>

primrec hex_pad :: "nat \<Rightarrow> nat \<Rightarrow> string" where
  "hex_pad 0 n = []"
| "hex_pad (Suc w) n = hex_pad w (n div 16) @ [digit (n mod 16)]"

definition hex16 :: "u64 \<Rightarrow> string" where
  "hex16 w = hex_pad 16 (unat w)"

lemma digit_inject: "a < 16 \<Longrightarrow> b < 16 \<Longrightarrow> digit a = digit b \<longleftrightarrow> a = b"
proof
  assume a: "a < 16" and b: "b < 16" and "digit a = digit b"
  then have "(of_char (digit a) :: nat) = of_char (digit b)" by simp
  then show "a = b" using a b by (auto simp: digit_def split: if_splits)
qed simp

lemma length_hex_pad [simp]: "length (hex_pad w n) = w"
  by (induction w arbitrary: n) simp_all

lemma hex_pad_inject:
  "hex_pad w a = hex_pad w b \<Longrightarrow> a < 16 ^ w \<Longrightarrow> b < 16 ^ w \<Longrightarrow> a = b"
proof (induction w arbitrary: a b)
  case 0
  then show ?case by simp
next
  case (Suc w)
  have d: "x < 16 ^ Suc w \<Longrightarrow> x div 16 < 16 ^ w" for x :: nat
    by (simp add: div_less_iff_less_mult mult.commute)
  from Suc.prems have "hex_pad w (a div 16) = hex_pad w (b div 16)"
    and "digit (a mod 16) = digit (b mod 16)" by simp_all
  then have "a div 16 = b div 16" and "a mod 16 = b mod 16"
    using Suc.IH Suc.prems(2,3) d by (simp_all add: digit_inject)
  then show ?case by (metis div_mult_mod_eq)
qed

lemma hex16_inject [simp]: "hex16 a = hex16 b \<longleftrightarrow> a = b"
proof
  assume "hex16 a = hex16 b"
  moreover have "unat x < 16 ^ 16" for x :: u64 using unat_lt [of x] by simp
  ultimately have "unat a = unat b" unfolding hex16_def by (blast intro: hex_pad_inject)
  then show "a = b" by (simp add: word_unat_eq_iff)
qed simp

lemma ascii_printable_digit: "n < 16 \<Longrightarrow> in_range 32 126 (digit n)"
  by (auto simp: digit_def in_range_def)

lemma ascii_printable_hex_pad: "ascii_printable (hex_pad w n)"
  by (induction w arbitrary: n) (auto simp: ascii_printable_def ascii_printable_digit)

section \<open>Prefixes and joining\<close>

definition strip_prefix :: "string \<Rightarrow> string \<Rightarrow> string option" where
  "strip_prefix p s = (if take (length p) s = p then Some (drop (length p) s) else None)"

lemma strip_prefix_append [simp]: "strip_prefix p (p @ s) = Some s"
  by (simp add: strip_prefix_def)

text \<open>\<open>trim_start_matches(p)\<close> for a non-empty pattern: strip the prefix as often as it occurs.\<close>

function trim_start_matches :: "string \<Rightarrow> string \<Rightarrow> string" where
  "trim_start_matches p s =
     (if p = [] then s
      else (case strip_prefix p s of None \<Rightarrow> s | Some r \<Rightarrow> trim_start_matches p r))"
  by pat_completeness auto
termination
proof (relation "measure (\<lambda>(p, s). length s)")
  fix p s r :: string
  assume "p \<noteq> []" and "strip_prefix p s = Some r"
  then have "r = drop (length p) s" and "take (length p) s = p" and "0 < length p"
    by (auto simp: strip_prefix_def split: if_splits)
  moreover from this have "s \<noteq> []" by auto
  ultimately show "((p, r), p, s) \<in> measure (\<lambda>(p, s). length s)" by simp
qed simp

declare trim_start_matches.simps [simp del]

fun str_join :: "string \<Rightarrow> string list \<Rightarrow> string" where
  "str_join sep [] = []"
| "str_join sep [x] = x"
| "str_join sep (x # y # xs) = x @ sep @ str_join sep (y # xs)"

end
