(* ===== verification/Identity.thy ===== *)
theory Identity
  imports Text
begin

text \<open>
  Identities and digests: \<open>crates/pulse-types/src/ids.rs\<close> and \<open>crates/pulse-types/src/digest.rs\<close>.
  Every identity newtype wraps a \<open>String\<close> and is a \<^typ>\<open>string\<close> here; its \<open>validate\<close> is
  \<open>validate_identity\<close> at the name of the type. A digest is the text \<open>sha256:\<close> followed by 64
  hexadecimal digits. SHA-256 itself is the third-party crate \<open>sha2\<close>: it is the parameter
  \<open>sha\<close> of every definition that hashes.
\<close>

type_synonym subject_id = string
type_synonym observer_id = string
type_synonym receiver_id = string
type_synonym incarnation_id = string
type_synonym clock_id = string
type_synonym policy_generation_id = string
type_synonym observation_policy_generation_id = string
type_synonym evidence_window_id = string
type_synonym transition_id = string
type_synonym contradiction_id = string
type_synonym escalation_request_id = string
type_synonym diagnostic_run_id = string
type_synonym diagnostic_receipt_id = string
type_synonym bridge_id = string
type_synonym consumer_id = string
type_synonym sparse_event_id = string

type_synonym digest = string
type_synonym hasher = "bytes \<Rightarrow> bytes"

definition SCHEMA_VERSION_V1 :: u16 where
  "SCHEMA_VERSION_V1 = 1"

definition MAX_IDENTITY_BYTES :: nat where
  "MAX_IDENTITY_BYTES = 160"

record identity_error =
  ie_field :: string
  ie_reason :: string

definition validate_identity :: "string \<Rightarrow> string \<Rightarrow> identity_error + unit" where
  "validate_identity field value =
     (if value = [] then
        Inl \<lparr>ie_field = field, ie_reason = ''identity is empty''\<rparr>
      else if MAX_IDENTITY_BYTES < length value then
        Inl \<lparr>ie_field = field, ie_reason = ''identity exceeds the byte bound''\<rparr>
      else if has_control value then
        Inl \<lparr>ie_field = field, ie_reason = ''identity contains a control character''\<rparr>
      else Inr ())"

record subject_scope =
  ss_subject :: subject_id
  ss_subject_incarnation :: incarnation_id
  ss_scope :: string

definition subject_scope_validate :: "subject_scope \<Rightarrow> identity_error + unit" where
  "subject_scope_validate s =
     rbind (validate_identity ''SubjectId'' (ss_subject s)) (\<lambda>_.
     rbind (validate_identity ''IncarnationId'' (ss_subject_incarnation s)) (\<lambda>_.
     validate_identity ''subject scope'' (ss_scope s)))"

definition good_identity :: "string \<Rightarrow> bool" where
  "good_identity v = (v \<noteq> [] \<and> length v \<le> MAX_IDENTITY_BYTES \<and> \<not> has_control v)"

lemma validate_identity_ok [result_simps]:
  "validate_identity field v = Inr u \<longleftrightarrow> good_identity v"
  by (auto simp: validate_identity_def good_identity_def)

lemma subject_scope_validate_ok [result_simps]:
  "subject_scope_validate s = Inr u \<longleftrightarrow>
     good_identity (ss_subject s) \<and> good_identity (ss_subject_incarnation s) \<and> good_identity (ss_scope s)"
  by (simp add: subject_scope_validate_def result_simps)

section \<open>Digests\<close>

definition hex_lower :: "char \<Rightarrow> bool" where
  "hex_lower c = (in_range 48 57 c \<or> in_range 97 102 c)"

definition digest_validate :: "digest \<Rightarrow> string + unit" where
  "digest_validate d =
     (case strip_prefix ''sha256:'' d of
        None \<Rightarrow> Inl ''digest has no sha256 prefix''
      | Some hex \<Rightarrow>
          if length hex \<noteq> 64 then Inl ''digest has the wrong length''
          else if \<not> list_all hex_lower hex then
            Inl ''digest contains non-canonical hexadecimal bytes''
          else if list_all (\<lambda>c. c = CHR ''0'') hex then
            Inl ''all-zero digest is not a content identity''
          else Inr ())"

definition length_delimited :: "bytes \<Rightarrow> bytes" where
  "length_delimited p = be_bytes 8 (length p) @ p"

text \<open>The bytes \<open>digest_parts\<close> feeds to the hasher.\<close>

definition transcript :: "string \<Rightarrow> bytes list \<Rightarrow> bytes" where
  "transcript domain parts =
     ''monitor-skunkworks.digest.v1'' @ [CHR 0x00] @ length_delimited domain
     @ concat (map length_delimited parts)"

definition hex_byte :: "char \<Rightarrow> string" where
  "hex_byte c = [digit (of_char c div 16), digit (of_char c mod 16)]"

definition digest_parts :: "hasher \<Rightarrow> string \<Rightarrow> bytes list \<Rightarrow> digest" where
  "digest_parts sha domain parts = ''sha256:'' @ concat (map hex_byte (sha (transcript domain parts)))"

text \<open>\<open>format!("{kind}:{}", digest.as_str().trim_start_matches("sha256:"))\<close>.\<close>

definition digest_id :: "string \<Rightarrow> digest \<Rightarrow> string" where
  "digest_id kind d = kind @ '':'' @ trim_start_matches ''sha256:'' d"

section \<open>Transcripts separate domains and part boundaries\<close>

definition fits_u64 :: "bytes \<Rightarrow> bool" where
  "fits_u64 p = (length p < 2 ^ 64)"

lemma length_delimited_inject:
  assumes "length_delimited p @ r = length_delimited q @ s" and "fits_u64 p" and "fits_u64 q"
  shows "p = q \<and> r = s"
proof -
  have "take 8 (length_delimited p @ r) = take 8 (length_delimited q @ s)" using assms(1) by simp
  then have "be_bytes 8 (length p) = be_bytes 8 (length q)"
    by (simp add: length_delimited_def)
  then have "length p = length q"
    by (rule be_bytes_inject) (use assms(2,3) in \<open>simp_all add: fits_u64_def\<close>)
  with assms(1) show ?thesis by (simp add: length_delimited_def)
qed

lemma concat_length_delimited_inject:
  assumes "concat (map length_delimited ps) = concat (map length_delimited qs)"
    and "\<forall>p \<in> set ps. fits_u64 p" and "\<forall>q \<in> set qs. fits_u64 q"
  shows "ps = qs"
  using assms
proof (induction ps arbitrary: qs)
  case Nil
  then show ?case by (cases qs) (auto simp: length_delimited_def dest: arg_cong [where f = length])
next
  case (Cons p ps)
  then obtain q qs' where qs: "qs = q # qs'"
    by (cases qs) (auto simp: length_delimited_def dest: arg_cong [where f = length])
  with Cons.prems have "length_delimited p @ concat (map length_delimited ps)
      = length_delimited q @ concat (map length_delimited qs')" by simp
  moreover have "fits_u64 p" and "fits_u64 q" using Cons.prems qs by simp_all
  ultimately have "p = q \<and> concat (map length_delimited ps) = concat (map length_delimited qs')"
    by (rule length_delimited_inject)
  with Cons.IH [of qs'] Cons.prems qs show ?case by simp
qed

lemma transcript_inject_iff:
  assumes "fits_u64 d" and "fits_u64 d'"
    and "\<forall>p \<in> set ps. fits_u64 p" and "\<forall>p \<in> set ps'. fits_u64 p"
  shows "transcript d ps = transcript d' ps' \<longleftrightarrow> d = d' \<and> ps = ps'"
proof
  assume "transcript d ps = transcript d' ps'"
  then have "length_delimited d @ concat (map length_delimited ps)
      = length_delimited d' @ concat (map length_delimited ps')"
    by (simp add: transcript_def)
  then have "d = d' \<and> concat (map length_delimited ps) = concat (map length_delimited ps')"
    using assms(1,2) by (rule length_delimited_inject)
  then show "d = d' \<and> ps = ps'"
    using concat_length_delimited_inject [OF _ assms(3,4)] by blast
qed simp

section \<open>Rendered digests\<close>

lemma div_mod_16_eq: "x div 16 = y div 16 \<Longrightarrow> x mod 16 = y mod 16 \<Longrightarrow> x = y" for x y :: nat
  by (metis div_mult_mod_eq)

lemma nibble_less: "of_char c div 16 < (16 :: nat)"
proof -
  have "of_char c < (256 :: nat)" by simp
  then show ?thesis by linarith
qed

lemma hex_byte_inject: "hex_byte a = hex_byte b \<longleftrightarrow> a = b"
proof
  assume eq: "hex_byte a = hex_byte b"
  have lt: "of_char x div 16 < (16 :: nat)" for x :: char
    by (rule nibble_less)
  from eq have "digit (of_char a div 16) = digit (of_char b div 16)"
    and "digit (of_char a mod 16) = digit (of_char b mod 16)"
    by (simp_all only: hex_byte_def list.inject)
  then have "(of_char a :: nat) div 16 = of_char b div 16"
    and "(of_char a :: nat) mod 16 = of_char b mod 16"
    by (simp_all only: digit_inject lt mod_less_divisor zero_less_numeral)
  then have "(of_char a :: nat) = of_char b" by (rule div_mod_16_eq)
  then show "a = b" by (simp only: of_char_eq_iff)
qed simp

lemma concat_hex_inject: "concat (map hex_byte xs) = concat (map hex_byte ys) \<longleftrightarrow> xs = ys"
proof (induction xs arbitrary: ys)
  case Nil
  then show ?case by (cases ys) (auto simp: hex_byte_def)
next
  case (Cons x xs)
  show ?case
  proof (cases ys)
    case Nil
    then show ?thesis by (simp add: hex_byte_def)
  next
    case (Cons y ys')
    have "hex_byte x @ concat (map hex_byte xs) = hex_byte y @ concat (map hex_byte ys') \<longleftrightarrow>
        hex_byte x = hex_byte y \<and> concat (map hex_byte xs) = concat (map hex_byte ys')"
      by (simp add: hex_byte_def)
    then show ?thesis using Cons Cons.IH by (simp add: hex_byte_inject)
  qed
qed

lemma digest_parts_eq_iff:
  "digest_parts sha d ps = digest_parts sha d' ps' \<longleftrightarrow> sha (transcript d ps) = sha (transcript d' ps')"
  by (simp add: digest_parts_def concat_hex_inject)

lemma hex_lower_digit: "n < 16 \<Longrightarrow> hex_lower (digit n)"
  by (auto simp: hex_lower_def digit_def in_range_def)

lemma hex_lower_hex_byte: "list_all hex_lower (hex_byte c)"
proof -
  have "of_char c div 16 < (16 :: nat)"
    by (rule nibble_less)
  then show ?thesis by (simp add: hex_byte_def hex_lower_digit)
qed

lemma hex_lower_concat: "list_all hex_lower (concat (map hex_byte xs))"
  using hex_lower_hex_byte by (induction xs) auto

lemma hex_zero_byte: "list_all (\<lambda>x. x = CHR ''0'') (hex_byte c) \<longleftrightarrow> c = CHR 0x00"
proof -
  have z: "CHR ''0'' = digit 0" by code_simp
  have "of_char c div 16 < (16 :: nat)"
    by (rule nibble_less)
  then have "list_all (\<lambda>x. x = CHR ''0'') (hex_byte c) \<longleftrightarrow>
      of_char c div 16 = (0 :: nat) \<and> of_char c mod 16 = (0 :: nat)"
    unfolding z hex_byte_def by (simp add: digit_inject)
  also have "\<dots> \<longleftrightarrow> (of_char c :: nat) = of_char (CHR 0x00)"
    using div_mult_mod_eq [of "of_char c :: nat" 16] by auto
  also have "\<dots> \<longleftrightarrow> c = CHR 0x00" by (simp only: of_char_eq_iff)
  finally show ?thesis .
qed

lemma hex_zero_concat:
  "list_all (\<lambda>x. x = CHR ''0'') (concat (map hex_byte xs)) \<longleftrightarrow> list_all (\<lambda>c. c = CHR 0x00) xs"
  using hex_zero_byte by (induction xs) auto

lemma length_concat_hex [simp]: "length (concat (map hex_byte xs)) = 2 * length xs"
  by (induction xs) (auto simp: hex_byte_def)

text \<open>
  A digest computed by \<open>digest_parts\<close> passes \<open>validate\<close> exactly when the hash has the 32 bytes
  SHA-256 produces and is not the all-zero hash, which \<open>validate\<close> reserves.
\<close>

lemma digest_parts_valid:
  "digest_validate (digest_parts sha d ps) = Inr () \<longleftrightarrow>
     length (sha (transcript d ps)) = 32 \<and> sha (transcript d ps) \<noteq> replicate 32 (CHR 0x00)"
proof -
  let ?h = "sha (transcript d ps)"
  have zero: "list_all (\<lambda>c. c = CHR 0x00) xs \<longleftrightarrow> xs = replicate (length xs) (CHR 0x00)" for xs
    by (induction xs) auto
  have "digest_validate (digest_parts sha d ps) = Inr () \<longleftrightarrow>
      length ?h = 32 \<and> \<not> list_all (\<lambda>c. c = CHR 0x00) ?h"
    unfolding digest_validate_def digest_parts_def strip_prefix_append
    by (simp add: hex_lower_concat hex_zero_concat)
  then show ?thesis using zero [of ?h] by auto
qed

lemma digest_parts_ascii: "ascii_printable (digest_parts sha d ps)"
proof -
  have "hex_lower c \<Longrightarrow> in_range 32 126 c" for c
    by (auto simp: hex_lower_def in_range_def)
  then have "list_all (in_range 32 126) (concat (map hex_byte bs))" for bs
    using hex_lower_concat [of bs] by (simp add: list_all_iff)
  moreover have "list_all (in_range 32 126) ''sha256:''" by (simp add: in_range_def)
  ultimately show ?thesis by (simp add: digest_parts_def ascii_printable_def)
qed

lemma digest_parts_utf8: "utf8_valid (digest_parts sha d ps)"
  by (rule ascii_printable_utf8) (rule digest_parts_ascii)

lemma digest_validate_length: "digest_validate d = Inr () \<Longrightarrow> length d = 71"
proof -
  assume ok: "digest_validate d = Inr ()"
  then obtain h where h: "strip_prefix ''sha256:'' d = Some h" "length h = 64"
    by (auto simp: digest_validate_def split: option.splits if_splits)
  then have "d = ''sha256:'' @ h" by (metis append_take_drop_id option.distinct(1) option.inject strip_prefix_def)
  then show ?thesis using h(2) by simp
qed

section \<open>Identities made from digests\<close>

text \<open>What the code relies on of SHA-256: a digest has 32 bytes.\<close>

definition hash_32 :: "hasher \<Rightarrow> bool" where
  "hash_32 sha \<longleftrightarrow> (\<forall>m. length (sha m) = 32)"

lemma digest_id_parts:
  "digest_id kind (digest_parts sha d ps) = kind @ '':'' @ concat (map hex_byte (sha (transcript d ps)))"
proof -
  let ?h = "concat (map hex_byte (sha (transcript d ps)))"
  have "strip_prefix ''sha256:'' h = None" if "list_all hex_lower h" for h
  proof (cases h)
    case (Cons c cs)
    then have "hex_lower c" using that by simp
    then have "c \<noteq> CHR ''s''" by (auto simp: hex_lower_def in_range_def)
    then show ?thesis by (simp add: Cons strip_prefix_def)
  qed (simp add: strip_prefix_def)
  from this [OF hex_lower_concat] have "strip_prefix ''sha256:'' ?h = None" .
  then have "trim_start_matches ''sha256:'' ?h = ?h" by (simp add: trim_start_matches.simps)
  then have "trim_start_matches ''sha256:'' (''sha256:'' @ ?h) = ?h"
    by (subst trim_start_matches.simps, subst strip_prefix_append) simp
  then show ?thesis by (simp only: digest_id_def digest_parts_def)
qed

lemma digest_id_good:
  assumes "hash_32 sha" and "ascii_printable kind" and "length kind \<le> 90"
  shows "good_identity (digest_id kind (digest_parts sha d ps))"
proof -
  have "ascii_printable (concat (map hex_byte (sha (transcript d ps))))"
    using digest_parts_ascii [of sha d ps] by (simp add: digest_parts_def ascii_printable_def)
  then have "ascii_printable (digest_id kind (digest_parts sha d ps))"
    using assms(2) by (simp add: digest_id_parts ascii_printable_def in_range_def)
  then show ?thesis
    using assms by (simp add: good_identity_def digest_id_parts ascii_printable_no_control
        MAX_IDENTITY_BYTES_def hash_32_def)
qed

end
