(* ===== verification/F64.thy ===== *)
theory F64
  imports Text
begin

text \<open>
  IEEE 754 binary64 as the sources use it: a value is its bit pattern (\<open>to_bits\<close> and
  \<open>from_bits\<close> are the identity), with \<open>is_finite\<close>, the test \<open>value < 0.0\<close>, the test
  \<open>(a - b).abs() > m\<close> with the subtraction rounded to nearest, ties to even, and the shortest
  decimal text of \<open>format!("{}")\<close>. Finite magnitudes are natural multiples of 2^-1074, so all
  the arithmetic is exact integer arithmetic.
\<close>

type_synonym f64 = u64

definition f64_neg :: "f64 \<Rightarrow> bool" where
  "f64_neg x = (2 ^ 63 \<le> unat x)"

definition f64_exp :: "f64 \<Rightarrow> nat" where
  "f64_exp x = (unat x div 2 ^ 52) mod 2 ^ 11"

definition f64_frac :: "f64 \<Rightarrow> nat" where
  "f64_frac x = unat x mod 2 ^ 52"

definition is_finite :: "f64 \<Rightarrow> bool" where
  "is_finite x = (f64_exp x \<noteq> 2047)"

definition is_nan :: "f64 \<Rightarrow> bool" where
  "is_nan x = (f64_exp x = 2047 \<and> f64_frac x \<noteq> 0)"

text \<open>The magnitude of a finite value, in units of 2^-1074, and its signed version.\<close>

definition f64_mag :: "f64 \<Rightarrow> nat" where
  "f64_mag x = (if f64_exp x = 0 then f64_frac x
                else (2 ^ 52 + f64_frac x) * 2 ^ (f64_exp x - 1))"

definition f64_units :: "f64 \<Rightarrow> int" where
  "f64_units x = (if f64_neg x then - int (f64_mag x) else int (f64_mag x))"

definition f64_lt_zero :: "f64 \<Rightarrow> bool" where
  "f64_lt_zero x = (\<not> is_nan x \<and> f64_neg x \<and> (is_finite x \<longrightarrow> f64_mag x \<noteq> 0))"

fun bit_length :: "nat \<Rightarrow> nat" where
  "bit_length n = (if n = 0 then 0 else Suc (bit_length (n div 2)))"

declare bit_length.simps [simp del]

text \<open>Round a magnitude to 53 significant bits, to nearest, ties to even.\<close>

definition round53 :: "nat \<Rightarrow> nat" where
  "round53 n =
     (if n < 2 ^ 53 then n
      else let s = 2 ^ (bit_length n - 53); q = n div s; r = n mod s
        in (if s < 2 * r \<or> (2 * r = s \<and> odd q) then q + 1 else q) * s)"

text \<open>The first magnitude that is no longer finite.\<close>

definition f64_overflow :: nat where
  "f64_overflow = 2 ^ 2098"

definition f64_gt :: "nat option \<Rightarrow> f64 \<Rightarrow> bool" where
  "f64_gt d m =
     (if is_nan m then False
      else if \<not> is_finite m then f64_neg m
      else case d of None \<Rightarrow> True | Some n \<Rightarrow> f64_units m < int n)"

text \<open>\<open>(a - b).abs() > m\<close>; the difference is \<open>None\<close> when it is infinite.\<close>

definition abs_diff_gt :: "f64 \<Rightarrow> f64 \<Rightarrow> f64 \<Rightarrow> bool" where
  "abs_diff_gt a b m =
     (if is_nan a \<or> is_nan b then False
      else if \<not> is_finite a \<and> \<not> is_finite b then
        (if f64_neg a = f64_neg b then False else f64_gt None m)
      else if \<not> is_finite a \<or> \<not> is_finite b then f64_gt None m
      else let d = round53 (nat \<bar>f64_units a - f64_units b\<bar>)
        in f64_gt (if f64_overflow \<le> d then None else Some d) m)"

section \<open>Shortest decimal text\<close>

definition pow10_le :: "int \<Rightarrow> nat \<Rightarrow> nat \<Rightarrow> bool" where
  "pow10_le e num den = (if 0 \<le> e then 10 ^ nat e * den \<le> num else den \<le> num * 10 ^ nat (- e))"

fun strip_zeros :: "nat \<Rightarrow> int \<Rightarrow> nat \<times> int" where
  "strip_zeros d p = (if d \<noteq> 0 \<and> d mod 10 = 0 then strip_zeros (d div 10) (p + 1) else (d, p))"

declare strip_zeros.simps [simp del]

definition dec_layout :: "nat \<times> int \<Rightarrow> string" where
  "dec_layout dp =
     (let (d, p) = strip_zeros (fst dp) (snd dp); ds = dec d; e = int (length ds) + p
      in if e \<le> 0 then ''0.'' @ replicate (nat (- e)) (CHR ''0'') @ ds
         else if e < int (length ds) then take (nat e) ds @ ''.'' @ drop (nat e) ds
         else ds @ replicate (nat p) (CHR ''0''))"

text \<open>
  The decimal with \<open>n\<close> significant digits inside the rounding interval, if there is one: the
  value is \<open>num / den\<close>, the interval reaches \<open>down\<close> below and \<open>up\<close> above the numerator.
\<close>

definition digits_in :: "nat \<Rightarrow> nat \<Rightarrow> nat \<Rightarrow> nat \<Rightarrow> bool \<Rightarrow> int \<Rightarrow> nat \<Rightarrow> (nat \<times> int) option" where
  "digits_in num den down up incl e10 n =
     (let p = e10 - int (n - 1);
          a = (if 0 \<le> p then 1 else 10 ^ nat (- p));
          b = den * (if 0 \<le> p then 10 ^ nat p else 1);
          d = num * a div b; r = num * a mod b;
          down_ok = (if incl then r \<le> down * a else r < down * a);
          up_ok = (if incl then b \<le> r + up * a else b < r + up * a)
      in if down_ok \<and> up_ok then Some (if b \<le> 2 * r then d + 1 else d, p)
         else if up_ok then Some (d + 1, p)
         else if down_ok then Some (d, p)
         else None)"

definition f64_shortest :: "f64 \<Rightarrow> string" where
  "f64_shortest x =
     (let num = 4 * f64_mag x; den = 2 ^ 1076; ulp = 2 ^ (f64_exp x - 1);
          down = (if f64_exp x \<noteq> 0 \<and> f64_frac x = 0 then ulp else 2 * ulp);
          incl = (f64_exp x = 0 \<or> even (f64_frac x))
      in case find (\<lambda>e. pow10_le e num den) (rev [-324..308]) of
           None \<Rightarrow> ''0''
         | Some e10 \<Rightarrow>
             (case List.map_filter (digits_in num den down (2 * ulp) incl e10) [1..<18] of
                [] \<Rightarrow> ''0''
              | dp # _ \<Rightarrow> dec_layout dp))"

definition f64_display :: "f64 \<Rightarrow> string" where
  "f64_display x =
     (if is_nan x then ''NaN''
      else (if f64_neg x then ''-'' else '''') @
        (if \<not> is_finite x then ''inf'' else if f64_mag x = 0 then ''0'' else f64_shortest x))"

section \<open>Facts the evaluator relies on\<close>

lemma bit_length_0 [simp]: "bit_length 0 = 0"
  by (simp add: bit_length.simps)

lemma bit_length_pos: "n \<noteq> 0 \<Longrightarrow> bit_length n = Suc (bit_length (n div 2))"
  by (subst bit_length.simps) simp

lemma bit_length_bounds: "n < 2 ^ bit_length n \<and> (n \<noteq> 0 \<longrightarrow> 2 ^ (bit_length n - 1) \<le> n)"
proof (induction n rule: bit_length.induct)
  case (1 n)
  show ?case
  proof (cases "n = 0")
    case True
    then show ?thesis by simp
  next
    case False
    with "1.IH" have IH: "n div 2 < 2 ^ bit_length (n div 2)"
      "n div 2 \<noteq> 0 \<longrightarrow> 2 ^ (bit_length (n div 2) - 1) \<le> n div 2" by auto
    have "n < 2 * 2 ^ bit_length (n div 2)" using IH(1) by simp
    moreover have "2 ^ bit_length (n div 2) \<le> n"
    proof (cases "n div 2 = 0")
      case True
      then show ?thesis using False by simp
    next
      case nz: False
      then have "2 ^ bit_length (n div 2) = (2::nat) * 2 ^ (bit_length (n div 2) - 1)"
        by (simp add: bit_length_pos)
      then show ?thesis using IH(2) nz by simp
    qed
    ultimately show ?thesis using False by (simp add: bit_length_pos)
  qed
qed

text \<open>The comparison is symmetric in its operands.\<close>

lemma abs_diff_gt_commute: "abs_diff_gt a b m = abs_diff_gt b a m"
  by (auto simp: abs_diff_gt_def abs_minus_commute)

text \<open>A value does not differ from itself by more than a non-negative tolerance.\<close>

lemma abs_diff_gt_refl:
  assumes "\<not> f64_lt_zero m" and "is_finite m"
  shows "\<not> abs_diff_gt a a m"
proof -
  have "0 \<le> f64_units m"
    using assms by (auto simp: f64_lt_zero_def f64_units_def is_nan_def is_finite_def)
  then show ?thesis
    using assms(2) by (auto simp: abs_diff_gt_def round53_def f64_gt_def f64_overflow_def Let_def)
qed

end
