(* ===== verification/BTree.thy ===== *)
theory BTree
  imports Prelude
begin

text \<open>
  The ordered containers of the Rust standard library, as far as the sources use them:
  \<open>BTreeMap\<close> is an association list with strictly ascending keys, \<open>BTreeSet\<close> a strictly
  ascending list. Iteration (\<open>values\<close>, \<open>iter\<close>) follows the key order, which matters wherever
  the sources hash or list the content of a map. The locale states the contract the components
  rely on; the association list discharges it.
\<close>

type_synonym ('k, 'v) btmap = "('k \<times> 'v) list"
type_synonym 'a btset = "'a list"

named_theorems btree_simps \<open>lookups in ordered maps and sets after an update\<close>

definition bt_ok :: "('k::linorder, 'v) btmap \<Rightarrow> bool" where
  "bt_ok m = sorted_wrt (<) (map fst m)"

definition bt_get :: "('k, 'v) btmap \<Rightarrow> 'k \<Rightarrow> 'v option" where
  "bt_get m k = map_of m k"

definition bt_contains :: "('k, 'v) btmap \<Rightarrow> 'k \<Rightarrow> bool" where
  "bt_contains m k = (bt_get m k \<noteq> None)"

fun bt_insert :: "'k::linorder \<Rightarrow> 'v \<Rightarrow> ('k, 'v) btmap \<Rightarrow> ('k, 'v) btmap" where
  "bt_insert k v [] = [(k, v)]"
| "bt_insert k v (e # m) =
     (if k < fst e then (k, v) # e # m
      else if k = fst e then (k, v) # m
      else e # bt_insert k v m)"

definition bt_remove :: "'k \<Rightarrow> ('k, 'v) btmap \<Rightarrow> ('k, 'v) btmap" where
  "bt_remove k m = filter (\<lambda>e. fst e \<noteq> k) m"

definition bt_retain :: "('k \<Rightarrow> 'v \<Rightarrow> bool) \<Rightarrow> ('k, 'v) btmap \<Rightarrow> ('k, 'v) btmap" where
  "bt_retain P m = filter (\<lambda>e. P (fst e) (snd e)) m"

definition bt_values :: "('k, 'v) btmap \<Rightarrow> 'v list" where
  "bt_values m = map snd m"

text \<open>\<open>values_mut\<close> with a body that rewrites each value.\<close>

definition bt_map_values :: "('v \<Rightarrow> 'v) \<Rightarrow> ('k, 'v) btmap \<Rightarrow> ('k, 'v) btmap" where
  "bt_map_values f m = map (\<lambda>e. (fst e, f (snd e))) m"

definition bs_ok :: "'a::linorder btset \<Rightarrow> bool" where
  "bs_ok s = sorted_wrt (<) s"

definition bs_contains :: "'a btset \<Rightarrow> 'a \<Rightarrow> bool" where
  "bs_contains s x = (x \<in> set s)"

fun bs_insert :: "'a::linorder \<Rightarrow> 'a btset \<Rightarrow> 'a btset" where
  "bs_insert x [] = [x]"
| "bs_insert x (y # s) =
     (if x < y then x # y # s else if x = y then y # s else y # bs_insert x s)"

text \<open>\<open>collect::<BTreeSet<_>>()\<close>.\<close>

definition bs_collect :: "'a::linorder list \<Rightarrow> 'a btset" where
  "bs_collect xs = fold bs_insert xs []"

section \<open>The contract of an ordered map\<close>

locale ordered_map =
  fixes look :: "'m \<Rightarrow> 'k::linorder \<Rightarrow> 'v option"
    and ins :: "'k \<Rightarrow> 'v \<Rightarrow> 'm \<Rightarrow> 'm"
    and entries :: "'m \<Rightarrow> ('k \<times> 'v) list"
    and ok :: "'m \<Rightarrow> bool"
  assumes look_ins: "look (ins k v m) = (look m)(k \<mapsto> v)"
    and ok_ins: "ok m \<Longrightarrow> ok (ins k v m)"
    and entries_ascending: "ok m \<Longrightarrow> sorted_wrt (<) (map fst (entries m))"
    and entries_look: "ok m \<Longrightarrow> (k, v) \<in> set (entries m) \<longleftrightarrow> look m k = Some v"
begin

lemma values_look: "ok m \<Longrightarrow> v \<in> snd ` set (entries m) \<longleftrightarrow> (\<exists>k. look m k = Some v)"
  by (force simp: entries_look [symmetric])

lemma entries_ins:
  "ok m \<Longrightarrow> set (entries (ins k v m)) = insert (k, v) {e \<in> set (entries m). fst e \<noteq> k}"
  by (auto simp: entries_look ok_ins look_ins split: if_splits)

lemma values_ins:
  assumes "ok m"
  shows "snd ` set (entries (ins k v m)) = insert v (snd ` {e \<in> set (entries m). fst e \<noteq> k})"
  by (simp add: entries_ins [OF assms])

text \<open>The iteration order is a function of the content.\<close>

lemma entries_determined:
  assumes "ok m" and "ok m'" and "look m = look m'"
  shows "entries m = entries m'"
proof -
  have set_eq: "set (entries m) = set (entries m')"
    using assms by (auto simp: entries_look)
  have dist: "distinct (map fst (entries x))" if "ok x" for x
    using entries_ascending [OF that] by (simp add: strict_sorted_iff)
  have inj: "inj_on fst (set (entries m))"
    using dist [OF assms(1)] by (simp add: distinct_map)
  have srt: "sorted (map fst (entries x))" if "ok x" for x
    using entries_ascending [OF that] by (simp add: strict_sorted_iff)
  have "map fst (entries m) = map fst (entries m')"
    using srt dist assms(1,2) set_eq
    by (metis list.set_map sorted_distinct_set_unique)
  then show ?thesis
    using inj set_eq by (metis map_inj_on sup.idem)
qed

end

section \<open>The association list meets the contract\<close>

lemma bt_get_insert [btree_simps]: "bt_get (bt_insert k v m) = (bt_get m)(k \<mapsto> v)"
  by (induction m) (auto simp: bt_get_def fun_eq_iff)

lemma set_bt_insert: "fst ` set (bt_insert k v m) = insert k (fst ` set m)"
  by (induction m) auto

lemma bt_ok_insert [intro, btree_simps]: "bt_ok m \<Longrightarrow> bt_ok (bt_insert k v m)"
proof (induction m)
  case Nil
  show ?case by (simp add: bt_ok_def)
next
  case (Cons e m)
  then have ok: "bt_ok m" and lt: "\<forall>x \<in> fst ` set m. fst e < x"
    by (auto simp: bt_ok_def)
  show ?case
  proof (cases "k < fst e")
    case True
    then have "\<forall>x \<in> fst ` set m. k < x" using lt by auto
    then show ?thesis using True Cons.prems by (auto simp: bt_ok_def)
  next
    case False
    have "fst e \<noteq> k \<Longrightarrow> fst e < k" using False by auto
    then have "fst e \<noteq> k \<Longrightarrow> \<forall>x \<in> fst ` set (bt_insert k v m). fst e < x"
      using lt by (simp add: set_bt_insert)
    then show ?thesis using False Cons.IH [OF ok] Cons.prems by (auto simp: bt_ok_def)
  qed
qed

lemma bt_ok_distinct: "bt_ok m \<Longrightarrow> distinct (map fst m)"
  by (simp add: bt_ok_def strict_sorted_iff)

lemma bt_mem_get: "bt_ok m \<Longrightarrow> (k, v) \<in> set m \<longleftrightarrow> bt_get m k = Some v"
  by (simp add: bt_get_def bt_ok_distinct)

interpretation btm: ordered_map bt_get bt_insert "\<lambda>m. m" bt_ok
  by unfold_locales (auto simp: bt_get_insert bt_mem_get bt_ok_def [symmetric])

lemma bt_ok_Nil [simp]: "bt_ok []"
  by (simp add: bt_ok_def)

lemma bt_get_Nil [simp]: "bt_get [] k = None"
  by (simp add: bt_get_def)

lemma bt_values_get: "bt_ok m \<Longrightarrow> v \<in> set (bt_values m) \<longleftrightarrow> (\<exists>k. bt_get m k = Some v)"
  using btm.values_look [of m v] by (simp add: bt_values_def)

lemma bt_get_values: "bt_get m k = Some v \<Longrightarrow> v \<in> set (bt_values m)"
  unfolding bt_get_def bt_values_def by (force dest: map_of_SomeD)

lemma bt_values_insertD: "v' \<in> set (bt_values (bt_insert k v m)) \<Longrightarrow> v' = v \<or> v' \<in> set (bt_values m)"
  by (induction m) (auto simp: bt_values_def split: if_splits)

lemma set_bt_values_insert:
  "bt_ok m \<Longrightarrow>
   set (bt_values (bt_insert k v m)) = insert v (snd ` {e \<in> set m. fst e \<noteq> k})"
  using btm.values_ins [of m k v] by (simp add: bt_values_def)

lemma bt_get_remove [btree_simps]: "bt_get (bt_remove k m) = (bt_get m)(k := None)"
  by (induction m) (auto simp: bt_get_def bt_remove_def fun_eq_iff)

lemma bt_ok_filter: "bt_ok m \<Longrightarrow> bt_ok (filter P m)"
  by (induction m) (auto simp: bt_ok_def)

lemma bt_ok_remove [intro, btree_simps]: "bt_ok m \<Longrightarrow> bt_ok (bt_remove k m)"
  by (simp add: bt_remove_def bt_ok_filter)

lemma bt_ok_retain [intro, btree_simps]: "bt_ok m \<Longrightarrow> bt_ok (bt_retain P m)"
  by (simp add: bt_retain_def bt_ok_filter)

lemma bt_get_retain [btree_simps]:
  "bt_ok m \<Longrightarrow>
   bt_get (bt_retain P m) k = (case bt_get m k of None \<Rightarrow> None | Some v \<Rightarrow> if P k v then Some v else None)"
proof (induction m)
  case Nil
  show ?case by (simp add: bt_retain_def)
next
  case (Cons e m)
  then have ok: "bt_ok m" by (simp add: bt_ok_def)
  have "bt_get m (fst e) = None"
    using bt_ok_distinct [OF Cons.prems] by (simp add: bt_get_def map_of_eq_None_iff)
  then show ?case
    using Cons.IH [OF ok] by (cases e) (auto simp: bt_retain_def bt_get_def split: option.splits)
qed

lemma map_fst_map_values [simp]: "map fst (bt_map_values f m) = map fst m"
  by (simp add: bt_map_values_def)

lemma bt_ok_map_values [intro, btree_simps]: "bt_ok m \<Longrightarrow> bt_ok (bt_map_values f m)"
  by (simp add: bt_ok_def)

lemma bt_get_map_values [btree_simps]: "bt_get (bt_map_values f m) k = map_option f (bt_get m k)"
  by (induction m) (auto simp: bt_get_def bt_map_values_def)

lemma bt_values_map_values: "bt_values (bt_map_values f m) = map f (bt_values m)"
  by (simp add: bt_values_def bt_map_values_def)

section \<open>Ordered sets\<close>

lemma set_bs_insert [btree_simps]: "set (bs_insert x s) = insert x (set s)"
  by (induction s) auto

lemma bs_ok_insert [intro, btree_simps]: "bs_ok s \<Longrightarrow> bs_ok (bs_insert x s)"
proof (induction s)
  case Nil
  show ?case by (simp add: bs_ok_def)
next
  case (Cons y s)
  then show ?case by (auto simp: bs_ok_def set_bs_insert)
qed

lemma bs_ok_Nil [simp]: "bs_ok []"
  by (simp add: bs_ok_def)

lemma bs_contains_insert [btree_simps]: "bs_contains (bs_insert x s) y \<longleftrightarrow> y = x \<or> bs_contains s y"
  by (simp add: bs_contains_def set_bs_insert)

lemma set_fold_bs_insert: "set (fold bs_insert xs s) = set xs \<union> set s"
  by (induction xs arbitrary: s) (auto simp: set_bs_insert)

lemma bs_ok_fold: "bs_ok s \<Longrightarrow> bs_ok (fold bs_insert xs s)"
  by (induction xs arbitrary: s) auto

lemma set_bs_collect [btree_simps]: "set (bs_collect xs) = set xs"
  by (simp add: bs_collect_def set_fold_bs_insert)

lemma bs_ok_collect [btree_simps]: "bs_ok (bs_collect xs)"
  by (simp add: bs_collect_def bs_ok_fold)

lemma length_bs_collect: "length (bs_collect xs) = card (set xs)"
proof -
  have "distinct (bs_collect xs)"
    using bs_ok_collect [of xs] by (simp add: bs_ok_def strict_sorted_iff)
  then show ?thesis using distinct_card [of "bs_collect xs"] by (simp add: set_bs_collect)
qed

end
