(* ===== verification/Pulse.thy ===== *)
theory Pulse
  imports Identity F64 BTree
begin

text \<open>
  The observation records of \<open>crates/pulse-types/src/pulse.rs\<close>: coverage, signals,
  authentication, the pulse frame and its observation digest, the receiver's annotation, and
  the validation of each of them. The wire format of the same file is in theory \<open>Wire\<close>.
\<close>

definition MAX_WIRE_FRAME_BYTES :: nat where "MAX_WIRE_FRAME_BYTES = 64 * 1024"
definition MAX_COVERAGE_TAGS :: nat where "MAX_COVERAGE_TAGS = 64"
definition MAX_SIGNALS :: nat where "MAX_SIGNALS = 32"
definition MAX_FIELD_BYTES :: nat where "MAX_FIELD_BYTES = 256"
definition MAX_VALIDITY_MS :: u64 where "MAX_VALIDITY_MS = 60 * 60 * 1000"

section \<open>Errors\<close>

record pulse_error =
  pe_code :: string
  pe_field :: string
  pe_detail :: string

definition pe_invalid :: "string \<Rightarrow> string \<Rightarrow> pulse_error" where
  "pe_invalid field detail = \<lparr>pe_code = ''invalid'', pe_field = field, pe_detail = detail\<rparr>"

definition pe_bound :: "string \<Rightarrow> pulse_error" where
  "pe_bound field =
     \<lparr>pe_code = ''bound_exceeded'', pe_field = field,
      pe_detail = ''bounded field exceeds the v1 maximum''\<rparr>"

definition pe_unsupported :: "string \<Rightarrow> pulse_error" where
  "pe_unsupported field =
     \<lparr>pe_code = ''unsupported'', pe_field = field, pe_detail = ''unsupported v1 value''\<rparr>"

definition pe_truncated :: pulse_error where
  "pe_truncated =
     \<lparr>pe_code = ''malformed'', pe_field = ''wire frame'', pe_detail = ''truncated binary frame''\<rparr>"

definition pulse_error_display :: "pulse_error \<Rightarrow> string" where
  "pulse_error_display e = pe_code e @ '' '' @ pe_field e @ '': '' @ pe_detail e"

definition validate_field :: "string \<Rightarrow> string \<Rightarrow> pulse_error + unit" where
  "validate_field field value =
     (if value = [] then Inl (pe_invalid field ''field is empty'')
      else if MAX_FIELD_BYTES < length value then Inl (pe_bound field)
      else if has_control value then
        Inl (pe_invalid field ''field contains a control character'')
      else Inr ())"

text \<open>The loop of \<open>validate_sorted_tags\<close>; \<open>previous\<close> is the tag before the rest of the list.\<close>

fun sorted_tags_loop :: "string \<Rightarrow> string option \<Rightarrow> string list \<Rightarrow> pulse_error + unit" where
  "sorted_tags_loop field previous [] = Inr ()"
| "sorted_tags_loop field previous (value # values) =
     rbind (validate_field field value) (\<lambda>_.
     rbind (fail_if (case previous of None \<Rightarrow> False | Some prior \<Rightarrow> value \<le> prior)
       (pe_invalid field ''tags must be unique and sorted'')) (\<lambda>_.
     sorted_tags_loop field (Some value) values))"

definition validate_sorted_tags :: "string \<Rightarrow> string list \<Rightarrow> pulse_error + unit" where
  "validate_sorted_tags field values =
     (if MAX_COVERAGE_TAGS < length values then Inl (pe_bound field)
      else sorted_tags_loop field None values)"

section \<open>Records\<close>

datatype observation_profile_id = ObservationProfileIdV1
  (op_name: string) (op_version: u16) (op_semantic_digest: digest)

text \<open>\<open>derive(Ord)\<close>: the fields are compared in their order of declaration.\<close>

instantiation observation_profile_id :: linorder
begin

definition less_eq_observation_profile_id :: "observation_profile_id \<Rightarrow> observation_profile_id \<Rightarrow> bool" where
  "less_eq_observation_profile_id p q =
     ((op_name p, op_version p, op_semantic_digest p) \<le> (op_name q, op_version q, op_semantic_digest q))"

definition less_observation_profile_id :: "observation_profile_id \<Rightarrow> observation_profile_id \<Rightarrow> bool" where
  "less_observation_profile_id p q =
     ((op_name p, op_version p, op_semantic_digest p) < (op_name q, op_version q, op_semantic_digest q))"

instance
proof
  fix p q r :: observation_profile_id
  show "p < q \<longleftrightarrow> p \<le> q \<and> \<not> q \<le> p"
    unfolding less_observation_profile_id_def less_eq_observation_profile_id_def
    by (rule less_le_not_le)
  show "p \<le> p" by (simp add: less_eq_observation_profile_id_def)
  show "p \<le> q \<or> q \<le> p"
    unfolding less_eq_observation_profile_id_def by (rule linear)
  show "p \<le> r" if "p \<le> q" and "q \<le> r"
    using that unfolding less_eq_observation_profile_id_def by (rule order_trans)
  show "p = q" if "p \<le> q" and "q \<le> p"
  proof -
    have "(op_name p, op_version p, op_semantic_digest p) = (op_name q, op_version q, op_semantic_digest q)"
      using that unfolding less_eq_observation_profile_id_def by (rule antisym)
    then show ?thesis by (simp add: observation_profile_id.expand)
  qed
qed

end

definition profile_validate :: "observation_profile_id \<Rightarrow> pulse_error + unit" where
  "profile_validate p =
     rbind (validate_field ''profile.name'' (op_name p)) (\<lambda>_.
     rbind (fail_if (op_version p = 0)
       (pe_invalid ''profile.version'' ''version zero is unsupported'')) (\<lambda>_.
     map_err (pe_invalid ''profile.semantic_digest'') (digest_validate (op_semantic_digest p))))"

record coverage_descriptor =
  cd_expected :: "string list"
  cd_observed :: "string list"

definition coverage_validate :: "coverage_descriptor \<Rightarrow> pulse_error + unit" where
  "coverage_validate c =
     rbind (validate_sorted_tags ''coverage.expected'' (cd_expected c)) (\<lambda>_.
     rbind (validate_sorted_tags ''coverage.observed'' (cd_observed c)) (\<lambda>_.
     fail_if (list_ex (\<lambda>tag. \<not> bs_contains (bs_collect (cd_expected c)) tag) (cd_observed c))
       (pe_invalid ''coverage.observed''
          ''observed coverage is not declared in expected coverage'')))"

definition coverage_missing :: "coverage_descriptor \<Rightarrow> string list" where
  "coverage_missing c =
     filter (\<lambda>tag. \<not> bs_contains (bs_collect (cd_observed c)) tag) (cd_expected c)"

datatype signal_assessment = Observed | WithinDeclaredBound | OutsideDeclaredBound | Unavailable

record bounded_signal_value =
  sv_name :: string
  sv_value :: f64
  sv_unit :: string
  sv_assessment :: signal_assessment

definition signal_validate :: "bounded_signal_value \<Rightarrow> pulse_error + unit" where
  "signal_validate s =
     rbind (validate_field ''signal.name'' (sv_name s)) (\<lambda>_.
     rbind (validate_field ''signal.unit'' (sv_unit s)) (\<lambda>_.
     fail_if (\<not> is_finite (sv_value s)) (pe_invalid ''signal.value'' ''value must be finite'')))"

datatype authentication_field =
    Placeholder string
  | Mac string string string

fun authentication_field_validate :: "authentication_field \<Rightarrow> pulse_error + unit" where
  "authentication_field_validate (Placeholder disclosure) =
     validate_field ''authentication.disclosure'' disclosure"
| "authentication_field_validate (Mac scheme key_id tag) =
     rbind (validate_field ''authentication.scheme'' scheme) (\<lambda>_.
     rbind (validate_field ''authentication.key_id'' key_id) (\<lambda>_.
     validate_field ''authentication.tag'' tag))"

record pulse_frame =
  pf_schema_version :: u16
  pf_subject :: subject_id
  pf_subject_incarnation :: incarnation_id
  pf_observer :: observer_id
  pf_observer_incarnation :: incarnation_id
  pf_sequence :: u64
  pf_observer_monotonic_ns :: u64
  pf_validity_ms :: u64
  pf_profile :: observation_profile_id
  pf_observation_policy_generation :: observation_policy_generation_id
  pf_coverage :: coverage_descriptor
  pf_signals :: "bounded_signal_value list"
  pf_observation_digest :: digest
  pf_authentication :: authentication_field

fun assessment_tag :: "signal_assessment \<Rightarrow> nat" where
  "assessment_tag Observed = 0"
| "assessment_tag WithinDeclaredBound = 1"
| "assessment_tag OutsideDeclaredBound = 2"
| "assessment_tag Unavailable = 3"

text \<open>The transcript parts of the observation digest, in the order of the source.\<close>

definition coverage_parts :: "string \<Rightarrow> string list \<Rightarrow> bytes list" where
  "coverage_parts marker tags = concat (map (\<lambda>tag. [marker, tag]) tags)"

definition signal_parts :: "bounded_signal_value \<Rightarrow> bytes list" where
  "signal_parts s =
     [sv_name s, u64_be (sv_value s), sv_unit s, [char_of (assessment_tag (sv_assessment s))]]"

definition observation_parts :: "pulse_frame \<Rightarrow> bytes list" where
  "observation_parts f =
     [u16_be (pf_schema_version f), pf_subject f, pf_subject_incarnation f, pf_observer f,
      pf_observer_incarnation f, u64_be (pf_sequence f), u64_be (pf_observer_monotonic_ns f),
      u64_be (pf_validity_ms f), op_name (pf_profile f), u16_be (op_version (pf_profile f)),
      op_semantic_digest (pf_profile f), pf_observation_policy_generation f]
     @ coverage_parts ''expected'' (cd_expected (pf_coverage f))
     @ coverage_parts ''observed'' (cd_observed (pf_coverage f))
     @ concat (map signal_parts (pf_signals f))"

definition recompute_observation_digest :: "hasher \<Rightarrow> pulse_frame \<Rightarrow> digest" where
  "recompute_observation_digest sha f = digest_parts sha ''pulse.observation.v1'' (observation_parts f)"

definition seal :: "hasher \<Rightarrow> pulse_frame \<Rightarrow> pulse_frame" where
  "seal sha f = f\<lparr>pf_observation_digest := recompute_observation_digest sha f\<rparr>"

fun signals_loop :: "string option \<Rightarrow> bounded_signal_value list \<Rightarrow> pulse_error + unit" where
  "signals_loop previous [] = Inr ()"
| "signals_loop previous (s # rest) =
     rbind (signal_validate s) (\<lambda>_.
     rbind (fail_if (case previous of None \<Rightarrow> False | Some name \<Rightarrow> sv_name s \<le> name)
       (pe_invalid ''signals'' ''signal names must be unique and sorted'')) (\<lambda>_.
     signals_loop (Some (sv_name s)) rest))"

definition identity_field :: "string \<Rightarrow> string \<Rightarrow> string \<Rightarrow> pulse_error + unit" where
  "identity_field field type_name value =
     map_err (\<lambda>e. pe_invalid field (ie_reason e)) (validate_identity type_name value)"

definition frame_validate :: "hasher \<Rightarrow> pulse_frame \<Rightarrow> pulse_error + unit" where
  "frame_validate sha f =
     rbind (fail_if (pf_schema_version f \<noteq> SCHEMA_VERSION_V1)
       (pe_unsupported ''pulse schema version'')) (\<lambda>_.
     rbind (identity_field ''subject'' ''SubjectId'' (pf_subject f)) (\<lambda>_.
     rbind (identity_field ''subject_incarnation'' ''IncarnationId'' (pf_subject_incarnation f)) (\<lambda>_.
     rbind (identity_field ''observer'' ''ObserverId'' (pf_observer f)) (\<lambda>_.
     rbind (identity_field ''observer_incarnation'' ''IncarnationId'' (pf_observer_incarnation f)) (\<lambda>_.
     rbind (identity_field ''observation_policy_generation'' ''ObservationPolicyGenerationId''
       (pf_observation_policy_generation f)) (\<lambda>_.
     rbind (fail_if (pf_validity_ms f = 0 \<or> MAX_VALIDITY_MS < pf_validity_ms f)
       (pe_invalid ''validity_ms'' ''validity must be nonzero and within the v1 maximum'')) (\<lambda>_.
     rbind (profile_validate (pf_profile f)) (\<lambda>_.
     rbind (coverage_validate (pf_coverage f)) (\<lambda>_.
     rbind (fail_if (MAX_SIGNALS < length (pf_signals f)) (pe_bound ''signals'')) (\<lambda>_.
     rbind (signals_loop None (pf_signals f)) (\<lambda>_.
     rbind (authentication_field_validate (pf_authentication f)) (\<lambda>_.
     rbind (map_err (pe_invalid ''observation_digest'') (digest_validate (pf_observation_digest f))) (\<lambda>_.
     fail_if (pf_observation_digest f \<noteq> recompute_observation_digest sha f)
       (pe_invalid ''observation_digest'' ''digest does not match the observation transcript'')
     )))))))))))))"

datatype arrival_disposition = First | Continuous | Gap | Duplicate | Replay | Restarted | Stale

record sequence_gap =
  sg_expected_next :: u64
  sg_received :: u64
  sg_missing_count :: u64

datatype authentication_result =
    NotChecked
  | Unauthenticated string
  | Verified string string
  | Failed string

fun authentication_result_validate :: "authentication_result \<Rightarrow> pulse_error + unit" where
  "authentication_result_validate NotChecked = Inr ()"
| "authentication_result_validate (Unauthenticated disclosure) =
     validate_field ''authentication_result.disclosure'' disclosure"
| "authentication_result_validate (Verified meth princ) =
     rbind (validate_field ''authentication_result.method'' meth) (\<lambda>_.
     validate_field ''authentication_result.principal'' princ)"
| "authentication_result_validate (Failed reason) =
     validate_field ''authentication_result.reason'' reason"

record receiver_annotation =
  ra_schema_version :: u16
  ra_receiver :: receiver_id
  ra_receiver_incarnation :: incarnation_id
  ra_clock_id :: clock_id
  ra_arrival_monotonic_ms :: u64
  ra_disposition :: arrival_disposition
  ra_sequence_gap :: "sequence_gap option"
  ra_transport_path :: string
  ra_transport_observed_delay_ms :: "u64 option"
  ra_authentication :: authentication_result

definition gap_validate :: "arrival_disposition \<Rightarrow> sequence_gap option \<Rightarrow> pulse_error + unit" where
  "gap_validate disposition gap =
     (case (disposition, gap) of
        (Gap, Some g) \<Rightarrow>
          fail_if (sg_received g \<le> sg_expected_next g
              \<or> sg_missing_count g \<noteq> sg_received g - sg_expected_next g)
            (pe_invalid ''sequence_gap'' ''gap arithmetic is inconsistent'')
      | (Gap, None) \<Rightarrow>
          Inl (pe_invalid ''sequence_gap'' ''gap disposition requires gap detail'')
      | (_, Some _) \<Rightarrow>
          Inl (pe_invalid ''sequence_gap'' ''gap detail is only valid for a gap disposition'')
      | _ \<Rightarrow> Inr ())"

definition annotation_validate :: "receiver_annotation \<Rightarrow> pulse_error + unit" where
  "annotation_validate a =
     rbind (fail_if (ra_schema_version a \<noteq> SCHEMA_VERSION_V1)
       (pe_unsupported ''receiver schema version'')) (\<lambda>_.
     rbind (identity_field ''receiver'' ''ReceiverId'' (ra_receiver a)) (\<lambda>_.
     rbind (identity_field ''receiver_incarnation'' ''IncarnationId'' (ra_receiver_incarnation a)) (\<lambda>_.
     rbind (identity_field ''clock_id'' ''ClockId'' (ra_clock_id a)) (\<lambda>_.
     rbind (validate_field ''transport_path'' (ra_transport_path a)) (\<lambda>_.
     rbind (authentication_result_validate (ra_authentication a)) (\<lambda>_.
     gap_validate (ra_disposition a) (ra_sequence_gap a)))))))"

record received_pulse =
  rp_frame :: pulse_frame
  rp_receiver :: receiver_annotation

definition received_validate :: "hasher \<Rightarrow> received_pulse \<Rightarrow> pulse_error + unit" where
  "received_validate sha r =
     rbind (frame_validate sha (rp_frame r)) (\<lambda>_. annotation_validate (rp_receiver r))"

section \<open>What a successful validation establishes\<close>

definition good_field :: "string \<Rightarrow> bool" where
  "good_field v = (v \<noteq> [] \<and> length v \<le> MAX_FIELD_BYTES \<and> \<not> has_control v)"

lemma validate_field_ok [result_simps]: "validate_field field v = Inr u \<longleftrightarrow> good_field v"
  by (auto simp: validate_field_def good_field_def)

lemma identity_field_ok [result_simps]: "identity_field field ty v = Inr u \<longleftrightarrow> good_identity v"
  by (simp add: identity_field_def result_simps)

lemma good_identity_field: "good_identity v \<Longrightarrow> good_field v"
  by (simp add: good_identity_def good_field_def MAX_IDENTITY_BYTES_def MAX_FIELD_BYTES_def)

lemma sorted_tags_loop_ok:
  "sorted_tags_loop field prev tags = Inr () \<longleftrightarrow>
     list_all good_field tags \<and> sorted_wrt (<) ((case prev of None \<Rightarrow> [] | Some p \<Rightarrow> [p]) @ tags)"
proof (induction tags arbitrary: prev)
  case Nil
  then show ?case by (simp split: option.splits)
next
  case (Cons t tags)
  show ?case
    by (cases prev) (auto simp: result_simps Cons.IH intro: less_trans)
qed

lemma validate_sorted_tags_ok [result_simps]:
  "validate_sorted_tags field tags = Inr u \<longleftrightarrow>
     length tags \<le> MAX_COVERAGE_TAGS \<and> list_all good_field tags \<and> sorted_wrt (<) tags"
  by (auto simp: validate_sorted_tags_def sorted_tags_loop_ok)

lemma signals_loop_ok:
  "signals_loop prev sigs = Inr () \<longleftrightarrow>
     list_all (\<lambda>s. good_field (sv_name s) \<and> good_field (sv_unit s) \<and> is_finite (sv_value s)) sigs
     \<and> sorted_wrt (<) ((case prev of None \<Rightarrow> [] | Some p \<Rightarrow> [p]) @ map sv_name sigs)"
proof (induction sigs arbitrary: prev)
  case Nil
  then show ?case by (simp split: option.splits)
next
  case (Cons s sigs)
  show ?case
    by (cases prev) (auto simp: result_simps signal_validate_def Cons.IH intro: less_trans)
qed

definition coverage_ok :: "coverage_descriptor \<Rightarrow> bool" where
  "coverage_ok c =
     (length (cd_expected c) \<le> MAX_COVERAGE_TAGS \<and> list_all good_field (cd_expected c)
      \<and> sorted_wrt (<) (cd_expected c)
      \<and> length (cd_observed c) \<le> MAX_COVERAGE_TAGS \<and> list_all good_field (cd_observed c)
      \<and> sorted_wrt (<) (cd_observed c)
      \<and> set (cd_observed c) \<subseteq> set (cd_expected c))"

lemma coverage_validate_ok [result_simps]: "coverage_validate c = Inr u \<longleftrightarrow> coverage_ok c"
  by (auto simp: coverage_validate_def coverage_ok_def result_simps bs_contains_def
      set_bs_collect list_ex_iff)

definition signals_ok :: "bounded_signal_value list \<Rightarrow> bool" where
  "signals_ok sigs =
     (length sigs \<le> MAX_SIGNALS
      \<and> list_all (\<lambda>s. good_field (sv_name s) \<and> good_field (sv_unit s) \<and> is_finite (sv_value s)) sigs
      \<and> sorted_wrt (<) (map sv_name sigs))"

definition authentication_field_ok :: "authentication_field \<Rightarrow> bool" where
  "authentication_field_ok a =
     (case a of Placeholder d \<Rightarrow> good_field d
      | Mac s k t \<Rightarrow> good_field s \<and> good_field k \<and> good_field t)"

lemma authentication_field_validate_ok [result_simps]:
  "authentication_field_validate a = Inr u \<longleftrightarrow> authentication_field_ok a"
  by (cases a) (auto simp: authentication_field_ok_def result_simps)

definition profile_ok :: "observation_profile_id \<Rightarrow> bool" where
  "profile_ok p =
     (good_field (op_name p) \<and> op_version p \<noteq> 0 \<and> digest_validate (op_semantic_digest p) = Inr ())"

lemma profile_validate_ok [result_simps]: "profile_validate p = Inr u \<longleftrightarrow> profile_ok p"
  by (auto simp: profile_validate_def profile_ok_def result_simps)

text \<open>The conditions \<open>PulseFrameV1::validate\<close> decides, without the order it reports them in.\<close>

definition frame_shape_ok :: "pulse_frame \<Rightarrow> bool" where
  "frame_shape_ok f =
     (pf_schema_version f = SCHEMA_VERSION_V1
      \<and> good_identity (pf_subject f) \<and> good_identity (pf_subject_incarnation f)
      \<and> good_identity (pf_observer f) \<and> good_identity (pf_observer_incarnation f)
      \<and> good_identity (pf_observation_policy_generation f)
      \<and> pf_validity_ms f \<noteq> 0 \<and> pf_validity_ms f \<le> MAX_VALIDITY_MS
      \<and> profile_ok (pf_profile f) \<and> coverage_ok (pf_coverage f) \<and> signals_ok (pf_signals f)
      \<and> authentication_field_ok (pf_authentication f)
      \<and> digest_validate (pf_observation_digest f) = Inr ())"

lemma frame_validate_ok [result_simps]:
  "frame_validate sha f = Inr u \<longleftrightarrow>
     frame_shape_ok f \<and> pf_observation_digest f = recompute_observation_digest sha f"
  by (auto simp: frame_validate_def frame_shape_ok_def result_simps signals_ok_def signals_loop_ok)

lemma coverage_observed_sorted: "coverage_ok c \<Longrightarrow> sorted (cd_observed c)"
  by (simp add: coverage_ok_def strict_sorted_iff)

section \<open>A sample frame\<close>

text \<open>A small sealed frame, with a stand-in for SHA-256, at which the properties are exercised.\<close>

definition sample_sha :: hasher where
  "sample_sha bs = char_of (length bs) # replicate 31 (CHR 0x01)"

definition sample_digest :: digest where
  "sample_digest = digest_parts sample_sha ''sample'' []"

definition sample_profile :: observation_profile_id where
  "sample_profile = ObservationProfileIdV1 ''host-v1'' 1 sample_digest"

definition sample_coverage :: coverage_descriptor where
  "sample_coverage = \<lparr>cd_expected = [''cpu'', ''disk''], cd_observed = [''cpu'', ''disk'']\<rparr>"

definition sample_signal :: bounded_signal_value where
  "sample_signal = \<lparr>sv_name = ''load'', sv_value = 0x3FF8000000000000, sv_unit = ''ratio'',
     sv_assessment = WithinDeclaredBound\<rparr>"

definition sample_pulse :: "u64 \<Rightarrow> pulse_frame" where
  "sample_pulse sq = seal sample_sha
     \<lparr>pf_schema_version = SCHEMA_VERSION_V1, pf_subject = ''host-a'', pf_subject_incarnation = ''boot-1'',
      pf_observer = ''probe-1'', pf_observer_incarnation = ''run-1'', pf_sequence = sq,
      pf_observer_monotonic_ns = 5000, pf_validity_ms = 1000, pf_profile = sample_profile,
      pf_observation_policy_generation = ''gen-1'', pf_coverage = sample_coverage,
      pf_signals = [sample_signal], pf_observation_digest = [], pf_authentication = Placeholder ''none''\<rparr>"

lemma sample_digest_parts: "digest_validate (digest_parts sample_sha d ps) = Inr ()"
proof -
  let ?h = "sample_sha (transcript d ps)"
  have h: "?h = c # replicate 31 (CHR 0x01)" if "c = char_of (length (transcript d ps))" for c
    by (simp only: sample_sha_def that)
  have "?h \<noteq> replicate 32 (CHR 0x00)"
  proof
    assume "?h = replicate 32 (CHR 0x00)"
    then have "set (replicate 31 (CHR 0x01)) \<subseteq> set (replicate 32 (CHR 0x00))"
      using h [OF refl] by (metis set_subset_Cons)
    then show False by simp
  qed
  moreover have "length ?h = 32" using h [OF refl] by (simp only: length_Cons length_replicate)
  ultimately show ?thesis unfolding digest_parts_valid by (rule conjI [rotated])
qed

lemma sample_pulse_valid: "frame_validate sample_sha (sample_pulse sq) = Inr ()"
proof -
  have fields: "list_all good_identity [''host-a'', ''boot-1'', ''probe-1'', ''run-1'', ''gen-1'']"
    "list_all good_field [''host-v1'', ''cpu'', ''disk'', ''load'', ''ratio'', ''none'']"
    by code_simp+
  have signals: "is_finite 0x3FF8000000000000" by (simp add: is_finite_def f64_exp_def)
  show ?thesis
    unfolding frame_validate_ok
    using fields signals
    by (auto simp: sample_pulse_def seal_def frame_shape_ok_def recompute_observation_digest_def
        observation_parts_def sample_digest_parts profile_ok_def sample_profile_def sample_digest_def
        coverage_ok_def sample_coverage_def signals_ok_def sample_signal_def
        authentication_field_ok_def MAX_VALIDITY_MS_def MAX_COVERAGE_TAGS_def MAX_SIGNALS_def)
qed

end
