(* ===== verification/Wire.thy ===== *)
theory Wire
  imports Pulse
begin

text \<open>
  The bounded binary wire format of \<open>crates/pulse-types/src/pulse.rs\<close>: the \<open>put_*\<close> writers,
  \<open>WireReader\<close> (whose state is the list of bytes still to be read), \<open>encode_wire\<close> and
  \<open>decode_wire\<close>. The locale \<open>codec\<close> is the contract between a writer and its reader; each field
  of the format is an interpretation of it, and the round trips of whole frames compose from
  those.
\<close>

section \<open>Writers\<close>

definition WIRE_MAGIC :: bytes where
  "WIRE_MAGIC = ''PLS1''"

definition put_u16 :: "bytes \<Rightarrow> u16 \<Rightarrow> bytes" where
  "put_u16 out v = out @ u16_be v"

definition put_u64 :: "bytes \<Rightarrow> u64 \<Rightarrow> bytes" where
  "put_u64 out v = out @ u64_be v"

definition put_string :: "bytes \<Rightarrow> string \<Rightarrow> pulse_error + bytes" where
  "put_string out v =
     (if MAX_FIELD_BYTES < length v then Inl (pe_bound ''wire string'')
      else if 2 ^ 16 \<le> length v then Inl (pe_bound ''wire string'')
      else Inr (put_u16 out (of_nat (length v)) @ v))"

fun put_each :: "(bytes \<Rightarrow> 'a \<Rightarrow> pulse_error + bytes) \<Rightarrow> bytes \<Rightarrow> 'a list \<Rightarrow> pulse_error + bytes" where
  "put_each put out [] = Inr out"
| "put_each put out (v # vs) = rbind (put out v) (\<lambda>out. put_each put out vs)"

definition put_strings :: "bytes \<Rightarrow> string list \<Rightarrow> pulse_error + bytes" where
  "put_strings out vs =
     (if 2 ^ 16 \<le> length vs then Inl (pe_bound ''wire list'')
      else put_each put_string (put_u16 out (of_nat (length vs))) vs)"

definition put_signal :: "bytes \<Rightarrow> bounded_signal_value \<Rightarrow> pulse_error + bytes" where
  "put_signal out s =
     rbind (put_string out (sv_name s)) (\<lambda>out.
     rbind (put_string (put_u64 out (sv_value s)) (sv_unit s)) (\<lambda>out.
     Inr (out @ [char_of (assessment_tag (sv_assessment s))])))"

fun put_authentication :: "bytes \<Rightarrow> authentication_field \<Rightarrow> pulse_error + bytes" where
  "put_authentication out (Placeholder disclosure) = put_string (out @ [char_of (0 :: nat)]) disclosure"
| "put_authentication out (Mac scheme key_id tag) =
     rbind (put_string (out @ [char_of (1 :: nat)]) scheme) (\<lambda>out.
     rbind (put_string out key_id) (\<lambda>out.
     put_string out tag))"

definition encode_wire :: "hasher \<Rightarrow> pulse_frame \<Rightarrow> pulse_error + bytes" where
  "encode_wire sha f =
     rbind (frame_validate sha f) (\<lambda>_.
     rbind (put_string (put_u16 WIRE_MAGIC (pf_schema_version f)) (pf_subject f)) (\<lambda>out.
     rbind (put_string out (pf_subject_incarnation f)) (\<lambda>out.
     rbind (put_string out (pf_observer f)) (\<lambda>out.
     rbind (put_string out (pf_observer_incarnation f)) (\<lambda>out.
     rbind (put_string
       (put_u64 (put_u64 (put_u64 out (pf_sequence f)) (pf_observer_monotonic_ns f)) (pf_validity_ms f))
       (op_name (pf_profile f))) (\<lambda>out.
     rbind (put_string (put_u16 out (op_version (pf_profile f))) (op_semantic_digest (pf_profile f))) (\<lambda>out.
     rbind (put_string out (pf_observation_policy_generation f)) (\<lambda>out.
     rbind (put_strings out (cd_expected (pf_coverage f))) (\<lambda>out.
     rbind (put_strings out (cd_observed (pf_coverage f))) (\<lambda>out.
     rbind (fail_if (2 ^ 16 \<le> length (pf_signals f)) (pe_bound ''signals'')) (\<lambda>_.
     rbind (put_each put_signal (put_u16 out (of_nat (length (pf_signals f)))) (pf_signals f)) (\<lambda>out.
     rbind (put_string out (pf_observation_digest f)) (\<lambda>out.
     rbind (put_authentication out (pf_authentication f)) (\<lambda>out.
     if MAX_WIRE_FRAME_BYTES < length out then Inl (pe_bound ''wire frame'') else Inr out))))))))))))))"

section \<open>Readers\<close>

type_synonym 'a reader = "bytes \<Rightarrow> pulse_error + 'a \<times> bytes"

definition rd_take :: "nat \<Rightarrow> bytes reader" where
  "rd_take n r = (if length r < n then Inl pe_truncated else Inr (take n r, drop n r))"

definition rd_byte :: "char reader" where
  "rd_byte r = rbind (rd_take 1 r) (\<lambda>(bs, r). Inr (hd bs, r))"

definition rd_u16 :: "u16 reader" where
  "rd_u16 r = rbind (rd_take 2 r) (\<lambda>(bs, r). Inr (of_nat (be_nat bs), r))"

definition rd_u64 :: "u64 reader" where
  "rd_u64 r = rbind (rd_take 8 r) (\<lambda>(bs, r). Inr (of_nat (be_nat bs), r))"

definition rd_string :: "string \<Rightarrow> string reader" where
  "rd_string field r =
     rbind (rd_u16 r) (\<lambda>(len, r).
     rbind (fail_if (MAX_FIELD_BYTES < unat len) (pe_bound field)) (\<lambda>_.
     rbind (rd_take (unat len) r) (\<lambda>(bs, r).
     if utf8_valid bs then Inr (bs, r) else Inl (pe_invalid field ''string is not UTF-8''))))"

text \<open>A \<open>for _ in 0..count\<close> loop that pushes what the body reads.\<close>

fun rd_times :: "'a reader \<Rightarrow> nat \<Rightarrow> 'a list reader" where
  "rd_times get 0 r = Inr ([], r)"
| "rd_times get (Suc n) r =
     rbind (get r) (\<lambda>(x, r). rbind (rd_times get n r) (\<lambda>(xs, r). Inr (x # xs, r)))"

definition rd_strings :: "string \<Rightarrow> nat \<Rightarrow> string list reader" where
  "rd_strings field maximum r =
     rbind (rd_u16 r) (\<lambda>(count, r).
     rbind (fail_if (maximum < unat count) (pe_bound field)) (\<lambda>_.
     rd_times (rd_string field) (unat count) r))"

definition assessment_from_tag :: "char \<Rightarrow> pulse_error + signal_assessment" where
  "assessment_from_tag c =
     (if of_char c = (0 :: nat) then Inr Observed
      else if of_char c = (1 :: nat) then Inr WithinDeclaredBound
      else if of_char c = (2 :: nat) then Inr OutsideDeclaredBound
      else if of_char c = (3 :: nat) then Inr Unavailable
      else Inl (pe_unsupported ''signal.assessment''))"

definition rd_signal :: "bounded_signal_value reader" where
  "rd_signal r =
     rbind (rd_string ''signal.name'' r) (\<lambda>(name, r).
     rbind (rd_u64 r) (\<lambda>(value, r).
     rbind (rd_string ''signal.unit'' r) (\<lambda>(unit, r).
     rbind (rd_byte r) (\<lambda>(tag, r).
     rbind (assessment_from_tag tag) (\<lambda>assessment.
     Inr (\<lparr>sv_name = name, sv_value = value, sv_unit = unit, sv_assessment = assessment\<rparr>, r))))))"

definition rd_signals :: "bounded_signal_value list reader" where
  "rd_signals r =
     rbind (rd_u16 r) (\<lambda>(count, r).
     rbind (fail_if (MAX_SIGNALS < unat count) (pe_bound ''signals'')) (\<lambda>_.
     rd_times rd_signal (unat count) r))"

definition rd_authentication :: "authentication_field reader" where
  "rd_authentication r =
     rbind (rd_byte r) (\<lambda>(kind, r).
     if of_char kind = (0 :: nat) then
       rbind (rd_string ''authentication.disclosure'' r) (\<lambda>(d, r). Inr (Placeholder d, r))
     else if of_char kind = (1 :: nat) then
       rbind (rd_string ''authentication.scheme'' r) (\<lambda>(s, r).
       rbind (rd_string ''authentication.key_id'' r) (\<lambda>(k, r).
       rbind (rd_string ''authentication.tag'' r) (\<lambda>(t, r). Inr (Mac s k t, r))))
     else Inl (pe_unsupported ''authentication kind''))"

definition decode_wire :: "hasher \<Rightarrow> bytes \<Rightarrow> pulse_error + pulse_frame" where
  "decode_wire sha bs =
     rbind (fail_if (MAX_WIRE_FRAME_BYTES < length bs) (pe_bound ''wire frame'')) (\<lambda>_.
     rbind (rd_take 4 bs) (\<lambda>(magic, r).
     rbind (fail_if (magic \<noteq> WIRE_MAGIC) (pe_unsupported ''wire magic'')) (\<lambda>_.
     rbind (rd_u16 r) (\<lambda>(schema_version, r).
     rbind (rd_string ''subject'' r) (\<lambda>(subject, r).
     rbind (rd_string ''subject_incarnation'' r) (\<lambda>(subject_incarnation, r).
     rbind (rd_string ''observer'' r) (\<lambda>(observer, r).
     rbind (rd_string ''observer_incarnation'' r) (\<lambda>(observer_incarnation, r).
     rbind (rd_u64 r) (\<lambda>(sequence, r).
     rbind (rd_u64 r) (\<lambda>(observer_monotonic_ns, r).
     rbind (rd_u64 r) (\<lambda>(validity_ms, r).
     rbind (rd_string ''profile.name'' r) (\<lambda>(profile_name, r).
     rbind (rd_u16 r) (\<lambda>(profile_version, r).
     rbind (rd_string ''profile.semantic_digest'' r) (\<lambda>(profile_digest, r).
     rbind (rd_string ''observation_policy_generation'' r) (\<lambda>(generation, r).
     rbind (rd_strings ''coverage.expected'' MAX_COVERAGE_TAGS r) (\<lambda>(expected, r).
     rbind (rd_strings ''coverage.observed'' MAX_COVERAGE_TAGS r) (\<lambda>(observed, r).
     rbind (rd_signals r) (\<lambda>(signals, r).
     rbind (rd_string ''observation_digest'' r) (\<lambda>(observation_digest, r).
     rbind (rd_authentication r) (\<lambda>(authentication, r).
     rbind (fail_if (r \<noteq> []) (pe_invalid ''wire frame'' ''trailing bytes are forbidden'')) (\<lambda>_.
     let f = \<lparr>pf_schema_version = schema_version, pf_subject = subject,
              pf_subject_incarnation = subject_incarnation, pf_observer = observer,
              pf_observer_incarnation = observer_incarnation, pf_sequence = sequence,
              pf_observer_monotonic_ns = observer_monotonic_ns, pf_validity_ms = validity_ms,
              pf_profile = ObservationProfileIdV1 profile_name profile_version profile_digest,
              pf_observation_policy_generation = generation,
              pf_coverage = \<lparr>cd_expected = expected, cd_observed = observed\<rparr>,
              pf_signals = signals, pf_observation_digest = observation_digest,
              pf_authentication = authentication\<rparr>
     in rbind (frame_validate sha f) (\<lambda>_. Inr f))))))))))))))))))))))"

section \<open>The contract between a writer and its reader\<close>

locale codec =
  fixes enc :: "'a \<Rightarrow> bytes" and get :: "'a reader" and ok :: "'a \<Rightarrow> bool"
  assumes get_enc: "ok x \<Longrightarrow> get (enc x @ rest) = Inr (x, rest)"
    and enc_get: "get bs = Inr (x, rest) \<Longrightarrow> bs = enc x @ rest \<and> ok x"
begin

lemma enc_inject: "ok x \<Longrightarrow> ok y \<Longrightarrow> enc x @ r = enc y @ s \<Longrightarrow> x = y \<and> r = s"
  by (metis get_enc Inr_inject Pair_inject)

lemma get_enc_end: "ok x \<Longrightarrow> get (enc x) = Inr (x, [])"
  using get_enc [of x "[]"] by simp

lemma bind_get:
  "rbind (get bs) (case_prod k) = Inr y \<longleftrightarrow> (\<exists>x r. bs = enc x @ r \<and> ok x \<and> k x r = Inr y)"
  by (auto simp: rbind_eq_Inr get_enc dest!: enc_get)

lemma times_get_enc:
  "list_all ok xs \<Longrightarrow> rd_times get (length xs) (concat (map enc xs) @ rest) = Inr (xs, rest)"
  by (induction xs) (simp_all add: get_enc)

lemma times_enc_get:
  "rd_times get n bs = Inr (xs, rest) \<Longrightarrow>
   bs = concat (map enc xs) @ rest \<and> length xs = n \<and> list_all ok xs"
proof (induction n arbitrary: bs xs)
  case 0
  then show ?case by simp
next
  case (Suc n)
  from Suc.prems obtain x r ys where x: "get bs = Inr (x, r)"
    and ys: "rd_times get n r = Inr (ys, rest)" and xs: "xs = x # ys"
    by (auto simp: rbind_eq_Inr)
  show ?case using enc_get [OF x] Suc.IH [OF ys] xs by simp
qed

end

section \<open>The fields of the format\<close>

definition enc_string :: "string \<Rightarrow> bytes" where
  "enc_string v = u16_be (of_nat (length v)) @ v"

definition wire_string :: "string \<Rightarrow> bool" where
  "wire_string v = (length v \<le> MAX_FIELD_BYTES \<and> utf8_valid v)"

definition enc_list :: "('a \<Rightarrow> bytes) \<Rightarrow> 'a list \<Rightarrow> bytes" where
  "enc_list enc xs = u16_be (of_nat (length xs)) @ concat (map enc xs)"

definition enc_signal :: "bounded_signal_value \<Rightarrow> bytes" where
  "enc_signal s = enc_string (sv_name s) @ u64_be (sv_value s) @ enc_string (sv_unit s)
     @ [char_of (assessment_tag (sv_assessment s))]"

definition wire_signal :: "bounded_signal_value \<Rightarrow> bool" where
  "wire_signal s = (wire_string (sv_name s) \<and> wire_string (sv_unit s))"

fun enc_authentication :: "authentication_field \<Rightarrow> bytes" where
  "enc_authentication (Placeholder d) = [char_of (0 :: nat)] @ enc_string d"
| "enc_authentication (Mac s k t) = [char_of (1 :: nat)] @ enc_string s @ enc_string k @ enc_string t"

fun wire_authentication :: "authentication_field \<Rightarrow> bool" where
  "wire_authentication (Placeholder d) = wire_string d"
| "wire_authentication (Mac s k t) = (wire_string s \<and> wire_string k \<and> wire_string t)"

lemma rd_take_append [simp]: "length bs = n \<Longrightarrow> rd_take n (bs @ r) = Inr (bs, r)"
  by (simp add: rd_take_def)

lemma rd_take_Inr: "rd_take n bs = Inr (x, r) \<Longrightarrow> bs = x @ r \<and> length x = n"
  by (auto simp: rd_take_def split: if_splits)

interpretation byte_codec: codec "\<lambda>c. [c]" rd_byte "\<lambda>_. True"
proof
  show "rd_byte ([x] @ rest) = Inr (x, rest)" for x rest
    by (simp add: rd_byte_def rd_take_def)
  show "bs = [x] @ rest \<and> True" if "rd_byte bs = Inr (x, rest)" for bs x rest
    using that by (cases bs) (auto simp: rd_byte_def rd_take_def)
qed

interpretation u16_codec: codec u16_be rd_u16 "\<lambda>_. True"
proof
  show "rd_u16 (u16_be x @ rest) = Inr (x, rest)" for x rest
    using unat_lt [of x] by (simp add: rd_u16_def u16_be_def be_nat_be_bytes)
  show "bs = u16_be x @ rest \<and> True" if "rd_u16 bs = Inr (x, rest)" for bs x rest
  proof -
    from that obtain ys where ys: "bs = ys @ rest" "length ys = 2" "x = of_nat (be_nat ys)"
      by (auto simp: rd_u16_def rbind_eq_Inr dest!: rd_take_Inr)
    moreover have "be_nat ys < 2 ^ 16" using be_nat_bound [of ys] ys by simp
    ultimately show ?thesis by (simp add: u16_be_def unat_of_nat be_bytes_be_nat)
  qed
qed

interpretation u64_codec: codec u64_be rd_u64 "\<lambda>_. True"
proof
  show "rd_u64 (u64_be x @ rest) = Inr (x, rest)" for x rest
    using unat_lt [of x] by (simp add: rd_u64_def u64_be_def be_nat_be_bytes)
  show "bs = u64_be x @ rest \<and> True" if "rd_u64 bs = Inr (x, rest)" for bs x rest
  proof -
    from that obtain ys where ys: "bs = ys @ rest" "length ys = 8" "x = of_nat (be_nat ys)"
      by (auto simp: rd_u64_def rbind_eq_Inr dest!: rd_take_Inr)
    moreover have "be_nat ys < 2 ^ 64" using be_nat_bound [of ys] ys by simp
    ultimately show ?thesis by (simp add: u64_be_def unat_of_nat be_bytes_be_nat)
  qed
qed

lemma unat_length_u16: "n < 2 ^ 16 \<Longrightarrow> unat (of_nat n :: u16) = n"
  by (simp add: unat_of_nat)

interpretation string_codec: codec enc_string "rd_string field" wire_string for field
proof
  show "rd_string field (enc_string x @ rest) = Inr (x, rest)" if "wire_string x" for x rest
    using that by (simp add: rd_string_def enc_string_def u16_codec.get_enc wire_string_def
        MAX_FIELD_BYTES_def unat_length_u16)
  show "bs = enc_string x @ rest \<and> wire_string x" if "rd_string field bs = Inr (x, rest)"
    for bs x rest
    using that
    by (auto simp: rd_string_def rbind_eq_Inr fail_if_eq_Inr enc_string_def wire_string_def
        split: if_splits dest!: u16_codec.enc_get rd_take_Inr)
qed

text \<open>A counted list of any coded element: the count is checked before the elements are read.\<close>

definition rd_counted :: "pulse_error \<Rightarrow> nat \<Rightarrow> 'a reader \<Rightarrow> 'a list reader" where
  "rd_counted err maximum get r =
     rbind (rd_u16 r) (\<lambda>(count, r).
     rbind (fail_if (maximum < unat count) err) (\<lambda>_. rd_times get (unat count) r))"

definition counted_ok :: "nat \<Rightarrow> ('a \<Rightarrow> bool) \<Rightarrow> 'a list \<Rightarrow> bool" where
  "counted_ok maximum ok xs = (length xs \<le> maximum \<and> list_all ok xs)"

context codec
begin

lemma counted_get_enc:
  assumes "counted_ok maximum ok xs" and "maximum < 2 ^ 16"
  shows "rd_counted err maximum get (enc_list enc xs @ rest) = Inr (xs, rest)"
proof -
  have "unat (of_nat (length xs) :: u16) = length xs"
    using assms by (simp add: counted_ok_def unat_length_u16)
  then show ?thesis
    using assms times_get_enc [of xs rest]
    by (simp add: rd_counted_def enc_list_def u16_codec.get_enc counted_ok_def)
qed

lemma counted_enc_get:
  assumes "rd_counted err maximum get bs = Inr (xs, rest)"
  shows "bs = enc_list enc xs @ rest \<and> counted_ok maximum ok xs"
proof -
  from assms obtain c r where c: "rd_u16 bs = Inr (c, r)" and le: "unat c \<le> maximum"
    and xs: "rd_times get (unat c) r = Inr (xs, rest)"
    by (auto simp: rd_counted_def rbind_eq_Inr fail_if_eq_Inr)
  have "bs = u16_be c @ r" using u16_codec.enc_get [OF c] by simp
  moreover have "r = concat (map enc xs) @ rest \<and> length xs = unat c \<and> list_all ok xs"
    using times_enc_get [OF xs] .
  ultimately show ?thesis using le by (simp add: enc_list_def counted_ok_def)
qed

end

lemma rd_strings_counted:
  "rd_strings field maximum = rd_counted (pe_bound field) maximum (rd_string field)"
  by (simp add: fun_eq_iff rd_strings_def rd_counted_def)

lemma rd_signals_counted: "rd_signals = rd_counted (pe_bound ''signals'') MAX_SIGNALS rd_signal"
  by (simp add: fun_eq_iff rd_signals_def rd_counted_def)

interpretation strings_codec: codec "enc_list enc_string" "rd_strings field MAX_COVERAGE_TAGS"
  "counted_ok MAX_COVERAGE_TAGS wire_string" for field
proof
  show "rd_strings field MAX_COVERAGE_TAGS (enc_list enc_string xs @ rest) = Inr (xs, rest)"
    if "counted_ok MAX_COVERAGE_TAGS wire_string xs" for xs rest
    unfolding rd_strings_counted
    by (rule string_codec.counted_get_enc [OF that]) (simp add: MAX_COVERAGE_TAGS_def)
  show "bs = enc_list enc_string xs @ rest \<and> counted_ok MAX_COVERAGE_TAGS wire_string xs"
    if "rd_strings field MAX_COVERAGE_TAGS bs = Inr (xs, rest)" for bs xs rest
    using that unfolding rd_strings_counted by (rule string_codec.counted_enc_get)
qed

lemma of_char_tag [simp]:
  "(of_char (char_of (assessment_tag a)) :: nat) = assessment_tag a"
  by (cases a) simp_all

lemma assessment_from_tag_tag: "assessment_from_tag (char_of (assessment_tag a)) = Inr a"
  by (cases a) (simp_all add: assessment_from_tag_def)

lemma assessment_tag_from_tag:
  assumes "assessment_from_tag c = Inr a"
  shows "c = char_of (assessment_tag a)"
proof -
  have "of_char c = assessment_tag a"
    using assms by (auto simp: assessment_from_tag_def split: if_splits)
  then have "char_of (of_char c :: nat) = (char_of (assessment_tag a) :: char)" by simp
  then show ?thesis by simp
qed

interpretation signal_codec: codec enc_signal rd_signal wire_signal
proof
  show "rd_signal (enc_signal s @ rest) = Inr (s, rest)" if "wire_signal s" for s rest
    using that byte_codec.get_enc [of "char_of (assessment_tag (sv_assessment s))" rest]
    by (simp add: rd_signal_def enc_signal_def wire_signal_def string_codec.get_enc
        u64_codec.get_enc assessment_from_tag_tag)
  show "bs = enc_signal s @ rest \<and> wire_signal s" if "rd_signal bs = Inr (s, rest)" for bs s rest
  proof -
    from that obtain nm r1 v r2 un r3 tag a where
      "rd_string ''signal.name'' bs = Inr (nm, r1)" "rd_u64 r1 = Inr (v, r2)"
      "rd_string ''signal.unit'' r2 = Inr (un, r3)" "rd_byte r3 = Inr (tag, rest)"
      "assessment_from_tag tag = Inr a"
      "s = \<lparr>sv_name = nm, sv_value = v, sv_unit = un, sv_assessment = a\<rparr>"
      by (auto simp: rd_signal_def rbind_eq_Inr)
    then show ?thesis
      by (auto simp: enc_signal_def wire_signal_def
          dest!: string_codec.enc_get u64_codec.enc_get byte_codec.enc_get assessment_tag_from_tag)
  qed
qed

interpretation signals_codec: codec "enc_list enc_signal" rd_signals "counted_ok MAX_SIGNALS wire_signal"
proof
  show "rd_signals (enc_list enc_signal xs @ rest) = Inr (xs, rest)"
    if "counted_ok MAX_SIGNALS wire_signal xs" for xs rest
    unfolding rd_signals_counted
    by (rule signal_codec.counted_get_enc [OF that]) (simp add: MAX_SIGNALS_def)
  show "bs = enc_list enc_signal xs @ rest \<and> counted_ok MAX_SIGNALS wire_signal xs"
    if "rd_signals bs = Inr (xs, rest)" for bs xs rest
    using that unfolding rd_signals_counted by (rule signal_codec.counted_enc_get)
qed

lemma of_char_eq_char_of: "of_char c = n \<Longrightarrow> c = char_of n" for n :: nat
  by (metis char_of_char)

interpretation auth_codec: codec enc_authentication rd_authentication wire_authentication
proof
  show "rd_authentication (enc_authentication a @ rest) = Inr (a, rest)"
    if "wire_authentication a" for a rest
    using that byte_codec.get_enc
    by (cases a) (simp_all add: rd_authentication_def string_codec.get_enc)
  show "bs = enc_authentication a @ rest \<and> wire_authentication a"
    if "rd_authentication bs = Inr (a, rest)" for bs a rest
  proof -
    from that obtain k r where k: "rd_byte bs = Inr (k, r)"
      and k01: "of_char k = (0 :: nat) \<or> of_char k = (1 :: nat)"
      by (auto simp: rd_authentication_def rbind_eq_Inr split: if_splits)
    have bs: "bs = [k] @ r" using byte_codec.enc_get [OF k] by simp
    from k01 show ?thesis
    proof
      assume z: "of_char k = (0 :: nat)"
      with that k show ?thesis
        using bs of_char_eq_char_of [OF z]
        by (auto simp: rd_authentication_def rbind_eq_Inr dest!: string_codec.enc_get)
    next
      assume o: "of_char k = (1 :: nat)"
      with that k show ?thesis
        using bs of_char_eq_char_of [OF o]
        by (auto simp: rd_authentication_def rbind_eq_Inr dest!: string_codec.enc_get)
    qed
  qed
qed

section \<open>Whole frames\<close>

text \<open>The layout \<open>encode_wire\<close> produces and the frames the layout can carry.\<close>

definition frame_bytes :: "pulse_frame \<Rightarrow> bytes" where
  "frame_bytes f =
     WIRE_MAGIC @ u16_be (pf_schema_version f) @ enc_string (pf_subject f)
     @ enc_string (pf_subject_incarnation f) @ enc_string (pf_observer f)
     @ enc_string (pf_observer_incarnation f) @ u64_be (pf_sequence f)
     @ u64_be (pf_observer_monotonic_ns f) @ u64_be (pf_validity_ms f)
     @ enc_string (op_name (pf_profile f)) @ u16_be (op_version (pf_profile f))
     @ enc_string (op_semantic_digest (pf_profile f))
     @ enc_string (pf_observation_policy_generation f)
     @ enc_list enc_string (cd_expected (pf_coverage f))
     @ enc_list enc_string (cd_observed (pf_coverage f))
     @ enc_list enc_signal (pf_signals f) @ enc_string (pf_observation_digest f)
     @ enc_authentication (pf_authentication f)"

definition wire_frame :: "pulse_frame \<Rightarrow> bool" where
  "wire_frame f =
     (wire_string (pf_subject f) \<and> wire_string (pf_subject_incarnation f)
      \<and> wire_string (pf_observer f) \<and> wire_string (pf_observer_incarnation f)
      \<and> wire_string (op_name (pf_profile f)) \<and> wire_string (op_semantic_digest (pf_profile f))
      \<and> wire_string (pf_observation_policy_generation f)
      \<and> counted_ok MAX_COVERAGE_TAGS wire_string (cd_expected (pf_coverage f))
      \<and> counted_ok MAX_COVERAGE_TAGS wire_string (cd_observed (pf_coverage f))
      \<and> counted_ok MAX_SIGNALS wire_signal (pf_signals f)
      \<and> wire_string (pf_observation_digest f) \<and> wire_authentication (pf_authentication f))"

text \<open>The invariant of Rust's \<open>String\<close> on the texts of a frame.\<close>

definition frame_utf8 :: "pulse_frame \<Rightarrow> bool" where
  "frame_utf8 f =
     (utf8_valid (pf_subject f) \<and> utf8_valid (pf_subject_incarnation f)
      \<and> utf8_valid (pf_observer f) \<and> utf8_valid (pf_observer_incarnation f)
      \<and> utf8_valid (op_name (pf_profile f)) \<and> utf8_valid (op_semantic_digest (pf_profile f))
      \<and> utf8_valid (pf_observation_policy_generation f)
      \<and> list_all utf8_valid (cd_expected (pf_coverage f))
      \<and> list_all utf8_valid (cd_observed (pf_coverage f))
      \<and> list_all (\<lambda>s. utf8_valid (sv_name s) \<and> utf8_valid (sv_unit s)) (pf_signals f)
      \<and> utf8_valid (pf_observation_digest f)
      \<and> (case pf_authentication f of Placeholder d \<Rightarrow> utf8_valid d
         | Mac s k t \<Rightarrow> utf8_valid s \<and> utf8_valid k \<and> utf8_valid t))"

lemma sample_pulse_utf8: "frame_utf8 (sample_pulse sq)"
proof -
  have "list_all utf8_valid [''host-a'', ''boot-1'', ''probe-1'', ''run-1'', ''gen-1'', ''host-v1'',
      ''cpu'', ''disk'', ''load'', ''ratio'', ''none'']"
    by code_simp
  then show ?thesis
    by (simp add: frame_utf8_def sample_pulse_def seal_def sample_profile_def sample_digest_def
        sample_coverage_def sample_signal_def recompute_observation_digest_def digest_parts_utf8
        del: utf8_valid.simps)
qed

lemma good_field_length: "good_field v \<Longrightarrow> length v \<le> MAX_FIELD_BYTES"
  by (simp add: good_field_def)

lemma good_identity_length: "good_identity v \<Longrightarrow> length v \<le> MAX_FIELD_BYTES"
  by (rule good_field_length) (rule good_identity_field)

lemma digest_length: "digest_validate d = Inr () \<Longrightarrow> length d \<le> MAX_FIELD_BYTES"
  by (simp add: digest_validate_length MAX_FIELD_BYTES_def)

lemmas frame_lengths = good_field_length good_identity_length digest_length

lemma put_string_ok: "length v \<le> MAX_FIELD_BYTES \<Longrightarrow> put_string out v = Inr (out @ enc_string v)"
  by (simp add: put_string_def enc_string_def put_u16_def MAX_FIELD_BYTES_def)

lemma put_each_ok:
  assumes "\<And>x out. x \<in> set xs \<Longrightarrow> put out x = Inr (out @ enc x)"
  shows "put_each put out xs = Inr (out @ concat (map enc xs))"
  using assms by (induction xs arbitrary: out) simp_all

lemma put_strings_ok:
  assumes "length vs \<le> MAX_COVERAGE_TAGS" and "list_all good_field vs"
  shows "put_strings out vs = Inr (out @ enc_list enc_string vs)"
proof -
  have "put_each put_string o' vs = Inr (o' @ concat (map enc_string vs))" for o'
    using assms(2) by (intro put_each_ok put_string_ok) (simp add: list_all_iff good_field_length)
  then show ?thesis
    using assms(1) by (simp add: put_strings_def put_u16_def enc_list_def MAX_COVERAGE_TAGS_def)
qed

lemma put_signals_ok:
  assumes "signals_ok sigs"
  shows "put_each put_signal out sigs = Inr (out @ concat (map enc_signal sigs))"
proof (rule put_each_ok)
  fix s o' assume "s \<in> set sigs"
  then have "good_field (sv_name s)" and "good_field (sv_unit s)"
    using assms by (auto simp: signals_ok_def list_all_iff)
  then show "put_signal o' s = Inr (o' @ enc_signal s)"
    by (simp add: put_signal_def enc_signal_def put_string_ok good_field_length put_u64_def)
qed

lemma put_authentication_ok:
  "authentication_field_ok a \<Longrightarrow> put_authentication out a = Inr (out @ enc_authentication a)"
  by (cases a) (simp_all add: authentication_field_ok_def put_string_ok good_field_length)

lemma signals_count_ok: "signals_ok sigs \<Longrightarrow> fail_if (2 ^ 16 \<le> length sigs) e = Inr ()"
  by (simp add: signals_ok_def MAX_SIGNALS_def fail_if_def)

lemma encode_wire_layout:
  assumes "frame_validate sha f = Inr ()"
  shows "encode_wire sha f =
    (if MAX_WIRE_FRAME_BYTES < length (frame_bytes f) then Inl (pe_bound ''wire frame'')
     else Inr (frame_bytes f))"
proof -
  have ok: "frame_shape_ok f" using assms by (simp add: frame_validate_ok)
  then have count: "fail_if (2 ^ 16 \<le> length (pf_signals f)) e = Inr ()" for e :: pulse_error
    by (simp only: frame_shape_ok_def signals_count_ok)
  show ?thesis
    unfolding encode_wire_def assms count rbind_simps
    using ok
    by (simp add: frame_shape_ok_def coverage_ok_def profile_ok_def put_string_ok put_strings_ok
        frame_lengths put_signals_ok put_authentication_ok put_u16_def put_u64_def
        frame_bytes_def enc_list_def del: length_append)
qed

subsection \<open>The frame bound is never reached by a valid frame\<close>

lemma length_concat_le:
  assumes "\<And>x. x \<in> set xs \<Longrightarrow> length (enc x) \<le> b"
  shows "length (concat (map enc xs)) \<le> length xs * b"
  using assms by (induction xs) fastforce+

lemma length_enc_string: "length (enc_string v) = 2 + length v"
  by (simp add: enc_string_def)

lemma length_enc_strings:
  assumes "length vs \<le> 64" and "list_all good_field vs"
  shows "length (enc_list enc_string vs) \<le> 16514"
proof -
  have "length (concat (map enc_string vs)) \<le> length vs * 258"
    using assms(2)
    by (intro length_concat_le) (auto simp: length_enc_string list_all_iff good_field_def MAX_FIELD_BYTES_def)
  then show ?thesis using assms(1) by (simp add: enc_list_def)
qed

lemma length_enc_signals:
  assumes "signals_ok sigs"
  shows "length (enc_list enc_signal sigs) \<le> 16802"
proof -
  have "length (concat (map enc_signal sigs)) \<le> length sigs * 525"
    using assms
    by (intro length_concat_le)
       (fastforce simp: enc_signal_def length_enc_string signals_ok_def list_all_iff good_field_def MAX_FIELD_BYTES_def)
  then show ?thesis using assms by (simp add: enc_list_def signals_ok_def MAX_SIGNALS_def)
qed

lemma length_enc_authentication:
  "authentication_field_ok a \<Longrightarrow> length (enc_authentication a) \<le> 775"
  by (cases a) (auto simp: authentication_field_ok_def length_enc_string good_field_def MAX_FIELD_BYTES_def)

lemma frame_bytes_bound:
  assumes "frame_shape_ok f"
  shows "length (frame_bytes f) \<le> 51851"
proof -
  have ids: "length (pf_subject f) \<le> 160" "length (pf_subject_incarnation f) \<le> 160"
    "length (pf_observer f) \<le> 160" "length (pf_observer_incarnation f) \<le> 160"
    "length (pf_observation_policy_generation f) \<le> 160"
    using assms by (simp_all add: frame_shape_ok_def good_identity_def MAX_IDENTITY_BYTES_def)
  have prof: "length (op_name (pf_profile f)) \<le> 256"
    using assms by (simp add: frame_shape_ok_def profile_ok_def good_field_def MAX_FIELD_BYTES_def)
  have dig: "length (op_semantic_digest (pf_profile f)) = 71" "length (pf_observation_digest f) = 71"
    using assms by (simp_all add: frame_shape_ok_def profile_ok_def digest_validate_length)
  have cov: "length (enc_list enc_string (cd_expected (pf_coverage f))) \<le> 16514"
    "length (enc_list enc_string (cd_observed (pf_coverage f))) \<le> 16514"
    using assms
    by (simp_all add: frame_shape_ok_def coverage_ok_def length_enc_strings MAX_COVERAGE_TAGS_def)
  have sig: "length (enc_list enc_signal (pf_signals f)) \<le> 16802"
    and auth: "length (enc_authentication (pf_authentication f)) \<le> 775"
    using assms by (simp_all add: frame_shape_ok_def length_enc_signals length_enc_authentication)
  show ?thesis
    using ids prof dig cov sig auth
    by (simp add: frame_bytes_def length_enc_string WIRE_MAGIC_def)
qed

subsection \<open>Reading a frame back\<close>

lemma take_magic: "rd_take 4 (WIRE_MAGIC @ r) = Inr (WIRE_MAGIC, r)"
  by (simp add: WIRE_MAGIC_def rd_take_def)

lemmas field_readers =
  take_magic u16_codec.get_enc u64_codec.get_enc string_codec.get_enc strings_codec.get_enc
  signals_codec.get_enc auth_codec.get_enc_end

lemmas field_binds =
  u16_codec.bind_get u64_codec.bind_get string_codec.bind_get strings_codec.bind_get
  signals_codec.bind_get auth_codec.bind_get

lemma decode_frame_bytes:
  assumes "wire_frame f" and "length (frame_bytes f) \<le> MAX_WIRE_FRAME_BYTES"
  shows "decode_wire sha (frame_bytes f) = rbind (frame_validate sha f) (\<lambda>_. Inr f)"
proof -
  have "fail_if (MAX_WIRE_FRAME_BYTES < length (frame_bytes f)) (pe_bound ''wire frame'') = Inr ()"
    using assms(2) by (simp add: fail_if_def)
  moreover obtain ex ob where "pf_coverage f = \<lparr>cd_expected = ex, cd_observed = ob\<rparr>"
    by (cases "pf_coverage f")
  ultimately show ?thesis
    unfolding decode_wire_def
    using assms(1)
    by (cases f) (simp add: frame_bytes_def wire_frame_def field_readers fail_if_def Let_def)
qed

lemma decode_wire_Inr:
  assumes "decode_wire sha bs = Inr f"
  shows "bs = frame_bytes f" and "wire_frame f" and "frame_validate sha f = Inr ()"
    and "length bs \<le> MAX_WIRE_FRAME_BYTES"
proof -
  show "length bs \<le> MAX_WIRE_FRAME_BYTES"
    using assms by (simp add: decode_wire_def rbind_unit_eq_Inr fail_if_eq_Inr)
  have magic: "rbind (rd_take 4 bs) (case_prod k) = Inr y \<longleftrightarrow>
      (\<exists>m r. bs = m @ r \<and> length m = 4 \<and> k m r = Inr y)" for bs k and y :: pulse_frame
    by (auto simp: rbind_eq_Inr dest!: rd_take_Inr)
  have "bs = frame_bytes f \<and> wire_frame f \<and> frame_validate sha f = Inr ()"
    using assms unfolding decode_wire_def
    by (simp only: rbind_unit_eq_Inr fail_if_eq_Inr magic field_binds Let_def not_not)
       (auto simp: frame_bytes_def wire_frame_def)
  then show "bs = frame_bytes f" and "wire_frame f" and "frame_validate sha f = Inr ()"
    by simp_all
qed

lemma wire_frame_ok:
  assumes "frame_shape_ok f"
  shows "wire_frame f \<longleftrightarrow> frame_utf8 f"
proof -
  have sig: "counted_ok MAX_SIGNALS wire_signal sigs \<longleftrightarrow>
      list_all (\<lambda>s. utf8_valid (sv_name s) \<and> utf8_valid (sv_unit s)) sigs" if "signals_ok sigs" for sigs
    using that by (auto simp: counted_ok_def signals_ok_def wire_signal_def wire_string_def
        list_all_iff good_field_length)
  have tags: "counted_ok MAX_COVERAGE_TAGS wire_string vs \<longleftrightarrow> list_all utf8_valid vs"
    if "length vs \<le> MAX_COVERAGE_TAGS" "list_all good_field vs" for vs
    using that by (auto simp: counted_ok_def wire_string_def list_all_iff good_field_length)
  have auth: "wire_authentication a \<longleftrightarrow> (case a of Placeholder d \<Rightarrow> utf8_valid d
      | Mac s k t \<Rightarrow> utf8_valid s \<and> utf8_valid k \<and> utf8_valid t)" if "authentication_field_ok a" for a
    using that by (cases a) (simp_all add: authentication_field_ok_def wire_string_def good_field_length)
  show ?thesis
    using assms
    by (simp add: frame_shape_ok_def coverage_ok_def profile_ok_def wire_frame_def frame_utf8_def
        sig tags auth wire_string_def frame_lengths)
qed

text \<open>
  C18: every frame the source's \<open>validate\<close> accepts has an encoding, which is at most 51,851 bytes
  long and so never meets the 65,536-byte limit, and \<open>decode_wire\<close> reads the same frame back from
  it.
\<close>

theorem decode_encode_wire:
  assumes "frame_utf8 f" and "frame_validate sha f = Inr ()"
  shows "\<exists>bs. encode_wire sha f = Inr bs \<and> length bs \<le> 51851 \<and> decode_wire sha bs = Inr f"
proof (intro exI conjI)
  have ok: "frame_shape_ok f" using assms(2) by (simp add: frame_validate_ok)
  show bound: "length (frame_bytes f) \<le> 51851" by (rule frame_bytes_bound [OF ok])
  then have max: "length (frame_bytes f) \<le> MAX_WIRE_FRAME_BYTES"
    by (simp add: MAX_WIRE_FRAME_BYTES_def)
  then show "encode_wire sha f = Inr (frame_bytes f)"
    by (simp add: encode_wire_layout [OF assms(2)])
  show "decode_wire sha (frame_bytes f) = Inr f"
    using decode_frame_bytes [OF _ max] wire_frame_ok [OF ok] assms by simp
qed

theorem decode_encode_wire_witness:
  "frame_utf8 (sample_pulse 7) \<and> frame_validate sample_sha (sample_pulse 7) = Inr ()
   \<and> (\<exists>bs. encode_wire sample_sha (sample_pulse 7) = Inr bs \<and> length bs \<le> 51851
      \<and> decode_wire sample_sha bs = Inr (sample_pulse 7))"
  using decode_encode_wire [OF sample_pulse_utf8 sample_pulse_valid] sample_pulse_utf8 sample_pulse_valid
  by simp

text \<open>
  C19: the wire format is canonical. Bytes that \<open>decode_wire\<close> accepts are exactly the encoding of
  the frame it returns, so no two byte strings decode to one frame, and the frame is valid.
\<close>

theorem encode_decode_wire:
  assumes "decode_wire sha bs = Inr f"
  shows "encode_wire sha f = Inr bs \<and> frame_utf8 f \<and> frame_validate sha f = Inr ()"
proof -
  note r = decode_wire_Inr [OF assms]
  have "encode_wire sha f = Inr bs"
    using r(4) unfolding encode_wire_layout [OF r(3)] r(1) by simp
  moreover have "frame_utf8 f"
    using r(2,3) by (simp add: frame_validate_ok wire_frame_ok)
  ultimately show ?thesis using r(3) by simp
qed

theorem encode_decode_wire_witness:
  "decode_wire sample_sha (frame_bytes (sample_pulse 7)) = Inr (sample_pulse 7)
   \<and> encode_wire sample_sha (sample_pulse 7) = Inr (frame_bytes (sample_pulse 7))"
proof -
  have ok: "frame_shape_ok (sample_pulse 7)" using sample_pulse_valid by (simp add: frame_validate_ok)
  have "length (frame_bytes (sample_pulse 7)) \<le> MAX_WIRE_FRAME_BYTES"
    using frame_bytes_bound [OF ok] by (simp add: MAX_WIRE_FRAME_BYTES_def)
  then have d: "decode_wire sample_sha (frame_bytes (sample_pulse 7)) = Inr (sample_pulse 7)"
    using decode_frame_bytes [of "sample_pulse 7" sample_sha] wire_frame_ok [OF ok]
    by (simp add: sample_pulse_utf8 sample_pulse_valid)
  then show ?thesis using encode_decode_wire [OF d] by simp
qed

end
