(* ===== verification/Transcripts.thy ===== *)
theory Transcripts
  imports Pulse
begin

text \<open>
  What the observation digest of \<open>crates/pulse-types/src/pulse.rs\<close> binds. The transcript lists
  coverage as pairs of a marker and a tag and signals as blocks of four, without counts, so that
  the list of parts determines the frame only because of what \<open>validate\<close> checks: no tag holds a
  control character, and the last part of a signal is one.
\<close>

section \<open>Reading the parts back\<close>

definition block_tail :: "bytes list \<Rightarrow> bool" where
  "block_tail R = (case R of a # b # r \<Rightarrow> good_field b \<or> length b = 8 | _ \<Rightarrow> True)"

definition no_tag_pair :: "string \<Rightarrow> bytes list \<Rightarrow> bool" where
  "no_tag_pair m R =
     (case R of a # b # u # c # r \<Rightarrow> a \<noteq> m \<or> \<not> (good_field c \<or> length c = 8) | a # _ \<Rightarrow> a \<noteq> m | [] \<Rightarrow> True)"

lemma coverage_parts_simps [simp]:
  "coverage_parts m [] = []"
  "coverage_parts m (t # ts) = m # t # coverage_parts m ts"
  by (simp_all add: coverage_parts_def)

lemma block_tail_coverage:
  "list_all good_field T \<Longrightarrow> block_tail R \<Longrightarrow> block_tail (coverage_parts m T @ R)"
  by (cases T) (simp_all add: block_tail_def)

lemma no_tag_pair_clash:
  assumes "no_tag_pair m (m # t # R)" and "block_tail R"
  shows False
  using assms by (auto simp: no_tag_pair_def block_tail_def split: list.splits)

lemma coverage_parts_inject:
  assumes "coverage_parts m T @ R = coverage_parts m T' @ R'"
    and "list_all good_field T" and "list_all good_field T'"
    and "no_tag_pair m R" and "no_tag_pair m R'" and "block_tail R" and "block_tail R'"
  shows "T = T' \<and> R = R'"
  using assms
proof (induction T arbitrary: T')
  case Nil
  then show ?case
    using no_tag_pair_clash [OF _ block_tail_coverage] by (cases T') auto
next
  case (Cons t T)
  then show ?case
    using no_tag_pair_clash [OF _ block_tail_coverage] by (cases T') auto
qed

lemma good_field_not_tag: "\<not> good_field [char_of (assessment_tag a)]"
  by (cases a) (simp_all add: good_field_def in_range_def)

lemma signals_block_tail: "block_tail (concat (map signal_parts sigs))"
  by (cases sigs) (simp_all add: block_tail_def signal_parts_def)

lemma signals_no_tag_pair: "no_tag_pair m (concat (map signal_parts sigs))"
  by (cases sigs) (simp_all add: no_tag_pair_def signal_parts_def good_field_not_tag)

lemma observed_no_tag_pair:
  "m \<noteq> m' \<Longrightarrow> no_tag_pair m (coverage_parts m' T @ concat (map signal_parts sigs))"
proof (cases T)
  case Nil
  then show ?thesis by (simp add: signals_no_tag_pair)
qed (auto simp: no_tag_pair_def split: list.splits)

lemma assessment_tag_inject: "assessment_tag a mod 256 = assessment_tag b mod 256 \<longleftrightarrow> a = b"
  by (cases a; cases b) simp_all

lemma signal_parts_inject:
  "concat (map signal_parts ss) = concat (map signal_parts ts) \<Longrightarrow> ss = ts"
proof (induction ss arbitrary: ts)
  case Nil
  then show ?case by (cases ts) (simp_all add: signal_parts_def)
next
  case (Cons s ss)
  then show ?case
    by (cases ts) (auto simp: signal_parts_def assessment_tag_inject intro: bounded_signal_value.equality)
qed

definition same_observation :: "pulse_frame \<Rightarrow> pulse_frame \<Rightarrow> bool" where
  "same_observation f g =
     (f = g\<lparr>pf_observation_digest := pf_observation_digest f, pf_authentication := pf_authentication f\<rparr>)"

lemma observation_parts_inject:
  assumes "observation_parts f = observation_parts g" and "frame_shape_ok f" and "frame_shape_ok g"
  shows "same_observation f g"
proof -
  define E O' S E2 O2 S2 where
    d: "E = cd_expected (pf_coverage f)" "O' = cd_observed (pf_coverage f)" "S = pf_signals f"
       "E2 = cd_expected (pf_coverage g)" "O2 = cd_observed (pf_coverage g)" "S2 = pf_signals g"
  have ok: "list_all good_field E" "list_all good_field O'" "list_all good_field E2" "list_all good_field O2"
    using assms(2,3) by (simp_all add: d frame_shape_ok_def coverage_ok_def)
  have "coverage_parts ''expected'' E @ coverage_parts ''observed'' O' @ concat (map signal_parts S)
      = coverage_parts ''expected'' E2 @ coverage_parts ''observed'' O2 @ concat (map signal_parts S2)"
    using assms(1) by (simp add: observation_parts_def d)
  from coverage_parts_inject [OF this] have E: "E = E2"
    and "coverage_parts ''observed'' O' @ concat (map signal_parts S)
      = coverage_parts ''observed'' O2 @ concat (map signal_parts S2)"
    by (simp_all add: ok observed_no_tag_pair block_tail_coverage signals_block_tail)
  from coverage_parts_inject [OF this(2)] have O: "O' = O2"
    and "concat (map signal_parts S) = concat (map signal_parts S2)"
    by (simp_all add: ok signals_no_tag_pair signals_block_tail)
  then have S: "S = S2" by (simp add: signal_parts_inject)
  have "pf_coverage f = pf_coverage g" using E O by (simp add: d)
  moreover have "pf_profile f = pf_profile g"
    using assms(1) by (cases "pf_profile f"; cases "pf_profile g") (simp add: observation_parts_def)
  ultimately show ?thesis
    using assms(1) S unfolding same_observation_def
    by (intro pulse_frame.equality) (simp_all add: observation_parts_def d)
qed

section \<open>Equal digests, equal observations\<close>

text \<open>
  No SHA-256 collision between the observation transcripts of two frames: the property of the
  hash function that the code relies on.
\<close>

definition observation_transcript :: "pulse_frame \<Rightarrow> bytes" where
  "observation_transcript f = transcript ''pulse.observation.v1'' (observation_parts f)"

lemma word_fits [simp]: "fits_u64 (u16_be a)" "fits_u64 (u64_be b)" "fits_u64 [c]"
  by (simp_all add: fits_u64_def)

lemma domain_fits:
  "fits_u64 ''expected''" "fits_u64 ''observed''" "fits_u64 ''pulse.observation.v1''"
  by (simp_all add: fits_u64_def)

lemma field_fits: "good_field v \<Longrightarrow> fits_u64 v"
  by (simp add: good_field_def fits_u64_def MAX_FIELD_BYTES_def)

lemma coverage_parts_fit:
  "fits_u64 m \<Longrightarrow> list_all good_field T \<Longrightarrow> \<forall>p \<in> set (coverage_parts m T). fits_u64 p"
  by (induction T) (simp_all add: field_fits)

lemma signal_parts_fit:
  assumes "signals_ok sigs"
  shows "\<forall>p \<in> set (concat (map signal_parts sigs)). fits_u64 p"
proof -
  have "\<forall>p \<in> set (signal_parts s). fits_u64 p" if "s \<in> set sigs" for s
    using assms that by (simp add: signals_ok_def list_all_iff signal_parts_def field_fits)
  then show ?thesis by simp
qed

lemma digest_fits: "digest_validate d = Inr () \<Longrightarrow> fits_u64 d"
  by (auto simp: digest_validate_def strip_prefix_def fits_u64_def split: option.splits if_splits)

lemma observation_parts_fit:
  assumes "frame_shape_ok f"
  shows "\<forall>p \<in> set (observation_parts f). fits_u64 p"
proof -
  have "\<forall>p \<in> set (coverage_parts ''expected'' (cd_expected (pf_coverage f))). fits_u64 p"
    and "\<forall>p \<in> set (coverage_parts ''observed'' (cd_observed (pf_coverage f))). fits_u64 p"
    by (rule coverage_parts_fit, rule domain_fits,
        use assms in \<open>simp add: frame_shape_ok_def coverage_ok_def\<close>)+
  moreover have "\<forall>p \<in> set (concat (map signal_parts (pf_signals f))). fits_u64 p"
    using assms by (intro signal_parts_fit) (simp add: frame_shape_ok_def)
  ultimately show ?thesis
    using assms
    by (simp add: frame_shape_ok_def coverage_ok_def profile_ok_def observation_parts_def
        digest_fits field_fits good_identity_field ball_Un)
qed

text \<open>
  C20: an observation digest identifies the observation. Two valid frames with the same digest,
  whose transcripts SHA-256 does not map to the same value unless they are equal, agree in every
  field but the authentication field, although the transcript carries no counts for coverage and
  signals.
\<close>

theorem observation_digest_binds:
  assumes "frame_validate sha f = Inr ()" and "frame_validate sha g = Inr ()"
    and "pf_observation_digest f = pf_observation_digest g"
    and "inj_on sha {observation_transcript f, observation_transcript g}"
  shows "f = g\<lparr>pf_authentication := pf_authentication f\<rparr>"
proof -
  have ok: "frame_shape_ok f" "frame_shape_ok g" using assms(1,2) by (simp_all add: frame_validate_ok)
  have "recompute_observation_digest sha f = recompute_observation_digest sha g"
    using assms(1-3) by (simp add: frame_validate_ok)
  then have "sha (observation_transcript f) = sha (observation_transcript g)"
    by (simp only: recompute_observation_digest_def digest_parts_eq_iff observation_transcript_def)
  then have "observation_transcript f = observation_transcript g"
    by (rule inj_onD [OF assms(4)]) simp_all
  then have "observation_parts f = observation_parts g"
    using transcript_inject_iff [OF domain_fits(3) domain_fits(3) observation_parts_fit [OF ok(1)]
        observation_parts_fit [OF ok(2)]]
    by (simp only: observation_transcript_def)
  then have "same_observation f g" using ok by (rule observation_parts_inject)
  then have "f = g\<lparr>pf_observation_digest := pf_observation_digest g, pf_authentication := pf_authentication f\<rparr>"
    unfolding same_observation_def assms(3) .
  also have "\<dots> = g\<lparr>pf_authentication := pf_authentication f\<rparr>" by simp
  finally show ?thesis .
qed

theorem observation_digest_binds_witness:
  "let f = sample_pulse 7; g = f\<lparr>pf_authentication := Mac ''hmac'' ''k1'' ''00ff''\<rparr> in
     frame_validate sample_sha g = Inr () \<and> f \<noteq> g
     \<and> f = g\<lparr>pf_authentication := pf_authentication f\<rparr>"
proof -
  let ?f = "sample_pulse 7"
  let ?g = "?f\<lparr>pf_authentication := Mac ''hmac'' ''k1'' ''00ff''\<rparr>"
  have "list_all good_field [''hmac'', ''k1'', ''00ff'']" by code_simp
  then have g: "frame_validate sample_sha ?g = Inr ()"
    using sample_pulse_valid [of 7]
    by (simp add: frame_validate_ok frame_shape_ok_def recompute_observation_digest_def
        observation_parts_def authentication_field_ok_def sample_digest_parts)
  have "observation_transcript ?g = observation_transcript ?f"
    by (simp add: observation_transcript_def observation_parts_def)
  then have inj: "inj_on sample_sha {observation_transcript ?f, observation_transcript ?g}"
    by (simp only: insert_absorb2 inj_on_insert inj_on_empty) simp
  have "pf_observation_digest ?f = pf_observation_digest ?g" by simp
  note observation_digest_binds [OF sample_pulse_valid g this inj]
  moreover have "?f \<noteq> ?g" by (simp add: sample_pulse_def seal_def)
  ultimately show ?thesis unfolding Let_def using g by blast
qed

end
