(* ===== verification/Judgment.thy ===== *)
theory Judgment
  imports Identity
begin

text \<open>
  The judgment records of \<open>crates/pulse-types/src/judgment.rs\<close>: categories, the eight confidence
  dimensions, the present-state judgment with its explanation, transitions and contradiction
  records. Constructors of the dimension enums carry the dimension's name, since the source
  reuses names across enums.
\<close>

definition INCOMPLETE_COVERAGE_EXPLANATION :: string where
  "INCOMPLETE_COVERAGE_EXPLANATION = ''No violating observation is currently known, but coverage is incomplete and reliance is therefore UNKNOWN.''"

definition NO_MUTATION_NONCLAIM :: string where
  "NO_MUTATION_NONCLAIM = ''This judgment grants no authority to execute, repair, or mutate anything.''"

datatype judgment_category = Current | Degraded | Suspect | Unknown | Contradicted

fun category_str :: "judgment_category \<Rightarrow> string" where
  "category_str Current = ''CURRENT''"
| "category_str Degraded = ''DEGRADED''"
| "category_str Suspect = ''SUSPECT''"
| "category_str Unknown = ''UNKNOWN''"
| "category_str Contradicted = ''CONTRADICTED''"

definition supports_present_reliance :: "judgment_category \<Rightarrow> bool" where
  "supports_present_reliance c = (case c of Current \<Rightarrow> True | _ \<Rightarrow> False)"

datatype freshness_dimension =
  Freshness_Current | Freshness_Mixed | Freshness_Expired | Freshness_NoEvidence

datatype sequence_continuity_dimension =
  Continuity_FirstSeen | Continuity_Continuous | Continuity_Gapped | Continuity_Restarted
| Continuity_Unknown

datatype observer_availability_dimension =
  Observers_Available | Observers_Partial | Observers_Unavailable

datatype cross_observer_coherence_dimension =
  Coherence_Coherent | Coherence_Disagreement | Coherence_Insufficient

datatype coverage_dimension = Coverage_Complete | Coverage_Partial | Coverage_Absent

datatype provenance_dimension =
  Provenance_Verified | Provenance_Degraded | Provenance_Failed | Provenance_Unknown

datatype transport_dimension = Transport_Normal | Transport_Degraded | Transport_Blind

datatype subject_signal_consistency_dimension =
  Signals_Consistent | Signals_Violation | Signals_Contradictory | Signals_Unknown

record confidence_dimensions =
  dm_freshness :: freshness_dimension
  dm_sequence_continuity :: sequence_continuity_dimension
  dm_observer_availability :: observer_availability_dimension
  dm_cross_observer_coherence :: cross_observer_coherence_dimension
  dm_coverage :: coverage_dimension
  dm_provenance :: provenance_dimension
  dm_transport :: transport_dimension
  dm_subject_signal_consistency :: subject_signal_consistency_dimension

record coverage_count =
  cc_tag :: string
  cc_active_observers :: u32
  cc_expired_observers :: u32
  cc_required_observers :: u32

record coverage_summary =
  cs_required :: "string list"
  cs_active :: "string list"
  cs_missing :: "string list"
  cs_expired :: "string list"
  cs_active_observers :: u32
  cs_required_observers :: u32
  cs_per_tag :: "coverage_count list"

record judgment_reason =
  jr_code :: string
  jr_detail :: string
  jr_evidence_refs :: "string list"

record judgment_explanation =
  je_summary :: string
  je_reasons :: "judgment_reason list"
  je_claims :: "string list"
  je_nonclaims :: "string list"

datatype mutation_authority = NoAuthority

datatype escalation_state =
  NotRequested
| Requested string
| Accepted string
| Refused string string
| Narrowed string
| Deferred string
| Completed string diagnostic_receipt_id

record present_state_judgment =
  ju_schema_version :: u16
  ju_subject_scope :: subject_scope
  ju_consumer :: consumer_id
  ju_policy_generation :: policy_generation_id
  ju_coverage :: coverage_summary
  ju_evaluated_at_ms :: u64
  ju_support_expires_at_ms :: "u64 option"
  ju_receiver_clock_id :: string
  ju_evidence_window_id :: evidence_window_id
  ju_category :: judgment_category
  ju_dimensions :: confidence_dimensions
  ju_explanation :: judgment_explanation
  ju_escalation :: escalation_state
  ju_mutation_authority :: mutation_authority

definition judgment_supports_present_reliance :: "present_state_judgment \<Rightarrow> bool" where
  "judgment_supports_present_reliance j = supports_present_reliance (ju_category j)"

record judgment_transition =
  jt_schema_version :: u16
  jt_transition_id :: transition_id
  jt_subject_scope :: subject_scope
  jt_consumer :: consumer_id
  jt_policy_generation :: policy_generation_id
  jt_at_ms :: u64
  jt_from :: "judgment_category option"
  jt_to :: judgment_category
  jt_prior_evidence_window :: "evidence_window_id option"
  jt_evidence_window :: evidence_window_id
  jt_reason_codes :: "string list"

datatype contradiction_status =
  Active
| Resolved string u64 string string
| Superseded contradiction_id u64 string
| ExpiredUnderNamedRule u64 string
| InapplicableBySubjectReplacement incarnation_id incarnation_id u64 string

record contradiction_record =
  cr_schema_version :: u16
  cr_contradiction_id :: contradiction_id
  cr_subject_scope :: subject_scope
  cr_policy_generation :: policy_generation_id
  cr_signal :: string
  cr_first_observed_at_ms :: u64
  cr_evidence_refs :: "string list"
  cr_incompatible_statements :: "string list"
  cr_status :: contradiction_status

definition cr_is_active :: "contradiction_record \<Rightarrow> bool" where
  "cr_is_active c = (case cr_status c of Active \<Rightarrow> True | _ \<Rightarrow> False)"

record experimental_metrics =
  em_schema_version :: u16
  em_pulse_to_evaluation_latency_ms :: u64
  em_maximum_stale_positive_duration_ms :: u64
  em_failure_to_unknown_latency_ms :: "u64 option"
  em_failure_to_contradicted_latency_ms :: "u64 option"
  em_failure_to_escalation_latency_ms :: "u64 option"
  em_false_escalation_count :: u64
  em_active_coverage :: u32
  em_expired_coverage :: u32
  em_dropped_stale_pulse_count :: u64
  em_duplicate_count :: u64
  em_sequence_gap_count :: u64
  em_escalation_deduplication_count :: u64
  em_monitor_input_drop_count :: u64

definition metrics_empty :: experimental_metrics where
  "metrics_empty =
     \<lparr>em_schema_version = SCHEMA_VERSION_V1, em_pulse_to_evaluation_latency_ms = 0,
      em_maximum_stale_positive_duration_ms = 0, em_failure_to_unknown_latency_ms = None,
      em_failure_to_contradicted_latency_ms = None, em_failure_to_escalation_latency_ms = None,
      em_false_escalation_count = 0, em_active_coverage = 0, em_expired_coverage = 0,
      em_dropped_stale_pulse_count = 0, em_duplicate_count = 0, em_sequence_gap_count = 0,
      em_escalation_deduplication_count = 0, em_monitor_input_drop_count = 0\<rparr>"

record diagnostic_evidence_reference =
  er_receipt_id :: diagnostic_receipt_id
  er_result_digest :: digest
  er_recorded_at_ms :: u64
  er_applicable_until_ms :: u64
  er_nonclaims :: "string list"

lemma supports_present_reliance_iff [simp]: "supports_present_reliance c \<longleftrightarrow> c = Current"
  by (cases c) (simp_all add: supports_present_reliance_def)

lemma cr_is_active_iff [simp]: "cr_is_active c \<longleftrightarrow> cr_status c = Active"
  by (cases "cr_status c") (simp_all add: cr_is_active_def)

lemma category_str_inject [simp]: "category_str c = category_str d \<longleftrightarrow> c = d"
  by (cases c; cases d) simp_all

end
