(* ===== verification/Qualified.thy ===== *)
theory Qualified
  imports Judgment
begin

text \<open>
  The qualified-generation records of \<open>crates/pulse-types/src/qualification.rs\<close> the runtime carries:
  artifact roles and measurements, generation sets and bindings, lifecycle facts, the local acceptance
  and the activation receipt, with their validation. \<open>serde_json::to_vec\<close> is the parameter \<open>enc\<close> of
  what digests a body. The reliance context of \<open>runtime.rs\<close> comes first, since the generation set
  matches against it.
\<close>

type_synonym consumer_profile_generation_id = string
type_synonym evaluator_semantic_generation_id = string
type_synonym observer_set_generation_id = string
type_synonym context_activation_id = string
type_synonym support_certificate_id = string
type_synonym runtime_refusal_id = string

section \<open>The reliance context\<close>

record runtime_type_error =
  te_code :: string
  te_detail :: string

definition runtime_type_error_new :: "string \<Rightarrow> string \<Rightarrow> runtime_type_error" where
  "runtime_type_error_new code detail = \<lparr>te_code = code, te_detail = detail\<rparr>"

definition identity_type_error :: "string \<Rightarrow> runtime_type_error" where
  "identity_type_error field = runtime_type_error_new ''invalid_identity'' field"

record reliance_context =
  rc_schema_version :: u16
  rc_activation_id :: context_activation_id
  rc_reliance_policy_generation :: policy_generation_id
  rc_reliance_policy_semantic_digest :: digest
  rc_consumer_profile_generation :: consumer_profile_generation_id
  rc_evaluator_semantic_generation :: evaluator_semantic_generation_id
  rc_observer_set_generation :: observer_set_generation_id
  rc_observation_policy_generation :: observation_policy_generation_id

definition context_validate :: "reliance_context \<Rightarrow> runtime_type_error + unit" where
  "context_validate c =
     rbind (fail_if (rc_schema_version c \<noteq> SCHEMA_VERSION_V1)
       (runtime_type_error_new ''unsupported_schema'' ''reliance context schema is unsupported'')) (\<lambda>_.
     rbind (map_err (\<lambda>_. identity_type_error ''activation_id'')
       (validate_identity ''ContextActivationId'' (rc_activation_id c))) (\<lambda>_.
     rbind (map_err (\<lambda>_. identity_type_error ''reliance_policy_generation'')
       (validate_identity ''PolicyGenerationId'' (rc_reliance_policy_generation c))) (\<lambda>_.
     rbind (map_err (\<lambda>_. runtime_type_error_new ''invalid_digest'' ''invalid policy digest'')
       (digest_validate (rc_reliance_policy_semantic_digest c))) (\<lambda>_.
     rbind (map_err (\<lambda>_. identity_type_error ''consumer_profile_generation'')
       (validate_identity ''ConsumerProfileGenerationId'' (rc_consumer_profile_generation c))) (\<lambda>_.
     rbind (map_err (\<lambda>_. identity_type_error ''evaluator_semantic_generation'')
       (validate_identity ''EvaluatorSemanticGenerationId'' (rc_evaluator_semantic_generation c))) (\<lambda>_.
     rbind (map_err (\<lambda>_. identity_type_error ''observer_set_generation'')
       (validate_identity ''ObserverSetGenerationId'' (rc_observer_set_generation c))) (\<lambda>_.
     map_err (\<lambda>_. identity_type_error ''observation_policy_generation'')
       (validate_identity ''ObservationPolicyGenerationId'' (rc_observation_policy_generation c)))))))))"

definition context_parts :: "reliance_context \<Rightarrow> bytes list" where
  "context_parts c =
     [rc_activation_id c, rc_reliance_policy_generation c, rc_reliance_policy_semantic_digest c,
      rc_consumer_profile_generation c, rc_evaluator_semantic_generation c, rc_observer_set_generation c,
      rc_observation_policy_generation c]"

definition context_digest :: "hasher \<Rightarrow> reliance_context \<Rightarrow> digest" where
  "context_digest sha c = digest_parts sha ''reliance.context.v1'' (context_parts c)"

section \<open>Errors and texts\<close>

definition MAX_QUALIFICATION_PACKAGE_BYTES :: nat where
  "MAX_QUALIFICATION_PACKAGE_BYTES = 2 * 1024 * 1024"

definition MAX_QUALIFICATION_ARTIFACTS :: nat where
  "MAX_QUALIFICATION_ARTIFACTS = 16"

definition MAX_QUALIFICATION_STRING_BYTES :: nat where
  "MAX_QUALIFICATION_STRING_BYTES = 1024"

record qualification_error =
  qe_code :: string
  qe_detail :: string

definition qualification_error_new :: "string \<Rightarrow> string \<Rightarrow> qualification_error" where
  "qualification_error_new code detail = \<lparr>qe_code = code, qe_detail = detail\<rparr>"

text \<open>\<open>IdentityError\<close>'s \<open>Display\<close>.\<close>

definition identity_error_str :: "identity_error \<Rightarrow> string" where
  "identity_error_str err = ''invalid '' @ ie_field err @ '': '' @ ie_reason err"

definition qualified_identity :: "string \<Rightarrow> string \<Rightarrow> qualification_error + unit" where
  "qualified_identity field value =
     map_err (\<lambda>err. qualification_error_new ''invalid_identity'' (identity_error_str err))
       (validate_identity field value)"

definition qualified_digest :: "digest \<Rightarrow> qualification_error + unit" where
  "qualified_digest d = map_err (qualification_error_new ''invalid_digest'') (digest_validate d)"

definition qualified_schema :: "u16 \<Rightarrow> string \<Rightarrow> qualification_error + unit" where
  "qualified_schema version label =
     fail_if (version \<noteq> SCHEMA_VERSION_V1)
       (qualification_error_new ''unsupported_version'' (label @ '' schema version is unsupported''))"

definition qualified_text :: "string \<Rightarrow> string \<Rightarrow> qualification_error + unit" where
  "qualified_text field value =
     fail_if (value = [] \<or> MAX_QUALIFICATION_STRING_BYTES < length value \<or> has_control value)
       (qualification_error_new ''invalid_text''
          (field @ '' is empty, over its bound, or contains control characters''))"

text \<open>\<open>canonical_encode\<close>: serialization cannot fail on these types, the size bound can be exceeded.\<close>

definition canonical_encode :: "('a \<Rightarrow> bytes) \<Rightarrow> 'a \<Rightarrow> qualification_error + bytes" where
  "canonical_encode enc v =
     (if MAX_QUALIFICATION_PACKAGE_BYTES < length (enc v)
      then Inl (qualification_error_new ''bound_exceeded'' ''canonical object exceeds the package byte bound'')
      else Inr (enc v))"

definition body_digest :: "hasher \<Rightarrow> ('a \<Rightarrow> bytes) \<Rightarrow> string \<Rightarrow> 'a \<Rightarrow> qualification_error + digest" where
  "body_digest sha enc domain v = rbind (canonical_encode enc v) (\<lambda>bytes. Inr (digest_parts sha domain [bytes]))"

section \<open>Authority\<close>

datatype authority_grant = NoGrant

record authority_grants =
  ag_continuation :: authority_grant
  ag_diagnostic_execution :: authority_grant
  ag_deployment :: authority_grant
  ag_signing :: authority_grant
  ag_revocation :: authority_grant
  ag_mutation :: mutation_authority

definition authority_none :: authority_grants where
  "authority_none =
     \<lparr>ag_continuation = NoGrant, ag_diagnostic_execution = NoGrant, ag_deployment = NoGrant,
      ag_signing = NoGrant, ag_revocation = NoGrant, ag_mutation = NoAuthority\<rparr>"

definition grants_nothing :: "authority_grants \<Rightarrow> bool" where
  "grants_nothing g \<longleftrightarrow>
     ag_continuation g = NoGrant \<and> ag_diagnostic_execution g = NoGrant \<and> ag_deployment g = NoGrant
     \<and> ag_signing g = NoGrant \<and> ag_revocation g = NoGrant \<and> ag_mutation g = NoAuthority"

lemma grants_nothing [simp]: "grants_nothing g"
proof -
  have "x = NoGrant" for x by (cases x)
  moreover have "x = NoAuthority" for x by (cases x)
  ultimately show ?thesis by (simp add: grants_nothing_def)
qed

section \<open>Artifacts\<close>

datatype artifact_role =
  RunningExecutable | EvaluatorImplementation | ReliancePolicyRole | ConsumerProfile | ObserverSet
| ObservationPolicy | RuntimeConfiguration | SemanticContracts | QualificationCorpus | QualificationResults

text \<open>The derived \<open>Ord\<close> compares declaration positions.\<close>

fun role_rank :: "artifact_role \<Rightarrow> nat" where
  "role_rank RunningExecutable = 0"
| "role_rank EvaluatorImplementation = 1"
| "role_rank ReliancePolicyRole = 2"
| "role_rank ConsumerProfile = 3"
| "role_rank ObserverSet = 4"
| "role_rank ObservationPolicy = 5"
| "role_rank RuntimeConfiguration = 6"
| "role_rank SemanticContracts = 7"
| "role_rank QualificationCorpus = 8"
| "role_rank QualificationResults = 9"

datatype runtime_binding_state =
  Unbound | BindingPending | QualifiedAndMatched | MissingCertificate | UnsupportedCertificate
| ManifestMismatch | ExecutableMismatch | EvaluatorMismatch | PolicyMismatch | ProfileMismatch
| ObserverSetMismatch | ObservationPolicyMismatch | ConfigurationMismatch | ContractMismatch
| QualificationEvidenceMissing | BindingSuperseded | BindingRevoked | MutableAfterActivation
| MeasurementUnavailable | Ambiguous

definition permits_current :: "runtime_binding_state \<Rightarrow> bool" where
  "permits_current s \<longleftrightarrow> s = QualifiedAndMatched"

fun mismatch_state :: "artifact_role \<Rightarrow> runtime_binding_state" where
  "mismatch_state RunningExecutable = ExecutableMismatch"
| "mismatch_state EvaluatorImplementation = EvaluatorMismatch"
| "mismatch_state ReliancePolicyRole = PolicyMismatch"
| "mismatch_state ConsumerProfile = ProfileMismatch"
| "mismatch_state ObserverSet = ObserverSetMismatch"
| "mismatch_state ObservationPolicy = ObservationPolicyMismatch"
| "mismatch_state RuntimeConfiguration = ConfigurationMismatch"
| "mismatch_state SemanticContracts = ContractMismatch"
| "mismatch_state QualificationCorpus = QualificationEvidenceMissing"
| "mismatch_state QualificationResults = QualificationEvidenceMissing"

datatype measurement_provenance =
  ProcSelfExeOpenedHandle string u64 u64
| EmbeddedArtifact string
| OwnedCanonicalValue string

record artifact_measurement =
  am_role :: artifact_role
  am_content_digest :: digest
  am_byte_length :: u64
  am_provenance :: measurement_provenance
  am_caller_supplied :: bool

definition measurement_validate :: "artifact_measurement \<Rightarrow> qualification_error + unit" where
  "measurement_validate m =
     rbind (qualified_digest (am_content_digest m)) (\<lambda>_.
     rbind (fail_if (am_byte_length m = 0)
       (qualification_error_new ''invalid_measurement'' ''artifact measurement byte length must be nonzero'')) (\<lambda>_.
     case am_provenance m of
       ProcSelfExeOpenedHandle label _ _ \<Rightarrow>
         rbind (qualified_text ''measurement.link_label'' label) (\<lambda>_.
         fail_if (am_role m \<noteq> RunningExecutable)
           (qualification_error_new ''ambiguous_measurement''
             ''proc executable provenance is valid only for executable role''))
     | EmbeddedArtifact name \<Rightarrow> qualified_text ''measurement.embedded_name'' name
     | OwnedCanonicalValue type_name \<Rightarrow> qualified_text ''measurement.type_name'' type_name))"

definition validate_measurements :: "artifact_measurement list \<Rightarrow> bool \<Rightarrow> qualification_error + unit" where
  "validate_measurements ms executable_must_be_absent =
     rbind (fail_if (MAX_QUALIFICATION_ARTIFACTS < length ms
         \<or> windows_not_ascending (map (\<lambda>m. role_rank (am_role m)) ms))
       (qualification_error_new ''ambiguous_measurement''
         ''artifact measurements exceed their bound or are not role-sorted and unique'')) (\<lambda>_.
     rbind (fail_if (executable_must_be_absent \<and> list_ex (\<lambda>m. am_role m = RunningExecutable) ms)
       (qualification_error_new ''ambiguous_measurement''
         ''caller cannot supply the running executable measurement'')) (\<lambda>_.
     try_each measurement_validate ms))"

section \<open>Generations\<close>

record qualified_generation_set =
  gs_subject :: subject_id
  gs_consumer :: consumer_id
  gs_reliance_policy_generation :: policy_generation_id
  gs_reliance_policy_semantic_digest :: digest
  gs_consumer_profile_generation :: consumer_profile_generation_id
  gs_evaluator_semantic_generation :: evaluator_semantic_generation_id
  gs_observer_set_generation :: observer_set_generation_id
  gs_observation_policy_generation :: observation_policy_generation_id

definition generation_set_from_context :: "subject_id \<Rightarrow> consumer_id \<Rightarrow> reliance_context \<Rightarrow> qualified_generation_set" where
  "generation_set_from_context subject consumer c =
     \<lparr>gs_subject = subject, gs_consumer = consumer,
      gs_reliance_policy_generation = rc_reliance_policy_generation c,
      gs_reliance_policy_semantic_digest = rc_reliance_policy_semantic_digest c,
      gs_consumer_profile_generation = rc_consumer_profile_generation c,
      gs_evaluator_semantic_generation = rc_evaluator_semantic_generation c,
      gs_observer_set_generation = rc_observer_set_generation c,
      gs_observation_policy_generation = rc_observation_policy_generation c\<rparr>"

definition generation_set_validate :: "qualified_generation_set \<Rightarrow> qualification_error + unit" where
  "generation_set_validate g =
     rbind (qualified_identity ''SubjectId'' (gs_subject g)) (\<lambda>_.
     rbind (qualified_identity ''ConsumerId'' (gs_consumer g)) (\<lambda>_.
     rbind (qualified_identity ''PolicyGenerationId'' (gs_reliance_policy_generation g)) (\<lambda>_.
     rbind (qualified_digest (gs_reliance_policy_semantic_digest g)) (\<lambda>_.
     rbind (qualified_identity ''ConsumerProfileGenerationId'' (gs_consumer_profile_generation g)) (\<lambda>_.
     rbind (qualified_identity ''EvaluatorSemanticGenerationId'' (gs_evaluator_semantic_generation g)) (\<lambda>_.
     rbind (qualified_identity ''ObserverSetGenerationId'' (gs_observer_set_generation g)) (\<lambda>_.
     qualified_identity ''ObservationPolicyGenerationId'' (gs_observation_policy_generation g))))))))"

definition matches_context :: "qualified_generation_set \<Rightarrow> reliance_context \<Rightarrow> bool" where
  "matches_context g c \<longleftrightarrow>
     gs_reliance_policy_generation g = rc_reliance_policy_generation c
     \<and> gs_reliance_policy_semantic_digest g = rc_reliance_policy_semantic_digest c
     \<and> gs_consumer_profile_generation g = rc_consumer_profile_generation c
     \<and> gs_evaluator_semantic_generation g = rc_evaluator_semantic_generation c
     \<and> gs_observer_set_generation g = rc_observer_set_generation c
     \<and> gs_observation_policy_generation g = rc_observation_policy_generation c"

definition generation_set_digest :: "hasher \<Rightarrow> qualified_generation_set \<Rightarrow> digest" where
  "generation_set_digest sha g =
     digest_parts sha ''qualified.generation-set.v1''
       [gs_subject g, gs_consumer g, gs_reliance_policy_generation g, gs_reliance_policy_semantic_digest g,
        gs_consumer_profile_generation g, gs_evaluator_semantic_generation g, gs_observer_set_generation g,
        gs_observation_policy_generation g]"

record qualified_generation_binding =
  qb_schema_version :: u16
  qb_manifest_digest :: digest
  qb_qualification_certificate_digest :: digest
  qb_activation_receipt_digest :: digest
  qb_activation_occurrence_id :: incarnation_id
  qb_process_epoch_id :: incarnation_id
  qb_generation_set :: qualified_generation_set
  qb_authority_grants :: authority_grants

definition binding_validate :: "qualified_generation_binding \<Rightarrow> qualification_error + unit" where
  "binding_validate b =
     rbind (qualified_schema (qb_schema_version b) ''qualified generation binding'') (\<lambda>_.
     rbind (try_each qualified_digest
       [qb_manifest_digest b, qb_qualification_certificate_digest b, qb_activation_receipt_digest b]) (\<lambda>_.
     rbind (qualified_identity ''IncarnationId'' (qb_activation_occurrence_id b)) (\<lambda>_.
     rbind (qualified_identity ''IncarnationId'' (qb_process_epoch_id b)) (\<lambda>_.
     rbind (generation_set_validate (qb_generation_set b)) (\<lambda>_.
     fail_if (\<not> grants_nothing (qb_authority_grants b))
       (qualification_error_new ''authority_laundering'' ''qualified binding cannot grant authority''))))))"

definition binding_digest :: "hasher \<Rightarrow> qualified_generation_binding \<Rightarrow> digest" where
  "binding_digest sha b =
     digest_parts sha ''qualified.generation-binding.v1''
       [qb_manifest_digest b, qb_qualification_certificate_digest b, qb_activation_receipt_digest b,
        qb_activation_occurrence_id b, qb_process_epoch_id b, generation_set_digest sha (qb_generation_set b)]"

section \<open>Lifecycle facts and the local acceptance\<close>

datatype generation_lifecycle_kind = Superseded | Revoked

record generation_lifecycle_fact_body =
  lb_schema_version :: u16
  lb_authority_id :: string
  lb_fact_sequence :: u64
  lb_certificate_digest :: digest
  lb_kind :: generation_lifecycle_kind
  lb_successor_manifest_digest :: "digest option"
  lb_successor_certificate_digest :: "digest option"
  lb_reason :: string
  lb_authority_grants :: authority_grants

definition lifecycle_error :: "string \<Rightarrow> qualification_error" where
  "lifecycle_error detail = qualification_error_new ''invalid_lifecycle_fact'' detail"

definition lifecycle_body_validate :: "generation_lifecycle_fact_body \<Rightarrow> qualification_error + unit" where
  "lifecycle_body_validate b =
     rbind (qualified_schema (lb_schema_version b) ''generation lifecycle fact body'') (\<lambda>_.
     rbind (qualified_text ''lifecycle.authority_id'' (lb_authority_id b)) (\<lambda>_.
     rbind (fail_if (lb_fact_sequence b = 0) (lifecycle_error ''lifecycle fact sequence must be nonzero'')) (\<lambda>_.
     rbind (qualified_digest (lb_certificate_digest b)) (\<lambda>_.
     rbind (case lb_kind b of
         Superseded \<Rightarrow>
           (case (lb_successor_manifest_digest b, lb_successor_certificate_digest b) of
              (Some manifest, Some certificate) \<Rightarrow> try_each qualified_digest [manifest, certificate]
            | _ \<Rightarrow> Inl (lifecycle_error ''supersession requires exact successor manifest and certificate''))
       | Revoked \<Rightarrow>
           fail_if (lb_successor_manifest_digest b \<noteq> None \<or> lb_successor_certificate_digest b \<noteq> None)
             (lifecycle_error ''revocation cannot imply a successor activation'')) (\<lambda>_.
     rbind (qualified_text ''lifecycle.reason'' (lb_reason b)) (\<lambda>_.
     fail_if (\<not> grants_nothing (lb_authority_grants b))
       (qualification_error_new ''authority_laundering''
         ''lifecycle fact cannot grant revocation or any other authority'')))))))"

record generation_lifecycle_fact =
  lf_schema_version :: u16
  lf_fact_digest :: digest
  lf_body :: generation_lifecycle_fact_body

definition lifecycle_fact_validate ::
  "hasher \<Rightarrow> (generation_lifecycle_fact_body \<Rightarrow> bytes) \<Rightarrow> generation_lifecycle_fact \<Rightarrow> qualification_error + unit" where
  "lifecycle_fact_validate sha enc f =
     rbind (qualified_schema (lf_schema_version f) ''generation lifecycle fact'') (\<lambda>_.
     rbind (lifecycle_body_validate (lf_body f)) (\<lambda>_.
     rbind (body_digest sha enc ''qualified.lifecycle-fact.body.v1'' (lf_body f)) (\<lambda>d.
     fail_if (lf_fact_digest f \<noteq> d)
       (qualification_error_new ''lifecycle_fact_identity_mismatch''
         ''lifecycle fact digest does not identify its body''))))"

datatype local_certificate_status =
  CertificateAccepted u64
| CertificateUnknown
| CertificateSuperseded generation_lifecycle_fact
| CertificateRevoked generation_lifecycle_fact

record local_activation_acceptance =
  la_schema_version :: u16
  la_accepted_certificate_digest :: digest
  la_lifecycle_authority_id :: string
  la_certificate_status :: local_certificate_status
  la_pinned_superseded_activation_allowed :: bool
  la_authority_grants :: authority_grants


definition acceptance_authority :: "local_activation_acceptance \<Rightarrow> generation_lifecycle_fact \<Rightarrow> qualification_error + unit" where
  "acceptance_authority a f =
     fail_if (lb_authority_id (lf_body f) \<noteq> la_lifecycle_authority_id a
         \<or> lb_certificate_digest (lf_body f) \<noteq> la_accepted_certificate_digest a)
       (qualification_error_new ''lifecycle_authority_mismatch''
         ''lifecycle fact is not from the configured local authority for this certificate'')"

definition acceptance_validate ::
  "hasher \<Rightarrow> (generation_lifecycle_fact_body \<Rightarrow> bytes) \<Rightarrow> local_activation_acceptance \<Rightarrow> qualification_error + unit" where
  "acceptance_validate sha enc a =
     rbind (qualified_schema (la_schema_version a) ''local activation acceptance'') (\<lambda>_.
     rbind (qualified_digest (la_accepted_certificate_digest a)) (\<lambda>_.
     rbind (qualified_text ''acceptance.lifecycle_authority_id'' (la_lifecycle_authority_id a)) (\<lambda>_.
     rbind (fail_if (la_pinned_superseded_activation_allowed a)
       (qualification_error_new ''unsupported_acceptance_policy''
         ''v1 deliberately does not support pinned superseded activation'')) (\<lambda>_.
     rbind (case la_certificate_status a of
         CertificateAccepted _ \<Rightarrow> Inr ()
       | CertificateUnknown \<Rightarrow> Inr ()
       | CertificateSuperseded f \<Rightarrow>
           rbind (lifecycle_fact_validate sha enc f) (\<lambda>_.
           fail_if (lb_kind (lf_body f) \<noteq> Superseded)
             (lifecycle_error ''superseded status carries another lifecycle fact kind''))
       | CertificateRevoked f \<Rightarrow>
           rbind (lifecycle_fact_validate sha enc f) (\<lambda>_.
           fail_if (lb_kind (lf_body f) \<noteq> Revoked)
             (lifecycle_error ''revoked status carries another lifecycle fact kind''))) (\<lambda>_.
     rbind (case la_certificate_status a of
         CertificateSuperseded f \<Rightarrow> acceptance_authority a f
       | CertificateRevoked f \<Rightarrow> acceptance_authority a f
       | _ \<Rightarrow> Inr ()) (\<lambda>_.
     fail_if (\<not> grants_nothing (la_authority_grants a))
       (qualification_error_new ''authority_laundering'' ''local acceptance policy cannot emit authority'')))))))"

section \<open>Activation receipts\<close>

record binding_mismatch =
  bm_code :: string
  bm_role :: "artifact_role option"
  bm_expected :: "digest option"
  bm_observed :: "digest option"
  bm_detail :: string

record local_process_identity =
  lp_process_epoch_id :: incarnation_id
  lp_process_id :: u32
  lp_linux_boot_id_digest :: digest
  lp_process_start_ticks :: u64

definition process_identity_validate :: "local_process_identity \<Rightarrow> qualification_error + unit" where
  "process_identity_validate p =
     rbind (qualified_identity ''IncarnationId'' (lp_process_epoch_id p)) (\<lambda>_.
     rbind (fail_if (lp_process_id p = 0)
       (qualification_error_new ''measurement_unavailable'' ''process identity has process id zero'')) (\<lambda>_.
     qualified_digest (lp_linux_boot_id_digest p)))"

record activation_receipt_body =
  ab_schema_version :: u16
  ab_manifest_digest :: "digest option"
  ab_qualification_certificate_digest :: "digest option"
  ab_qualification_report_digest :: "digest option"
  ab_generation_set :: "qualified_generation_set option"
  ab_process :: "local_process_identity option"
  ab_activation_occurrence_id :: incarnation_id
  ab_activation_sequence :: u64
  ab_receiver_incarnation :: incarnation_id
  ab_receiver_clock_id :: clock_id
  ab_activated_at_ms :: u64
  ab_runtime_version :: string
  ab_target_platform :: string
  ab_measurements :: "artifact_measurement list"
  ab_state :: runtime_binding_state
  ab_mismatches :: "binding_mismatch list"
  ab_all_required_artifacts_measured :: bool
  ab_any_measurement_caller_supplied :: bool
  ab_mutable_after_activation :: bool
  ab_independent_attestation_claimed :: bool
  ab_authority_grants :: authority_grants

text \<open>\<open>[a, b, ..].into_iter().flatten()\<close> and \<open>validate()?\<close> on an \<open>Option\<close>.\<close>

definition present :: "'a option list \<Rightarrow> 'a list" where
  "present xs = concat (map (\<lambda>x. case x of None \<Rightarrow> [] | Some v \<Rightarrow> [v]) xs)"

definition mismatch_validate :: "binding_mismatch \<Rightarrow> qualification_error + unit" where
  "mismatch_validate m =
     rbind (qualified_text ''activation.mismatch.code'' (bm_code m)) (\<lambda>_.
     rbind (qualified_text ''activation.mismatch.detail'' (bm_detail m)) (\<lambda>_.
     try_each qualified_digest (present [bm_expected m, bm_observed m])))"

definition activation_body_validate :: "activation_receipt_body \<Rightarrow> qualification_error + unit" where
  "activation_body_validate b =
     rbind (qualified_schema (ab_schema_version b) ''activation receipt body'') (\<lambda>_.
     rbind (try_each qualified_digest (present [ab_manifest_digest b, ab_qualification_certificate_digest b,
       ab_qualification_report_digest b])) (\<lambda>_.
     rbind (try_each generation_set_validate (present [ab_generation_set b])) (\<lambda>_.
     rbind (try_each process_identity_validate (present [ab_process b])) (\<lambda>_.
     rbind (qualified_identity ''IncarnationId'' (ab_activation_occurrence_id b)) (\<lambda>_.
     rbind (fail_if (ab_activation_sequence b = 0)
       (qualification_error_new ''invalid_activation_receipt''
         ''activation occurrence sequence must be nonzero'')) (\<lambda>_.
     rbind (qualified_identity ''IncarnationId'' (ab_receiver_incarnation b)) (\<lambda>_.
     rbind (qualified_identity ''ClockId'' (ab_receiver_clock_id b)) (\<lambda>_.
     rbind (qualified_text ''activation.runtime_version'' (ab_runtime_version b)) (\<lambda>_.
     rbind (qualified_text ''activation.target_platform'' (ab_target_platform b)) (\<lambda>_.
     rbind (validate_measurements (ab_measurements b) False) (\<lambda>_.
     rbind (fail_if (MAX_QUALIFICATION_ARTIFACTS < length (ab_mismatches b))
       (qualification_error_new ''bound_exceeded'' ''activation mismatch collection exceeds its bound'')) (\<lambda>_.
     rbind (try_each mismatch_validate (ab_mismatches b)) (\<lambda>_.
     rbind (fail_if (ab_state b = QualifiedAndMatched
         \<and> (\<not> ab_all_required_artifacts_measured b \<or> ab_any_measurement_caller_supplied b
            \<or> ab_mutable_after_activation b \<or> ab_mismatches b \<noteq> [] \<or> ab_process b = None
            \<or> ab_manifest_digest b = None \<or> ab_qualification_certificate_digest b = None
            \<or> ab_qualification_report_digest b = None \<or> ab_generation_set b = None))
       (qualification_error_new ''invalid_matched_activation''
         ''matched activation receipt lacks an exact non-caller-supplied premise'')) (\<lambda>_.
     fail_if (ab_independent_attestation_claimed b \<or> \<not> grants_nothing (ab_authority_grants b))
       (qualification_error_new ''authority_laundering''
         ''local activation receipt cannot claim attestation or authority'')))))))))))))))"

record activation_receipt =
  ar_schema_version :: u16
  ar_receipt_digest :: digest
  ar_body :: activation_receipt_body

definition activation_receipt_validate ::
  "hasher \<Rightarrow> (activation_receipt_body \<Rightarrow> bytes) \<Rightarrow> activation_receipt \<Rightarrow> qualification_error + unit" where
  "activation_receipt_validate sha enc r =
     rbind (qualified_schema (ar_schema_version r) ''activation receipt'') (\<lambda>_.
     rbind (activation_body_validate (ar_body r)) (\<lambda>_.
     rbind (body_digest sha enc ''qualified.activation-receipt.body.v1'' (ar_body r)) (\<lambda>d.
     fail_if (ar_receipt_digest r \<noteq> d)
       (qualification_error_new ''activation_receipt_identity_mismatch''
         ''activation receipt digest does not identify its canonical body''))))"

end
