(* ===== verification/Admission.thy ===== *)
theory Admission
  imports Qualified
begin

text \<open>
  The custody records of \<open>crates/pulse-types/src/custody.rs\<close> that reach the runtime: the receiver's
  acceptance receipt for one remote observation and the custody reference a certificate carries, with
  their validation. \<open>serde_json::to_vec\<close> of the two is the parameter \<open>enc\<close>.
\<close>

definition MAX_CUSTODY_TEXT_BYTES :: nat where
  "MAX_CUSTODY_TEXT_BYTES = 256"

datatype custody_peer_role = Peer_Sender | Peer_Receiver

datatype remote_freshness_mode = ArrivalAnchored

datatype custody_check_result = Check_NotChecked | Check_Accepted | Check_Rejected

datatype replay_window_result =
  Window_NotChecked | Window_First | Window_Continuous | Window_Gap | Window_Duplicate | Window_Replay
| Window_Reordered | Window_BoundExceeded

datatype transport_custody_finding =
  TransportUnavailable | TransportOverloaded | TransportMalformed | AuthenticationFailed
| SenderKeyMismatch | ReceiverChallengeInvalid | SessionExpired | SessionUnknown | SessionConflict
| SenderOccurrenceConflict | SignatureInvalid | QualifiedIdentityMismatch | CertificateSupersededFinding
| CertificateRevokedFinding | ReplayDetected | DuplicateDetected | SequenceGapFinding | ObservationRejected
| PayloadMalformed | SubjectScopeMismatch | ObserverRoleMismatch | ReceiverBlind | EvidenceAdmitted

record custody_authority_grants =
  cg_continuation :: authority_grant
  cg_transport_administration :: authority_grant
  cg_diagnostic_execution :: authority_grant
  cg_deployment :: authority_grant
  cg_signing :: authority_grant
  cg_revocation :: authority_grant
  cg_mutation :: authority_grant

definition custody_grants_nothing :: "custody_authority_grants \<Rightarrow> bool" where
  "custody_grants_nothing g \<longleftrightarrow>
     cg_continuation g = NoGrant \<and> cg_transport_administration g = NoGrant
     \<and> cg_diagnostic_execution g = NoGrant \<and> cg_deployment g = NoGrant \<and> cg_signing g = NoGrant
     \<and> cg_revocation g = NoGrant \<and> cg_mutation g = NoGrant"

record custody_type_error =
  ye_code :: string
  ye_detail :: string

definition custody_error :: "string \<Rightarrow> string \<Rightarrow> custody_type_error" where
  "custody_error code detail = \<lparr>ye_code = code, ye_detail = detail\<rparr>"

definition custody_schema :: "u16 \<Rightarrow> custody_type_error + unit" where
  "custody_schema version =
     fail_if (version \<noteq> SCHEMA_VERSION_V1)
       (custody_error ''unsupported_schema'' ''custody schema version is unsupported'')"

definition validate_custody_digest :: "digest \<Rightarrow> custody_type_error + unit" where
  "validate_custody_digest d = map_err (custody_error ''invalid_digest'') (digest_validate d)"

definition custody_identity :: "string \<Rightarrow> string \<Rightarrow> custody_type_error + unit" where
  "custody_identity field value =
     map_err (\<lambda>err. custody_error ''invalid_identity'' (identity_error_str err)) (validate_identity field value)"

definition custody_text :: "string \<Rightarrow> string \<Rightarrow> custody_type_error + unit" where
  "custody_text field value =
     fail_if (value = [] \<or> MAX_CUSTODY_TEXT_BYTES < length value \<or> has_control value)
       (custody_error ''invalid_text'' (field @ '' is empty, oversized, or contains control characters''))"

record transport_custody_policy_binding =
  tb_schema_version :: u16
  tb_role :: custody_peer_role
  tb_policy_generation :: string
  tb_policy_digest :: digest

definition transport_binding_validate :: "transport_custody_policy_binding \<Rightarrow> custody_type_error + unit" where
  "transport_binding_validate b =
     rbind (custody_schema (tb_schema_version b)) (\<lambda>_.
     rbind (custody_text ''transport policy generation'' (tb_policy_generation b)) (\<lambda>_.
     validate_custody_digest (tb_policy_digest b)))"

section \<open>Acceptance receipts\<close>

record custody_sequence_gap =
  cq_expected_next :: u64
  cq_received :: u64
  cq_missing_count :: u64

definition custody_gap_validate :: "custody_sequence_gap \<Rightarrow> custody_type_error + unit" where
  "custody_gap_validate g =
     fail_if (cq_received g \<le> cq_expected_next g \<or> cq_missing_count g \<noteq> cq_received g - cq_expected_next g)
       (custody_error ''invalid_sequence_gap'' ''custody sequence gap arithmetic is inconsistent'')"

record receiver_acceptance_receipt =
  av_schema_version :: u16
  av_receipt_digest :: digest
  av_receiver_process_occurrence :: incarnation_id
  av_receiver_monotonic_epoch :: incarnation_id
  av_receiver_acceptance_policy_generation :: string
  av_receiver_acceptance_policy_digest :: digest
  av_session_binding_digest :: "digest option"
  av_envelope_digest :: "digest option"
  av_receiver_arrival_ms :: u64
  av_remote_network_endpoint :: string
  av_sender_key_verification :: custody_check_result
  av_receiver_challenge_verification :: custody_check_result
  av_session_binding_verification :: custody_check_result
  av_sender_qualification_package_acceptance :: custody_check_result
  av_exact_identity_match :: custody_check_result
  av_replay_window_result :: replay_window_result
  av_sequence_gap :: "custody_sequence_gap option"
  av_queue_and_capacity_result :: custody_check_result
  av_subject_scope_result :: custody_check_result
  av_observer_role_result :: custody_check_result
  av_payload_decoding_result :: custody_check_result
  av_finding :: transport_custody_finding
  av_accepted_evidence_identity :: "digest option"
  av_refusal_reason :: "string option"
  av_complete :: bool
  av_receipt_sequence :: u64
  av_journal_identity :: string
  av_mutation_authority :: mutation_authority
  av_authority_grants :: custody_authority_grants

definition artifact_content_digest :: "hasher \<Rightarrow> bytes \<Rightarrow> digest" where
  "artifact_content_digest sha bytes = digest_parts sha ''qualified.artifact-content.v1'' [bytes]"

definition acceptance_receipt_digest ::
  "hasher \<Rightarrow> (receiver_acceptance_receipt \<Rightarrow> bytes) \<Rightarrow> receiver_acceptance_receipt \<Rightarrow> digest" where
  "acceptance_receipt_digest sha enc r =
     digest_parts sha ''transport.receiver-acceptance-receipt.v1''
       [enc (r\<lparr>av_receipt_digest := artifact_content_digest sha ''receiver-acceptance-receipt-digest-field/v1''\<rparr>)]"

definition acceptance_receipt_seal ::
  "hasher \<Rightarrow> (receiver_acceptance_receipt \<Rightarrow> bytes) \<Rightarrow> receiver_acceptance_receipt \<Rightarrow> receiver_acceptance_receipt" where
  "acceptance_receipt_seal sha enc r = r\<lparr>av_receipt_digest := acceptance_receipt_digest sha enc r\<rparr>"

text \<open>Every premise of an admission is accepted.\<close>

definition premises_accepted :: "receiver_acceptance_receipt \<Rightarrow> bool" where
  "premises_accepted r \<longleftrightarrow>
     list_all (\<lambda>c. c = Check_Accepted)
       [av_sender_key_verification r, av_receiver_challenge_verification r, av_session_binding_verification r,
        av_sender_qualification_package_acceptance r, av_exact_identity_match r, av_queue_and_capacity_result r,
        av_subject_scope_result r, av_observer_role_result r, av_payload_decoding_result r]"

definition acceptance_receipt_validate ::
  "hasher \<Rightarrow> (receiver_acceptance_receipt \<Rightarrow> bytes) \<Rightarrow> receiver_acceptance_receipt \<Rightarrow> custody_type_error + unit" where
  "acceptance_receipt_validate sha enc r =
     rbind (custody_schema (av_schema_version r)) (\<lambda>_.
     rbind (validate_custody_digest (av_receipt_digest r)) (\<lambda>_.
     rbind (custody_identity ''IncarnationId'' (av_receiver_process_occurrence r)) (\<lambda>_.
     rbind (custody_identity ''IncarnationId'' (av_receiver_monotonic_epoch r)) (\<lambda>_.
     rbind (custody_text ''receiver acceptance policy generation'' (av_receiver_acceptance_policy_generation r)) (\<lambda>_.
     rbind (validate_custody_digest (av_receiver_acceptance_policy_digest r)) (\<lambda>_.
     rbind (try_each validate_custody_digest (present [av_session_binding_digest r, av_envelope_digest r,
       av_accepted_evidence_identity r])) (\<lambda>_.
     rbind (custody_text ''remote endpoint metadata'' (av_remote_network_endpoint r)) (\<lambda>_.
     rbind (try_each custody_gap_validate (present [av_sequence_gap r])) (\<lambda>_.
     rbind (try_each (custody_text ''receiver refusal reason'') (present [av_refusal_reason r])) (\<lambda>_.
     rbind (custody_text ''receipt journal identity'' (av_journal_identity r)) (\<lambda>_.
     rbind (fail_if (av_receipt_sequence r = 0 \<or> \<not> av_complete r \<or> av_mutation_authority r \<noteq> NoAuthority
         \<or> \<not> custody_grants_nothing (av_authority_grants r))
       (custody_error ''invalid_acceptance_receipt'' ''receipt is incomplete, unsequenced, or carries authority'')) (\<lambda>_.
     rbind (fail_if (av_receipt_digest r \<noteq> acceptance_receipt_digest sha enc r)
       (custody_error ''receipt_identity_mismatch''
         ''acceptance receipt digest does not identify its exact contents'')) (\<lambda>_.
     if av_finding r = EvidenceAdmitted then
       fail_if (av_accepted_evidence_identity r = None \<or> av_refusal_reason r \<noteq> None \<or> \<not> premises_accepted r)
         (custody_error ''invalid_admission'' ''admitted receipt lacks every accepted admission premise'')
     else
       fail_if (av_accepted_evidence_identity r \<noteq> None)
         (custody_error ''authority_laundering'' ''non-admitted receipt cannot name accepted evidence''))))))))))))))"

section \<open>Custody references\<close>

record remote_observation_custody_reference =
  ro_schema_version :: u16
  ro_receiver_process_occurrence :: incarnation_id
  ro_receiver_monotonic_epoch :: incarnation_id
  ro_receiver_manifest_digest :: digest
  ro_receiver_qualification_certificate_digest :: digest
  ro_receiver_activation_receipt_digest :: digest
  ro_receiver_acceptance_policy_generation :: string
  ro_receiver_acceptance_policy_digest :: digest
  ro_receiver_key_identity_digest :: digest
  ro_sender_key_identity_digest :: digest
  ro_sender_process_occurrence :: incarnation_id
  ro_sender_monotonic_epoch :: incarnation_id
  ro_sender_manifest_digest :: digest
  ro_sender_qualification_certificate_digest :: digest
  ro_sender_activation_receipt_digest :: digest
  ro_sender_session_offer_digest :: digest
  ro_receiver_challenge_digest :: digest
  ro_session_binding_digest :: digest
  ro_receiver_session_acceptance_digest :: digest
  ro_envelope_digest :: digest
  ro_acceptance_receipt_digest :: digest
  ro_observer :: observer_id
  ro_failure_domain_claim :: string
  ro_subject_scope :: subject_scope
  ro_observation_sequence :: u64
  ro_session_sequence :: u64
  ro_payload_digest :: digest
  ro_observation_identity :: digest
  ro_supporting_evidence_id :: string
  ro_receiver_arrival_ms :: u64
  ro_accepted_evidence_identity :: digest
  ro_freshness_mode :: remote_freshness_mode
  ro_authority_grants :: custody_authority_grants

definition custody_reference_validate :: "remote_observation_custody_reference \<Rightarrow> custody_type_error + unit" where
  "custody_reference_validate r =
     rbind (custody_schema (ro_schema_version r)) (\<lambda>_.
     rbind (try_each (custody_identity ''IncarnationId'')
       [ro_receiver_process_occurrence r, ro_receiver_monotonic_epoch r, ro_sender_process_occurrence r,
        ro_sender_monotonic_epoch r]) (\<lambda>_.
     rbind (try_each validate_custody_digest
       [ro_receiver_manifest_digest r, ro_receiver_qualification_certificate_digest r,
        ro_receiver_activation_receipt_digest r, ro_receiver_acceptance_policy_digest r,
        ro_receiver_key_identity_digest r, ro_sender_key_identity_digest r, ro_sender_manifest_digest r,
        ro_sender_qualification_certificate_digest r, ro_sender_activation_receipt_digest r,
        ro_sender_session_offer_digest r, ro_receiver_challenge_digest r, ro_session_binding_digest r,
        ro_receiver_session_acceptance_digest r, ro_envelope_digest r, ro_acceptance_receipt_digest r,
        ro_payload_digest r, ro_observation_identity r, ro_accepted_evidence_identity r]) (\<lambda>_.
     rbind (custody_text ''receiver acceptance policy generation'' (ro_receiver_acceptance_policy_generation r)) (\<lambda>_.
     rbind (custody_identity ''ObserverId'' (ro_observer r)) (\<lambda>_.
     rbind (custody_text ''failure-domain claim'' (ro_failure_domain_claim r)) (\<lambda>_.
     rbind (map_err (\<lambda>err. custody_error ''invalid_identity'' (identity_error_str err))
       (subject_scope_validate (ro_subject_scope r))) (\<lambda>_.
     rbind (custody_text ''supporting evidence identity'' (ro_supporting_evidence_id r)) (\<lambda>_.
     fail_if (ro_observation_sequence r = 0 \<or> ro_session_sequence r = 0
         \<or> \<not> custody_grants_nothing (ro_authority_grants r))
       (custody_error ''invalid_custody_reference''
         ''custody reference sequence or authority posture is invalid'')))))))))"

definition custody_reference_digest ::
  "hasher \<Rightarrow> (remote_observation_custody_reference \<Rightarrow> bytes) \<Rightarrow> remote_observation_custody_reference \<Rightarrow> digest" where
  "custody_reference_digest sha enc r = digest_parts sha ''transport.remote-observation-custody.v1'' [enc r]"

end
