(* ===== verification/Certificates.thy ===== *)
theory Certificates
  imports Admission
begin

text \<open>
  The runtime records of \<open>crates/pulse-types/src/runtime.rs\<close>: context transitions, the reliance support
  certificate with its identity and validation, refusals, contradiction custody and metrics. (The
  reliance context is in \<open>Qualified\<close>.)
\<close>

definition MAX_CERTIFICATE_EVIDENCE_REFS :: nat where
  "MAX_CERTIFICATE_EVIDENCE_REFS = 64"

definition MAX_CERTIFICATE_MISSING_PREMISES :: nat where
  "MAX_CERTIFICATE_MISSING_PREMISES = 64"

definition MAX_CERTIFICATE_CONTRADICTIONS :: nat where
  "MAX_CERTIFICATE_CONTRADICTIONS = 64"

datatype generation_transition_cause =
  InitialActivation | ReliancePolicyChanged | ConsumerProfileChanged | EvaluatorSemanticsChanged
| ObserverSetChanged | ObservationPolicyChanged | EquivalentBodyNewGeneration | PolicyRollback
| AbaReactivation | SubjectIncarnationChanged | ReceiverRestarted

record reliance_context_transition =
  ct_schema_version :: u16
  ct_subject_scope :: subject_scope
  ct_consumer :: consumer_id
  ct_prior_context :: "reliance_context option"
  ct_new_context :: reliance_context
  ct_cause :: generation_transition_cause
  ct_at_ms :: u64
  ct_standing_inherited :: bool

section \<open>Support certificates\<close>

record reliance_support_certificate =
  sc_schema_version :: u16
  sc_certificate_id :: support_certificate_id
  sc_consumer :: consumer_id
  sc_subject_scope :: subject_scope
  sc_context :: reliance_context
  sc_qualified_generation :: "qualified_generation_binding option"
  sc_evaluated_at_ms :: u64
  sc_receiver_clock_id :: string
  sc_judgment :: judgment_category
  sc_evidence_window_id :: evidence_window_id
  sc_supporting_evidence_ids :: "string list"
  sc_remote_observation_custody :: "remote_observation_custody_reference list"
  sc_missing_premises :: "string list"
  sc_applicable_contradictions :: "contradiction_id list"
  sc_coverage :: coverage_summary
  sc_earliest_support_expiry_ms :: "u64 option"
  sc_next_scheduled_reevaluation_ms :: "u64 option"
  sc_escalation :: escalation_state
  sc_mutation_authority :: mutation_authority

fun escalation_transcript :: "escalation_state \<Rightarrow> string" where
  "escalation_transcript NotRequested = ''not_requested''"
| "escalation_transcript (Requested r) = ''requested:'' @ r"
| "escalation_transcript (Accepted r) = ''accepted:'' @ r"
| "escalation_transcript (Refused r reason) = ''refused:'' @ r @ '':'' @ reason"
| "escalation_transcript (Narrowed r) = ''narrowed:'' @ r"
| "escalation_transcript (Deferred r) = ''deferred:'' @ r"
| "escalation_transcript (Completed r receipt) = ''completed:'' @ r @ '':'' @ receipt"

definition tagged :: "string \<Rightarrow> string list \<Rightarrow> bytes list" where
  "tagged tag xs = concat (map (\<lambda>x. [tag, x]) xs)"

definition count_parts :: "coverage_count \<Rightarrow> bytes list" where
  "count_parts c =
     [cc_tag c, u32_be (cc_active_observers c), u32_be (cc_expired_observers c), u32_be (cc_required_observers c)]"

definition certificate_parts ::
  "hasher \<Rightarrow> (remote_observation_custody_reference \<Rightarrow> bytes) \<Rightarrow> reliance_support_certificate \<Rightarrow> bytes list" where
  "certificate_parts sha enc c =
     [sc_consumer c, ss_subject (sc_subject_scope c), ss_subject_incarnation (sc_subject_scope c),
      ss_scope (sc_subject_scope c), context_digest sha (sc_context c),
      (case sc_qualified_generation c of None \<Rightarrow> ''qualified-generation:none'' | Some b \<Rightarrow> binding_digest sha b),
      u64_be (sc_evaluated_at_ms c), sc_receiver_clock_id c, category_str (sc_judgment c), sc_evidence_window_id c,
      u64_be (case sc_earliest_support_expiry_ms c of None \<Rightarrow> - 1 | Some d \<Rightarrow> d),
      u64_be (case sc_next_scheduled_reevaluation_ms c of None \<Rightarrow> - 1 | Some d \<Rightarrow> d),
      escalation_transcript (sc_escalation c), ''mutation-authority:none'']
     @ tagged ''evidence'' (sc_supporting_evidence_ids c)
     @ tagged ''remote-custody'' (map (custody_reference_digest sha enc) (sc_remote_observation_custody c))
     @ tagged ''missing'' (sc_missing_premises c)
     @ tagged ''contradiction'' (sc_applicable_contradictions c)
     @ tagged ''coverage-required'' (cs_required (sc_coverage c))
     @ tagged ''coverage-active'' (cs_active (sc_coverage c))
     @ tagged ''coverage-missing'' (cs_missing (sc_coverage c))
     @ tagged ''coverage-expired'' (cs_expired (sc_coverage c))
     @ [u32_be (cs_active_observers (sc_coverage c)), u32_be (cs_required_observers (sc_coverage c))]
     @ concat (map count_parts (cs_per_tag (sc_coverage c)))"

definition certificate_compute_id ::
  "hasher \<Rightarrow> (remote_observation_custody_reference \<Rightarrow> bytes) \<Rightarrow> reliance_support_certificate \<Rightarrow> support_certificate_id" where
  "certificate_compute_id sha enc c =
     digest_id ''support'' (digest_parts sha ''reliance.support-certificate.v1'' (certificate_parts sha enc c))"

definition certificate_binding_ok :: "reliance_support_certificate \<Rightarrow> qualified_generation_binding \<Rightarrow> bool" where
  "certificate_binding_ok c b \<longleftrightarrow>
     gs_subject (qb_generation_set b) = ss_subject (sc_subject_scope c)
     \<and> gs_consumer (qb_generation_set b) = sc_consumer c
     \<and> matches_context (qb_generation_set b) (sc_context c)"

definition certificate_custody_validate ::
  "reliance_support_certificate \<Rightarrow> remote_observation_custody_reference \<Rightarrow> runtime_type_error + unit" where
  "certificate_custody_validate c r =
     rbind (map_err (\<lambda>err. runtime_type_error_new (ye_code err) ''invalid remote observation custody'')
       (custody_reference_validate r)) (\<lambda>_.
     fail_if (ro_subject_scope r \<noteq> sc_subject_scope c
         \<or> ro_supporting_evidence_id r \<notin> set (sc_supporting_evidence_ids c))
       (runtime_type_error_new ''remote_custody_mismatch''
         ''remote custody does not identify supporting evidence for this subject''))"

text \<open>What makes a CURRENT certificate invalid.\<close>

definition current_unsupported :: "reliance_support_certificate \<Rightarrow> bool" where
  "current_unsupported c \<longleftrightarrow>
     sc_qualified_generation c = None \<or> sc_earliest_support_expiry_ms c = None
     \<or> sc_next_scheduled_reevaluation_ms c \<noteq> sc_earliest_support_expiry_ms c
     \<or> (case sc_earliest_support_expiry_ms c of None \<Rightarrow> False | Some deadline \<Rightarrow> deadline \<le> sc_evaluated_at_ms c)
     \<or> sc_missing_premises c \<noteq> [] \<or> sc_applicable_contradictions c \<noteq> [] \<or> cs_missing (sc_coverage c) \<noteq> []"

definition certificate_validate ::
  "hasher \<Rightarrow> (remote_observation_custody_reference \<Rightarrow> bytes) \<Rightarrow> reliance_support_certificate \<Rightarrow>
   runtime_type_error + unit" where
  "certificate_validate sha enc c =
     rbind (fail_if (sc_schema_version c \<noteq> SCHEMA_VERSION_V1)
       (runtime_type_error_new ''unsupported_schema'' ''support certificate schema is unsupported'')) (\<lambda>_.
     rbind (map_err (\<lambda>_. identity_type_error ''certificate_id'')
       (validate_identity ''SupportCertificateId'' (sc_certificate_id c))) (\<lambda>_.
     rbind (map_err (\<lambda>_. identity_type_error ''consumer'')
       (validate_identity ''ConsumerId'' (sc_consumer c))) (\<lambda>_.
     rbind (map_err (\<lambda>_. identity_type_error ''subject_scope'')
       (subject_scope_validate (sc_subject_scope c))) (\<lambda>_.
     rbind (context_validate (sc_context c)) (\<lambda>_.
     rbind (case sc_qualified_generation c of
         None \<Rightarrow> Inr ()
       | Some b \<Rightarrow>
           rbind (map_err (\<lambda>err. runtime_type_error_new (qe_code err) ''invalid qualified binding'')
             (binding_validate b)) (\<lambda>_.
           fail_if (\<not> certificate_binding_ok c b)
             (runtime_type_error_new ''qualified_binding_mismatch''
               ''qualified generation binding does not match the certificate context''))) (\<lambda>_.
     rbind (fail_if (MAX_CERTIFICATE_EVIDENCE_REFS < length (sc_supporting_evidence_ids c)
         \<or> MAX_CERTIFICATE_EVIDENCE_REFS < length (sc_remote_observation_custody c)
         \<or> MAX_CERTIFICATE_MISSING_PREMISES < length (sc_missing_premises c)
         \<or> MAX_CERTIFICATE_CONTRADICTIONS < length (sc_applicable_contradictions c))
       (runtime_type_error_new ''bound_exceeded'' ''support certificate collection exceeds its v1 bound'')) (\<lambda>_.
     rbind (fail_if (windows_not_ascending (sc_supporting_evidence_ids c)
         \<or> windows_not_ascending (map (custody_reference_digest sha enc) (sc_remote_observation_custody c))
         \<or> windows_not_ascending (sc_missing_premises c)
         \<or> windows_not_ascending (sc_applicable_contradictions c))
       (runtime_type_error_new ''noncanonical_collection''
         ''support certificate collections must be sorted and unique'')) (\<lambda>_.
     rbind (try_each (certificate_custody_validate c) (sc_remote_observation_custody c)) (\<lambda>_.
     rbind (if sc_judgment c = Current then
         fail_if (current_unsupported c)
           (runtime_type_error_new ''invalid_current_support''
             ''CURRENT certificate must bind qualified generation, complete premises, and a future exact support expiry'')
       else
         fail_if (sc_earliest_support_expiry_ms c \<noteq> None \<or> sc_next_scheduled_reevaluation_ms c \<noteq> None)
           (runtime_type_error_new ''invalid_deadline''
             ''non-current certificate cannot carry a positive support deadline'')) (\<lambda>_.
     fail_if (sc_certificate_id c \<noteq> certificate_compute_id sha enc c)
       (runtime_type_error_new ''identity_mismatch''
         ''support certificate identity does not match its transcript'')))))))))))"

section \<open>Refusals, contradiction custody and metrics\<close>

datatype runtime_refusal_class =
  SubjectCapacity | ConsumerCapacity | ObserverCapacity | ReceiverStreamCapacity
| IncarnationHistoryCapacity | PendingQueueCapacity | ScheduledDeadlineCapacity | ContextHistoryCapacity
| EscalationCapacity | CertificateCapacity | SparseHistoryCapacity | ReceiptHistoryCapacity | ClockRegression
| InvalidBinding | ReusedActivation | HistoricalStateInvalid | RuntimeBlind

record runtime_refusal =
  rf_schema_version :: u16
  rf_refusal_id :: runtime_refusal_id
  rf_class :: runtime_refusal_class
  rf_at_ms :: u64
  rf_subject :: "subject_id option"
  rf_consumer :: "consumer_id option"
  rf_configured_bound :: u64
  rf_observed_count :: u64
  rf_detail :: string
  rf_current_preserved :: bool
  rf_mutation_authority :: mutation_authority

datatype contradiction_applicability =
  Applicable incarnation_id bool
| InapplicableBySubject incarnation_id incarnation_id u64 string

record contradiction_custody =
  cu_schema_version :: u16
  cu_consumer :: consumer_id
  cu_contradiction :: contradiction_record
  cu_applicability :: contradiction_applicability

record runtime_metrics =
  rm_schema_version :: u16
  rm_expected_support_expiry_ms :: "u64 option"
  rm_actual_reevaluation_ms :: "u64 option"
  rm_maximum_stale_positive_duration_ms :: u64
  rm_policy_transition_withdrawal_latency_ms :: u64
  rm_scheduler_lateness_ms :: u64
  rm_queue_refusal_count :: u64
  rm_subject_refusal_count :: u64
  rm_observer_refusal_count :: u64
  rm_receiver_stream_refusal_count :: u64
  rm_deadline_refusal_count :: u64
  rm_context_refusal_count :: u64
  rm_sparse_history_refusal_count :: u64
  rm_duplicate_escalation_count :: u64
  rm_recovered_sparse_record_count :: u64
  rm_recovered_receipt_count :: u64

definition runtime_metrics_empty :: runtime_metrics where
  "runtime_metrics_empty =
     \<lparr>rm_schema_version = SCHEMA_VERSION_V1, rm_expected_support_expiry_ms = None,
      rm_actual_reevaluation_ms = None, rm_maximum_stale_positive_duration_ms = 0,
      rm_policy_transition_withdrawal_latency_ms = 0, rm_scheduler_lateness_ms = 0,
      rm_queue_refusal_count = 0, rm_subject_refusal_count = 0, rm_observer_refusal_count = 0,
      rm_receiver_stream_refusal_count = 0, rm_deadline_refusal_count = 0, rm_context_refusal_count = 0,
      rm_sparse_history_refusal_count = 0, rm_duplicate_escalation_count = 0,
      rm_recovered_sparse_record_count = 0, rm_recovered_receipt_count = 0\<rparr>"

end
