(* ===== verification/Escalation.thy ===== *)
theory Escalation
  imports Certificates
begin

text \<open>
  Diagnostic escalation (\<open>crates/pulse-types/src/escalation.rs\<close>) and the sparse durable event
  (\<open>crates/pulse-types/src/event.rs\<close>): requests with their deduplication key and validation,
  bounds and their narrowing, dispositions, receipts; and the history of a runtime
  (\<open>RuntimeHistoricalStateV1\<close> of \<open>runtime.rs\<close>), which is made of these.
\<close>

section \<open>Profiles, triggers and bounds\<close>

definition ESCALATION_NONCLAIMS :: "string list" where
  "ESCALATION_NONCLAIMS =
     [''This request is not diagnostic evidence.'',
      ''This request grants no execution or mutation authority.'',
      ''Acceptance authorizes only the named bounded observation profile in the local bridge.'',
      ''Diagnostic completion does not establish subject health or indefinite reliance.'']"

record diagnostic_profile_id =
  dp_name :: string
  dp_version :: u16
  dp_semantic_digest :: digest

datatype escalation_trigger_class =
  FreshnessLost | CoverageCollapse | ObserverDisagreement | ContradictionRetained
| SubjectBoundViolated | ProvenanceFailed | TransportBlind | SequenceDiscontinuity

fun trigger_str :: "escalation_trigger_class \<Rightarrow> string" where
  "trigger_str FreshnessLost = ''freshness_lost''"
| "trigger_str CoverageCollapse = ''coverage_collapse''"
| "trigger_str ObserverDisagreement = ''observer_disagreement''"
| "trigger_str ContradictionRetained = ''contradiction_retained''"
| "trigger_str SubjectBoundViolated = ''subject_bound_violated''"
| "trigger_str ProvenanceFailed = ''provenance_failed''"
| "trigger_str TransportBlind = ''transport_blind''"
| "trigger_str SequenceDiscontinuity = ''sequence_discontinuity''"

text \<open>The derived \<open>Ord\<close> compares declaration positions.\<close>

fun trigger_rank :: "escalation_trigger_class \<Rightarrow> nat" where
  "trigger_rank FreshnessLost = 0"
| "trigger_rank CoverageCollapse = 1"
| "trigger_rank ObserverDisagreement = 2"
| "trigger_rank ContradictionRetained = 3"
| "trigger_rank SubjectBoundViolated = 4"
| "trigger_rank ProvenanceFailed = 5"
| "trigger_rank TransportBlind = 6"
| "trigger_rank SequenceDiscontinuity = 7"

lemma trigger_rank_inject [simp]: "trigger_rank a = trigger_rank b \<longleftrightarrow> a = b"
  by (cases a; cases b) simp_all

lemma trigger_str_inject [simp]: "trigger_str a = trigger_str b \<longleftrightarrow> a = b"
  by (cases a; cases b) simp_all

instantiation escalation_trigger_class :: linorder
begin

definition less_eq_escalation_trigger_class :: "escalation_trigger_class \<Rightarrow> escalation_trigger_class \<Rightarrow> bool" where
  "less_eq_escalation_trigger_class a b = (trigger_rank a \<le> trigger_rank b)"

definition less_escalation_trigger_class :: "escalation_trigger_class \<Rightarrow> escalation_trigger_class \<Rightarrow> bool" where
  "less_escalation_trigger_class a b = (trigger_rank a < trigger_rank b)"

instance
  by standard
     (auto simp: less_eq_escalation_trigger_class_def less_escalation_trigger_class_def
       simp flip: trigger_rank_inject)

end

record diagnostic_bounds =
  db_maximum_runtime_ms :: u64
  db_maximum_output_bytes :: u64
  db_maximum_observations :: u32

definition is_nonzero :: "diagnostic_bounds \<Rightarrow> bool" where
  "is_nonzero b =
     (0 < db_maximum_runtime_ms b \<and> 0 < db_maximum_output_bytes b \<and> 0 < db_maximum_observations b)"

definition fits_within :: "diagnostic_bounds \<Rightarrow> diagnostic_bounds \<Rightarrow> bool" where
  "fits_within b limit =
     (db_maximum_runtime_ms b \<le> db_maximum_runtime_ms limit
      \<and> db_maximum_output_bytes b \<le> db_maximum_output_bytes limit
      \<and> db_maximum_observations b \<le> db_maximum_observations limit)"

definition narrowed_to :: "diagnostic_bounds \<Rightarrow> diagnostic_bounds \<Rightarrow> diagnostic_bounds" where
  "narrowed_to b limit =
     \<lparr>db_maximum_runtime_ms =
        if db_maximum_runtime_ms b < db_maximum_runtime_ms limit
        then db_maximum_runtime_ms b else db_maximum_runtime_ms limit,
      db_maximum_output_bytes =
        if db_maximum_output_bytes b < db_maximum_output_bytes limit
        then db_maximum_output_bytes b else db_maximum_output_bytes limit,
      db_maximum_observations =
        if db_maximum_observations b < db_maximum_observations limit
        then db_maximum_observations b else db_maximum_observations limit\<rparr>"

section \<open>Requests\<close>

record escalation_error =
  xe_code :: string
  xe_detail :: string

definition escalation_error_new :: "string \<Rightarrow> string \<Rightarrow> escalation_error" where
  "escalation_error_new code detail = \<lparr>xe_code = code, xe_detail = detail\<rparr>"

record escalation_request =
  rq_schema_version :: u16
  rq_request_id :: escalation_request_id
  rq_subject_scope :: subject_scope
  rq_consumer :: consumer_id
  rq_trigger_class :: escalation_trigger_class
  rq_evidence_window_digest :: digest
  rq_policy_generation :: policy_generation_id
  rq_observation_policy_generation :: observation_policy_generation_id
  rq_diagnostic_profile :: diagnostic_profile_id
  rq_bounds :: diagnostic_bounds
  rq_clock_id :: clock_id
  rq_created_at_ms :: u64
  rq_expires_at_ms :: u64
  rq_deduplication_key :: digest
  rq_causal_transition_id :: transition_id
  rq_nonclaims :: "string list"

definition deduplication_parts :: "escalation_request \<Rightarrow> bytes list" where
  "deduplication_parts r =
     [ss_subject (rq_subject_scope r), ss_subject_incarnation (rq_subject_scope r),
      ss_scope (rq_subject_scope r), rq_consumer r, rq_policy_generation r,
      rq_observation_policy_generation r, trigger_str (rq_trigger_class r),
      dp_name (rq_diagnostic_profile r), u16_be (dp_version (rq_diagnostic_profile r)),
      dp_semantic_digest (rq_diagnostic_profile r)]"

definition compute_deduplication_key :: "hasher \<Rightarrow> escalation_request \<Rightarrow> digest" where
  "compute_deduplication_key sha r =
     digest_parts sha ''diagnostic.escalation.dedup.v1'' (deduplication_parts r)"

definition request_validate :: "hasher \<Rightarrow> escalation_request \<Rightarrow> escalation_error + unit" where
  "request_validate sha r =
     rbind (fail_if (rq_schema_version r \<noteq> SCHEMA_VERSION_V1)
       (escalation_error_new ''unsupported_schema'' ''request schema is unsupported'')) (\<lambda>_.
     rbind (map_err (\<lambda>_. escalation_error_new ''invalid_identity'' ''invalid request identity'')
       (validate_identity ''EscalationRequestId'' (rq_request_id r))) (\<lambda>_.
     rbind (map_err (\<lambda>_. escalation_error_new ''invalid_scope'' ''invalid subject scope'')
       (subject_scope_validate (rq_subject_scope r))) (\<lambda>_.
     rbind (map_err (\<lambda>_. escalation_error_new ''invalid_identity'' ''invalid consumer identity'')
       (validate_identity ''ConsumerId'' (rq_consumer r))) (\<lambda>_.
     rbind (map_err (\<lambda>_. escalation_error_new ''invalid_identity'' ''invalid policy generation'')
       (validate_identity ''PolicyGenerationId'' (rq_policy_generation r))) (\<lambda>_.
     rbind (map_err (\<lambda>_. escalation_error_new ''invalid_identity'' ''invalid observation-policy generation'')
       (validate_identity ''ObservationPolicyGenerationId'' (rq_observation_policy_generation r))) (\<lambda>_.
     rbind (map_err (\<lambda>_. escalation_error_new ''invalid_identity'' ''invalid clock identity'')
       (validate_identity ''ClockId'' (rq_clock_id r))) (\<lambda>_.
     rbind (map_err (\<lambda>_. escalation_error_new ''invalid_identity'' ''invalid transition identity'')
       (validate_identity ''TransitionId'' (rq_causal_transition_id r))) (\<lambda>_.
     rbind (map_err (\<lambda>_. escalation_error_new ''invalid_digest'' ''invalid evidence window digest'')
       (digest_validate (rq_evidence_window_digest r))) (\<lambda>_.
     rbind (map_err (\<lambda>_. escalation_error_new ''invalid_digest'' ''invalid profile digest'')
       (digest_validate (dp_semantic_digest (rq_diagnostic_profile r)))) (\<lambda>_.
     rbind (fail_if (dp_name (rq_diagnostic_profile r) = [] \<or> dp_version (rq_diagnostic_profile r) = 0)
       (escalation_error_new ''invalid_profile'' ''profile identity is incomplete'')) (\<lambda>_.
     rbind (fail_if (\<not> is_nonzero (rq_bounds r))
       (escalation_error_new ''invalid_bounds'' ''every diagnostic bound must be nonzero'')) (\<lambda>_.
     rbind (fail_if (rq_expires_at_ms r \<le> rq_created_at_ms r)
       (escalation_error_new ''invalid_expiry'' ''expiry must be later than creation'')) (\<lambda>_.
     rbind (fail_if (compute_deduplication_key sha r \<noteq> rq_deduplication_key r)
       (escalation_error_new ''deduplication_mismatch''
         ''deduplication key does not match its semantic transcript'')) (\<lambda>_.
     fail_if (rq_nonclaims r \<noteq> ESCALATION_NONCLAIMS)
       (escalation_error_new ''nonclaim_mismatch'' ''request nonclaims are not the fixed v1 set'')))))))))))))))"

section \<open>Dispositions, receipts and events\<close>

datatype escalation_disposition_kind =
  Accept diagnostic_bounds
| Refuse string string
| Narrow diagnostic_profile_id diagnostic_bounds string
| Defer string string

record escalation_disposition =
  ed_schema_version :: u16
  ed_request_id :: escalation_request_id
  ed_bridge_id :: bridge_id
  ed_clock_id :: clock_id
  ed_decided_at_ms :: u64
  ed_kind :: escalation_disposition_kind
  ed_mutation_authority :: mutation_authority

datatype diagnostic_receipt_status = DiagnosticCompleted | DiagnosticFailed

record diagnostic_result_entry =
  re_name :: string
  re_value :: string
  re_interpretation :: string

record diagnostic_receipt =
  dr_schema_version :: u16
  dr_receipt_id :: diagnostic_receipt_id
  dr_run_id :: diagnostic_run_id
  dr_request_id :: escalation_request_id
  dr_causal_transition_id :: transition_id
  dr_deduplication_key :: digest
  dr_evidence_window_digest :: digest
  dr_subject_scope :: subject_scope
  dr_consumer :: consumer_id
  dr_policy_generation :: policy_generation_id
  dr_observation_policy_generation :: observation_policy_generation_id
  dr_diagnostic_profile :: diagnostic_profile_id
  dr_bridge_id :: bridge_id
  dr_clock_id :: clock_id
  dr_started_at_ms :: u64
  dr_completed_at_ms :: u64
  dr_applicable_until_ms :: u64
  dr_status :: diagnostic_receipt_status
  dr_results :: "diagnostic_result_entry list"
  dr_observed_coverage :: "string list"
  dr_result_digest :: digest
  dr_nonclaims :: "string list"
  dr_mutation_authority :: mutation_authority

datatype sparse_durable_event_kind =
  JudgmentTransition judgment_transition
| ContradictionCreated contradiction_record
| ContradictionLifecycleChanged contradiction_record
| AdverseObservationSuperseded observer_id string string "string list" string
| EscalationRequested escalation_request
| EscalationDeduplicated digest escalation_request_id
| EscalationDisposition escalation_disposition
| DiagnosticReceiptCorrelated diagnostic_receipt diagnostic_evidence_reference
| MonitorCapabilityChanged string string
| RelianceContextTransition reliance_context_transition
| SupportCertificateIssued reliance_support_certificate
| RuntimeRefusal runtime_refusal
| SchedulerReevaluated consumer_id context_activation_id u64 u64 u64
| RuntimeRestarted incarnation_id clock_id u64 u64 bool
| ContradictionApplicabilityChanged contradiction_custody
| QualifiedGenerationBindingChanged activation_receipt
| QualifiedGenerationLifecycleApplied consumer_id generation_lifecycle_fact runtime_binding_state bool
| QualifiedGenerationBindingInvalidated consumer_id digest runtime_binding_state string bool
| ReceiverBoundaryAcceptanceRecorded receiver_acceptance_receipt
| ReceiverBoundaryCustodyChanged transport_custody_finding "digest option" string
| MetricsSnapshot experimental_metrics

record sparse_durable_event =
  ev_schema_version :: u16
  ev_event_id :: sparse_event_id
  ev_at_ms :: u64
  ev_event :: sparse_durable_event_kind

section \<open>The history of a runtime\<close>

definition history_nonclaims :: "string list" where
  "history_nonclaims =
     [''Historical records do not reconstruct current reliance.'',
      ''Restart does not recover hot pulse evidence or scheduled standing.'',
      ''Diagnostic receipts do not resolve contradictions or grant mutation authority.'']"

record runtime_historical_state =
  hs_schema_version :: u16
  hs_sparse_events :: "sparse_durable_event list"
  hs_contradictions :: "contradiction_custody list"
  hs_diagnostic_receipts :: "diagnostic_receipt list"
  hs_nonclaims :: "string list"

definition history_validate :: "runtime_historical_state \<Rightarrow> runtime_type_error + unit" where
  "history_validate h =
     rbind (fail_if (hs_schema_version h \<noteq> SCHEMA_VERSION_V1)
       (runtime_type_error_new ''unsupported_schema'' ''historical state schema is unsupported'')) (\<lambda>_.
     fail_if (hs_nonclaims h \<noteq> history_nonclaims)
       (runtime_type_error_new ''nonclaim_mismatch'' ''historical state nonclaims are not the fixed v1 set''))"

section \<open>Properties of requests and bounds\<close>

definition request_ok :: "hasher \<Rightarrow> escalation_request \<Rightarrow> bool" where
  "request_ok sha r =
     (rq_schema_version r = SCHEMA_VERSION_V1 \<and> good_identity (rq_request_id r)
      \<and> subject_scope_validate (rq_subject_scope r) = Inr ()
      \<and> good_identity (rq_consumer r) \<and> good_identity (rq_policy_generation r)
      \<and> good_identity (rq_observation_policy_generation r) \<and> good_identity (rq_clock_id r)
      \<and> good_identity (rq_causal_transition_id r)
      \<and> digest_validate (rq_evidence_window_digest r) = Inr ()
      \<and> digest_validate (dp_semantic_digest (rq_diagnostic_profile r)) = Inr ()
      \<and> dp_name (rq_diagnostic_profile r) \<noteq> [] \<and> dp_version (rq_diagnostic_profile r) \<noteq> 0
      \<and> is_nonzero (rq_bounds r) \<and> rq_created_at_ms r < rq_expires_at_ms r
      \<and> rq_deduplication_key r = compute_deduplication_key sha r
      \<and> rq_nonclaims r = ESCALATION_NONCLAIMS)"

lemma request_validate_ok: "request_validate sha r = Inr u \<longleftrightarrow> request_ok sha r"
  unfolding request_validate_def request_ok_def
  by (simp only: result_simps) (auto simp: not_le validate_identity_ok)

lemma narrowed_fits: "fits_within (narrowed_to b limit) b" "fits_within (narrowed_to b limit) limit"
  by (auto simp: fits_within_def narrowed_to_def)

lemma narrowed_nonzero: "is_nonzero b \<Longrightarrow> is_nonzero limit \<Longrightarrow> is_nonzero (narrowed_to b limit)"
  by (simp add: is_nonzero_def narrowed_to_def)

lemma narrowed_id: "fits_within b limit \<Longrightarrow> narrowed_to b limit = b"
  by (auto simp: fits_within_def narrowed_to_def intro: diagnostic_bounds.equality)

end
