(* ===== verification/Policy.thy ===== *)
theory Policy
  imports Escalation Pulse BTree
begin

text \<open>
  The reliance policy of one consumer (\<open>crates/pulse-evaluator/src/policy.rs\<close>): its record, its
  validation and the digest of its body. The digest is shown to identify the body: the list of
  parts can be read back because every block of it starts with its own marker.
\<close>

section \<open>The policy\<close>

record escalation_policy =
  xp_triggers :: "escalation_trigger_class btset"
  xp_diagnostic_profile :: diagnostic_profile_id
  xp_bounds :: diagnostic_bounds
  xp_request_ttl_ms :: u64

record reliance_policy =
  po_schema_version :: u16
  po_subject :: subject_id
  po_scope :: string
  po_consumer :: consumer_id
  po_generation :: policy_generation_id
  po_observation_policy_generation :: observation_policy_generation_id
  po_observation_profile :: observation_profile_id
  po_required_coverage :: "string list"
  po_minimum_observers :: u32
  po_maximum_validity_ms :: u64
  po_require_verified_authentication :: bool
  po_coherence_tolerances :: "(string, f64) btmap"
  po_observer_failure_domains :: "(string, string) btmap"
  po_escalation :: "escalation_policy option"

type_synonym policy_error = string

definition policy_validate :: "reliance_policy \<Rightarrow> policy_error + unit" where
  "policy_validate p =
     rbind (fail_if (po_schema_version p \<noteq> SCHEMA_VERSION_V1) ''unsupported policy schema'') (\<lambda>_.
     rbind (map_err (\<lambda>_. ''invalid subject identity'')
       (validate_identity ''SubjectId'' (po_subject p))) (\<lambda>_.
     rbind (map_err (\<lambda>_. ''invalid consumer identity'')
       (validate_identity ''ConsumerId'' (po_consumer p))) (\<lambda>_.
     rbind (map_err (\<lambda>_. ''invalid policy generation'')
       (validate_identity ''PolicyGenerationId'' (po_generation p))) (\<lambda>_.
     rbind (map_err (\<lambda>_. ''invalid observation policy generation'')
       (validate_identity ''ObservationPolicyGenerationId'' (po_observation_policy_generation p))) (\<lambda>_.
     rbind (map_err (\<lambda>_. ''invalid observation profile'')
       (profile_validate (po_observation_profile p))) (\<lambda>_.
     rbind (fail_if (po_scope p = []) ''scope is empty'') (\<lambda>_.
     rbind (fail_if (po_minimum_observers p = 0) ''minimum observers must be nonzero'') (\<lambda>_.
     rbind (fail_if (po_maximum_validity_ms p = 0) ''maximum validity must be nonzero'') (\<lambda>_.
     rbind (fail_if (po_required_coverage p = []) ''required coverage is empty'') (\<lambda>_.
     rbind (fail_if (windows_not_ascending (po_required_coverage p))
       ''required coverage must be unique and sorted'') (\<lambda>_.
     rbind (fail_if (list_ex (\<lambda>v. \<not> is_finite v \<or> f64_lt_zero v) (bt_values (po_coherence_tolerances p)))
       ''coherence tolerances must be finite and non-negative'') (\<lambda>_.
     case po_escalation p of
       None \<Rightarrow> Inr ()
     | Some x \<Rightarrow>
         fail_if (xp_triggers x = [] \<or> \<not> is_nonzero (xp_bounds x) \<or> xp_request_ttl_ms x = 0)
           ''escalation policy is incomplete''))))))))))))"

definition escalation_parts :: "escalation_policy \<Rightarrow> bytes list" where
  "escalation_parts x =
     ''escalation'' # map trigger_str (xp_triggers x)
     @ [dp_name (xp_diagnostic_profile x), u16_be (dp_version (xp_diagnostic_profile x)),
        dp_semantic_digest (xp_diagnostic_profile x),
        u64_be (db_maximum_runtime_ms (xp_bounds x)), u64_be (db_maximum_output_bytes (xp_bounds x)),
        u32_be (db_maximum_observations (xp_bounds x)), u64_be (xp_request_ttl_ms x)]"

text \<open>The parts behind the eleven fixed ones, as the source appends them.\<close>

definition escalation_tail :: "reliance_policy \<Rightarrow> bytes list" where
  "escalation_tail p = (case po_escalation p of None \<Rightarrow> [] | Some x \<Rightarrow> escalation_parts x)"

definition domains_tail :: "reliance_policy \<Rightarrow> bytes list" where
  "domains_tail p =
     concat (map (\<lambda>(obs, domain). [''failure-domain'', obs, domain]) (po_observer_failure_domains p))
     @ escalation_tail p"

definition coherence_tail :: "reliance_policy \<Rightarrow> bytes list" where
  "coherence_tail p =
     concat (map (\<lambda>(sig, tol). [''coherence'', sig, u64_be tol]) (po_coherence_tolerances p))
     @ domains_tail p"

definition coverage_tail :: "reliance_policy \<Rightarrow> bytes list" where
  "coverage_tail p =
     concat (map (\<lambda>tag. [''coverage'', tag]) (po_required_coverage p)) @ coherence_tail p"

definition policy_parts :: "reliance_policy \<Rightarrow> bytes list" where
  "policy_parts p =
     [u16_be (po_schema_version p), po_subject p, po_scope p, po_consumer p,
      po_observation_policy_generation p, op_name (po_observation_profile p),
      u16_be (op_version (po_observation_profile p)), op_semantic_digest (po_observation_profile p),
      u32_be (po_minimum_observers p), u64_be (po_maximum_validity_ms p),
      [if po_require_verified_authentication p then CHR 0x01 else CHR 0x00]]
     @ coverage_tail p"

definition policy_semantic_digest :: "hasher \<Rightarrow> reliance_policy \<Rightarrow> digest" where
  "policy_semantic_digest sha p = digest_parts sha ''reliance.policy.body.v1'' (policy_parts p)"

section \<open>What validation establishes\<close>

definition policy_ok :: "reliance_policy \<Rightarrow> bool" where
  "policy_ok p =
     (po_schema_version p = SCHEMA_VERSION_V1 \<and> good_identity (po_subject p)
      \<and> good_identity (po_consumer p) \<and> good_identity (po_generation p)
      \<and> good_identity (po_observation_policy_generation p) \<and> profile_ok (po_observation_profile p)
      \<and> po_scope p \<noteq> [] \<and> po_minimum_observers p \<noteq> 0 \<and> po_maximum_validity_ms p \<noteq> 0
      \<and> po_required_coverage p \<noteq> [] \<and> sorted_wrt (<) (po_required_coverage p)
      \<and> list_all (\<lambda>v. is_finite v \<and> \<not> f64_lt_zero v) (bt_values (po_coherence_tolerances p))
      \<and> (case po_escalation p of None \<Rightarrow> True
         | Some x \<Rightarrow> xp_triggers x \<noteq> [] \<and> is_nonzero (xp_bounds x) \<and> xp_request_ttl_ms x \<noteq> 0))"

lemma policy_validate_ok: "policy_validate p = Inr u \<longleftrightarrow> policy_ok p"
  unfolding policy_validate_def policy_ok_def
  by (simp only: result_simps)
     (auto simp: windows_not_ascending_iff list_ex_iff list_all_iff validate_identity_ok
       profile_validate_ok fail_if_eq_Inr split: option.splits)

section \<open>The body digest identifies the body\<close>

text \<open>Blocks of a fixed number of parts behind a marker, in front of something that starts otherwise.\<close>

definition starts_with :: "string \<Rightarrow> bytes list \<Rightarrow> bool" where
  "starts_with m ps = (case ps of p # _ \<Rightarrow> p = m | [] \<Rightarrow> False)"

locale marked_blocks =
  fixes m :: string and enc :: "'a \<Rightarrow> bytes list" and width :: nat
  assumes enc_marker: "\<exists>r. enc x = m # r \<and> length r = width"
    and enc_inject: "enc x = enc y \<Longrightarrow> x = y"
begin

lemma starts_block: "starts_with m (enc x @ R)"
  using enc_marker [of x] by (auto simp: starts_with_def)

lemma starts_other:
  assumes "m' \<noteq> m" and "\<not> starts_with m' R"
  shows "\<not> starts_with m' (concat (map enc xs) @ R)"
proof (cases xs)
  case (Cons x xs')
  then show ?thesis using enc_marker [of x] assms(1) by (auto simp: starts_with_def)
qed (use assms(2) in simp)

lemma length_enc: "length (enc x) = Suc width"
  using enc_marker [of x] by auto

lemma blocks_inject:
  assumes "concat (map enc xs) @ R = concat (map enc ys) @ S"
    and "\<not> starts_with m R" and "\<not> starts_with m S"
  shows "xs = ys \<and> R = S"
  using assms
proof (induction xs arbitrary: ys)
  case Nil
  then show ?case using starts_block by (cases ys) auto
next
  case (Cons x xs)
  then obtain y ys' where ys: "ys = y # ys'"
    using starts_block [of x "concat (map enc xs) @ R"] by (cases ys) auto
  then have "enc x = enc y \<and> concat (map enc xs) @ R = concat (map enc ys') @ S"
    using Cons.prems(1) length_enc [of x] length_enc [of y] by simp
  then show ?case using Cons.IH [of ys'] Cons.prems(2,3) enc_inject [of x y] ys by simp
qed

end

interpretation coverage_blocks: marked_blocks "''coverage''" "\<lambda>tag. [''coverage'', tag]" 1
  by unfold_locales auto

interpretation coherence_blocks: marked_blocks "''coherence''"
  "\<lambda>(sig, tol). [''coherence'', sig, u64_be tol]" 2
  by unfold_locales auto

interpretation domain_blocks: marked_blocks "''failure-domain''"
  "\<lambda>(obs, domain). [''failure-domain'', obs, domain]" 2
  by unfold_locales auto


lemma escalation_parts_inject:
  assumes "escalation_parts x = escalation_parts y"
  shows "x = y"
proof -
  let ?t = "\<lambda>x. [dp_name (xp_diagnostic_profile x), u16_be (dp_version (xp_diagnostic_profile x)),
        dp_semantic_digest (xp_diagnostic_profile x),
        u64_be (db_maximum_runtime_ms (xp_bounds x)), u64_be (db_maximum_output_bytes (xp_bounds x)),
        u32_be (db_maximum_observations (xp_bounds x)), u64_be (xp_request_ttl_ms x)]"
  have "map trigger_str (xp_triggers x) = map trigger_str (xp_triggers y) \<and> ?t x = ?t y"
    using assms unfolding escalation_parts_def by (intro append_eq_append_conv [THEN iffD1]) simp_all
  moreover have "inj trigger_str" by (simp add: inj_def)
  ultimately have "xp_triggers x = xp_triggers y" and "?t x = ?t y" by (simp_all add: inj_map_eq_map)
  then show ?thesis
    by (intro escalation_policy.equality diagnostic_profile_id.equality diagnostic_bounds.equality) simp_all
qed

lemma escalation_tail_start: "m \<noteq> ''escalation'' \<Longrightarrow> \<not> starts_with m (escalation_tail p)"
  by (simp add: starts_with_def escalation_tail_def escalation_parts_def split: option.split)

lemma domains_tail_start:
  "m \<noteq> ''escalation'' \<Longrightarrow> m \<noteq> ''failure-domain'' \<Longrightarrow> \<not> starts_with m (domains_tail p)"
  unfolding domains_tail_def by (intro domain_blocks.starts_other escalation_tail_start)

lemma coherence_tail_start: "\<not> starts_with ''coverage'' (coherence_tail p)"
  unfolding coherence_tail_def by (intro coherence_blocks.starts_other domains_tail_start) simp_all

lemma escalation_tail_inject: "escalation_tail p = escalation_tail q \<Longrightarrow> po_escalation p = po_escalation q"
  by (auto simp: escalation_tail_def escalation_parts_def [of "the _"] dest: escalation_parts_inject
      split: option.splits) (simp_all add: escalation_parts_def)

lemma coverage_tail_inject:
  assumes "coverage_tail p = coverage_tail q"
  shows "po_required_coverage p = po_required_coverage q
    \<and> po_coherence_tolerances p = po_coherence_tolerances q
    \<and> po_observer_failure_domains p = po_observer_failure_domains q
    \<and> po_escalation p = po_escalation q"
proof -
  have c: "po_required_coverage p = po_required_coverage q \<and> coherence_tail p = coherence_tail q"
    using assms unfolding coverage_tail_def
    by (rule coverage_blocks.blocks_inject) (rule coherence_tail_start)+
  have t: "po_coherence_tolerances p = po_coherence_tolerances q \<and> domains_tail p = domains_tail q"
    by (rule coherence_blocks.blocks_inject [OF conjunct2 [OF c, unfolded coherence_tail_def]])
       (rule domains_tail_start; simp)+
  have d: "po_observer_failure_domains p = po_observer_failure_domains q
      \<and> escalation_tail p = escalation_tail q"
    by (rule domain_blocks.blocks_inject [OF conjunct2 [OF t, unfolded domains_tail_def]])
       (rule escalation_tail_start; simp)+
  show ?thesis using c t d escalation_tail_inject by blast
qed

lemma policy_parts_inject:
  assumes "policy_parts p = policy_parts q"
  shows "p = q\<lparr>po_generation := po_generation p\<rparr>"
proof -
  have h: "po_schema_version p = po_schema_version q" "po_subject p = po_subject q"
    "po_scope p = po_scope q" "po_consumer p = po_consumer q"
    "po_observation_policy_generation p = po_observation_policy_generation q"
    "op_name (po_observation_profile p) = op_name (po_observation_profile q)"
    "op_version (po_observation_profile p) = op_version (po_observation_profile q)"
    "op_semantic_digest (po_observation_profile p) = op_semantic_digest (po_observation_profile q)"
    "po_minimum_observers p = po_minimum_observers q"
    "po_maximum_validity_ms p = po_maximum_validity_ms q"
    "po_require_verified_authentication p = po_require_verified_authentication q"
    and t: "coverage_tail p = coverage_tail q"
    using assms unfolding policy_parts_def by (simp_all split: if_splits)
  have "po_observation_profile p = po_observation_profile q"
    using h(6-8) by (rule observation_profile_id.expand [rule_format, OF conjI, OF _ conjI])
  with h coverage_tail_inject [OF t] show ?thesis
    by (intro reliance_policy.equality) simp_all
qed

text \<open>
  C21: the digest of a policy body identifies the body. Two policies with the same semantic digest,
  on whose transcripts SHA-256 does not collide, differ at most in their generation, as the
  source's comment says.
\<close>

theorem policy_digest_binds:
  assumes "policy_semantic_digest sha p = policy_semantic_digest sha q"
    and "inj_on sha {transcript ''reliance.policy.body.v1'' (policy_parts p),
                     transcript ''reliance.policy.body.v1'' (policy_parts q)}"
    and "\<forall>b \<in> set (policy_parts p) \<union> set (policy_parts q). fits_u64 b"
  shows "p = q\<lparr>po_generation := po_generation p\<rparr>"
proof -
  have "sha (transcript ''reliance.policy.body.v1'' (policy_parts p))
      = sha (transcript ''reliance.policy.body.v1'' (policy_parts q))"
    using assms(1) by (simp only: policy_semantic_digest_def digest_parts_eq_iff)
  then have t: "transcript ''reliance.policy.body.v1'' (policy_parts p)
      = transcript ''reliance.policy.body.v1'' (policy_parts q)"
    by (rule inj_onD [OF assms(2)]) simp_all
  have "fits_u64 ''reliance.policy.body.v1''" by (simp add: fits_u64_def)
  then have "policy_parts p = policy_parts q"
    using transcript_inject_iff [THEN iffD1, OF _ _ _ _ t] assms(3) by simp
  then show ?thesis by (rule policy_parts_inject)
qed

section \<open>A sample policy\<close>

definition sample_policy :: reliance_policy where
  "sample_policy =
     \<lparr>po_schema_version = SCHEMA_VERSION_V1, po_subject = ''host-a'', po_scope = ''host'',
      po_consumer = ''display'', po_generation = ''policy-1'',
      po_observation_policy_generation = ''gen-1'', po_observation_profile = sample_profile,
      po_required_coverage = [''cpu'', ''disk''], po_minimum_observers = 1,
      po_maximum_validity_ms = 2000, po_require_verified_authentication = False,
      po_coherence_tolerances = [(''load'', 0x3FF0000000000000)],
      po_observer_failure_domains = [(''probe-1'', ''rack-1'')],
      po_escalation = Some \<lparr>xp_triggers = [FreshnessLost, CoverageCollapse],
        xp_diagnostic_profile = \<lparr>dp_name = ''local.readonly.summary'', dp_version = 1,
          dp_semantic_digest = sample_digest\<rparr>,
        xp_bounds = \<lparr>db_maximum_runtime_ms = 50, db_maximum_output_bytes = 1024,
          db_maximum_observations = 4\<rparr>,
        xp_request_ttl_ms = 500\<rparr>\<rparr>"

lemma sample_digest_ok: "digest_validate sample_digest = Inr ()"
  by (simp add: sample_digest_def sample_digest_parts)

lemma sample_policy_ok: "policy_ok sample_policy"
proof -
  have "list_all good_identity [''host-a'', ''display'', ''policy-1'', ''gen-1'']"
    "good_field ''host-v1''" by code_simp+
  moreover have "is_finite 0x3FF0000000000000" "\<not> f64_lt_zero 0x3FF0000000000000"
    by (simp_all add: is_finite_def f64_exp_def f64_lt_zero_def f64_neg_def)
  ultimately show ?thesis
    by (simp add: policy_ok_def sample_policy_def profile_ok_def sample_profile_def sample_digest_ok
        is_nonzero_def bt_values_def)
qed

lemma sample_digest_length: "length sample_digest = 71"
  by (rule digest_validate_length) (rule sample_digest_ok)

lemma policy_digest_binds_witness:
  "let q = sample_policy\<lparr>po_generation := ''policy-2''\<rparr> in
     sample_policy \<noteq> q \<and> policy_semantic_digest sample_sha sample_policy = policy_semantic_digest sample_sha q
     \<and> sample_policy = q\<lparr>po_generation := po_generation sample_policy\<rparr>"
proof -
  let ?q = "sample_policy\<lparr>po_generation := ''policy-2''\<rparr>"
  have parts: "policy_parts ?q = policy_parts sample_policy"
    by (simp add: policy_parts_def coverage_tail_def coherence_tail_def domains_tail_def escalation_tail_def)
  have "\<forall>b \<in> set (policy_parts sample_policy). fits_u64 b"
    by (simp add: policy_parts_def coverage_tail_def coherence_tail_def domains_tail_def
        escalation_tail_def escalation_parts_def sample_policy_def sample_profile_def fits_u64_def
        sample_digest_length)
  then have fits: "\<forall>b \<in> set (policy_parts sample_policy) \<union> set (policy_parts ?q). fits_u64 b"
    by (simp only: parts Un_absorb)
  have dig: "policy_semantic_digest sample_sha sample_policy = policy_semantic_digest sample_sha ?q"
    by (simp only: policy_semantic_digest_def parts)
  have "sample_policy = ?q\<lparr>po_generation := po_generation sample_policy\<rparr>"
    by (rule policy_digest_binds [OF dig _ fits]) (simp only: parts insert_absorb2 inj_on_insert inj_on_empty, simp)
  moreover have "sample_policy \<noteq> ?q" by (simp add: sample_policy_def)
  ultimately show ?thesis using dig unfolding Let_def by blast
qed

end
