(* ===== verification/Lineage.thy ===== *)
theory Lineage
  imports Pulse
begin

text \<open>
  What a custodian of pulse sequences promises, apart from how it stores them. A lineage is the
  last accepted occurrence of one stream and the observer incarnations it has left behind.
  \<open>ReceiverTracker::annotate\<close> and the pair \<open>classify_arrival\<close>/\<open>update_lineage\<close> of the evaluator both
  implement \<open>lineage_step\<close>; the locale \<open>sequence_custodian\<close> is their common contract.
\<close>

record lineage =
  li_last :: "(incarnation_id \<times> u64) option"
  li_retired :: "incarnation_id set"

definition accepted :: "arrival_disposition \<Rightarrow> bool" where
  "accepted d = (d \<in> {First, Continuous, Gap, Restarted})"

text \<open>How an occurrence compares with a lineage.\<close>

definition arrival_class ::
  "lineage \<Rightarrow> incarnation_id \<Rightarrow> u64 \<Rightarrow> arrival_disposition \<times> sequence_gap option" where
  "arrival_class l inc sq =
     (case li_last l of
        None \<Rightarrow> (First, None)
      | Some (i, s) \<Rightarrow>
          if i = inc then
            if sq = s then (Duplicate, None)
            else if sq < s then (Replay, None)
            else if sq = sat_add s 1 then (Continuous, None)
            else (Gap, Some \<lparr>sg_expected_next = sat_add s 1, sg_received = sq,
                             sg_missing_count = sq - sat_add s 1\<rparr>)
          else if inc \<in> li_retired l then (Replay, None)
          else (Restarted, None))"

text \<open>What acceptance makes of a lineage.\<close>

definition advance :: "lineage \<Rightarrow> incarnation_id \<Rightarrow> u64 \<Rightarrow> lineage" where
  "advance l inc sq =
     l\<lparr>li_last := Some (inc, sq),
       li_retired := li_retired l \<union> {i. \<exists>s. li_last l = Some (i, s) \<and> i \<noteq> inc}\<rparr>"

definition lineage_step :: "lineage \<Rightarrow> incarnation_id \<Rightarrow> u64 \<Rightarrow> lineage" where
  "lineage_step l inc sq = (if accepted (fst (arrival_class l inc sq)) then advance l inc sq else l)"

lemma accepted_simps [simp]:
  "accepted First" "accepted Continuous" "accepted Gap" "accepted Restarted"
  "\<not> accepted Duplicate" "\<not> accepted Replay" "\<not> accepted Stale"
  by (simp_all add: accepted_def)

section \<open>Gap arithmetic\<close>

lemma sat_add_one_less:
  fixes s :: "'a::len word"
  assumes "s < q"
  shows "s < sat_add s 1" and "sat_add s 1 \<le> q"
proof -
  have "unat s < unat q" using assms by (simp add: word_less_nat_alt)
  moreover have "unat (sat_add s 1) = min (unat s + unat (1 :: 'a word)) (2 ^ LENGTH('a) - 1)"
    by (rule unat_sat_add)
  moreover have "unat q < 2 ^ LENGTH('a)" by (rule unsigned_less)
  moreover have "unat (1 :: 'a word) = 1" by simp
  ultimately have "unat s < unat (sat_add s 1)" and "unat (sat_add s 1) \<le> unat q" by linarith+
  then show "s < sat_add s 1" and "sat_add s 1 \<le> q"
    by (simp_all only: word_less_nat_alt word_le_nat_alt)
qed

lemma arrival_class_gap:
  assumes "arrival_class l inc sq = (d, g)"
  shows "gap_validate d g = Inr ()"
proof -
  have "sat_add s 1 < sq" if "\<not> sq < s" "sq \<noteq> s" "sq \<noteq> sat_add s 1" for s :: u64
    using sat_add_one_less(2) [of s sq] that by (simp add: le_less)
  then have "\<not> sq \<le> sat_add s 1" if "\<not> sq < s" "sq \<noteq> s" "sq \<noteq> sat_add s 1" for s :: u64
    using that by (simp add: not_le)
  then show ?thesis
    using assms by (auto simp: arrival_class_def gap_validate_def fail_if_def
        split: option.splits prod.splits if_splits)
qed

section \<open>An occurrence is accepted at most once\<close>

text \<open>The occurrences a lineage has behind it.\<close>

definition behind :: "lineage \<Rightarrow> (incarnation_id \<times> u64) set" where
  "behind l = {(i, s). i \<in> li_retired l \<or> (\<exists>s'. li_last l = Some (i, s') \<and> s \<le> s')}"

definition lineage_ok :: "lineage \<Rightarrow> bool" where
  "lineage_ok l = (\<forall>i s. li_last l = Some (i, s) \<longrightarrow> i \<notin> li_retired l)"

definition lineage_new :: lineage where
  "lineage_new = \<lparr>li_last = None, li_retired = {}\<rparr>"

lemma lineage_new_ok [simp]: "lineage_ok lineage_new" "behind lineage_new = {}"
  by (simp_all add: lineage_ok_def lineage_new_def behind_def)

lemma accepted_not_behind:
  assumes "accepted (fst (arrival_class l inc sq))" and "lineage_ok l"
    and "li_last l = None \<Longrightarrow> inc \<notin> li_retired l"
  shows "(inc, sq) \<notin> behind l"
  using assms by (auto simp: arrival_class_def behind_def lineage_ok_def
      split: option.splits prod.splits if_splits)

lemma accepted_class:
  assumes "accepted (fst (arrival_class l inc sq))" and "li_last l = Some (i, s)"
  shows "i = inc \<and> s < sq \<or> i \<noteq> inc \<and> inc \<notin> li_retired l"
  using assms by (auto simp: arrival_class_def split: if_splits)

lemma advance_behind:
  assumes "accepted (fst (arrival_class l inc sq))"
  shows "insert (inc, sq) (behind l) \<subseteq> behind (advance l inc sq)"
  using accepted_class [OF assms]
  by (fastforce simp: behind_def advance_def intro: order_trans less_imp_le)

lemma advance_ok:
  assumes "accepted (fst (arrival_class l inc sq))" and "lineage_ok l"
    and "li_last l = None \<Longrightarrow> inc \<notin> li_retired l"
  shows "lineage_ok (advance l inc sq)"
proof (cases "li_last l")
  case None
  then show ?thesis using assms(3) by (simp add: lineage_ok_def advance_def)
next
  case (Some p)
  then obtain i s where "li_last l = Some (i, s)" by (cases p) simp
  then show ?thesis
    using accepted_class [OF assms(1)] assms(2) by (auto simp: lineage_ok_def advance_def)
qed

lemma advance_last: "li_last (advance l inc sq) = Some (inc, sq)"
  by (simp add: advance_def)

text \<open>The occurrences a sequence of arrivals has accepted, oldest first.\<close>

fun accepted_run :: "lineage \<Rightarrow> (incarnation_id \<times> u64) list \<Rightarrow> (incarnation_id \<times> u64) list" where
  "accepted_run l [] = []"
| "accepted_run l ((inc, sq) # os) =
     (if accepted (fst (arrival_class l inc sq)) then (inc, sq) # accepted_run (advance l inc sq) os
      else accepted_run l os)"

lemma accepted_run_fresh:
  assumes "lineage_ok l" and "li_last l = None \<Longrightarrow> li_retired l = {}"
  shows "distinct (accepted_run l os) \<and> set (accepted_run l os) \<inter> behind l = {}"
  using assms
proof (induction os arbitrary: l)
  case Nil
  then show ?case by simp
next
  case (Cons o' os)
  obtain inc sq where o: "o' = (inc, sq)" by (cases o')
  show ?case
  proof (cases "accepted (fst (arrival_class l inc sq))")
    case True
    have fresh: "(inc, sq) \<notin> behind l"
      using accepted_not_behind [OF True Cons.prems(1)] Cons.prems(2) by simp
    have "distinct (accepted_run (advance l inc sq) os)
        \<and> set (accepted_run (advance l inc sq) os) \<inter> behind (advance l inc sq) = {}"
      using advance_ok [OF True Cons.prems(1)] Cons.prems(2)
      by (intro Cons.IH) (simp_all add: advance_last)
    then show ?thesis using True fresh advance_behind [OF True] o by auto
  next
    case False
    then show ?thesis using Cons o by simp
  qed
qed

section \<open>The contract of a sequence custodian\<close>

definition occurrence :: "pulse_frame \<Rightarrow> incarnation_id \<times> u64" where
  "occurrence f = (pf_observer_incarnation f, pf_sequence f)"

text \<open>
  A custodian answers an arrival with a disposition and gap, or with none if it rejects it. The
  frames it accepts out of a sequence of arrivals:
\<close>

definition takes :: "(arrival_disposition \<times> sequence_gap option) option \<Rightarrow> bool" where
  "takes r = (case r of None \<Rightarrow> False | Some (d, _) \<Rightarrow> accepted d)"

lemma takes_simps [simp]: "\<not> takes None" "takes (Some r) = accepted (fst r)"
  by (simp_all add: takes_def split: prod.split)

fun custody_run ::
  "('st \<Rightarrow> 'e \<Rightarrow> 'st \<times> (arrival_disposition \<times> sequence_gap option) option) \<Rightarrow>
   ('e \<Rightarrow> pulse_frame) \<Rightarrow> 'st \<Rightarrow> 'e list \<Rightarrow> pulse_frame list" where
  "custody_run arrive frame st [] = []"
| "custody_run arrive frame st (e # es) =
     (if takes (snd (arrive st e)) then frame e # custody_run arrive frame (fst (arrive st e)) es
      else custody_run arrive frame (fst (arrive st e)) es)"

locale sequence_custodian =
  fixes view :: "'st \<Rightarrow> 'k \<Rightarrow> lineage"
    and key :: "pulse_frame \<Rightarrow> 'k"
    and frame :: "'e \<Rightarrow> pulse_frame"
    and admit :: "'st \<Rightarrow> 'e \<Rightarrow> bool"
    and arrive :: "'st \<Rightarrow> 'e \<Rightarrow> 'st \<times> (arrival_disposition \<times> sequence_gap option) option"
  assumes arrive_class: "admit st e \<Longrightarrow>
      snd (arrive st e) = Some (arrival_class (view st (key (frame e)))
        (pf_observer_incarnation (frame e)) (pf_sequence (frame e)))"
    and arrive_refused: "\<not> admit st e \<Longrightarrow> snd (arrive st e) \<in> {None, Some (Replay, None), Some (Stale, None)}"
    and view_arrive: "view (fst (arrive st e)) k =
      (if k = key (frame e) \<and> admit st e
       then lineage_step (view st k) (pf_observer_incarnation (frame e)) (pf_sequence (frame e))
       else view st k)"
begin

lemma arrive_gap_valid: "snd (arrive st e) = Some (d, g) \<Longrightarrow> gap_validate d g = Inr ()"
proof (cases "admit st e")
  case True
  then show "snd (arrive st e) = Some (d, g) \<Longrightarrow> gap_validate d g = Inr ()"
    using arrival_class_gap by (simp add: arrive_class)
next
  case False
  then show "snd (arrive st e) = Some (d, g) \<Longrightarrow> gap_validate d g = Inr ()"
    using arrive_refused [OF False] by (auto simp: gap_validate_def)
qed

lemma arrive_takes:
  assumes "takes (snd (arrive st e))" and "key (frame e) = k"
  shows "accepted (fst (arrival_class (view st k) (pf_observer_incarnation (frame e)) (pf_sequence (frame e))))"
    and "view (fst (arrive st e)) k
      = advance (view st k) (pf_observer_incarnation (frame e)) (pf_sequence (frame e))"
proof -
  have a: "admit st e"
  proof (rule ccontr)
    assume "\<not> admit st e"
    from arrive_refused [OF this] assms(1) show False by auto
  qed
  then show b: "accepted (fst (arrival_class (view st k) (pf_observer_incarnation (frame e)) (pf_sequence (frame e))))"
    using assms by (simp add: arrive_class)
  then show "view (fst (arrive st e)) k
      = advance (view st k) (pf_observer_incarnation (frame e)) (pf_sequence (frame e))"
    using a assms(2) by (simp add: view_arrive lineage_step_def)
qed

lemma arrive_not_taken: "\<not> takes (snd (arrive st e)) \<Longrightarrow> view (fst (arrive st e)) k = view st k"
  by (auto simp: view_arrive arrive_class lineage_step_def)

lemma accepted_once:
  assumes "lineage_ok (view st k)" and "li_last (view st k) = None \<Longrightarrow> li_retired (view st k) = {}"
  shows "distinct (map occurrence (filter (\<lambda>f. key f = k) (custody_run arrive frame st es)))
    \<and> occurrence ` {f \<in> set (custody_run arrive frame st es). key f = k} \<inter> behind (view st k) = {}"
  using assms
proof (induction es arbitrary: st)
  case Nil
  then show ?case by simp
next
  case (Cons e es)
  let ?l = "view st k" and ?st = "fst (arrive st e)" and ?f = "frame e"
  show ?case
  proof (cases "takes (snd (arrive st e)) \<and> key ?f = k")
    case True
    then have acc: "accepted (fst (arrival_class ?l (pf_observer_incarnation ?f) (pf_sequence ?f)))"
      and view: "view ?st k = advance ?l (pf_observer_incarnation ?f) (pf_sequence ?f)"
      using arrive_takes [of st e k] by auto
    have fresh: "occurrence ?f \<notin> behind ?l"
      unfolding occurrence_def
      using accepted_not_behind [OF acc Cons.prems(1)] Cons.prems(2) by simp
    have "distinct (map occurrence (filter (\<lambda>f. key f = k) (custody_run arrive frame ?st es)))
        \<and> occurrence ` {f \<in> set (custody_run arrive frame ?st es). key f = k} \<inter> behind (view ?st k) = {}"
      using advance_ok [OF acc Cons.prems(1)] Cons.prems(2)
      by (intro Cons.IH) (simp_all add: view advance_last)
    then show ?thesis
      using True fresh advance_behind [OF acc] by (auto simp: view occurrence_def [of ?f])
  next
    case False
    then have view: "view ?st k = ?l"
      using arrive_not_taken [of st e k] by (auto simp: view_arrive)
    have "distinct (map occurrence (filter (\<lambda>f. key f = k) (custody_run arrive frame ?st es)))
        \<and> occurrence ` {f \<in> set (custody_run arrive frame ?st es). key f = k} \<inter> behind (view ?st k) = {}"
      using Cons.prems by (intro Cons.IH) (simp_all add: view)
    then show ?thesis using False by (auto simp: view)
  qed
qed

end

end
