(* ===== verification/Receiver.thy ===== *)
theory Receiver
  imports Lineage BTree
begin

text \<open>
  The receiver-side annotator (\<open>crates/pulse-evaluator/src/receiver.rs\<close>): \<open>ReceiverTracker\<close> with
  \<open>annotate\<close> and \<open>activate_subject_incarnation\<close>. The tracker is an interpretation of
  \<open>sequence_custodian\<close>, one lineage per stream key.
\<close>

section \<open>State\<close>

datatype receiver_stream_key = ReceiverStreamKey
  (rk_subject: subject_id) (rk_observer: observer_id) (rk_profile: observation_profile_id)
  (rk_generation: observation_policy_generation_id)

text \<open>The derived \<open>Ord\<close> is lexicographic in the order of the fields.\<close>

definition stream_key_tuple ::
  "receiver_stream_key \<Rightarrow> string \<times> string \<times> observation_profile_id \<times> string" where
  "stream_key_tuple k = (rk_subject k, rk_observer k, rk_profile k, rk_generation k)"

lemma stream_key_tuple_inject [simp]: "stream_key_tuple a = stream_key_tuple b \<longleftrightarrow> a = b"
  by (cases a; cases b) (simp add: stream_key_tuple_def)

instantiation receiver_stream_key :: linorder
begin

definition less_eq_receiver_stream_key :: "receiver_stream_key \<Rightarrow> receiver_stream_key \<Rightarrow> bool" where
  "less_eq_receiver_stream_key a b = (stream_key_tuple a \<le> stream_key_tuple b)"

definition less_receiver_stream_key :: "receiver_stream_key \<Rightarrow> receiver_stream_key \<Rightarrow> bool" where
  "less_receiver_stream_key a b = (stream_key_tuple a < stream_key_tuple b)"

instance
  by standard
     (auto simp: less_eq_receiver_stream_key_def less_receiver_stream_key_def
       simp flip: stream_key_tuple_inject)

end

record receiver_stream =
  rs_incarnation :: incarnation_id
  rs_sequence :: u64

record receiver_tracker =
  tr_receiver :: receiver_id
  tr_receiver_incarnation :: incarnation_id
  tr_clock_id :: clock_id
  tr_streams :: "(receiver_stream_key, receiver_stream) btmap"
  tr_retired :: "(receiver_stream_key \<times> incarnation_id) btset"
  tr_subject_incarnations :: "(subject_id, incarnation_id) btmap"
  tr_retired_subject_incarnations :: "(subject_id \<times> incarnation_id) btset"

definition tracker_new :: "receiver_id \<Rightarrow> incarnation_id \<Rightarrow> clock_id \<Rightarrow> receiver_tracker" where
  "tracker_new receiver receiver_incarnation clock_id =
     \<lparr>tr_receiver = receiver, tr_receiver_incarnation = receiver_incarnation, tr_clock_id = clock_id,
      tr_streams = [], tr_retired = [], tr_subject_incarnations = [],
      tr_retired_subject_incarnations = []\<rparr>"

section \<open>\<open>annotate\<close>\<close>

definition effective_stale :: "u64 option \<Rightarrow> pulse_frame \<Rightarrow> bool" where
  "effective_stale delay f = (case delay of None \<Rightarrow> False | Some d \<Rightarrow> pf_validity_ms f \<le> d)"

definition retired_subject :: "receiver_tracker \<Rightarrow> pulse_frame \<Rightarrow> bool" where
  "retired_subject tr f =
     bs_contains (tr_retired_subject_incarnations tr) (pf_subject f, pf_subject_incarnation f)"

definition note_subject :: "receiver_tracker \<Rightarrow> pulse_frame \<Rightarrow> receiver_tracker" where
  "note_subject tr f =
     (if retired_subject tr f then tr
      else case bt_get (tr_subject_incarnations tr) (pf_subject f) of
        Some prior \<Rightarrow>
          if prior \<noteq> pf_subject_incarnation f then
            tr\<lparr>tr_retired_subject_incarnations :=
                 bs_insert (pf_subject f, prior) (tr_retired_subject_incarnations tr),
               tr_subject_incarnations :=
                 bt_insert (pf_subject f) (pf_subject_incarnation f) (tr_subject_incarnations tr)\<rparr>
          else tr
      | None \<Rightarrow>
          tr\<lparr>tr_subject_incarnations :=
               bt_insert (pf_subject f) (pf_subject_incarnation f) (tr_subject_incarnations tr)\<rparr>)"

definition stream_key :: "pulse_frame \<Rightarrow> receiver_stream_key" where
  "stream_key f =
     ReceiverStreamKey (pf_subject f) (pf_observer f) (pf_profile f) (pf_observation_policy_generation f)"

definition put_stream :: "pulse_frame \<Rightarrow> receiver_tracker \<Rightarrow> receiver_tracker" where
  "put_stream f tr =
     tr\<lparr>tr_streams := bt_insert (stream_key f)
          \<lparr>rs_incarnation = pf_observer_incarnation f, rs_sequence = pf_sequence f\<rparr> (tr_streams tr)\<rparr>"

definition classify_stream ::
  "receiver_tracker \<Rightarrow> pulse_frame \<Rightarrow> receiver_tracker \<times> arrival_disposition \<times> sequence_gap option" where
  "classify_stream tr f =
     (case bt_get (tr_streams tr) (stream_key f) of
        Some stream \<Rightarrow>
          if rs_incarnation stream = pf_observer_incarnation f then
            if pf_sequence f = rs_sequence stream then (tr, Duplicate, None)
            else if pf_sequence f < rs_sequence stream then (tr, Replay, None)
            else if pf_sequence f = sat_add (rs_sequence stream) 1 then (put_stream f tr, Continuous, None)
            else
              let expected_next = sat_add (rs_sequence stream) 1 in
              (put_stream f tr, Gap,
               Some \<lparr>sg_expected_next = expected_next, sg_received = pf_sequence f,
                     sg_missing_count = pf_sequence f - expected_next\<rparr>)
          else if bs_contains (tr_retired tr) (stream_key f, pf_observer_incarnation f) then
            (tr, Replay, None)
          else
            (put_stream f
               (tr\<lparr>tr_retired := bs_insert (stream_key f, rs_incarnation stream) (tr_retired tr)\<rparr>),
             Restarted, None)
      | None \<Rightarrow> (put_stream f tr, First, None))"

definition observe_frame ::
  "receiver_tracker \<Rightarrow> pulse_frame \<Rightarrow> receiver_tracker \<times> arrival_disposition \<times> sequence_gap option" where
  "observe_frame tr f =
     (if retired_subject tr f then (note_subject tr f, Replay, None)
      else classify_stream (note_subject tr f) f)"

definition annotation ::
  "receiver_tracker \<Rightarrow> u64 \<Rightarrow> arrival_disposition \<Rightarrow> sequence_gap option \<Rightarrow> string \<Rightarrow> u64 option \<Rightarrow>
   authentication_result \<Rightarrow> receiver_annotation" where
  "annotation tr arrival disposition gap path delay auth =
     \<lparr>ra_schema_version = SCHEMA_VERSION_V1, ra_receiver = tr_receiver tr,
      ra_receiver_incarnation = tr_receiver_incarnation tr, ra_clock_id = tr_clock_id tr,
      ra_arrival_monotonic_ms = arrival, ra_disposition = disposition, ra_sequence_gap = gap,
      ra_transport_path = path, ra_transport_observed_delay_ms = delay, ra_authentication = auth\<rparr>"

definition annotate ::
  "hasher \<Rightarrow> receiver_tracker \<Rightarrow> pulse_frame \<Rightarrow> u64 \<Rightarrow> string \<Rightarrow> u64 option \<Rightarrow> authentication_result \<Rightarrow>
   receiver_tracker \<times> (pulse_error + receiver_annotation)" where
  "annotate sha tr f arrival path delay auth =
     (case frame_validate sha f of
        Inl e \<Rightarrow> (tr, Inl e)
      | Inr _ \<Rightarrow>
          if effective_stale delay f then (tr, Inr (annotation tr arrival Stale None path delay auth))
          else
            let (tr', disposition, gap) = observe_frame tr f
            in (tr', Inr (annotation tr' arrival disposition gap path delay auth)))"

section \<open>\<open>activate_subject_incarnation\<close>\<close>

fun retire_streams ::
  "(receiver_stream_key \<times> incarnation_id) list \<Rightarrow> receiver_tracker \<Rightarrow> receiver_tracker" where
  "retire_streams [] tr = tr"
| "retire_streams ((key, inc) # rest) tr =
     retire_streams rest
       (tr\<lparr>tr_streams := bt_remove key (tr_streams tr),
          tr_retired := bs_insert (key, inc) (tr_retired tr)\<rparr>)"

definition activate_subject_incarnation ::
  "receiver_tracker \<Rightarrow> subject_id \<Rightarrow> incarnation_id \<Rightarrow> receiver_tracker \<times> (pulse_error + unit)" where
  "activate_subject_incarnation tr subject replacement =
     (case rbind
        (map_err (\<lambda>e. pe_invalid ''subject'' (ie_reason e)) (validate_identity ''SubjectId'' subject)) (\<lambda>_.
         map_err (\<lambda>e. pe_invalid ''subject_incarnation'' (ie_reason e))
           (validate_identity ''IncarnationId'' replacement)) of
        Inl e \<Rightarrow> (tr, Inl e)
      | Inr _ \<Rightarrow>
          let tr1 = tr\<lparr>tr_subject_incarnations :=
                bt_insert subject replacement (tr_subject_incarnations tr)\<rparr>;
              tr2 = (case bt_get (tr_subject_incarnations tr) subject of
                Some prior \<Rightarrow> tr1\<lparr>tr_retired_subject_incarnations :=
                  bs_insert (subject, prior) (tr_retired_subject_incarnations tr1)\<rparr>
              | None \<Rightarrow> tr1);
              retiring = map (\<lambda>(key, stream). (key, rs_incarnation stream))
                (filter (\<lambda>(key, _). rk_subject key = subject) (tr_streams tr2))
          in (retire_streams retiring tr2, Inr ()))"

section \<open>The tracker is a sequence custodian\<close>

record arrival =
  ar_frame :: pulse_frame
  ar_at_ms :: u64
  ar_path :: string
  ar_delay_ms :: "u64 option"
  ar_authentication :: authentication_result

definition annotate_arrival ::
  "hasher \<Rightarrow> receiver_tracker \<Rightarrow> arrival \<Rightarrow> receiver_tracker \<times> (pulse_error + receiver_annotation)" where
  "annotate_arrival sha tr a =
     annotate sha tr (ar_frame a) (ar_at_ms a) (ar_path a) (ar_delay_ms a) (ar_authentication a)"

definition tracker_arrive ::
  "hasher \<Rightarrow> receiver_tracker \<Rightarrow> arrival \<Rightarrow>
   receiver_tracker \<times> (arrival_disposition \<times> sequence_gap option) option" where
  "tracker_arrive sha tr a =
     (let (tr', r) = annotate_arrival sha tr a
      in (tr', case r of Inl _ \<Rightarrow> None | Inr an \<Rightarrow> Some (ra_disposition an, ra_sequence_gap an)))"

definition tracker_lineage :: "receiver_tracker \<Rightarrow> receiver_stream_key \<Rightarrow> lineage" where
  "tracker_lineage tr k =
     \<lparr>li_last = map_option (\<lambda>s. (rs_incarnation s, rs_sequence s)) (bt_get (tr_streams tr) k),
      li_retired = {i. bs_contains (tr_retired tr) (k, i)}\<rparr>"

definition tracker_admits :: "hasher \<Rightarrow> receiver_tracker \<Rightarrow> arrival \<Rightarrow> bool" where
  "tracker_admits sha tr a =
     (frame_validate sha (ar_frame a) = Inr () \<and> \<not> effective_stale (ar_delay_ms a) (ar_frame a)
      \<and> \<not> retired_subject tr (ar_frame a))"

lemma note_subject_streams [simp]:
  "tr_streams (note_subject tr f) = tr_streams tr" "tr_retired (note_subject tr f) = tr_retired tr"
  by (simp_all add: note_subject_def split: option.split)

lemma tracker_lineage_note [simp]: "tracker_lineage (note_subject tr f) k = tracker_lineage tr k"
  by (simp add: tracker_lineage_def)

lemma classify_stream_class:
  "snd (classify_stream tr f)
   = arrival_class (tracker_lineage tr (stream_key f)) (pf_observer_incarnation f) (pf_sequence f)"
  by (simp add: classify_stream_def arrival_class_def tracker_lineage_def Let_def split: option.split)

lemma classify_stream_lineage:
  "tracker_lineage (fst (classify_stream tr f)) k =
     (if k = stream_key f
      then lineage_step (tracker_lineage tr k) (pf_observer_incarnation f) (pf_sequence f)
      else tracker_lineage tr k)"
  by (auto simp: classify_stream_def lineage_step_def arrival_class_def tracker_lineage_def
      advance_def put_stream_def btree_simps Let_def split: option.split)

lemma annotate_admitted:
  assumes "tracker_admits sha tr a"
  shows "annotate_arrival sha tr a =
    (let (tr', d, g) = classify_stream (note_subject tr (ar_frame a)) (ar_frame a)
     in (tr', Inr (annotation tr' (ar_at_ms a) d g (ar_path a) (ar_delay_ms a) (ar_authentication a))))"
  using assms by (simp add: tracker_admits_def annotate_arrival_def annotate_def observe_frame_def)

lemma annotate_refused:
  assumes "\<not> tracker_admits sha tr a"
  shows "tr_streams (fst (annotate_arrival sha tr a)) = tr_streams tr"
    and "tr_retired (fst (annotate_arrival sha tr a)) = tr_retired tr"
    and "snd (tracker_arrive sha tr a) \<in> {None, Some (Replay, None), Some (Stale, None)}"
  using assms
  by (auto simp: tracker_admits_def tracker_arrive_def annotate_arrival_def annotate_def annotation_def
      observe_frame_def split: sum.split)

interpretation tracker: sequence_custodian tracker_lineage stream_key ar_frame
  "tracker_admits sha" "tracker_arrive sha" for sha
proof
  fix tr a k
  show "snd (tracker_arrive sha tr a) = Some (arrival_class (tracker_lineage tr (stream_key (ar_frame a)))
      (pf_observer_incarnation (ar_frame a)) (pf_sequence (ar_frame a)))" if "tracker_admits sha tr a"
    using classify_stream_class [of "note_subject tr (ar_frame a)" "ar_frame a"]
    by (auto simp: tracker_arrive_def annotate_admitted [OF that] annotation_def split: prod.splits)
  show "snd (tracker_arrive sha tr a) \<in> {None, Some (Replay, None), Some (Stale, None)}"
    if "\<not> tracker_admits sha tr a"
    by (rule annotate_refused(3) [OF that])
  show "tracker_lineage (fst (tracker_arrive sha tr a)) k =
      (if k = stream_key (ar_frame a) \<and> tracker_admits sha tr a
       then lineage_step (tracker_lineage tr k) (pf_observer_incarnation (ar_frame a))
         (pf_sequence (ar_frame a))
       else tracker_lineage tr k)"
  proof (cases "tracker_admits sha tr a")
    case True
    have "fst (tracker_arrive sha tr a) = fst (classify_stream (note_subject tr (ar_frame a)) (ar_frame a))"
      by (simp add: tracker_arrive_def annotate_admitted [OF True] split: prod.split)
    then show ?thesis using True classify_stream_lineage by simp
  next
    case False
    have "fst (tracker_arrive sha tr a) = fst (annotate_arrival sha tr a)"
      by (simp add: tracker_arrive_def split: prod.split)
    then show ?thesis using False annotate_refused(1,2) [OF False] by (simp add: tracker_lineage_def)
  qed
qed

section \<open>What the tracker guarantees\<close>

text \<open>
  C22: whatever arrives at a new receiver, in whatever order, no occurrence of a stream (one observer
  incarnation and sequence number) is ever accepted twice: replays, duplicates and pulses of an
  observer incarnation that has been replaced are all answered otherwise.
\<close>

theorem receiver_accepts_once:
  "distinct (map occurrence (filter (\<lambda>f. stream_key f = k)
     (custody_run (tracker_arrive sha) ar_frame (tracker_new receiver inc clock) arrivals)))"
proof -
  have "tracker_lineage (tracker_new receiver inc clock) k = lineage_new"
    by (simp add: tracker_lineage_def tracker_new_def lineage_new_def bs_contains_def)
  then show ?thesis
    using tracker.accepted_once [of "tracker_new receiver inc clock" k sha arrivals]
    by (simp add: lineage_new_def lineage_ok_def)
qed

text \<open>
  C23: on a valid frame, and when the receiver's own identities, the transport path and the
  authentication result are well formed (which neither \<open>new\<close> nor \<open>annotate\<close> checks), \<open>annotate\<close> does not
  fail and what it returns together with the frame passes \<open>ReceivedPulseV1::validate\<close>, gap arithmetic
  included.
\<close>

theorem annotate_validates:
  assumes "frame_validate sha f = Inr ()"
    and "good_identity (tr_receiver tr)" and "good_identity (tr_receiver_incarnation tr)"
    and "good_identity (tr_clock_id tr)" and "good_field path"
    and "authentication_result_validate auth = Inr ()"
  shows "\<exists>tr' a. annotate sha tr f at path delay auth = (tr', Inr a)
    \<and> received_validate sha \<lparr>rp_frame = f, rp_receiver = a\<rparr> = Inr ()"
proof -
  define e where "e = \<lparr>ar_frame = f, ar_at_ms = at, ar_path = path, ar_delay_ms = delay,
    ar_authentication = auth\<rparr>"
  obtain tr' r where r: "annotate sha tr f at path delay auth = (tr', r)"
    by (cases "annotate sha tr f at path delay auth")
  have noted: "tr_receiver (note_subject tr f) = tr_receiver tr"
    "tr_receiver_incarnation (note_subject tr f) = tr_receiver_incarnation tr"
    "tr_clock_id (note_subject tr f) = tr_clock_id tr"
    by (simp_all add: note_subject_def split: option.split)
  have cls: "tr_receiver (fst (classify_stream tr f)) = tr_receiver tr"
    "tr_receiver_incarnation (fst (classify_stream tr f)) = tr_receiver_incarnation tr"
    "tr_clock_id (fst (classify_stream tr f)) = tr_clock_id tr" for tr
    by (simp_all add: classify_stream_def put_stream_def Let_def split: option.split)
  have ids: "tr_receiver tr' = tr_receiver tr" "tr_receiver_incarnation tr' = tr_receiver_incarnation tr"
    "tr_clock_id tr' = tr_clock_id tr"
    using r assms(1) noted cls [of "note_subject tr f"]
    by (auto simp: annotate_def observe_frame_def Let_def split: if_splits prod.splits)
  obtain d g where a: "r = Inr (annotation tr' at d g path delay auth)"
    using r assms(1) by (auto simp: annotate_def Let_def split: if_splits prod.splits)
  have "snd (tracker_arrive sha tr e) = Some (d, g)"
    using r a by (simp add: tracker_arrive_def annotate_arrival_def e_def annotation_def)
  then have "gap_validate d g = Inr ()" by (rule tracker.arrive_gap_valid)
  then show ?thesis
    using r a ids assms
    by (simp add: received_validate_def annotation_validate_def annotation_def result_simps)
qed

definition sample_tracker :: receiver_tracker where
  "sample_tracker = tracker_new ''receiver-1'' ''r-boot-1'' ''clock-1''"

theorem annotate_validates_witness:
  "\<exists>tr' a. annotate sample_sha sample_tracker (sample_pulse 7) 100 ''udp'' (Some 3) NotChecked = (tr', Inr a)
    \<and> received_validate sample_sha \<lparr>rp_frame = sample_pulse 7, rp_receiver = a\<rparr> = Inr ()"
proof (rule annotate_validates [OF sample_pulse_valid])
  show "good_identity (tr_receiver sample_tracker)" "good_identity (tr_receiver_incarnation sample_tracker)"
    "good_identity (tr_clock_id sample_tracker)" "good_field ''udp''"
    "authentication_result_validate NotChecked = Inr ()"
    by code_simp+
qed

subsection \<open>Retired subject incarnations\<close>

datatype tracker_op = Annotate arrival | Activate subject_id incarnation_id

fun tracker_step :: "hasher \<Rightarrow> tracker_op \<Rightarrow> receiver_tracker \<Rightarrow> receiver_tracker" where
  "tracker_step sha (Annotate a) tr = fst (annotate_arrival sha tr a)"
| "tracker_step sha (Activate s i) tr = fst (activate_subject_incarnation tr s i)"

lemma retire_streams_subjects [simp]:
  "tr_retired_subject_incarnations (retire_streams rs tr) = tr_retired_subject_incarnations tr"
  "tr_subject_incarnations (retire_streams rs tr) = tr_subject_incarnations tr"
  by (induction rs tr rule: retire_streams.induct) simp_all

lemma classify_stream_subjects [simp]:
  "tr_retired_subject_incarnations (fst (classify_stream tr f)) = tr_retired_subject_incarnations tr"
  "tr_subject_incarnations (fst (classify_stream tr f)) = tr_subject_incarnations tr"
  by (simp_all add: classify_stream_def put_stream_def Let_def split: option.split)

lemma note_subject_retired: "retired_subject tr g \<Longrightarrow> retired_subject (note_subject tr f) g"
  by (simp add: retired_subject_def note_subject_def btree_simps split: option.split)

lemma annotate_retired:
  assumes "retired_subject tr g"
  shows "retired_subject (fst (annotate_arrival sha tr a)) g"
proof -
  have "retired_subject (fst (observe_frame tr (ar_frame a))) g"
    using note_subject_retired [OF assms, of "ar_frame a"]
    by (simp add: observe_frame_def retired_subject_def)
  then show ?thesis
    using assms by (simp add: annotate_arrival_def annotate_def case_prod_unfold Let_def split: sum.split)
qed

lemma activate_retired:
  "retired_subject tr g \<Longrightarrow> retired_subject (fst (activate_subject_incarnation tr s i)) g"
  by (simp add: activate_subject_incarnation_def retired_subject_def btree_simps Let_def
      split: sum.split option.split)

lemma tracker_run_retired: "retired_subject tr g \<Longrightarrow> retired_subject (fold (tracker_step sha) ops tr) g"
proof (induction ops arbitrary: tr)
  case (Cons op ops)
  then have "retired_subject (tracker_step sha op tr) g"
    by (cases op) (simp_all add: annotate_retired activate_retired)
  then show ?case using Cons.IH by simp
qed simp

lemma annotate_retired_refused:
  assumes "retired_subject tr f" and "frame_validate sha f = Inr ()"
  shows "\<exists>tr' a. annotate sha tr f at path delay auth = (tr', Inr a)
    \<and> ra_disposition a = (if effective_stale delay f then Stale else Replay)"
  using assms by (simp add: annotate_def observe_frame_def annotation_def)

text \<open>A step replaces the incarnation of a subject: by another one, or by a configured activation.\<close>

definition replaces :: "hasher \<Rightarrow> tracker_op \<Rightarrow> receiver_tracker \<Rightarrow> subject_id \<Rightarrow> incarnation_id \<Rightarrow> bool" where
  "replaces sha op tr s i \<longleftrightarrow>
     bt_get (tr_subject_incarnations tr) s = Some i
     \<and> (bt_get (tr_subject_incarnations (tracker_step sha op tr)) s \<noteq> Some i
        \<or> (\<exists>j. op = Activate s j \<and> snd (activate_subject_incarnation tr s j) = Inr ()))"

lemma note_subject_replaces:
  assumes "bt_get (tr_subject_incarnations tr) s = Some i"
    and "bt_get (tr_subject_incarnations (note_subject tr f)) s \<noteq> Some i"
  shows "bs_contains (tr_retired_subject_incarnations (note_subject tr f)) (s, i)"
  using assms by (auto simp: note_subject_def btree_simps split: option.splits if_splits)

lemma replaced_is_retired:
  assumes "replaces sha op tr s i"
  shows "bs_contains (tr_retired_subject_incarnations (tracker_step sha op tr)) (s, i)"
proof (cases op)
  case (Annotate a)
  then show ?thesis
    using assms note_subject_replaces [of tr s i "ar_frame a"]
    by (auto simp: replaces_def annotate_arrival_def annotate_def observe_frame_def Let_def case_prod_unfold
        split: sum.splits if_splits)
next
  case (Activate s' j)
  then show ?thesis
    using assms by (auto simp: replaces_def activate_subject_incarnation_def btree_simps Let_def
        split: sum.splits option.splits if_splits)
qed

text \<open>
  C24: a subject incarnation that has been replaced never comes back. Once a step of the receiver has
  replaced the incarnation it held for a subject (a pulse of another incarnation has, or a configured
  activation), every later valid pulse of the old incarnation is annotated as replay (or stale), whatever
  the receiver does in between, further activations included. A configured activation of the incarnation
  that is held counts as a replacement: it locks out that incarnation itself.
\<close>

theorem retired_subject_stays_retired:
  assumes "replaces sha op tr (pf_subject f) (pf_subject_incarnation f)" and "frame_validate sha f = Inr ()"
  shows "\<exists>tr' a. annotate sha (fold (tracker_step sha) ops (tracker_step sha op tr)) f at path delay auth = (tr', Inr a)
    \<and> ra_disposition a = (if effective_stale delay f then Stale else Replay)"
proof -
  have "retired_subject (tracker_step sha op tr) f"
    using replaced_is_retired [OF assms(1)] by (simp add: retired_subject_def)
  then show ?thesis by (intro annotate_retired_refused tracker_run_retired assms(2))
qed

theorem retired_subject_stays_retired_witness:
  "let tr = fst (activate_subject_incarnation sample_tracker ''host-a'' ''boot-1'');
       tr2 = fst (activate_subject_incarnation tr ''host-a'' ''boot-1'')
   in \<exists>tr' a. annotate sample_sha (fold (tracker_step sample_sha) [Activate ''host-a'' ''boot-2''] tr2)
        (sample_pulse 7) 100 ''udp'' None NotChecked = (tr', Inr a)
      \<and> ra_disposition a = Replay"
proof -
  let ?tr = "fst (activate_subject_incarnation sample_tracker ''host-a'' ''boot-1'')"
  have f: "pf_subject (sample_pulse 7) = ''host-a''" "pf_subject_incarnation (sample_pulse 7) = ''boot-1''"
    by (simp_all add: sample_pulse_def seal_def)
  have "bt_get (tr_subject_incarnations ?tr) ''host-a'' = Some ''boot-1''"
    "snd (activate_subject_incarnation ?tr ''host-a'' ''boot-1'') = Inr ()"
    by code_simp+
  then have "replaces sample_sha (Activate ''host-a'' ''boot-1'') ?tr (pf_subject (sample_pulse 7))
      (pf_subject_incarnation (sample_pulse 7))"
    unfolding replaces_def f by blast
  then show ?thesis
    using retired_subject_stays_retired [of sample_sha "Activate ''host-a'' ''boot-1''" ?tr "sample_pulse 7"
        "[Activate ''host-a'' ''boot-2'']" 100 "''udp''" None NotChecked]
    by (simp only: sample_pulse_valid Let_def effective_stale_def option.simps if_False tracker_step.simps)
qed

end
