(* ===== verification/Assess.thy ===== *)
theory Assess
  imports Policy Receiver
begin

text \<open>
  The read-only half of the evaluator (\<open>crates/pulse-evaluator/src/evaluator.rs\<close>): its state, and
  everything a judgment is computed from without changing that state: failure domains, coverage,
  the eight dimensions, the category, the support deadline, the evidence window and the
  explanation.
\<close>

section \<open>State\<close>

definition JUDGMENT_NONCLAIMS :: "string list" where
  "JUDGMENT_NONCLAIMS =
     [''Pulse receipt does not establish subject health.'',
      ''The runtime does not establish that observations are truthful.'',
      ''The runtime does not establish complete distributed-world coverage.'',
      ''Observer identity does not establish observer independence.'',
      ''A present-state judgment is consumer-, policy-, coverage-, and time-indexed.'',
      ''Diagnostic completion does not establish indefinite reliance.'',
      NO_MUTATION_NONCLAIM]"

datatype monitor_capability = Operational | MonitorDegraded string | Blind string

datatype reevaluation_barrier =
  GenerationTransition string
| QualifiedGenerationBinding string
| SubjectIncarnationTransition string
| ReceiverRestart string
| MonitorCapabilityRestored string

fun barrier_code :: "reevaluation_barrier \<Rightarrow> string" where
  "barrier_code (GenerationTransition _) = ''generation_transition_requires_reevaluation''"
| "barrier_code (QualifiedGenerationBinding _) = ''qualified_generation_binding_requires_reevaluation''"
| "barrier_code (SubjectIncarnationTransition _) = ''subject_incarnation_transition_requires_reevaluation''"
| "barrier_code (ReceiverRestart _) = ''receiver_restart_requires_reevaluation''"
| "barrier_code (MonitorCapabilityRestored _) = ''monitor_capability_restored_requires_reevaluation''"

fun barrier_detail :: "reevaluation_barrier \<Rightarrow> string" where
  "barrier_detail (GenerationTransition d) = d"
| "barrier_detail (QualifiedGenerationBinding d) = d"
| "barrier_detail (SubjectIncarnationTransition d) = d"
| "barrier_detail (ReceiverRestart d) = d"
| "barrier_detail (MonitorCapabilityRestored d) = d"

record observer_evidence =
  oe_received :: received_pulse
  oe_expires_at_ms :: u64
  oe_continuity :: sequence_continuity_dimension

record observer_lineage =
  ol_incarnation :: incarnation_id
  ol_sequence :: u64

record active_escalation =
  ae_request_id :: escalation_request_id
  ae_expires_at_ms :: u64

record evaluator =
  e_policy :: reliance_policy
  e_receiver :: receiver_id
  e_receiver_incarnation :: incarnation_id
  e_clock_id :: clock_id
  e_current_subject_incarnation :: incarnation_id
  e_retired_subject_incarnations :: "incarnation_id btset"
  e_observer_lineages :: "(observer_id, observer_lineage) btmap"
  e_retired_observer_incarnations :: "(observer_id \<times> incarnation_id) btset"
  e_observers :: "(observer_id, observer_evidence) btmap"
  e_contradictions :: "(contradiction_id, contradiction_record) btmap"
  e_diagnostic_evidence :: "diagnostic_evidence_reference list"
  e_issued_requests :: "(escalation_request_id, escalation_request) btmap"
  e_active_escalations :: "(digest, active_escalation) btmap"
  e_monitor_capability :: monitor_capability
  e_escalation_state :: escalation_state
  e_reevaluation_barrier :: "reevaluation_barrier option"
  e_last_judgment :: "present_state_judgment option"
  e_last_positive_support_deadline_ms :: "u64 option"
  e_last_receiver_arrival_ms :: "u64 option"
  e_last_evaluation_ms :: "u64 option"
  e_transition_counter :: u64
  e_request_counter :: u64
  e_event_counter :: u64
  e_metrics :: experimental_metrics
  e_fault_started_at_ms :: "u64 option"
  e_normal_trace :: bool
  e_event_log :: "sparse_durable_event list"

section \<open>References, domains and counts\<close>

definition evidence_ref :: "pulse_frame \<Rightarrow> string" where
  "evidence_ref f =
     pf_observer f @ ''/'' @ pf_observer_incarnation f @ ''/seq='' @ dec (unat (pf_sequence f))
     @ ''/'' @ pf_observation_digest f"

definition failure_domain :: "observer_id \<Rightarrow> (string, string) btmap \<Rightarrow> string" where
  "failure_domain observer declared =
     (case bt_get declared observer of Some domain \<Rightarrow> domain | None \<Rightarrow> ''observer:'' @ observer)"

definition evidence_domain :: "(string, string) btmap \<Rightarrow> observer_evidence \<Rightarrow> string" where
  "evidence_domain declared x = failure_domain (pf_observer (rp_frame (oe_received x))) declared"

definition unique_domains :: "observer_evidence list \<Rightarrow> (string, string) btmap \<Rightarrow> string btset" where
  "unique_domains evidence declared = bs_collect (map (evidence_domain declared) evidence)"

definition covers_tag :: "string \<Rightarrow> observer_evidence \<Rightarrow> bool" where
  "covers_tag tag x = binary_search_ok (cd_observed (pf_coverage (rp_frame (oe_received x)))) tag"

definition domain_count_for_tag ::
  "observer_evidence list \<Rightarrow> string \<Rightarrow> (string, string) btmap \<Rightarrow> u32" where
  "domain_count_for_tag evidence tag declared =
     sat_of_nat (length (bs_collect (map (evidence_domain declared) (filter (covers_tag tag) evidence))))"

definition is_failed :: "authentication_result \<Rightarrow> bool" where
  "is_failed a = (case a of Failed _ \<Rightarrow> True | _ \<Rightarrow> False)"

definition is_verified :: "authentication_result \<Rightarrow> bool" where
  "is_verified a = (case a of Verified _ _ \<Rightarrow> True | _ \<Rightarrow> False)"

definition evidence_authentication :: "observer_evidence \<Rightarrow> authentication_result" where
  "evidence_authentication x = ra_authentication (rp_receiver (oe_received x))"

definition provenance_dimension :: "observer_evidence list \<Rightarrow> provenance_dimension" where
  "provenance_dimension evidence =
     (if evidence = [] then Provenance_Unknown
      else if list_ex (\<lambda>x. is_failed (evidence_authentication x)) evidence then Provenance_Failed
      else if list_all (\<lambda>x. is_verified (evidence_authentication x)) evidence then Provenance_Verified
      else Provenance_Degraded)"

definition received_provenance_is_eligible :: "evaluator \<Rightarrow> received_pulse \<Rightarrow> bool" where
  "received_provenance_is_eligible e r =
     (if \<not> po_require_verified_authentication (e_policy e)
      then \<not> is_failed (ra_authentication (rp_receiver r))
      else is_verified (ra_authentication (rp_receiver r)))"

definition provenance_is_eligible :: "evaluator \<Rightarrow> observer_evidence \<Rightarrow> bool" where
  "provenance_is_eligible e x = received_provenance_is_eligible e (oe_received x)"

definition evaluator_subject_scope :: "evaluator \<Rightarrow> subject_scope" where
  "evaluator_subject_scope e =
     \<lparr>ss_subject = po_subject (e_policy e), ss_subject_incarnation = e_current_subject_incarnation e,
      ss_scope = po_scope (e_policy e)\<rparr>"

definition monitor_state_name :: "monitor_capability \<Rightarrow> string" where
  "monitor_state_name m =
     (case m of Operational \<Rightarrow> ''operational'' | MonitorDegraded _ \<Rightarrow> ''degraded'' | Blind _ \<Rightarrow> ''blind'')"

definition active_contradiction_ids :: "evaluator \<Rightarrow> contradiction_id list" where
  "active_contradiction_ids e =
     map cr_contradiction_id (filter cr_is_active (bt_values (e_contradictions e)))"

definition supporting_evidence_refs :: "evaluator \<Rightarrow> u64 \<Rightarrow> string list" where
  "supporting_evidence_refs e now =
     map (\<lambda>x. evidence_ref (rp_frame (oe_received x)))
       (filter (\<lambda>x. pf_subject_incarnation (rp_frame (oe_received x)) = e_current_subject_incarnation e
            \<and> now < oe_expires_at_ms x \<and> provenance_is_eligible e x)
          (bt_values (e_observers e)))"

section \<open>Coverage and the support deadline\<close>

definition coverage_summary ::
  "evaluator \<Rightarrow> observer_evidence list \<Rightarrow> observer_evidence list \<Rightarrow> coverage_summary" where
  "coverage_summary e fresh expired =
     (let required_observers = po_minimum_observers (e_policy e);
          declared = po_observer_failure_domains (e_policy e);
          tags = po_required_coverage (e_policy e)
      in \<lparr>cs_required = tags,
          cs_active = filter (\<lambda>tag. required_observers \<le> domain_count_for_tag fresh tag declared) tags,
          cs_missing = filter (\<lambda>tag. \<not> required_observers \<le> domain_count_for_tag fresh tag declared) tags,
          cs_expired = filter (\<lambda>tag. 0 < domain_count_for_tag expired tag declared) tags,
          cs_active_observers = sat_of_nat (length (unique_domains fresh declared)),
          cs_required_observers = required_observers,
          cs_per_tag = map (\<lambda>tag.
            \<lparr>cc_tag = tag, cc_active_observers = domain_count_for_tag fresh tag declared,
             cc_expired_observers = domain_count_for_tag expired tag declared,
             cc_required_observers = required_observers\<rparr>) tags\<rparr>)"

text \<open>The body of the loop over the fresh evidence for one tag: the latest expiry of each domain.\<close>

fun latest_by_domain ::
  "(string, string) btmap \<Rightarrow> string \<Rightarrow> observer_evidence list \<Rightarrow> (string, u64) btmap \<Rightarrow> (string, u64) btmap" where
  "latest_by_domain declared tag [] by_domain = by_domain"
| "latest_by_domain declared tag (x # xs) by_domain =
     latest_by_domain declared tag xs
       (if covers_tag tag x then
          let domain = evidence_domain declared x in
          (case bt_get by_domain domain of
             Some expiry \<Rightarrow> bt_insert domain (max expiry (oe_expires_at_ms x)) by_domain
           | None \<Rightarrow> bt_insert domain (oe_expires_at_ms x) by_domain)
        else by_domain)"

text \<open>The required-th largest expiry of one tag.\<close>

definition tag_deadline :: "reliance_policy \<Rightarrow> observer_evidence list \<Rightarrow> string \<Rightarrow> u64 option" where
  "tag_deadline p fresh tag =
     (let expiries = rev (sort (bt_values (latest_by_domain (po_observer_failure_domains p) tag fresh [])));
          i = unat (po_minimum_observers p) - 1
      in if i < length expiries then Some (expiries ! i) else None)"

fun deadline_loop :: "reliance_policy \<Rightarrow> observer_evidence list \<Rightarrow> string list \<Rightarrow> u64 \<Rightarrow> u64 option" where
  "deadline_loop p fresh [] overall = Some overall"
| "deadline_loop p fresh (tag # tags) overall =
     (case tag_deadline p fresh tag of
        None \<Rightarrow> None
      | Some deadline \<Rightarrow> deadline_loop p fresh tags (min overall deadline))"

definition support_deadline :: "evaluator \<Rightarrow> observer_evidence list \<Rightarrow> u64 option" where
  "support_deadline e fresh =
     (case deadline_loop (e_policy e) fresh (po_required_coverage (e_policy e)) (- 1) of
        None \<Rightarrow> None
      | Some overall \<Rightarrow> if overall \<noteq> - 1 then Some overall else None)"

section \<open>\<open>derive\<close>\<close>

record derived_state =
  ds_category :: judgment_category
  ds_dimensions :: confidence_dimensions
  ds_coverage :: coverage_summary
  ds_active_contradictions :: "string list"
  ds_violation_evidence_refs :: "string list"
  ds_support_deadline_ms :: "u64 option"

definition relevant_evidence :: "evaluator \<Rightarrow> observer_evidence list" where
  "relevant_evidence e =
     filter (\<lambda>x. pf_subject_incarnation (rp_frame (oe_received x)) = e_current_subject_incarnation e)
       (bt_values (e_observers e))"

definition fresh_evidence :: "evaluator \<Rightarrow> u64 \<Rightarrow> observer_evidence list" where
  "fresh_evidence e now = filter (\<lambda>x. now < oe_expires_at_ms x) (relevant_evidence e)"

definition expired_evidence :: "evaluator \<Rightarrow> u64 \<Rightarrow> observer_evidence list" where
  "expired_evidence e now = filter (\<lambda>x. oe_expires_at_ms x \<le> now) (relevant_evidence e)"

definition eligible_fresh :: "evaluator \<Rightarrow> u64 \<Rightarrow> observer_evidence list" where
  "eligible_fresh e now = filter (provenance_is_eligible e) (fresh_evidence e now)"

definition active_contradictions :: "evaluator \<Rightarrow> contradiction_record list" where
  "active_contradictions e = filter cr_is_active (bt_values (e_contradictions e))"

definition has_adverse_signal :: "observer_evidence \<Rightarrow> bool" where
  "has_adverse_signal x =
     list_ex (\<lambda>s. sv_assessment s = OutsideDeclaredBound) (pf_signals (rp_frame (oe_received x)))"

definition violation_evidence_refs :: "evaluator \<Rightarrow> u64 \<Rightarrow> string list" where
  "violation_evidence_refs e now =
     map (\<lambda>x. evidence_ref (rp_frame (oe_received x))) (filter has_adverse_signal (eligible_fresh e now))"

definition derive_freshness :: "evaluator \<Rightarrow> u64 \<Rightarrow> freshness_dimension" where
  "derive_freshness e now =
     (if relevant_evidence e = [] then Freshness_NoEvidence
      else if fresh_evidence e now = [] then Freshness_Expired
      else if expired_evidence e now = [] then Freshness_Current
      else Freshness_Mixed)"

definition derive_continuity :: "evaluator \<Rightarrow> u64 \<Rightarrow> sequence_continuity_dimension" where
  "derive_continuity e now =
     (let fresh = fresh_evidence e now in
      if fresh = [] then Continuity_Unknown
      else if list_ex (\<lambda>x. oe_continuity x = Continuity_Gapped) fresh then Continuity_Gapped
      else if list_ex (\<lambda>x. oe_continuity x = Continuity_Restarted) fresh then Continuity_Restarted
      else if list_ex (\<lambda>x. oe_continuity x = Continuity_FirstSeen) fresh then Continuity_FirstSeen
      else Continuity_Continuous)"

definition active_domains :: "evaluator \<Rightarrow> u64 \<Rightarrow> string btset" where
  "active_domains e now =
     unique_domains (eligible_fresh e now) (po_observer_failure_domains (e_policy e))"

definition derive_availability :: "evaluator \<Rightarrow> u64 \<Rightarrow> observer_availability_dimension" where
  "derive_availability e now =
     (if unat (po_minimum_observers (e_policy e)) \<le> length (active_domains e now) then Observers_Available
      else if active_domains e now = [] then Observers_Unavailable
      else Observers_Partial)"

definition derive_coherence :: "evaluator \<Rightarrow> u64 \<Rightarrow> cross_observer_coherence_dimension" where
  "derive_coherence e now =
     (if active_contradictions e \<noteq> [] then Coherence_Disagreement
      else if 2 \<le> length (active_domains e now) then Coherence_Coherent
      else Coherence_Insufficient)"

definition derive_transport :: "evaluator \<Rightarrow> transport_dimension" where
  "derive_transport e =
     (case e_monitor_capability e of
        Operational \<Rightarrow> Transport_Normal
      | MonitorDegraded _ \<Rightarrow> Transport_Degraded
      | Blind _ \<Rightarrow> Transport_Blind)"

definition derive_consistency :: "evaluator \<Rightarrow> u64 \<Rightarrow> subject_signal_consistency_dimension" where
  "derive_consistency e now =
     (if active_contradictions e \<noteq> [] then Signals_Contradictory
      else if violation_evidence_refs e now \<noteq> [] then Signals_Violation
      else if eligible_fresh e now = [] then Signals_Unknown
      else Signals_Consistent)"

definition derive_coverage :: "evaluator \<Rightarrow> u64 \<Rightarrow> coverage_summary" where
  "derive_coverage e now = coverage_summary e (eligible_fresh e now) (expired_evidence e now)"

definition coverage_dimension_of :: "coverage_summary \<Rightarrow> coverage_dimension" where
  "coverage_dimension_of c =
     (if cs_missing c = [] then Coverage_Complete
      else if cs_active c = [] then Coverage_Absent
      else Coverage_Partial)"

definition derive_dimensions :: "evaluator \<Rightarrow> u64 \<Rightarrow> confidence_dimensions" where
  "derive_dimensions e now =
     \<lparr>dm_freshness = derive_freshness e now,
      dm_sequence_continuity = derive_continuity e now,
      dm_observer_availability = derive_availability e now,
      dm_cross_observer_coherence = derive_coherence e now,
      dm_coverage = coverage_dimension_of (derive_coverage e now),
      dm_provenance = provenance_dimension (fresh_evidence e now),
      dm_transport = derive_transport e,
      dm_subject_signal_consistency = derive_consistency e now\<rparr>"

definition reliance_unknown :: "evaluator \<Rightarrow> u64 \<Rightarrow> bool" where
  "reliance_unknown e now =
     (cs_missing (derive_coverage e now) \<noteq> []
      \<or> derive_availability e now \<noteq> Observers_Available
      \<or> derive_freshness e now \<in> {Freshness_Expired, Freshness_NoEvidence}
      \<or> (po_require_verified_authentication (e_policy e)
         \<and> provenance_dimension (fresh_evidence e now) \<noteq> Provenance_Verified)
      \<or> derive_transport e = Transport_Blind)"

definition derive_category :: "evaluator \<Rightarrow> u64 \<Rightarrow> judgment_category" where
  "derive_category e now =
     (if active_contradictions e \<noteq> [] then Contradicted
      else if violation_evidence_refs e now \<noteq> [] then Suspect
      else if reliance_unknown e now then Unknown
      else if derive_continuity e now \<in> {Continuity_Gapped, Continuity_Restarted, Continuity_Unknown}
        \<or> derive_transport e = Transport_Degraded then Degraded
      else Current)"

definition derive :: "evaluator \<Rightarrow> u64 \<Rightarrow> derived_state" where
  "derive e now =
     \<lparr>ds_category = derive_category e now,
      ds_dimensions = derive_dimensions e now,
      ds_coverage = derive_coverage e now,
      ds_active_contradictions = map cr_contradiction_id (active_contradictions e),
      ds_violation_evidence_refs = violation_evidence_refs e now,
      ds_support_deadline_ms =
        (if derive_category e now = Current then support_deadline e (eligible_fresh e now) else None)\<rparr>"

section \<open>The evidence window\<close>

definition evidence_window_parts :: "evaluator \<Rightarrow> u64 \<Rightarrow> bytes list" where
  "evidence_window_parts e now =
     [po_subject (e_policy e), e_current_subject_incarnation e, po_consumer (e_policy e),
      po_generation (e_policy e), e_clock_id e, u64_be now, monitor_state_name (e_monitor_capability e)]
     @ concat (map (\<lambda>x. let f = rp_frame (oe_received x) in
         [pf_observer f, pf_observer_incarnation f, u64_be (pf_sequence f), pf_observation_digest f,
          u64_be (oe_expires_at_ms x)]) (bt_values (e_observers e)))
     @ map cr_contradiction_id (active_contradictions e)
     @ concat (map (\<lambda>d. [er_receipt_id d, er_result_digest d, u64_be (er_applicable_until_ms d)])
         (e_diagnostic_evidence e))"

definition evaluator_window_id :: "hasher \<Rightarrow> evaluator \<Rightarrow> u64 \<Rightarrow> evidence_window_id" where
  "evaluator_window_id sha e now = digest_parts sha ''evidence.window.v1'' (evidence_window_parts e now)"

section \<open>The explanation\<close>

definition reason :: "string \<Rightarrow> string \<Rightarrow> string list \<Rightarrow> judgment_reason" where
  "reason code detail refs = \<lparr>jr_code = code, jr_detail = detail, jr_evidence_refs = refs\<rparr>"

definition freshness_reasons :: "freshness_dimension \<Rightarrow> judgment_reason list" where
  "freshness_reasons d =
     (case d of
        Freshness_Expired \<Rightarrow>
          [reason ''freshness_expired'' ''all applicable pulse evidence has reached receiver-owned expiry'' []]
      | Freshness_Mixed \<Rightarrow>
          [reason ''freshness_mixed'' ''the evidence window contains both current and expired contributions'' []]
      | Freshness_NoEvidence \<Rightarrow>
          [reason ''no_evidence'' ''no applicable pulse evidence has been admitted'' []]
      | Freshness_Current \<Rightarrow> [])"

definition provenance_reasons :: "provenance_dimension \<Rightarrow> judgment_reason list" where
  "provenance_reasons d =
     (case d of
        Provenance_Failed \<Rightarrow>
          [reason ''provenance_failed'' ''at least one current receiver authentication result failed'' []]
      | Provenance_Degraded \<Rightarrow>
          [reason ''provenance_unverified''
            ''current evidence includes an unauthenticated or unchecked observation'' []]
      | _ \<Rightarrow> [])"

definition continuity_reasons :: "sequence_continuity_dimension \<Rightarrow> judgment_reason list" where
  "continuity_reasons d =
     (case d of
        Continuity_Gapped \<Rightarrow>
          [reason ''sequence_gap'' ''a current observer lineage contains a receiver-observed sequence gap'' []]
      | Continuity_Restarted \<Rightarrow>
          [reason ''observer_restarted''
            ''a current observer began a new incarnation and did not inherit continuity'' []]
      | _ \<Rightarrow> [])"

definition monitor_reasons :: "monitor_capability \<Rightarrow> judgment_reason list" where
  "monitor_reasons m =
     (case m of
        MonitorDegraded detail \<Rightarrow> [reason ''monitor_degraded'' detail []]
      | Blind detail \<Rightarrow> [reason ''monitor_blind'' detail []]
      | Operational \<Rightarrow> [])"

definition explanation_reasons ::
  "confidence_dimensions \<Rightarrow> coverage_summary \<Rightarrow> string list \<Rightarrow> string list \<Rightarrow> monitor_capability \<Rightarrow>
   u64 \<Rightarrow> reevaluation_barrier option \<Rightarrow> judgment_reason list" where
  "explanation_reasons dimensions coverage contradictions violations monitor receipt_count barrier =
     (case barrier of None \<Rightarrow> [] | Some b \<Rightarrow> [reason (barrier_code b) (barrier_detail b) []])
     @ (if contradictions \<noteq> [] then
          [reason ''contradiction_retained''
            (dec (length contradictions)
             @ '' independently grounded contradiction record(s) remain unresolved'') contradictions]
        else [])
     @ (if violations \<noteq> [] then
          [reason ''subject_bound_violated''
            ''current admitted evidence contains an outside-declared-bound observation'' violations]
        else [])
     @ freshness_reasons (dm_freshness dimensions)
     @ (if cs_missing coverage \<noteq> [] then
          [reason ''coverage_incomplete''
            (''required coverage missing: '' @ str_join '','' (cs_missing coverage)) []]
        else [])
     @ (if dm_observer_availability dimensions \<noteq> Observers_Available then
          [reason ''observer_availability_insufficient''
            (dec (unat (cs_active_observers coverage))
             @ '' independent configured failure domain(s) are active; ''
             @ dec (unat (cs_required_observers coverage)) @ '' required'') []]
        else [])
     @ provenance_reasons (dm_provenance dimensions)
     @ continuity_reasons (dm_sequence_continuity dimensions)
     @ monitor_reasons monitor
     @ (if 0 < receipt_count then
          [reason ''diagnostic_receipt_correlated''
            (dec (unat receipt_count)
             @ '' bounded diagnostic receipt(s) were correlated; they do not refresh pulse evidence'') []]
        else [])"

definition category_summary :: "judgment_category \<Rightarrow> string" where
  "category_summary c =
     (case c of
        Current \<Rightarrow> ''CURRENT: named reliance conditions are satisfied for this consumer at this evaluation time.''
      | Degraded \<Rightarrow> ''DEGRADED: current evidence exists, but a named observation-quality condition is degraded.''
      | Suspect \<Rightarrow> ''SUSPECT: current admitted evidence contains a declared bound violation.''
      | Unknown \<Rightarrow> ''UNKNOWN: available evidence does not support this consumer's present reliance conditions.''
      | Contradicted \<Rightarrow> ''CONTRADICTED: incompatible grounded evidence remains unresolved.'')"

definition category_claims :: "judgment_category \<Rightarrow> string list" where
  "category_claims c =
     (case c of
        Current \<Rightarrow> [''The named consumer reliance conditions are satisfied for this exact evidence window and evaluation time.'']
      | Degraded \<Rightarrow> [''Current observation evidence exists and at least one named quality condition is degraded.'']
      | Suspect \<Rightarrow> [''At least one current admitted observation is outside a declared profile bound.'']
      | Unknown \<Rightarrow> [''The available evidence is insufficient for this consumer's present reliance judgment.'']
      | Contradicted \<Rightarrow> [''Incompatible admitted observation statements remain visible and unresolved.''])"

definition explanation_for ::
  "judgment_category \<Rightarrow> confidence_dimensions \<Rightarrow> coverage_summary \<Rightarrow> string list \<Rightarrow> string list \<Rightarrow>
   monitor_capability \<Rightarrow> u64 \<Rightarrow> reevaluation_barrier option \<Rightarrow> judgment_explanation" where
  "explanation_for category dimensions coverage contradictions violations monitor receipt_count barrier =
     (let reasons = explanation_reasons dimensions coverage contradictions violations monitor
            receipt_count barrier
      in \<lparr>je_summary =
            (if barrier \<noteq> None then
               ''UNKNOWN: an explicit runtime transition requires reevaluation; prior standing was not inherited.''
             else if category = Unknown \<and> cs_missing coverage \<noteq> [] \<and> violations = [] \<and> contradictions = []
             then INCOMPLETE_COVERAGE_EXPLANATION
             else category_summary category),
          je_reasons =
            (if reasons = [] then
               [reason ''named_reliance_conditions_satisfied''
                 ''all conditions named by this consumer policy are satisfied at evaluation time'' []]
             else reasons),
          je_claims = category_claims category,
          je_nonclaims = JUDGMENT_NONCLAIMS\<rparr>)"

section \<open>Comparisons and triggers\<close>

definition reason_codes :: "present_state_judgment \<Rightarrow> string list" where
  "reason_codes j = map jr_code (je_reasons (ju_explanation j))"

definition judgment_semantically_changed ::
  "present_state_judgment \<Rightarrow> present_state_judgment \<Rightarrow> bool" where
  "judgment_semantically_changed prior now =
     (ju_subject_scope prior \<noteq> ju_subject_scope now \<or> ju_consumer prior \<noteq> ju_consumer now
      \<or> ju_policy_generation prior \<noteq> ju_policy_generation now
      \<or> ju_category prior \<noteq> ju_category now \<or> ju_dimensions prior \<noteq> ju_dimensions now
      \<or> ju_coverage prior \<noteq> ju_coverage now \<or> reason_codes prior \<noteq> reason_codes now)"

definition select_trigger :: "present_state_judgment \<Rightarrow> escalation_trigger_class" where
  "select_trigger j =
     (if ju_category j = Contradicted then ContradictionRetained
      else if ju_category j = Suspect then SubjectBoundViolated
      else if dm_transport (ju_dimensions j) = Transport_Blind then TransportBlind
      else if dm_provenance (ju_dimensions j) = Provenance_Failed then ProvenanceFailed
      else if cs_missing (ju_coverage j) \<noteq> [] then CoverageCollapse
      else if dm_sequence_continuity (ju_dimensions j) \<in> {Continuity_Gapped, Continuity_Restarted}
      then SequenceDiscontinuity
      else if dm_freshness (ju_dimensions j) \<in> {Freshness_Expired, Freshness_NoEvidence}
      then FreshnessLost
      else ObserverDisagreement)"

fun assessment_debug :: "signal_assessment \<Rightarrow> string" where
  "assessment_debug Observed = ''Observed''"
| "assessment_debug WithinDeclaredBound = ''WithinDeclaredBound''"
| "assessment_debug OutsideDeclaredBound = ''OutsideDeclaredBound''"
| "assessment_debug Unavailable = ''Unavailable''"

definition signal_statement :: "observer_id \<Rightarrow> bounded_signal_value \<Rightarrow> string" where
  "signal_statement observer s =
     ''observer='' @ observer @ '' signal='' @ sv_name s @ '' value='' @ f64_display (sv_value s)
     @ '' unit='' @ sv_unit s @ '' assessment='' @ assessment_debug (sv_assessment s)"

definition signals_are_incompatible ::
  "bounded_signal_value \<Rightarrow> bounded_signal_value \<Rightarrow> f64 option \<Rightarrow> bool" where
  "signals_are_incompatible left right tolerance =
     ((case (sv_assessment left, sv_assessment right) of
         (WithinDeclaredBound, OutsideDeclaredBound) \<Rightarrow> True
       | (OutsideDeclaredBound, WithinDeclaredBound) \<Rightarrow> True
       | _ \<Rightarrow> False)
      \<or> (case tolerance of None \<Rightarrow> False
         | Some maximum \<Rightarrow>
             sv_assessment left \<noteq> Unavailable \<and> sv_assessment right \<noteq> Unavailable
             \<and> abs_diff_gt (sv_value left) (sv_value right) maximum))"

end
