(* ===== verification/Evaluator.thy ===== *)
theory Evaluator
  imports Assess
begin

text \<open>
  The stateful half of the evaluator (\<open>crates/pulse-evaluator/src/evaluator.rs\<close>): \<open>evaluate\<close> with its
  transitions, escalation and metrics, \<open>ingest\<close> with arrival classification, contradictions and
  supersession, and the other operations on \<open>&mut self\<close>. An operation returns the new state and a
  \<open>Result\<close>, since some change the state before they fail. SHA-256 is the parameter \<open>sha\<close>.
\<close>

section \<open>Results and the event log\<close>

record evaluation_output =
  eo_judgment :: present_state_judgment
  eo_transition :: "judgment_transition option"
  eo_escalation_request :: "escalation_request option"
  eo_sparse_events :: "sparse_durable_event list"

record evaluator_error =
  ee_code :: string
  ee_detail :: string

definition evaluator_error_new :: "string \<Rightarrow> string \<Rightarrow> evaluator_error" where
  "evaluator_error_new code detail = \<lparr>ee_code = code, ee_detail = detail\<rparr>"

definition from_policy :: "policy_error \<Rightarrow> evaluator_error" where
  "from_policy err = evaluator_error_new ''invalid_policy'' err"

type_synonym 'a evaluation = "evaluator \<times> (evaluator_error + 'a)"

definition sparse_event ::
  "u64 \<Rightarrow> sparse_durable_event_kind \<Rightarrow> evaluator \<Rightarrow> evaluator \<times> sparse_durable_event" where
  "sparse_event at kind e =
     (let counter = sat_add (e_event_counter e) 1;
          item = \<lparr>ev_schema_version = SCHEMA_VERSION_V1, ev_event_id = ''event:'' @ hex16 counter,
                  ev_at_ms = at, ev_event = kind\<rparr>
      in (e\<lparr>e_event_counter := counter, e_event_log := e_event_log e @ [item]\<rparr>, item))"

definition log_event :: "u64 \<Rightarrow> sparse_durable_event_kind \<Rightarrow> evaluator \<Rightarrow> evaluator" where
  "log_event at kind e = fst (sparse_event at kind e)"

definition monitor_event ::
  "u64 \<Rightarrow> string \<Rightarrow> string \<Rightarrow> evaluator \<Rightarrow> evaluator \<times> sparse_durable_event" where
  "monitor_event at state detail e = sparse_event at (MonitorCapabilityChanged state detail) e"

section \<open>\<open>evaluate\<close>\<close>

definition go_blind :: "u64 \<Rightarrow> string \<Rightarrow> evaluator \<Rightarrow> evaluator" where
  "go_blind at detail e =
     fst (monitor_event at ''blind'' detail (e\<lparr>e_monitor_capability := Blind detail\<rparr>))"

text \<open>The clock check at the head of \<open>evaluate\<close>.\<close>

definition evaluation_clock :: "u64 \<Rightarrow> evaluator \<Rightarrow> evaluator \<times> u64" where
  "evaluation_clock requested_now e =
     (case e_last_evaluation_ms e of
        Some prior \<Rightarrow>
          if requested_now < prior then
            (go_blind prior
               (''evaluation monotonic time regressed from '' @ dec (unat prior) @ ''ms to ''
                @ dec (unat requested_now) @ ''ms within one clock generation'') e, prior)
          else (e, requested_now)
      | None \<Rightarrow> (e, requested_now))"

definition evaluation_expiries :: "u64 \<Rightarrow> evaluator \<Rightarrow> evaluator" where
  "evaluation_expiries now e =
     e\<lparr>e_last_evaluation_ms := Some now,
       e_active_escalations := bt_retain (\<lambda>_ a. now < ae_expires_at_ms a) (e_active_escalations e),
       e_diagnostic_evidence := filter (\<lambda>d. now < er_applicable_until_ms d) (e_diagnostic_evidence e)\<rparr>"

definition barred :: "reevaluation_barrier option \<Rightarrow> derived_state \<Rightarrow> derived_state" where
  "barred barrier d =
     (if barrier \<noteq> None then d\<lparr>ds_category := Unknown, ds_support_deadline_ms := None\<rparr> else d)"

definition evaluation_metrics :: "derived_state \<Rightarrow> evaluator \<Rightarrow> evaluator" where
  "evaluation_metrics d e =
     e\<lparr>e_metrics := (e_metrics e)\<lparr>em_active_coverage := sat_of_nat (length (cs_active (ds_coverage d))),
       em_expired_coverage := sat_of_nat (length (cs_expired (ds_coverage d)))\<rparr>\<rparr>"

definition build_judgment ::
  "hasher \<Rightarrow> reevaluation_barrier option \<Rightarrow> derived_state \<Rightarrow> u64 \<Rightarrow> evaluator \<Rightarrow> present_state_judgment" where
  "build_judgment sha barrier d now e =
     \<lparr>ju_schema_version = SCHEMA_VERSION_V1, ju_subject_scope = evaluator_subject_scope e,
      ju_consumer = po_consumer (e_policy e), ju_policy_generation = po_generation (e_policy e),
      ju_coverage = ds_coverage d, ju_evaluated_at_ms = now,
      ju_support_expires_at_ms = ds_support_deadline_ms d, ju_receiver_clock_id = e_clock_id e,
      ju_evidence_window_id = evaluator_window_id sha e now, ju_category = ds_category d,
      ju_dimensions = ds_dimensions d,
      ju_explanation = explanation_for (ds_category d) (ds_dimensions d) (ds_coverage d)
        (ds_active_contradictions d) (ds_violation_evidence_refs d) (e_monitor_capability e)
        (sat_of_nat (length (e_diagnostic_evidence e))) barrier,
      ju_escalation = e_escalation_state e, ju_mutation_authority = NoAuthority\<rparr>"

definition build_transition ::
  "hasher \<Rightarrow> present_state_judgment \<Rightarrow> u64 \<Rightarrow> evaluator \<Rightarrow> evaluator \<times> judgment_transition" where
  "build_transition sha j now e =
     (let counter = sat_add (e_transition_counter e) 1;
          d = digest_parts sha ''judgment.transition.v1''
            [po_subject (e_policy e), po_consumer (e_policy e), po_generation (e_policy e),
             u64_be counter, u64_be now, ju_evidence_window_id j]
      in (e\<lparr>e_transition_counter := counter\<rparr>,
          \<lparr>jt_schema_version = SCHEMA_VERSION_V1, jt_transition_id = digest_id ''transition'' d,
           jt_subject_scope = ju_subject_scope j, jt_consumer = ju_consumer j,
           jt_policy_generation = ju_policy_generation j, jt_at_ms = now,
           jt_from = map_option ju_category (e_last_judgment e), jt_to = ju_category j,
           jt_prior_evidence_window = map_option ju_evidence_window_id (e_last_judgment e),
           jt_evidence_window = ju_evidence_window_id j, jt_reason_codes = reason_codes j\<rparr>))"

definition judgment_transitions :: "present_state_judgment \<Rightarrow> evaluator \<Rightarrow> bool" where
  "judgment_transitions j e =
     (case e_last_judgment e of None \<Rightarrow> True | Some prior \<Rightarrow> judgment_semantically_changed prior j)"

definition evaluation_transition ::
  "hasher \<Rightarrow> present_state_judgment \<Rightarrow> u64 \<Rightarrow> evaluator \<Rightarrow> evaluator \<times> judgment_transition option" where
  "evaluation_transition sha j now e =
     (if judgment_transitions j e then
        let (e1, t) = build_transition sha j now e in (log_event now (JudgmentTransition t) e1, Some t)
      else (e, None))"

definition update_failure_metrics :: "judgment_category \<Rightarrow> u64 \<Rightarrow> evaluator \<Rightarrow> evaluator" where
  "update_failure_metrics category now e =
     (case e_fault_started_at_ms e of
        None \<Rightarrow> e
      | Some start \<Rightarrow>
          let latency = sat_sub now start;
              m = e_metrics e;
              m1 = (if category = Unknown \<and> em_failure_to_unknown_latency_ms m = None
                    then m\<lparr>em_failure_to_unknown_latency_ms := Some latency\<rparr> else m);
              m2 = (if category = Contradicted \<and> em_failure_to_contradicted_latency_ms m1 = None
                    then m1\<lparr>em_failure_to_contradicted_latency_ms := Some latency\<rparr> else m1)
          in e\<lparr>e_metrics := m2\<rparr>)"

definition update_stale_positive_metric ::
  "present_state_judgment \<Rightarrow> u64 \<Rightarrow> u64 option \<Rightarrow> evaluator \<Rightarrow> evaluator" where
  "update_stale_positive_metric j now deadline e =
     (let was_current = (case e_last_judgment e of None \<Rightarrow> False | Some prior \<Rightarrow> ju_category prior = Current)
      in if ju_category j = Current then e\<lparr>e_last_positive_support_deadline_ms := deadline\<rparr>
         else if was_current then
           (let e1 = (case e_last_positive_support_deadline_ms e of
              Some d \<Rightarrow> e\<lparr>e_metrics := (e_metrics e)\<lparr>em_maximum_stale_positive_duration_ms :=
                max (em_maximum_stale_positive_duration_ms (e_metrics e)) (sat_sub now d)\<rparr>\<rparr>
            | None \<Rightarrow> e)
            in e1\<lparr>e_last_positive_support_deadline_ms := None\<rparr>)
         else e)"

definition draft_request ::
  "hasher \<Rightarrow> escalation_policy \<Rightarrow> judgment_transition \<Rightarrow> present_state_judgment \<Rightarrow> u64 \<Rightarrow> evaluator \<Rightarrow>
   escalation_request" where
  "draft_request sha x t j now e =
     (let r = \<lparr>rq_schema_version = SCHEMA_VERSION_V1, rq_request_id = ''pending'',
           rq_subject_scope = ju_subject_scope j, rq_consumer = po_consumer (e_policy e),
           rq_trigger_class = select_trigger j, rq_evidence_window_digest = ju_evidence_window_id j,
           rq_policy_generation = po_generation (e_policy e),
           rq_observation_policy_generation = po_observation_policy_generation (e_policy e),
           rq_diagnostic_profile = xp_diagnostic_profile x, rq_bounds = xp_bounds x,
           rq_clock_id = e_clock_id e, rq_created_at_ms = now,
           rq_expires_at_ms = sat_add now (xp_request_ttl_ms x),
           rq_deduplication_key = digest_parts sha ''pending'' [],
           rq_causal_transition_id = jt_transition_id t, rq_nonclaims = ESCALATION_NONCLAIMS\<rparr>
      in r\<lparr>rq_deduplication_key := compute_deduplication_key sha r\<rparr>)"

definition deduplicate_escalation :: "escalation_request \<Rightarrow> active_escalation \<Rightarrow> u64 \<Rightarrow> evaluator \<Rightarrow> evaluator" where
  "deduplicate_escalation r active now e =
     log_event now (EscalationDeduplicated (rq_deduplication_key r) (ae_request_id active))
       (e\<lparr>e_metrics := (e_metrics e)\<lparr>em_escalation_deduplication_count :=
            sat_add (em_escalation_deduplication_count (e_metrics e)) 1\<rparr>,
          e_escalation_state := Requested (ae_request_id active)\<rparr>)"

definition issue_request :: "escalation_request \<Rightarrow> u64 \<Rightarrow> evaluator \<Rightarrow> evaluator" where
  "issue_request r now e =
     (let m = e_metrics e;
          m1 = (if e_normal_trace e
                then m\<lparr>em_false_escalation_count := sat_add (em_false_escalation_count m) 1\<rparr> else m);
          m2 = (case e_fault_started_at_ms e of
                  Some start \<Rightarrow>
                    if em_failure_to_escalation_latency_ms m1 = None
                    then m1\<lparr>em_failure_to_escalation_latency_ms := Some (sat_sub now start)\<rparr> else m1
                | None \<Rightarrow> m1)
      in log_event now (EscalationRequested r)
           (e\<lparr>e_active_escalations := bt_insert (rq_deduplication_key r)
                \<lparr>ae_request_id = rq_request_id r, ae_expires_at_ms = rq_expires_at_ms r\<rparr>
                (e_active_escalations e),
              e_issued_requests := bt_insert (rq_request_id r) r (e_issued_requests e),
              e_escalation_state := Requested (rq_request_id r), e_metrics := m2\<rparr>))"

definition maybe_escalate ::
  "hasher \<Rightarrow> judgment_transition \<Rightarrow> present_state_judgment \<Rightarrow> u64 \<Rightarrow> evaluator \<Rightarrow>
   evaluator \<times> escalation_request option" where
  "maybe_escalate sha t j now e =
     (if jt_from t \<noteq> Some Current \<or> jt_to t = Current then (e, None)
      else case po_escalation (e_policy e) of
        None \<Rightarrow> (e, None)
      | Some x \<Rightarrow>
          if \<not> bs_contains (xp_triggers x) (select_trigger j) then (e, None)
          else
            let r = draft_request sha x t j now e in
            (case bt_get (e_active_escalations e) (rq_deduplication_key r) of
               Some active \<Rightarrow> (deduplicate_escalation r active now e, None)
             | None \<Rightarrow>
                 let counter = sat_add (e_request_counter e) 1;
                     e1 = e\<lparr>e_request_counter := counter\<rparr>;
                     r1 = r\<lparr>rq_request_id := ''escalation:'' @ hex16 counter\<rparr>
                 in if request_validate sha r1 \<noteq> Inr () then (e1, None)
                    else (issue_request r1 now e1, Some r1)))"

definition evaluation_escalation ::
  "hasher \<Rightarrow> reevaluation_barrier option \<Rightarrow> judgment_transition option \<Rightarrow> present_state_judgment \<Rightarrow>
   u64 \<Rightarrow> evaluator \<Rightarrow> evaluator \<times> escalation_request option" where
  "evaluation_escalation sha barrier transition j now e =
     (if barrier = None then
        (case transition of Some t \<Rightarrow> maybe_escalate sha t j now e | None \<Rightarrow> (e, None))
      else (e, None))"

definition evaluate :: "hasher \<Rightarrow> u64 \<Rightarrow> evaluator \<Rightarrow> evaluation_output evaluation" where
  "evaluate sha requested_now e =
     (let event_log_start = length (e_event_log e);
          (e1, now) = evaluation_clock requested_now e;
          e2 = evaluation_expiries now e1;
          barrier = e_reevaluation_barrier e2;
          d = barred barrier (derive e2 now);
          e3 = evaluation_metrics d e2;
          j = build_judgment sha barrier d now e3;
          (e4, transition) = evaluation_transition sha j now e3;
          e5 = update_failure_metrics (ju_category j) now e4;
          e6 = update_stale_positive_metric j now (ds_support_deadline_ms d) e5;
          (e7, request) = evaluation_escalation sha barrier transition j now e6;
          j' = j\<lparr>ju_escalation := e_escalation_state e7\<rparr>;
          e8 = e7\<lparr>e_last_judgment := Some j', e_reevaluation_barrier := None\<rparr>
      in (e8, Inr \<lparr>eo_judgment = j', eo_transition = transition, eo_escalation_request = request,
                   eo_sparse_events = drop event_log_start (e_event_log e8)\<rparr>))"

definition evaluate_since :: "hasher \<Rightarrow> u64 \<Rightarrow> nat \<Rightarrow> evaluator \<Rightarrow> evaluation_output evaluation" where
  "evaluate_since sha now event_log_start e =
     (let (e', r) = evaluate sha now e
      in (e', rbind r (\<lambda>out. Inr (out\<lparr>eo_sparse_events := drop event_log_start (e_event_log e')\<rparr>))))"

section \<open>Construction and arrival\<close>

text \<open>The value \<open>Evaluator::new\<close> builds once its arguments have passed.\<close>

definition evaluator_initial ::
  "reliance_policy \<Rightarrow> receiver_id \<Rightarrow> incarnation_id \<Rightarrow> clock_id \<Rightarrow> incarnation_id \<Rightarrow> evaluator" where
  "evaluator_initial policy receiver receiver_incarnation clock_id initial =
     \<lparr>e_policy = policy, e_receiver = receiver, e_receiver_incarnation = receiver_incarnation,
     e_clock_id = clock_id, e_current_subject_incarnation = initial,
     e_retired_subject_incarnations = [], e_observer_lineages = [],
     e_retired_observer_incarnations = [], e_observers = [], e_contradictions = [],
     e_diagnostic_evidence = [], e_issued_requests = [], e_active_escalations = [],
     e_monitor_capability = Operational, e_escalation_state = NotRequested,
     e_reevaluation_barrier = None, e_last_judgment = None,
     e_last_positive_support_deadline_ms = None, e_last_receiver_arrival_ms = None,
     e_last_evaluation_ms = None, e_transition_counter = 0, e_request_counter = 0,
     e_event_counter = 0, e_metrics = metrics_empty, e_fault_started_at_ms = None,
     e_normal_trace = False, e_event_log = []\<rparr>"

definition evaluator_new ::
  "reliance_policy \<Rightarrow> receiver_id \<Rightarrow> incarnation_id \<Rightarrow> clock_id \<Rightarrow> incarnation_id \<Rightarrow>
   evaluator_error + evaluator" where
  "evaluator_new policy receiver receiver_incarnation clock_id initial =
     rbind (map_err from_policy (policy_validate policy)) (\<lambda>_.
     rbind (map_err (\<lambda>_. evaluator_error_new ''invalid_receiver'' ''invalid receiver identity'')
       (validate_identity ''ReceiverId'' receiver)) (\<lambda>_.
     rbind (map_err (\<lambda>_. evaluator_error_new ''invalid_receiver'' ''invalid receiver incarnation'')
       (validate_identity ''IncarnationId'' receiver_incarnation)) (\<lambda>_.
     rbind (map_err (\<lambda>_. evaluator_error_new ''invalid_clock'' ''invalid receiver clock identity'')
       (validate_identity ''ClockId'' clock_id)) (\<lambda>_.
     rbind (map_err (\<lambda>_. evaluator_error_new ''invalid_subject'' ''invalid subject incarnation'')
       (validate_identity ''IncarnationId'' initial)) (\<lambda>_.
     Inr (evaluator_initial policy receiver receiver_incarnation clock_id initial))))))"

definition validate_binding :: "evaluator \<Rightarrow> received_pulse \<Rightarrow> evaluator_error + unit" where
  "validate_binding e r =
     rbind (fail_if (ra_receiver (rp_receiver r) \<noteq> e_receiver e
         \<or> ra_receiver_incarnation (rp_receiver r) \<noteq> e_receiver_incarnation e
         \<or> ra_clock_id (rp_receiver r) \<noteq> e_clock_id e)
       (evaluator_error_new ''receiver_binding_mismatch''
         ''receiver identity, incarnation, or clock differs from evaluator'')) (\<lambda>_.
     rbind (fail_if (pf_subject (rp_frame r) \<noteq> po_subject (e_policy e))
       (evaluator_error_new ''subject_mismatch'' ''pulse subject differs from policy subject'')) (\<lambda>_.
     rbind (fail_if (pf_observation_policy_generation (rp_frame r)
         \<noteq> po_observation_policy_generation (e_policy e))
       (evaluator_error_new ''observation_policy_generation_mismatch''
         ''pulse observation-policy generation is not admitted by the reliance policy'')) (\<lambda>_.
     fail_if (pf_profile (rp_frame r) \<noteq> po_observation_profile (e_policy e))
       (evaluator_error_new ''profile_mismatch'' ''pulse profile differs from evaluator policy''))))"

definition classify_arrival ::
  "evaluator \<Rightarrow> pulse_frame \<Rightarrow> receiver_annotation \<Rightarrow> arrival_disposition \<times> sequence_gap option" where
  "classify_arrival e f a =
     (if effective_stale (ra_transport_observed_delay_ms a) f then (Stale, None)
      else if bs_contains (e_retired_subject_incarnations e) (pf_subject_incarnation f) then (Replay, None)
      else case bt_get (e_observer_lineages e) (pf_observer f) of
        Some l \<Rightarrow>
          if ol_incarnation l = pf_observer_incarnation f then
            if pf_sequence f = ol_sequence l then (Duplicate, None)
            else if pf_sequence f < ol_sequence l then (Replay, None)
            else if pf_sequence f = sat_add (ol_sequence l) 1 then (Continuous, None)
            else
              let expected_next = sat_add (ol_sequence l) 1 in
              (Gap, Some \<lparr>sg_expected_next = expected_next, sg_received = pf_sequence f,
                          sg_missing_count = pf_sequence f - expected_next\<rparr>)
          else if bs_contains (e_retired_observer_incarnations e)
              (pf_observer f, pf_observer_incarnation f) then (Replay, None)
          else (Restarted, None)
      | None \<Rightarrow> (First, None))"

definition update_lineage :: "pulse_frame \<Rightarrow> arrival_disposition \<Rightarrow> evaluator \<Rightarrow> evaluator" where
  "update_lineage f disposition e =
     (let e1 = (case (disposition, bt_get (e_observer_lineages e) (pf_observer f)) of
          (Restarted, Some old) \<Rightarrow>
            e\<lparr>e_retired_observer_incarnations :=
               bs_insert (pf_observer f, ol_incarnation old) (e_retired_observer_incarnations e)\<rparr>
        | _ \<Rightarrow> e)
      in e1\<lparr>e_observer_lineages := bt_insert (pf_observer f)
           \<lparr>ol_incarnation = pf_observer_incarnation f, ol_sequence = pf_sequence f\<rparr>
           (e_observer_lineages e1)\<rparr>)"

section \<open>Contradictions and supersession\<close>

definition contradiction_parts :: "evaluator \<Rightarrow> string \<Rightarrow> string list \<Rightarrow> bytes list" where
  "contradiction_parts e signal refs =
     [po_subject (e_policy e), e_current_subject_incarnation e, po_generation (e_policy e), signal] @ refs"

definition create_contradiction ::
  "hasher \<Rightarrow> string \<Rightarrow> string list \<Rightarrow> string list \<Rightarrow> u64 \<Rightarrow> evaluator \<Rightarrow> evaluator" where
  "create_contradiction sha signal evidence_refs statements at e =
     (let refs = remdups_adj (sort evidence_refs);
          stmts = remdups_adj (sort statements);
          cid = digest_id ''contradiction''
            (digest_parts sha ''contradiction.record.v1'' (contradiction_parts e signal refs))
      in if bt_contains (e_contradictions e) cid then e
         else
           let record = \<lparr>cr_schema_version = SCHEMA_VERSION_V1, cr_contradiction_id = cid,
                 cr_subject_scope = evaluator_subject_scope e,
                 cr_policy_generation = po_generation (e_policy e), cr_signal = signal,
                 cr_first_observed_at_ms = at, cr_evidence_refs = refs,
                 cr_incompatible_statements = stmts, cr_status = Active\<rparr>
           in log_event at (ContradictionCreated record)
                (e\<lparr>e_contradictions := bt_insert cid record (e_contradictions e)\<rparr>))"

definition record_subject_incarnation_change :: "hasher \<Rightarrow> received_pulse \<Rightarrow> u64 \<Rightarrow> evaluator \<Rightarrow> evaluator" where
  "record_subject_incarnation_change sha r at e =
     (let old = e_current_subject_incarnation e;
          new = pf_subject_incarnation (rp_frame r);
          references = map (\<lambda>x. evidence_ref (rp_frame (oe_received x)))
              (filter (\<lambda>x. pf_subject_incarnation (rp_frame (oe_received x)) = old)
                (bt_values (e_observers e)))
            @ [evidence_ref (rp_frame r)];
          statements = [''subject incarnation observed as '' @ old,
                        ''subject incarnation observed as '' @ new]
      in create_contradiction sha ''subject_incarnation'' references statements at
           (e\<lparr>e_retired_subject_incarnations := bs_insert old (e_retired_subject_incarnations e),
              e_current_subject_incarnation := new\<rparr>))"

text \<open>One existing evidence against the incoming pulse: the signals both carry that clash.\<close>

definition clash_candidates ::
  "evaluator \<Rightarrow> received_pulse \<Rightarrow> observer_evidence \<Rightarrow> (string \<times> string list \<times> string list) list" where
  "clash_candidates e r x =
     concat (map (\<lambda>incoming.
       case find (\<lambda>s. sv_name s = sv_name incoming) (pf_signals (rp_frame (oe_received x))) of
         None \<Rightarrow> []
       | Some existing \<Rightarrow>
           if signals_are_incompatible incoming existing
                (bt_get (po_coherence_tolerances (e_policy e)) (sv_name incoming))
           then [(sv_name incoming,
                  [evidence_ref (rp_frame r), evidence_ref (rp_frame (oe_received x))],
                  [signal_statement (pf_observer (rp_frame r)) incoming,
                   signal_statement (pf_observer (rp_frame (oe_received x))) existing])]
           else []) (pf_signals (rp_frame r)))"

definition comparable_evidence :: "evaluator \<Rightarrow> received_pulse \<Rightarrow> u64 \<Rightarrow> observer_evidence \<Rightarrow> bool" where
  "comparable_evidence e r at x =
     (\<not> (pf_observer (rp_frame (oe_received x)) = pf_observer (rp_frame r)
         \<or> pf_subject_incarnation (rp_frame (oe_received x)) \<noteq> pf_subject_incarnation (rp_frame r)
         \<or> oe_expires_at_ms x \<le> at
         \<or> \<not> provenance_is_eligible e x))"

fun create_contradictions ::
  "hasher \<Rightarrow> u64 \<Rightarrow> (string \<times> string list \<times> string list) list \<Rightarrow> evaluator \<Rightarrow> evaluator" where
  "create_contradictions sha at [] e = e"
| "create_contradictions sha at ((signal, references, statements) # cs) e =
     create_contradictions sha at cs (create_contradiction sha signal references statements at e)"

definition detect_signal_contradictions :: "hasher \<Rightarrow> received_pulse \<Rightarrow> u64 \<Rightarrow> evaluator \<Rightarrow> evaluator" where
  "detect_signal_contradictions sha r at e =
     (if \<not> received_provenance_is_eligible e r then e
      else create_contradictions sha at
        (concat (map (clash_candidates e r)
           (filter (comparable_evidence e r at) (bt_values (e_observers e))))) e)"

definition record_adverse_supersession :: "received_pulse \<Rightarrow> u64 \<Rightarrow> evaluator \<Rightarrow> evaluator" where
  "record_adverse_supersession r at e =
     (case bt_get (e_observers e) (pf_observer (rp_frame r)) of
        None \<Rightarrow> e
      | Some prior \<Rightarrow>
          let pf = rp_frame (oe_received prior);
              adverse = map sv_name (filter (\<lambda>s. sv_assessment s = OutsideDeclaredBound) (pf_signals pf))
          in if adverse = [] then e
             else log_event at
               (AdverseObservationSuperseded (pf_observer (rp_frame r)) (evidence_ref pf)
                  (evidence_ref (rp_frame r)) (sort adverse)
                  (if pf_observer_incarnation pf = pf_observer_incarnation (rp_frame r)
                   then ''same_observer_newer_sequence/v1'' else ''observer_incarnation_replacement/v1''))
               e)"

section \<open>\<open>ingest\<close>\<close>

fun disposition_debug :: "arrival_disposition \<Rightarrow> string" where
  "disposition_debug First = ''First''"
| "disposition_debug Continuous = ''Continuous''"
| "disposition_debug Gap = ''Gap''"
| "disposition_debug Duplicate = ''Duplicate''"
| "disposition_debug Replay = ''Replay''"
| "disposition_debug Restarted = ''Restarted''"
| "disposition_debug Stale = ''Stale''"

text \<open>The continuity of an accepted arrival; the source does not reach the other three.\<close>

fun continuity_of :: "arrival_disposition \<Rightarrow> sequence_continuity_dimension option" where
  "continuity_of Gap = Some Continuity_Gapped"
| "continuity_of Restarted = Some Continuity_Restarted"
| "continuity_of First = Some Continuity_FirstSeen"
| "continuity_of Continuous = Some Continuity_Continuous"
| "continuity_of _ = None"

definition count_dropped_stale :: "evaluator \<Rightarrow> evaluator" where
  "count_dropped_stale e =
     e\<lparr>e_metrics := (e_metrics e)\<lparr>em_dropped_stale_pulse_count :=
         sat_add (em_dropped_stale_pulse_count (e_metrics e)) 1\<rparr>\<rparr>"

definition count_duplicate :: "evaluator \<Rightarrow> evaluator" where
  "count_duplicate e =
     e\<lparr>e_metrics := (e_metrics e)\<lparr>em_duplicate_count := sat_add (em_duplicate_count (e_metrics e)) 1\<rparr>\<rparr>"

definition count_gap :: "arrival_disposition \<Rightarrow> evaluator \<Rightarrow> evaluator" where
  "count_gap d e =
     (if d = Gap then
        e\<lparr>e_metrics := (e_metrics e)\<lparr>em_sequence_gap_count :=
            sat_add (em_sequence_gap_count (e_metrics e)) 1\<rparr>\<rparr>
      else e)"

definition effective_validity :: "received_pulse \<Rightarrow> evaluator \<Rightarrow> u64" where
  "effective_validity r e = min (pf_validity_ms (rp_frame r)) (po_maximum_validity_ms (e_policy e))"

definition observed_delay :: "received_pulse \<Rightarrow> u64" where
  "observed_delay r =
     (case ra_transport_observed_delay_ms (rp_receiver r) of Some d \<Rightarrow> d | None \<Rightarrow> 0)"

definition put_evidence :: "received_pulse \<Rightarrow> sequence_continuity_dimension \<Rightarrow> evaluator \<Rightarrow> evaluator" where
  "put_evidence r continuity e =
     e\<lparr>e_observers := bt_insert (pf_observer (rp_frame r))
         \<lparr>oe_received = r,
          oe_expires_at_ms =
            sat_add (ra_arrival_monotonic_ms (rp_receiver r)) (effective_validity r e - observed_delay r),
          oe_continuity = continuity\<rparr> (e_observers e)\<rparr>"

text \<open>From the update of the lineage to the insertion of the evidence.\<close>

definition admit_evidence ::
  "hasher \<Rightarrow> received_pulse \<Rightarrow> sequence_continuity_dimension \<Rightarrow> u64 \<Rightarrow> evaluator \<Rightarrow> evaluator" where
  "admit_evidence sha r continuity now e =
     put_evidence r continuity
       (record_adverse_supersession r now
         (detect_signal_contradictions sha r now
           (update_lineage (rp_frame r) (ra_disposition (rp_receiver r)) e)))"

text \<open>From the freshness check of this consumer's policy on.\<close>

definition ingest_accepted ::
  "hasher \<Rightarrow> received_pulse \<Rightarrow> sequence_continuity_dimension \<Rightarrow> u64 \<Rightarrow> evaluator \<Rightarrow> evaluator" where
  "ingest_accepted sha r continuity now e =
     (if effective_validity r e \<le> observed_delay r then
        count_dropped_stale (update_lineage (rp_frame r) (ra_disposition (rp_receiver r)) e)
      else if pf_subject_incarnation (rp_frame r) \<noteq> e_current_subject_incarnation e then
        if bs_contains (e_retired_subject_incarnations e) (pf_subject_incarnation (rp_frame r))
        then count_dropped_stale e
        else admit_evidence sha r continuity now (record_subject_incarnation_change sha r now e)
      else admit_evidence sha r continuity now e)"

definition ingest_classified :: "hasher \<Rightarrow> received_pulse \<Rightarrow> u64 \<Rightarrow> evaluator \<Rightarrow> evaluator" where
  "ingest_classified sha r now e =
     (case continuity_of (ra_disposition (rp_receiver r)) of
        None \<Rightarrow>
          if ra_disposition (rp_receiver r) = Duplicate then count_duplicate e else count_dropped_stale e
      | Some continuity \<Rightarrow>
          ingest_accepted sha r continuity now (count_gap (ra_disposition (rp_receiver r)) e))"

definition arrival_regressed :: "received_pulse \<Rightarrow> evaluator \<Rightarrow> bool" where
  "arrival_regressed r e =
     (case e_last_receiver_arrival_ms e of
        None \<Rightarrow> False | Some prior \<Rightarrow> ra_arrival_monotonic_ms (rp_receiver r) < prior)"

definition note_arrival :: "received_pulse \<Rightarrow> evaluator \<Rightarrow> evaluator" where
  "note_arrival r e =
     e\<lparr>e_last_receiver_arrival_ms := Some
         (case e_last_receiver_arrival_ms e of
            None \<Rightarrow> ra_arrival_monotonic_ms (rp_receiver r)
          | Some prior \<Rightarrow> max prior (ra_arrival_monotonic_ms (rp_receiver r)))\<rparr>"

definition annotation_agrees :: "received_pulse \<Rightarrow> evaluator \<Rightarrow> bool" where
  "annotation_agrees r e =
     (classify_arrival e (rp_frame r) (rp_receiver r)
      = (ra_disposition (rp_receiver r), ra_sequence_gap (rp_receiver r)))"

text \<open>All of \<open>ingest\<close> between its checks and its final evaluation.\<close>

definition ingest_pulse :: "hasher \<Rightarrow> received_pulse \<Rightarrow> u64 \<Rightarrow> evaluator \<Rightarrow> evaluator" where
  "ingest_pulse sha r now e =
     (let e0 = e\<lparr>e_metrics := (e_metrics e)\<lparr>em_pulse_to_evaluation_latency_ms :=
                   sat_sub now (ra_arrival_monotonic_ms (rp_receiver r))\<rparr>\<rparr>
      in if arrival_regressed r e0 then
           go_blind now ''receiver monotonic arrival regressed within one clock generation'' e0
         else
           let e1 = note_arrival r e0 in
           if \<not> annotation_agrees r e1 then
             go_blind now (''receiver annotation mismatch: expected ''
               @ disposition_debug (fst (classify_arrival e1 (rp_frame r) (rp_receiver r)))
               @ '', received '' @ disposition_debug (ra_disposition (rp_receiver r))) e1
           else ingest_classified sha r now e1)"

definition ingest :: "hasher \<Rightarrow> received_pulse \<Rightarrow> u64 \<Rightarrow> evaluator \<Rightarrow> evaluation_output evaluation" where
  "ingest sha r now e =
     (case rbind (map_err (\<lambda>err. evaluator_error_new ''invalid_pulse'' (pulse_error_display err))
              (received_validate sha r)) (\<lambda>_.
            rbind (validate_binding e r) (\<lambda>_.
            fail_if (now < ra_arrival_monotonic_ms (rp_receiver r))
              (evaluator_error_new ''evaluation_before_arrival''
                ''evaluation time precedes receiver-observed arrival''))) of
        Inl err \<Rightarrow> (e, Inl err)
      | Inr _ \<Rightarrow> evaluate_since sha now (length (e_event_log e)) (ingest_pulse sha r now e))"

section \<open>The other operations\<close>

definition prepend_event ::
  "sparse_durable_event \<Rightarrow> evaluation_output evaluation \<Rightarrow> evaluation_output evaluation" where
  "prepend_event item r =
     (fst r, rbind (snd r) (\<lambda>out. Inr (out\<lparr>eo_sparse_events := item # eo_sparse_events out\<rparr>)))"

definition tick :: "hasher \<Rightarrow> u64 \<Rightarrow> evaluator \<Rightarrow> evaluation_output evaluation" where
  "tick sha now e = evaluate sha now e"

definition set_monitor_capability ::
  "hasher \<Rightarrow> monitor_capability \<Rightarrow> u64 \<Rightarrow> evaluator \<Rightarrow> evaluation_output evaluation" where
  "set_monitor_capability sha state at e =
     (let (label, detail) = (case state of
            Operational \<Rightarrow> (''operational'', ''monitor observation capability restored'')
          | MonitorDegraded d \<Rightarrow> (''degraded'', d)
          | Blind d \<Rightarrow> (''blind'', d));
          (e1, item) = monitor_event at label detail (e\<lparr>e_monitor_capability := state\<rparr>)
      in prepend_event item (evaluate sha at e1))"

definition record_monitor_input_drop ::
  "hasher \<Rightarrow> u64 \<Rightarrow> u64 \<Rightarrow> string \<Rightarrow> evaluator \<Rightarrow> evaluation_output evaluation" where
  "record_monitor_input_drop sha count at detail e =
     set_monitor_capability sha (Blind detail) at
       (e\<lparr>e_metrics := (e_metrics e)\<lparr>em_monitor_input_drop_count :=
            sat_add (em_monitor_input_drop_count (e_metrics e)) count\<rparr>\<rparr>)"

definition restore_monitor_capability ::
  "hasher \<Rightarrow> u64 \<Rightarrow> string \<Rightarrow> evaluator \<Rightarrow> evaluation_output evaluation" where
  "restore_monitor_capability sha at detail e =
     (let (e1, item) = monitor_event at ''operational'' detail (e\<lparr>e_monitor_capability := Operational\<rparr>);
          e2 = e1\<lparr>e_reevaluation_barrier := Some (MonitorCapabilityRestored
                 (''monitor capability was explicitly restored ('' @ detail
                  @ ''); a separate evaluation is required''))\<rparr>
      in prepend_event item (evaluate sha at e2))"

definition forget_observers :: "evaluator \<Rightarrow> evaluator" where
  "forget_observers e =
     e\<lparr>e_observers := [], e_observer_lineages := [], e_retired_observer_incarnations := []\<rparr>"

definition install_reevaluation_barrier ::
  "hasher \<Rightarrow> reevaluation_barrier \<Rightarrow> u64 \<Rightarrow> evaluator \<Rightarrow> evaluation_output evaluation" where
  "install_reevaluation_barrier sha barrier at e =
     evaluate sha at (e\<lparr>e_escalation_state := NotRequested, e_reevaluation_barrier := Some barrier\<rparr>)"

definition replace_policy ::
  "hasher \<Rightarrow> reliance_policy \<Rightarrow> reevaluation_barrier \<Rightarrow> u64 \<Rightarrow> evaluator \<Rightarrow> evaluation_output evaluation" where
  "replace_policy sha policy barrier at e =
     (case rbind (map_err from_policy (policy_validate policy)) (\<lambda>_.
            fail_if (po_subject policy \<noteq> po_subject (e_policy e) \<or> po_scope policy \<noteq> po_scope (e_policy e)
                \<or> po_consumer policy \<noteq> po_consumer (e_policy e))
              (evaluator_error_new ''policy_binding_mismatch''
                ''replacement policy changes evaluator subject, scope, or consumer'')) of
        Inl err \<Rightarrow> (e, Inl err)
      | Inr _ \<Rightarrow>
          let e1 = (if po_observation_profile policy \<noteq> po_observation_profile (e_policy e)
                 \<or> po_observation_policy_generation policy \<noteq> po_observation_policy_generation (e_policy e)
               then forget_observers e else e)
          in evaluate sha at (e1\<lparr>e_policy := policy, e_escalation_state := NotRequested,
               e_reevaluation_barrier := Some barrier\<rparr>))"

definition inapplicable :: "incarnation_id \<Rightarrow> incarnation_id \<Rightarrow> u64 \<Rightarrow> contradiction_record \<Rightarrow> contradiction_record" where
  "inapplicable prior replacement at c =
     c\<lparr>cr_status := InapplicableBySubjectReplacement prior replacement at
         ''subject_incarnation_replacement/v1''\<rparr>"

definition bound_to_incarnation :: "incarnation_id \<Rightarrow> contradiction_record \<Rightarrow> bool" where
  "bound_to_incarnation prior c =
     (cr_is_active c \<and> ss_subject_incarnation (cr_subject_scope c) = prior)"

definition replace_subject_incarnation ::
  "hasher \<Rightarrow> incarnation_id \<Rightarrow> u64 \<Rightarrow> evaluator \<Rightarrow> evaluation_output evaluation" where
  "replace_subject_incarnation sha replacement at e =
     (case rbind (map_err (\<lambda>_. evaluator_error_new ''invalid_subject'' ''invalid replacement incarnation'')
              (validate_identity ''IncarnationId'' replacement)) (\<lambda>_.
            fail_if (replacement = e_current_subject_incarnation e)
              (evaluator_error_new ''duplicate_subject_incarnation''
                ''replacement incarnation is already active'')) of
        Inl err \<Rightarrow> (e, Inl err)
      | Inr _ \<Rightarrow>
          let prior = e_current_subject_incarnation e;
              changed = map (inapplicable prior replacement at)
                (filter (bound_to_incarnation prior) (bt_values (e_contradictions e)));
              e1 = e\<lparr>e_contradictions := bt_map_values
                     (\<lambda>c. if bound_to_incarnation prior c then inapplicable prior replacement at c else c)
                     (e_contradictions e)\<rparr>;
              e2 = fold (\<lambda>c. log_event at (ContradictionLifecycleChanged c)) changed e1;
              e3 = forget_observers (e2\<lparr>
                e_retired_subject_incarnations := bs_insert prior (e_retired_subject_incarnations e2),
                e_current_subject_incarnation := replacement\<rparr>)
          in evaluate sha at (e3\<lparr>e_diagnostic_evidence := [], e_escalation_state := NotRequested,
               e_reevaluation_barrier := Some (SubjectIncarnationTransition
                 (''configured subject incarnation changed from '' @ prior @ '' to '' @ replacement
                  @ ''; old standing and hot evidence were not inherited''))\<rparr>))"

fun import_contradictions ::
  "contradiction_record list \<Rightarrow> evaluator \<Rightarrow> unit evaluation" where
  "import_contradictions [] e = (e, Inr ())"
| "import_contradictions (c # cs) e =
     (if cr_schema_version c \<noteq> SCHEMA_VERSION_V1
         \<or> ss_subject (cr_subject_scope c) \<noteq> po_subject (e_policy e)
      then (e, Inl (evaluator_error_new ''invalid_contradiction_history''
             ''historical contradiction does not bind this evaluator subject''))
      else if (case bt_get (e_contradictions e) (cr_contradiction_id c) of
                 Some existing \<Rightarrow> existing \<noteq> c | None \<Rightarrow> False)
      then (e, Inl (evaluator_error_new ''contradiction_identity_rebound''
             ''one contradiction identity names different historical content''))
      else import_contradictions cs
             (e\<lparr>e_contradictions := bt_insert (cr_contradiction_id c) c (e_contradictions e)\<rparr>))"

definition set_normal_trace :: "bool \<Rightarrow> evaluator \<Rightarrow> evaluator" where
  "set_normal_trace normal e = e\<lparr>e_normal_trace := normal\<rparr>"

definition mark_failure_start :: "u64 \<Rightarrow> evaluator \<Rightarrow> evaluator" where
  "mark_failure_start at e = e\<lparr>e_fault_started_at_ms := Some at\<rparr>"

record contradiction_resolution =
  cx_resolver :: string
  cx_rule :: string
  cx_explanation :: string

definition resolve_contradiction ::
  "hasher \<Rightarrow> contradiction_id \<Rightarrow> contradiction_resolution \<Rightarrow> u64 \<Rightarrow> evaluator \<Rightarrow>
   evaluation_output evaluation" where
  "resolve_contradiction sha cid resolution at e =
     (if cx_resolver resolution = [] \<or> cx_rule resolution = [] \<or> cx_explanation resolution = [] then
        (e, Inl (evaluator_error_new ''invalid_resolution''
           ''resolution identity, rule, and explanation are required''))
      else case bt_get (e_contradictions e) cid of
        None \<Rightarrow>
          (e, Inl (evaluator_error_new ''unknown_contradiction'' ''contradiction does not exist''))
      | Some c \<Rightarrow>
          if \<not> cr_is_active c then
            (e, Inl (evaluator_error_new ''contradiction_not_active''
               ''only an active contradiction can be resolved''))
          else
            let changed = c\<lparr>cr_status := Resolved (cx_resolver resolution) at (cx_rule resolution)
                              (cx_explanation resolution)\<rparr>;
                (e1, item) = sparse_event at (ContradictionLifecycleChanged changed)
                  (e\<lparr>e_contradictions := bt_insert cid changed (e_contradictions e)\<rparr>)
            in prepend_event item (evaluate sha at e1))"

definition disposition_state :: "escalation_disposition \<Rightarrow> escalation_state" where
  "disposition_state d =
     (case ed_kind d of
        Accept _ \<Rightarrow> Accepted (ed_request_id d)
      | Refuse _ detail \<Rightarrow> Refused (ed_request_id d) detail
      | Narrow _ _ _ \<Rightarrow> Narrowed (ed_request_id d)
      | Defer _ _ \<Rightarrow> Deferred (ed_request_id d))"

definition record_escalation_disposition ::
  "hasher \<Rightarrow> escalation_disposition \<Rightarrow> u64 \<Rightarrow> evaluator \<Rightarrow> evaluation_output evaluation" where
  "record_escalation_disposition sha d now e =
     (if ed_schema_version d \<noteq> SCHEMA_VERSION_V1 \<or> ed_bridge_id d = [] \<or> ed_clock_id d \<noteq> e_clock_id e then
        (e, Inl (evaluator_error_new ''invalid_disposition''
           ''disposition schema, bridge, or clock binding is invalid''))
      else if \<not> bt_contains (e_issued_requests e) (ed_request_id d) then
        (e, Inl (evaluator_error_new ''unknown_request'' ''disposition references an unknown request''))
      else if now < ed_decided_at_ms d then
        (e, Inl (evaluator_error_new ''evaluation_before_disposition''
           ''evaluation time precedes the bridge disposition occurrence''))
      else
        let (e1, item) = sparse_event (ed_decided_at_ms d) (EscalationDisposition d)
              (e\<lparr>e_escalation_state := disposition_state d\<rparr>)
        in prepend_event item (evaluate sha now e1))"

definition receipt_unbound :: "diagnostic_receipt \<Rightarrow> escalation_request \<Rightarrow> clock_id \<Rightarrow> u64 \<Rightarrow> bool" where
  "receipt_unbound r q clock at =
     (dr_schema_version r \<noteq> SCHEMA_VERSION_V1 \<or> dr_request_id r \<noteq> rq_request_id q
      \<or> dr_causal_transition_id r \<noteq> rq_causal_transition_id q
      \<or> dr_deduplication_key r \<noteq> rq_deduplication_key q
      \<or> dr_evidence_window_digest r \<noteq> rq_evidence_window_digest q
      \<or> dr_subject_scope r \<noteq> rq_subject_scope q \<or> dr_consumer r \<noteq> rq_consumer q
      \<or> dr_policy_generation r \<noteq> rq_policy_generation q
      \<or> dr_observation_policy_generation r \<noteq> rq_observation_policy_generation q
      \<or> dr_diagnostic_profile r \<noteq> rq_diagnostic_profile q \<or> dr_clock_id r \<noteq> clock
      \<or> dr_completed_at_ms r < dr_started_at_ms r \<or> at < dr_completed_at_ms r)"

definition record_diagnostic_receipt ::
  "hasher \<Rightarrow> diagnostic_receipt \<Rightarrow> u64 \<Rightarrow> evaluator \<Rightarrow> evaluation_output evaluation" where
  "record_diagnostic_receipt sha r at e =
     (case bt_get (e_issued_requests e) (dr_request_id r) of
        None \<Rightarrow> (e, Inl (evaluator_error_new ''unknown_request'' ''receipt references an unknown request''))
      | Some q \<Rightarrow>
          if receipt_unbound r q (e_clock_id e) at then
            (e, Inl (evaluator_error_new ''receipt_binding_mismatch''
               ''diagnostic receipt does not exactly bind its request''))
          else
            let ref = \<lparr>er_receipt_id = dr_receipt_id r, er_result_digest = dr_result_digest r,
                  er_recorded_at_ms = at, er_applicable_until_ms = dr_applicable_until_ms r,
                  er_nonclaims = dr_nonclaims r\<rparr>;
                (e1, item) = sparse_event at (DiagnosticReceiptCorrelated r ref)
                  (e\<lparr>e_diagnostic_evidence := e_diagnostic_evidence e @ [ref],
                     e_escalation_state := Completed (dr_request_id r) (dr_receipt_id r)\<rparr>)
            in prepend_event item (evaluate sha at e1))"

end
