(* ===== verification/Support.thy ===== *)
theory Support
  imports Evaluator
begin

text \<open>
  When a judgment is CURRENT and for how long. \<open>support_deadline\<close> computes, per required coverage
  tag, the required-th largest of the latest expiries of the failure domains that cover the tag.
  It is shown to be the exact instant at which \<open>derive\<close> stops answering CURRENT, if nothing else
  happens.
\<close>

section \<open>The k-th largest element by counting\<close>

lemma sorted_filter_greater:
  fixes ys :: "'a::linorder list"
  assumes "sorted_wrt (\<ge>) ys" and "i < length ys"
  shows "t < ys ! i \<longleftrightarrow> i < length (filter (\<lambda>y. t < y) ys)"
  using assms
proof (induction ys arbitrary: i)
  case Nil
  then show ?case by simp
next
  case (Cons y ys)
  show ?case
  proof (cases "t < y")
    case True
    with Cons show ?thesis by (cases i) auto
  next
    case False
    then have "filter (\<lambda>y. t < y) ys = []"
      using Cons.prems(1) by (auto simp: filter_empty_conv)
    moreover have "\<not> t < (y # ys) ! i"
      using False Cons.prems by (cases i) (auto simp: not_less intro: order_trans)
    ultimately show ?thesis using False by simp
  qed
qed

lemma kth_largest:
  fixes xs :: "'a::linorder list"
  assumes "i < length xs"
  shows "t < rev (sort xs) ! i \<longleftrightarrow> i < length (filter (\<lambda>y. t < y) xs)"
proof -
  have "sorted_wrt (\<ge>) (rev (sort xs))" by (simp add: sorted_wrt_rev)
  then have "t < rev (sort xs) ! i \<longleftrightarrow> i < length (filter (\<lambda>y. t < y) (rev (sort xs)))"
    using assms by (intro sorted_filter_greater) simp_all
  also have "length (filter (\<lambda>y. t < y) (rev (sort xs))) = length (filter (\<lambda>y. t < y) xs)"
    by (metis length_rev length_sort filter_sort rev_filter)
  finally show ?thesis .
qed

section \<open>Domains that cover a tag\<close>

definition tag_domains :: "(string, string) btmap \<Rightarrow> string \<Rightarrow> observer_evidence list \<Rightarrow> string set" where
  "tag_domains declared tag xs = evidence_domain declared ` {x \<in> set xs. covers_tag tag x}"

lemma finite_tag_domains [simp]: "finite (tag_domains declared tag xs)"
  by (simp add: tag_domains_def)

lemma domain_count_card:
  "required \<le> domain_count_for_tag xs tag declared \<longleftrightarrow> unat required \<le> card (tag_domains declared tag xs)"
proof -
  have "length (bs_collect (map (evidence_domain declared) (filter (covers_tag tag) xs)))
      = card (tag_domains declared tag xs)"
    by (simp add: length_bs_collect tag_domains_def)
  then show ?thesis by (simp add: domain_count_for_tag_def sat_of_nat_ge)
qed

lemma latest_by_domain_ok: "bt_ok m \<Longrightarrow> bt_ok (latest_by_domain declared tag xs m)"
  by (induction declared tag xs m rule: latest_by_domain.induct) (simp_all add: Let_def btree_simps split: option.split)

text \<open>A domain's latest expiry is later than \<open>t\<close> iff some evidence of the domain expires later.\<close>

definition expires_after :: "(string, u64) btmap \<Rightarrow> u64 \<Rightarrow> string set" where
  "expires_after m t = {d. \<exists>x. bt_get m d = Some x \<and> t < x}"

lemma latest_by_domain_after:
  "expires_after (latest_by_domain declared tag xs m) t
   = expires_after m t \<union> tag_domains declared tag (filter (\<lambda>x. t < oe_expires_at_ms x) xs)"
proof (induction declared tag xs m rule: latest_by_domain.induct)
  case (1 declared tag m)
  then show ?case by (simp add: tag_domains_def)
next
  case (2 declared tag x xs m)
  let ?d = "evidence_domain declared x"
  let ?m = "if covers_tag tag x then (case bt_get m ?d of
      Some expiry \<Rightarrow> bt_insert ?d (max expiry (oe_expires_at_ms x)) m
    | None \<Rightarrow> bt_insert ?d (oe_expires_at_ms x) m) else m"
  have m: "expires_after ?m t = expires_after m t \<union> (if covers_tag tag x \<and> t < oe_expires_at_ms x then {?d} else {})"
    by (auto simp: expires_after_def btree_simps less_max_iff_disj split: option.splits if_splits)
  have "tag_domains declared tag (filter (\<lambda>x. t < oe_expires_at_ms x) (x # xs))
      = (if covers_tag tag x \<and> t < oe_expires_at_ms x then {?d} else {})
        \<union> tag_domains declared tag (filter (\<lambda>x. t < oe_expires_at_ms x) xs)"
    by (auto simp: tag_domains_def)
  then show ?case using 2 m by (auto simp: Let_def)
qed

lemma card_expires_after:
  assumes "bt_ok m"
  shows "length (filter (\<lambda>x. t < x) (bt_values m)) = card (expires_after m t)"
proof -
  have inj: "distinct (map fst (filter (\<lambda>p. t < snd p) m))"
    using bt_ok_distinct [OF assms] by (rule distinct_map_filter)
  have "expires_after m t = fst ` set (filter (\<lambda>p. t < snd p) m)"
    using bt_mem_get [OF assms] by (force simp: expires_after_def)
  then have "card (expires_after m t) = length (map fst (filter (\<lambda>p. t < snd p) m))"
    using distinct_card [OF inj] by simp
  moreover have "length (filter (\<lambda>x. t < x) (map snd m)) = length (filter (\<lambda>p. t < snd p) m)"
    by (simp add: filter_map o_def)
  ultimately show ?thesis by (simp add: bt_values_def)
qed

lemma latest_by_domain_dom:
  "dom (bt_get (latest_by_domain declared tag xs m)) = dom (bt_get m) \<union> tag_domains declared tag xs"
  by (induction declared tag xs m rule: latest_by_domain.induct)
     (auto simp: Let_def btree_simps tag_domains_def split: option.splits if_splits)

lemma length_bt_values: "bt_ok m \<Longrightarrow> length (bt_values m) = card (dom (bt_get m))"
proof -
  assume ok: "bt_ok m"
  have "dom (bt_get m) = fst ` set m"
    using dom_map_of_conv_image_fst [of m] by (simp add: bt_get_def [abs_def])
  then show ?thesis using distinct_card [OF bt_ok_distinct [OF ok]] by (simp add: bt_values_def)
qed

lemma tag_deadline_defined:
  assumes "po_minimum_observers p \<noteq> 0"
  shows "tag_deadline p xs tag \<noteq> None \<longleftrightarrow>
    unat (po_minimum_observers p) \<le> card (tag_domains (po_observer_failure_domains p) tag xs)"
proof -
  have "0 < unat (po_minimum_observers p)" using assms by (simp add: unat_gt_0)
  moreover have "dom (bt_get ([] :: (string, u64) btmap)) = {}" by (simp add: dom_def)
  ultimately show ?thesis
    by (auto simp: tag_deadline_def Let_def length_bt_values [OF latest_by_domain_ok] latest_by_domain_dom)
qed

lemma tag_deadline_exact:
  assumes "po_minimum_observers p \<noteq> 0" and "tag_deadline p xs tag = Some d"
  shows "t < d \<longleftrightarrow> unat (po_minimum_observers p)
    \<le> card (tag_domains (po_observer_failure_domains p) tag (filter (\<lambda>x. t < oe_expires_at_ms x) xs))"
proof -
  let ?m = "latest_by_domain (po_observer_failure_domains p) tag xs []"
  let ?i = "unat (po_minimum_observers p) - 1"
  have pos: "0 < unat (po_minimum_observers p)" using assms(1) by (simp add: unat_gt_0)
  have i: "?i < length (bt_values ?m)" and d: "d = rev (sort (bt_values ?m)) ! ?i"
    using assms(2) by (auto simp: tag_deadline_def Let_def split: if_splits)
  have "t < d \<longleftrightarrow> ?i < length (filter (\<lambda>x. t < x) (bt_values ?m))"
    unfolding d by (rule kth_largest [OF i])
  also have "length (filter (\<lambda>x. t < x) (bt_values ?m)) = card (expires_after ?m t)"
    by (rule card_expires_after) (rule latest_by_domain_ok, simp)
  also have "expires_after ?m t = tag_domains (po_observer_failure_domains p) tag
      (filter (\<lambda>x. t < oe_expires_at_ms x) xs)"
    by (simp add: latest_by_domain_after) (simp add: expires_after_def)
  finally show ?thesis using pos by linarith
qed

lemma deadline_loop_exact:
  assumes "po_minimum_observers p \<noteq> 0" and "deadline_loop p xs tags overall = Some d"
  shows "t < d \<longleftrightarrow> t < overall \<and> (\<forall>tag \<in> set tags. unat (po_minimum_observers p)
    \<le> card (tag_domains (po_observer_failure_domains p) tag (filter (\<lambda>x. t < oe_expires_at_ms x) xs)))"
  using assms(2)
proof (induction tags arbitrary: overall)
  case (Cons tag tags)
  then obtain d1 where d1: "tag_deadline p xs tag = Some d1"
    and rest: "deadline_loop p xs tags (min overall d1) = Some d"
    by (auto split: option.splits)
  show ?case using Cons.IH [OF rest] tag_deadline_exact [OF assms(1) d1] by auto
qed simp

lemma deadline_loop_defined:
  assumes "po_minimum_observers p \<noteq> 0"
    and "\<forall>tag \<in> set tags. unat (po_minimum_observers p)
      \<le> card (tag_domains (po_observer_failure_domains p) tag xs)"
  shows "deadline_loop p xs tags overall \<noteq> None"
  using assms(2)
proof (induction tags arbitrary: overall)
  case (Cons tag tags)
  then have "tag_deadline p xs tag \<noteq> None"
    using tag_deadline_defined [OF assms(1)] by simp
  then show ?case using Cons by auto
qed simp

section \<open>The conditions of CURRENT\<close>

text \<open>Every required tag is covered by enough failure domains at \<open>t\<close>.\<close>

definition covered :: "evaluator \<Rightarrow> u64 \<Rightarrow> bool" where
  "covered e t =
     (\<forall>tag \<in> set (po_required_coverage (e_policy e)).
        unat (po_minimum_observers (e_policy e))
        \<le> card (tag_domains (po_observer_failure_domains (e_policy e)) tag (eligible_fresh e t)))"

lemma cs_missing_iff: "cs_missing (derive_coverage e t) = [] \<longleftrightarrow> covered e t"
  by (auto simp: derive_coverage_def coverage_summary_def Let_def filter_empty_conv domain_count_card covered_def)

lemma covered_available:
  assumes "covered e t" and "po_required_coverage (e_policy e) \<noteq> []"
  shows "unat (po_minimum_observers (e_policy e)) \<le> length (active_domains e t)"
proof -
  obtain tag where "tag \<in> set (po_required_coverage (e_policy e))" using assms(2) by (cases "po_required_coverage (e_policy e)") auto
  then have "unat (po_minimum_observers (e_policy e))
      \<le> card (tag_domains (po_observer_failure_domains (e_policy e)) tag (eligible_fresh e t))"
    using assms(1) by (simp add: covered_def)
  also have "\<dots> \<le> card (evidence_domain (po_observer_failure_domains (e_policy e)) ` set (eligible_fresh e t))"
    by (intro card_mono) (auto simp: tag_domains_def)
  also have "\<dots> = length (active_domains e t)"
    by (simp add: active_domains_def unique_domains_def length_bs_collect)
  finally show ?thesis .
qed

lemma covered_fresh:
  assumes "covered e t" and "po_required_coverage (e_policy e) \<noteq> []" and "po_minimum_observers (e_policy e) \<noteq> 0"
  shows "eligible_fresh e t \<noteq> []"
proof
  assume "eligible_fresh e t = []"
  then have "length (active_domains e t) = 0"
    by (simp add: active_domains_def unique_domains_def length_bs_collect)
  then show False using covered_available [OF assms(1,2)] assms(3) by (simp add: unat_eq_0)
qed

text \<open>What CURRENT means for a validated policy, without the detour over dimensions.\<close>

definition current_conditions :: "evaluator \<Rightarrow> u64 \<Rightarrow> bool" where
  "current_conditions e t =
     (active_contradictions e = []
      \<and> (\<forall>x \<in> set (eligible_fresh e t). \<not> has_adverse_signal x)
      \<and> covered e t
      \<and> (po_require_verified_authentication (e_policy e)
         \<longrightarrow> (\<forall>x \<in> set (fresh_evidence e t). is_verified (evidence_authentication x)))
      \<and> (\<forall>x \<in> set (fresh_evidence e t). oe_continuity x \<notin> {Continuity_Gapped, Continuity_Restarted})
      \<and> e_monitor_capability e = Operational)"

lemma provenance_verified_iff:
  "provenance_dimension xs = Provenance_Verified \<longleftrightarrow> xs \<noteq> [] \<and> (\<forall>x \<in> set xs. is_verified (evidence_authentication x))"
proof -
  have "\<not> (is_failed a \<and> is_verified a)" for a by (cases a) (simp_all add: is_failed_def is_verified_def)
  then show ?thesis by (auto simp: provenance_dimension_def list_ex_iff list_all_iff)
qed

lemma continuity_clean_iff:
  "derive_continuity e t \<notin> {Continuity_Gapped, Continuity_Restarted, Continuity_Unknown} \<longleftrightarrow>
   fresh_evidence e t \<noteq> []
   \<and> (\<forall>x \<in> set (fresh_evidence e t). oe_continuity x \<notin> {Continuity_Gapped, Continuity_Restarted})"
  by (auto simp: derive_continuity_def Let_def list_ex_iff)

lemma derive_transport_iff:
  "derive_transport e \<notin> {Transport_Blind, Transport_Degraded} \<longleftrightarrow> e_monitor_capability e = Operational"
  by (cases "e_monitor_capability e") (simp_all add: derive_transport_def)

lemma eligible_fresh_subset: "set (eligible_fresh e t) \<subseteq> set (fresh_evidence e t)"
  by (auto simp: eligible_fresh_def)

lemma derive_current_iff:
  assumes "policy_ok (e_policy e)"
  shows "derive_category e t = Current \<longleftrightarrow> current_conditions e t"
proof -
  have p: "po_required_coverage (e_policy e) \<noteq> []" "po_minimum_observers (e_policy e) \<noteq> 0"
    using assms by (simp_all add: policy_ok_def)
  have fresh: "fresh_evidence e t \<noteq> []" if "covered e t"
    using covered_fresh [OF that p] eligible_fresh_subset [of e t] by (auto simp: eligible_fresh_def)
  have "relevant_evidence e \<noteq> []" if "fresh_evidence e t \<noteq> []"
    using that by (auto simp: fresh_evidence_def)
  then have relevant: "relevant_evidence e \<noteq> []" if "covered e t" using fresh that by blast
  have available: "derive_availability e t = Observers_Available" if "covered e t"
    using covered_available [OF that p(1)] by (simp add: derive_availability_def)
  have unknown: "reliance_unknown e t \<longleftrightarrow> \<not> (covered e t
      \<and> (po_require_verified_authentication (e_policy e)
         \<longrightarrow> (\<forall>x \<in> set (fresh_evidence e t). is_verified (evidence_authentication x)))
      \<and> derive_transport e \<noteq> Transport_Blind)"
    using fresh relevant available
    by (auto simp: reliance_unknown_def cs_missing_iff derive_freshness_def provenance_verified_iff)
  have "violation_evidence_refs e t = [] \<longleftrightarrow> (\<forall>x \<in> set (eligible_fresh e t). \<not> has_adverse_signal x)"
    by (simp add: violation_evidence_refs_def filter_empty_conv)
  then show ?thesis
    using fresh continuity_clean_iff [of e t] derive_transport_iff [of e]
    by (auto simp: derive_category_def current_conditions_def unknown)
qed

section \<open>The deadline is exact\<close>

lemma fresh_evidence_later:
  "now \<le> t \<Longrightarrow> fresh_evidence e t = filter (\<lambda>x. t < oe_expires_at_ms x) (fresh_evidence e now)"
  by (auto simp: fresh_evidence_def intro: filter_cong)

lemma eligible_fresh_later:
  "now \<le> t \<Longrightarrow> eligible_fresh e t = filter (\<lambda>x. t < oe_expires_at_ms x) (eligible_fresh e now)"
  by (simp add: eligible_fresh_def fresh_evidence_later [of now t] conj_commute)

lemma current_conditions_later:
  assumes "current_conditions e now" and "now \<le> t"
  shows "current_conditions e t \<longleftrightarrow> covered e t"
  using assms
  by (auto simp: current_conditions_def fresh_evidence_later [OF assms(2)] eligible_fresh_later [OF assms(2)])

definition support_until :: "u64 option \<Rightarrow> u64" where
  "support_until d = (case d of Some t \<Rightarrow> t | None \<Rightarrow> - 1)"

lemma support_until_exact:
  assumes "policy_ok (e_policy e)" and "covered e now" and "now \<le> t"
  shows "t < support_until (support_deadline e (eligible_fresh e now)) \<longleftrightarrow> covered e t"
proof -
  have p: "po_required_coverage (e_policy e) \<noteq> []" "po_minimum_observers (e_policy e) \<noteq> 0"
    using assms(1) by (simp_all add: policy_ok_def)
  let ?loop = "deadline_loop (e_policy e) (eligible_fresh e now) (po_required_coverage (e_policy e)) (- 1)"
  have "?loop \<noteq> None"
    using assms(2) by (intro deadline_loop_defined p) (simp add: covered_def)
  then obtain d where d: "?loop = Some d" by blast
  have exact: "t < d \<longleftrightarrow> t < - 1 \<and> covered e t"
    using deadline_loop_exact [OF p(2) d, of t]
    by (simp add: covered_def eligible_fresh_later [OF assms(3)])
  have "t < - 1" if cov: "covered e t"
  proof -
    obtain x where "x \<in> set (eligible_fresh e t)"
      using covered_fresh [OF cov p] by (cases "eligible_fresh e t") auto
    then have "t < oe_expires_at_ms x" by (simp add: eligible_fresh_def fresh_evidence_def)
    also have "\<dots> \<le> - 1" by (rule word_n1_ge)
    finally show ?thesis .
  qed
  moreover have "support_until (support_deadline e (eligible_fresh e now)) = d"
    using d by (simp add: support_deadline_def support_until_def)
  ultimately show ?thesis using exact by auto
qed

text \<open>
  The support deadline is exact. If the state supports CURRENT at \<open>now\<close> under a validated
  policy, then from \<open>now\<close> on it supports CURRENT at precisely the instants before the deadline that
  \<open>derive\<close> reports (or before the end of the clock, when it reports none): never longer, and never
  shorter.
\<close>

lemma support_deadline_exact:
  assumes "policy_ok (e_policy e)" and "derive_category e now = Current" and "now \<le> t"
  shows "derive_category e t = Current \<longleftrightarrow> t < support_until (ds_support_deadline_ms (derive e now))"
proof -
  have c: "current_conditions e now" using assms(1,2) by (simp add: derive_current_iff)
  then have "covered e now" by (simp add: current_conditions_def)
  then have "t < support_until (support_deadline e (eligible_fresh e now)) \<longleftrightarrow> covered e t"
    using assms by (intro support_until_exact)
  then show ?thesis
    using assms(1,2) current_conditions_later [OF c assms(3)] by (simp add: derive_current_iff derive_def)
qed

end
