(* ===== verification/EvalSteps.thy ===== *)
theory EvalSteps
  imports Support
begin

text \<open>
  The evaluator as a transition system. Every public operation that returns a judgment prepares the
  state and then evaluates; \<open>prepared\<close> names the state before that evaluation, so that facts about all of
  them reduce to facts about the preparations and one fact about \<open>evaluate\<close>. Also what \<open>evaluate\<close> leaves
  alone, and what its judgment says. \<open>import_contradictions\<close> returns no judgment and does not evaluate: it
  is not a step of \<open>run_op\<close> but a rule of \<open>reachable\<close> of its own.
\<close>

section \<open>What \<open>derive\<close> depends on\<close>

definition hot :: "evaluator \<Rightarrow> reliance_policy \<times> incarnation_id \<times> (observer_id, observer_evidence) btmap
    \<times> (contradiction_id, contradiction_record) btmap \<times> monitor_capability" where
  "hot e = (e_policy e, e_current_subject_incarnation e, e_observers e, e_contradictions e,
            e_monitor_capability e)"

lemma hot_eq_iff:
  "hot e = hot e' \<longleftrightarrow> e_policy e = e_policy e' \<and> e_current_subject_incarnation e = e_current_subject_incarnation e'
     \<and> e_observers e = e_observers e' \<and> e_contradictions e = e_contradictions e'
     \<and> e_monitor_capability e = e_monitor_capability e'"
  by (simp add: hot_def)

lemma hot_evidence:
  assumes "hot e = hot e'"
  shows "relevant_evidence e = relevant_evidence e'" "fresh_evidence e t = fresh_evidence e' t"
    "expired_evidence e t = expired_evidence e' t" "eligible_fresh e t = eligible_fresh e' t"
    "active_contradictions e = active_contradictions e'"
proof -
  have "provenance_is_eligible e = provenance_is_eligible e'"
    using assms by (simp add: fun_eq_iff provenance_is_eligible_def received_provenance_is_eligible_def hot_eq_iff)
  then show "relevant_evidence e = relevant_evidence e'" "fresh_evidence e t = fresh_evidence e' t"
    "expired_evidence e t = expired_evidence e' t" "eligible_fresh e t = eligible_fresh e' t"
    "active_contradictions e = active_contradictions e'"
    using assms by (simp_all add: relevant_evidence_def fresh_evidence_def expired_evidence_def
        eligible_fresh_def active_contradictions_def hot_eq_iff)
qed

lemma hot_derive:
  assumes "hot e = hot e'"
  shows "derive e t = derive e' t"
proof -
  note ev = hot_evidence [OF assms]
  have viol: "violation_evidence_refs e t = violation_evidence_refs e' t"
    by (simp add: violation_evidence_refs_def ev)
  have dom: "active_domains e t = active_domains e' t" and pol: "e_policy e = e_policy e'"
    using assms by (simp_all add: active_domains_def ev hot_eq_iff)
  have fr: "derive_freshness e t = derive_freshness e' t" by (simp add: derive_freshness_def ev)
  have co: "derive_continuity e t = derive_continuity e' t" by (simp add: derive_continuity_def ev)
  have av: "derive_availability e t = derive_availability e' t" by (simp add: derive_availability_def dom pol)
  have ch: "derive_coherence e t = derive_coherence e' t" by (simp add: derive_coherence_def ev dom)
  have tr: "derive_transport e = derive_transport e'" using assms by (simp add: derive_transport_def hot_eq_iff)
  have cs: "derive_consistency e t = derive_consistency e' t" by (simp add: derive_consistency_def ev viol)
  have cv: "derive_coverage e t = derive_coverage e' t"
    by (simp add: derive_coverage_def coverage_summary_def ev pol)
  have un: "reliance_unknown e t = reliance_unknown e' t"
    by (simp add: reliance_unknown_def cv av fr tr ev pol)
  have ca: "derive_category e t = derive_category e' t"
    by (simp add: derive_category_def ev viol un co tr)
  show ?thesis
    by (simp add: derive_def derive_dimensions_def ca fr co av ch cv tr cs ev viol support_deadline_def pol)
qed

lemma hot_category: "hot e = hot e' \<Longrightarrow> derive_category e t = derive_category e' t"
  using hot_derive [of e e' t] by (simp add: derive_def)

section \<open>What the steps of \<open>evaluate\<close> leave alone\<close>

named_theorems step_simps \<open>effects of the parts of an operation on single fields\<close>

lemma log_event_fields [step_simps]:
  "e_event_log (log_event at k e) = e_event_log e @ [snd (sparse_event at k e)]"
  "hot (log_event at k e) = hot e"
  "e_last_evaluation_ms (log_event at k e) = e_last_evaluation_ms e"
  "e_last_judgment (log_event at k e) = e_last_judgment e"
  "e_reevaluation_barrier (log_event at k e) = e_reevaluation_barrier e"
  "e_escalation_state (log_event at k e) = e_escalation_state e"
  "e_policy (log_event at k e) = e_policy e"
  "e_clock_id (log_event at k e) = e_clock_id e"
  "e_issued_requests (log_event at k e) = e_issued_requests e"
  "e_active_escalations (log_event at k e) = e_active_escalations e"
  "e_event_counter (log_event at k e) = sat_add (e_event_counter e) 1"
  "e_current_subject_incarnation (log_event at k e) = e_current_subject_incarnation e"
  "e_retired_subject_incarnations (log_event at k e) = e_retired_subject_incarnations e"
  "e_observers (log_event at k e) = e_observers e"
  "e_observer_lineages (log_event at k e) = e_observer_lineages e"
  "e_retired_observer_incarnations (log_event at k e) = e_retired_observer_incarnations e"
  "e_contradictions (log_event at k e) = e_contradictions e"
  "e_diagnostic_evidence (log_event at k e) = e_diagnostic_evidence e"
  "e_monitor_capability (log_event at k e) = e_monitor_capability e"
  "e_request_counter (log_event at k e) = e_request_counter e"
  "e_receiver (log_event at k e) = e_receiver e"
  "e_receiver_incarnation (log_event at k e) = e_receiver_incarnation e"
  by (simp_all add: log_event_def sparse_event_def Let_def hot_def)

text \<open>
  The parts of \<open>evaluate\<close> after the clock check change neither what \<open>derive\<close> reads nor the lineages.
  The tuple of the fields they keep:
\<close>

definition kept :: "evaluator \<Rightarrow> (reliance_policy \<times> incarnation_id \<times> (observer_id, observer_evidence) btmap
    \<times> (contradiction_id, contradiction_record) btmap \<times> monitor_capability)
    \<times> receiver_id \<times> incarnation_id \<times> clock_id \<times> incarnation_id btset
    \<times> (observer_id, observer_lineage) btmap \<times> (observer_id \<times> incarnation_id) btset \<times> u64 option" where
  "kept e = (hot e, e_receiver e, e_receiver_incarnation e, e_clock_id e,
     e_retired_subject_incarnations e, e_observer_lineages e, e_retired_observer_incarnations e,
     e_last_receiver_arrival_ms e)"

lemma kept_hot: "kept e = kept e' \<Longrightarrow> hot e = hot e'"
  by (simp add: kept_def)

lemma kept_log [step_simps]: "kept (log_event at k e) = kept e"
  by (simp add: kept_def log_event_def sparse_event_def Let_def hot_def)

lemma kept_expiries [step_simps]: "kept (evaluation_expiries now e) = kept e"
  by (simp add: kept_def hot_def evaluation_expiries_def)

lemma kept_metrics [step_simps]: "kept (evaluation_metrics d e) = kept e"
  by (simp add: kept_def hot_def evaluation_metrics_def)

lemma kept_transition [step_simps]: "kept (fst (evaluation_transition sha j now e)) = kept e"
  by (simp add: evaluation_transition_def build_transition_def Let_def step_simps) (simp add: kept_def hot_def)

lemma kept_failure_metrics [step_simps]: "kept (update_failure_metrics c now e) = kept e"
  by (simp add: kept_def hot_def update_failure_metrics_def Let_def split: option.split)

lemma kept_stale_metric [step_simps]: "kept (update_stale_positive_metric j now d e) = kept e"
  by (simp add: kept_def hot_def update_stale_positive_metric_def Let_def split: option.split)

lemma kept_escalate [step_simps]: "kept (fst (maybe_escalate sha t j now e)) = kept e"
  by (simp add: maybe_escalate_def Let_def deduplicate_escalation_def issue_request_def step_simps
      split: option.split) (simp add: kept_def hot_def)

lemma kept_escalation [step_simps]: "kept (fst (evaluation_escalation sha b t j now e)) = kept e"
  by (simp add: evaluation_escalation_def step_simps split: option.split)

text \<open>Fields that only the clock check and the final assignment of \<open>evaluate\<close> write.\<close>

definition timed :: "evaluator \<Rightarrow> u64 option \<times> reevaluation_barrier option \<times> diagnostic_evidence_reference list
    \<times> u64 option \<times> bool" where
  "timed e = (e_last_evaluation_ms e, e_reevaluation_barrier e, e_diagnostic_evidence e,
              e_fault_started_at_ms e, e_normal_trace e)"

lemma timed_steps [step_simps]:
  "timed (log_event at k e) = timed e"
  "timed (evaluation_metrics d e) = timed e"
  "timed (update_failure_metrics c now e) = timed e"
  "timed (update_stale_positive_metric j now dl e) = timed e"
  by (simp_all add: timed_def log_event_def sparse_event_def evaluation_metrics_def
      update_failure_metrics_def update_stale_positive_metric_def Let_def split: option.split)

lemma timed_transition [step_simps]: "timed (fst (evaluation_transition sha j now e)) = timed e"
  by (simp add: evaluation_transition_def build_transition_def Let_def step_simps) (simp add: timed_def)

lemma timed_escalation [step_simps]: "timed (fst (evaluation_escalation sha b t j now e)) = timed e"
  by (simp add: evaluation_escalation_def maybe_escalate_def Let_def deduplicate_escalation_def
      issue_request_def step_simps split: option.split) (simp add: timed_def)

section \<open>The outcome of \<open>evaluate\<close>\<close>

text \<open>The time an evaluation is made at, and the state it reads.\<close>

definition evaluated_now :: "u64 \<Rightarrow> evaluator \<Rightarrow> u64" where
  "evaluated_now requested e = snd (evaluation_clock requested e)"

definition evaluated_state :: "u64 \<Rightarrow> evaluator \<Rightarrow> evaluator" where
  "evaluated_state requested e =
     evaluation_expiries (evaluated_now requested e) (fst (evaluation_clock requested e))"

definition evaluated_derived :: "u64 \<Rightarrow> evaluator \<Rightarrow> derived_state" where
  "evaluated_derived requested e =
     barred (e_reevaluation_barrier e) (derive (evaluated_state requested e) (evaluated_now requested e))"

definition evaluated_judgment :: "hasher \<Rightarrow> u64 \<Rightarrow> evaluator \<Rightarrow> present_state_judgment" where
  "evaluated_judgment sha requested e =
     (let d = evaluated_derived requested e
      in build_judgment sha (e_reevaluation_barrier e) d (evaluated_now requested e)
           (evaluation_metrics d (evaluated_state requested e)))"

lemma clock_fields:
  "e_reevaluation_barrier (fst (evaluation_clock rn e)) = e_reevaluation_barrier e"
  "e_last_judgment (fst (evaluation_clock rn e)) = e_last_judgment e"
  "e_policy (fst (evaluation_clock rn e)) = e_policy e"
  by (simp_all add: evaluation_clock_def go_blind_def monitor_event_def sparse_event_def Let_def
      split: option.split)

text \<open>The evaluation without its final assignments.\<close>

definition evaluated_steps ::
  "hasher \<Rightarrow> u64 \<Rightarrow> evaluator \<Rightarrow> evaluator \<times> judgment_transition option \<times> escalation_request option" where
  "evaluated_steps sha requested e =
     (let now = evaluated_now requested e; j = evaluated_judgment sha requested e;
          d = evaluated_derived requested e;
          (e4, t) = evaluation_transition sha j now (evaluation_metrics d (evaluated_state requested e));
          e6 = update_stale_positive_metric j now (ds_support_deadline_ms d)
                 (update_failure_metrics (ju_category j) now e4);
          (e7, r) = evaluation_escalation sha (e_reevaluation_barrier e) t j now e6
      in (e7, t, r))"

lemma evaluate_steps:
  "evaluate sha rn e =
     (let (e7, t, r) = evaluated_steps sha rn e;
          j = (evaluated_judgment sha rn e)\<lparr>ju_escalation := e_escalation_state e7\<rparr>;
          e8 = e7\<lparr>e_last_judgment := Some j, e_reevaluation_barrier := None\<rparr>
      in (e8, Inr \<lparr>eo_judgment = j, eo_transition = t, eo_escalation_request = r,
                   eo_sparse_events = drop (length (e_event_log e)) (e_event_log e8)\<rparr>))"
proof -
  have "e_reevaluation_barrier (evaluated_state rn e) = e_reevaluation_barrier e"
    by (simp add: evaluated_state_def evaluation_expiries_def clock_fields)
  then show ?thesis
    unfolding evaluate_def evaluated_steps_def evaluated_judgment_def evaluated_derived_def
      evaluated_state_def evaluated_now_def
    by (simp add: Let_def case_prod_unfold)
qed

lemma evaluated_steps_kept:
  "kept (fst (evaluated_steps sha rn e)) = kept (fst (evaluation_clock rn e))"
  by (simp add: evaluated_steps_def Let_def case_prod_unfold step_simps evaluated_state_def)

lemma evaluated_steps_timed:
  "timed (fst (evaluated_steps sha rn e)) = timed (evaluated_state rn e)"
  by (simp add: evaluated_steps_def Let_def case_prod_unfold step_simps)

text \<open>\<open>evaluate\<close> always returns, and its judgment is the one derived from the state it reads.\<close>

definition evaluated_output :: "hasher \<Rightarrow> u64 \<Rightarrow> evaluator \<Rightarrow> evaluation_output" where
  "evaluated_output sha rn e =
     \<lparr>eo_judgment = (evaluated_judgment sha rn e)\<lparr>ju_escalation := e_escalation_state (fst (evaluate sha rn e))\<rparr>,
      eo_transition = fst (snd (evaluated_steps sha rn e)),
      eo_escalation_request = snd (snd (evaluated_steps sha rn e)),
      eo_sparse_events = drop (length (e_event_log e)) (e_event_log (fst (evaluate sha rn e)))\<rparr>"

lemma evaluate_returns: "snd (evaluate sha rn e) = Inr (evaluated_output sha rn e)"
  by (simp add: evaluated_output_def evaluate_steps Let_def case_prod_unfold)

lemma evaluate_last_judgment:
  "e_last_judgment (fst (evaluate sha rn e)) = Some (eo_judgment (evaluated_output sha rn e))"
  by (simp add: evaluated_output_def evaluate_steps Let_def case_prod_unfold)

lemma evaluate_kept: "kept (fst (evaluate sha rn e)) = kept (fst (evaluation_clock rn e))"
proof -
  have "kept (fst (evaluate sha rn e)) = kept (fst (evaluated_steps sha rn e))"
    by (simp add: evaluate_steps Let_def case_prod_unfold kept_def hot_def)
  then show ?thesis by (simp add: evaluated_steps_kept)
qed

lemma evaluate_time:
  "e_last_evaluation_ms (fst (evaluate sha rn e)) = Some (evaluated_now rn e)"
  "e_reevaluation_barrier (fst (evaluate sha rn e)) = None"
proof -
  have "e_last_evaluation_ms (fst (evaluated_steps sha rn e)) = e_last_evaluation_ms (evaluated_state rn e)"
    using evaluated_steps_timed [of sha rn e] by (simp add: timed_def)
  then show "e_last_evaluation_ms (fst (evaluate sha rn e)) = Some (evaluated_now rn e)"
    by (simp add: evaluate_steps Let_def case_prod_unfold evaluated_state_def evaluation_expiries_def)
  show "e_reevaluation_barrier (fst (evaluate sha rn e)) = None"
    by (simp add: evaluate_steps Let_def case_prod_unfold)
qed

lemma evaluated_judgment_fields [simp]:
  "ju_category (evaluated_judgment sha rn e) = ds_category (evaluated_derived rn e)"
  "ju_support_expires_at_ms (evaluated_judgment sha rn e) = ds_support_deadline_ms (evaluated_derived rn e)"
  "ju_evaluated_at_ms (evaluated_judgment sha rn e) = evaluated_now rn e"
  "ju_dimensions (evaluated_judgment sha rn e) = ds_dimensions (evaluated_derived rn e)"
  "ju_coverage (evaluated_judgment sha rn e) = ds_coverage (evaluated_derived rn e)"
  "ju_mutation_authority (evaluated_judgment sha rn e) = NoAuthority"
  by (simp_all add: evaluated_judgment_def build_judgment_def Let_def)

lemma evaluated_state_hot: "hot (evaluated_state rn e) = hot (fst (evaluation_clock rn e))"
  using kept_expiries [of "evaluated_now rn e" "fst (evaluation_clock rn e)"]
  by (simp add: evaluated_state_def kept_def)

section \<open>The operations as one step\<close>

text \<open>The public operations on \<open>&mut self\<close> that evaluate and return an \<open>EvaluationOutput\<close>.\<close>

datatype evaluator_op =
  Ingest received_pulse u64
| Tick u64
| SetMonitorCapability monitor_capability u64
| RecordMonitorInputDrop u64 u64 string
| RestoreMonitorCapability u64 string
| ReplacePolicy reliance_policy reevaluation_barrier u64
| InstallBarrier reevaluation_barrier u64
| ReplaceSubjectIncarnation incarnation_id u64
| ResolveContradiction contradiction_id contradiction_resolution u64
| RecordDisposition escalation_disposition u64
| RecordReceipt diagnostic_receipt u64

fun run_op :: "hasher \<Rightarrow> evaluator_op \<Rightarrow> evaluator \<Rightarrow> evaluation_output evaluation" where
  "run_op sha (Ingest r now) e = ingest sha r now e"
| "run_op sha (Tick now) e = tick sha now e"
| "run_op sha (SetMonitorCapability m at) e = set_monitor_capability sha m at e"
| "run_op sha (RecordMonitorInputDrop n at d) e = record_monitor_input_drop sha n at d e"
| "run_op sha (RestoreMonitorCapability at d) e = restore_monitor_capability sha at d e"
| "run_op sha (ReplacePolicy p b at) e = replace_policy sha p b at e"
| "run_op sha (InstallBarrier b at) e = install_reevaluation_barrier sha b at e"
| "run_op sha (ReplaceSubjectIncarnation i at) e = replace_subject_incarnation sha i at e"
| "run_op sha (ResolveContradiction c x at) e = resolve_contradiction sha c x at e"
| "run_op sha (RecordDisposition d now) e = record_escalation_disposition sha d now e"
| "run_op sha (RecordReceipt r at) e = record_diagnostic_receipt sha r at e"

text \<open>The time an operation evaluates at.\<close>

fun op_time :: "evaluator_op \<Rightarrow> u64" where
  "op_time (Ingest r now) = now"
| "op_time (Tick now) = now"
| "op_time (SetMonitorCapability m at) = at"
| "op_time (RecordMonitorInputDrop n at d) = at"
| "op_time (RestoreMonitorCapability at d) = at"
| "op_time (ReplacePolicy p b at) = at"
| "op_time (InstallBarrier b at) = at"
| "op_time (ReplaceSubjectIncarnation i at) = at"
| "op_time (ResolveContradiction c x at) = at"
| "op_time (RecordDisposition d now) = now"
| "op_time (RecordReceipt r at) = at"

text \<open>The state in which an operation evaluates, or the error it fails with before.\<close>

definition set_capability :: "monitor_capability \<Rightarrow> u64 \<Rightarrow> string \<Rightarrow> string \<Rightarrow> evaluator \<Rightarrow> evaluator" where
  "set_capability m at label detail e =
     log_event at (MonitorCapabilityChanged label detail) (e\<lparr>e_monitor_capability := m\<rparr>)"

definition capability_label :: "monitor_capability \<Rightarrow> string \<times> string" where
  "capability_label m =
     (case m of Operational \<Rightarrow> (''operational'', ''monitor observation capability restored'')
      | MonitorDegraded d \<Rightarrow> (''degraded'', d) | Blind d \<Rightarrow> (''blind'', d))"

definition subject_replaced :: "incarnation_id \<Rightarrow> u64 \<Rightarrow> evaluator \<Rightarrow> evaluator" where
  "subject_replaced replacement at e =
     (let prior = e_current_subject_incarnation e;
          changed = map (inapplicable prior replacement at)
            (filter (bound_to_incarnation prior) (bt_values (e_contradictions e)));
          e1 = e\<lparr>e_contradictions := bt_map_values
                 (\<lambda>c. if bound_to_incarnation prior c then inapplicable prior replacement at c else c)
                 (e_contradictions e)\<rparr>;
          e2 = fold (\<lambda>c. log_event at (ContradictionLifecycleChanged c)) changed e1;
          e3 = forget_observers (e2\<lparr>
            e_retired_subject_incarnations := bs_insert prior (e_retired_subject_incarnations e2),
            e_current_subject_incarnation := replacement\<rparr>)
      in e3\<lparr>e_diagnostic_evidence := [], e_escalation_state := NotRequested,
           e_reevaluation_barrier := Some (SubjectIncarnationTransition
             (''configured subject incarnation changed from '' @ prior @ '' to '' @ replacement
              @ ''; old standing and hot evidence were not inherited''))\<rparr>)"

definition receipt_reference :: "diagnostic_receipt \<Rightarrow> u64 \<Rightarrow> diagnostic_evidence_reference" where
  "receipt_reference r at =
     \<lparr>er_receipt_id = dr_receipt_id r, er_result_digest = dr_result_digest r, er_recorded_at_ms = at,
      er_applicable_until_ms = dr_applicable_until_ms r, er_nonclaims = dr_nonclaims r\<rparr>"

definition resolved :: "contradiction_resolution \<Rightarrow> u64 \<Rightarrow> contradiction_record \<Rightarrow> contradiction_record" where
  "resolved x at c = c\<lparr>cr_status := Resolved (cx_resolver x) at (cx_rule x) (cx_explanation x)\<rparr>"

text \<open>The state an operation that passes its checks evaluates in.\<close>

fun prepared :: "hasher \<Rightarrow> evaluator_op \<Rightarrow> evaluator \<Rightarrow> evaluator" where
  "prepared sha (Ingest r now) e = ingest_pulse sha r now e"
| "prepared sha (Tick now) e = e"
| "prepared sha (SetMonitorCapability m at) e =
     set_capability m at (fst (capability_label m)) (snd (capability_label m)) e"
| "prepared sha (RecordMonitorInputDrop n at d) e =
     set_capability (Blind d) at ''blind'' d
       (e\<lparr>e_metrics := (e_metrics e)\<lparr>em_monitor_input_drop_count :=
          sat_add (em_monitor_input_drop_count (e_metrics e)) n\<rparr>\<rparr>)"
| "prepared sha (RestoreMonitorCapability at d) e =
     (set_capability Operational at ''operational'' d e)\<lparr>e_reevaluation_barrier := Some
       (MonitorCapabilityRestored (''monitor capability was explicitly restored ('' @ d
          @ ''); a separate evaluation is required''))\<rparr>"
| "prepared sha (ReplacePolicy p b at) e =
     (if po_observation_profile p \<noteq> po_observation_profile (e_policy e)
         \<or> po_observation_policy_generation p \<noteq> po_observation_policy_generation (e_policy e)
      then forget_observers e else e)
     \<lparr>e_policy := p, e_escalation_state := NotRequested, e_reevaluation_barrier := Some b\<rparr>"
| "prepared sha (InstallBarrier b at) e =
     e\<lparr>e_escalation_state := NotRequested, e_reevaluation_barrier := Some b\<rparr>"
| "prepared sha (ReplaceSubjectIncarnation i at) e = subject_replaced i at e"
| "prepared sha (ResolveContradiction cid x at) e =
     (case bt_get (e_contradictions e) cid of None \<Rightarrow> e
      | Some c \<Rightarrow> log_event at (ContradictionLifecycleChanged (resolved x at c))
          (e\<lparr>e_contradictions := bt_insert cid (resolved x at c) (e_contradictions e)\<rparr>))"
| "prepared sha (RecordDisposition d now) e =
     log_event (ed_decided_at_ms d) (EscalationDisposition d)
       (e\<lparr>e_escalation_state := disposition_state d\<rparr>)"
| "prepared sha (RecordReceipt r at) e =
     log_event at (DiagnosticReceiptCorrelated r (receipt_reference r at))
       (e\<lparr>e_diagnostic_evidence := e_diagnostic_evidence e @ [receipt_reference r at],
          e_escalation_state := Completed (dr_request_id r) (dr_receipt_id r)\<rparr>)"

section \<open>The event log only grows\<close>

definition appends :: "evaluator \<Rightarrow> evaluator \<Rightarrow> bool" where
  "appends e e' \<longleftrightarrow> (\<exists>new. e_event_log e' = e_event_log e @ new)"

lemma appends_refl [simp]: "e_event_log e = e_event_log e' \<Longrightarrow> appends e e'"
  by (simp add: appends_def)

lemma appends_trans [trans]: "appends e e' \<Longrightarrow> appends e' e'' \<Longrightarrow> appends e e''"
  by (auto simp: appends_def)

lemma appends_log [simp]: "e_event_log e = e_event_log e' \<Longrightarrow> appends e (log_event at k e')"
  by (simp add: appends_def step_simps)

lemma clock_appends: "appends e (fst (evaluation_clock rn e))"
  by (auto simp: evaluation_clock_def go_blind_def monitor_event_def sparse_event_def Let_def appends_def
      split: option.split)

lemma transition_appends: "appends e (fst (evaluation_transition sha j now e))"
  by (simp add: evaluation_transition_def build_transition_def Let_def)

lemma escalation_appends: "appends e (fst (evaluation_escalation sha b t j now e))"
  by (simp add: evaluation_escalation_def maybe_escalate_def deduplicate_escalation_def
      issue_request_def Let_def split: option.split)

lemma metric_logs [simp]:
  "e_event_log (update_failure_metrics c now e) = e_event_log e"
  "e_event_log (update_stale_positive_metric j now d e) = e_event_log e"
  "e_event_log (evaluation_metrics ds e) = e_event_log e"
  "e_event_log (evaluation_expiries now e) = e_event_log e"
  by (simp_all add: update_failure_metrics_def update_stale_positive_metric_def evaluation_metrics_def
      evaluation_expiries_def Let_def split: option.split)

lemma evaluate_appends: "appends e (fst (evaluate sha rn e))"
proof -
  let ?d = "evaluated_derived rn e" and ?j = "evaluated_judgment sha rn e" and ?now = "evaluated_now rn e"
  let ?t = "evaluation_transition sha ?j ?now (evaluation_metrics ?d (evaluated_state rn e))"
  let ?e6 = "update_stale_positive_metric ?j ?now (ds_support_deadline_ms ?d)
    (update_failure_metrics (ju_category ?j) ?now (fst ?t))"
  have "appends e (evaluation_metrics ?d (evaluated_state rn e))"
    using clock_appends [of e rn] by (simp add: appends_def evaluated_state_def)
  also have "appends \<dots> (fst ?t)" by (rule transition_appends)
  also have "appends \<dots> ?e6" by simp
  also have "appends \<dots> (fst (evaluation_escalation sha (e_reevaluation_barrier e) (snd ?t) ?j ?now ?e6))"
    by (rule escalation_appends)
  finally have "appends e (fst (evaluated_steps sha rn e))"
    by (simp add: evaluated_steps_def Let_def case_prod_unfold)
  then show ?thesis by (simp add: evaluate_steps Let_def case_prod_unfold appends_def)
qed

section \<open>Every operation evaluates its prepared state, or fails and changes nothing\<close>

lemma evaluate_pair:
  "evaluate sha rn e = (fst (evaluate sha rn e), Inr ((evaluated_output sha rn e)
     \<lparr>eo_sparse_events := drop (length (e_event_log e)) (e_event_log (fst (evaluate sha rn e)))\<rparr>))"
proof -
  have "(evaluated_output sha rn e)
     \<lparr>eo_sparse_events := drop (length (e_event_log e)) (e_event_log (fst (evaluate sha rn e)))\<rparr>
     = evaluated_output sha rn e"
    by (simp add: evaluated_output_def)
  then show ?thesis by (metis evaluate_returns prod.collapse)
qed

lemma evaluate_since_eq:
  "evaluate_since sha rn n e = (fst (evaluate sha rn e), Inr ((evaluated_output sha rn e)
     \<lparr>eo_sparse_events := drop n (e_event_log (fst (evaluate sha rn e)))\<rparr>))"
  by (subst evaluate_since_def, subst evaluate_pair) simp

text \<open>An event returned in front of those of the evaluation that follows.\<close>

lemma prepend_evaluate:
  assumes "e_event_log e = log @ [item]"
  shows "prepend_event item (evaluate sha rn e) = evaluate_since sha rn (length log) e"
proof -
  obtain new where "e_event_log (fst (evaluate sha rn e)) = e_event_log e @ new"
    using evaluate_appends [of e sha rn] by (auto simp: appends_def)
  then show ?thesis
    by (simp add: prepend_event_def evaluate_returns evaluate_since_eq evaluated_output_def assms)
qed

lemma prepend_logged:
  "prepend_event (snd (sparse_event at k e)) (evaluate sha rn (log_event at k e))
     = evaluate_since sha rn (length (e_event_log e)) (log_event at k e)"
  by (rule prepend_evaluate) (simp add: step_simps)

text \<open>
  The events of an operation are those it appends to the log, except that replacing the subject
  incarnation returns only those of its evaluation.
\<close>

definition logged_from :: "hasher \<Rightarrow> evaluator_op \<Rightarrow> evaluator \<Rightarrow> nat" where
  "logged_from sha op e =
     (case op of ReplaceSubjectIncarnation _ _ \<Rightarrow> length (e_event_log (prepared sha op e))
      | _ \<Rightarrow> length (e_event_log e))"

definition run_prepared :: "hasher \<Rightarrow> evaluator_op \<Rightarrow> evaluator \<Rightarrow> evaluation_output evaluation" where
  "run_prepared sha op e = evaluate_since sha (op_time op) (logged_from sha op e) (prepared sha op e)"

lemma evaluate_alone: "evaluate sha rn e = evaluate_since sha rn (length (e_event_log e)) e"
  by (subst evaluate_pair) (simp add: evaluate_since_eq)

lemma set_monitor_capability_eq:
  "set_monitor_capability sha m at e =
     evaluate_since sha at (length (e_event_log e))
       (set_capability m at (fst (capability_label m)) (snd (capability_label m)) e)"
proof -
  have "set_monitor_capability sha m at e =
    prepend_event (snd (sparse_event at (MonitorCapabilityChanged (fst (capability_label m))
       (snd (capability_label m))) (e\<lparr>e_monitor_capability := m\<rparr>)))
     (evaluate sha at (set_capability m at (fst (capability_label m)) (snd (capability_label m)) e))"
    by (cases m) (simp_all add: set_monitor_capability_def monitor_event_def set_capability_def
        capability_label_def log_event_def case_prod_unfold Let_def)
  then show ?thesis by (simp add: set_capability_def prepend_logged)
qed

lemma restore_monitor_capability_eq:
  "restore_monitor_capability sha at d e =
     evaluate_since sha at (length (e_event_log e)) (prepared sha (RestoreMonitorCapability at d) e)"
proof -
  let ?k = "MonitorCapabilityChanged ''operational'' d" and ?e = "e\<lparr>e_monitor_capability := Operational\<rparr>"
  have "restore_monitor_capability sha at d e =
    prepend_event (snd (sparse_event at ?k ?e))
      (evaluate sha at (prepared sha (RestoreMonitorCapability at d) e))"
    by (simp add: restore_monitor_capability_def monitor_event_def set_capability_def log_event_def
        case_prod_unfold Let_def)
  then show ?thesis
    using prepend_evaluate [of "prepared sha (RestoreMonitorCapability at d) e" "e_event_log e"]
    by (simp add: set_capability_def step_simps)
qed

lemma run_op_ingest:
  "run_op sha (Ingest r now) e = run_prepared sha (Ingest r now) e
   \<or> (\<exists>err. run_op sha (Ingest r now) e = (e, Inl err))"
  by (auto simp: ingest_def run_prepared_def logged_from_def split: sum.splits)

lemma run_op_replace:
  "run_op sha (ReplacePolicy p b at) e = run_prepared sha (ReplacePolicy p b at) e
   \<or> (\<exists>err. run_op sha (ReplacePolicy p b at) e = (e, Inl err))"
  "run_op sha (ReplaceSubjectIncarnation i at) e = run_prepared sha (ReplaceSubjectIncarnation i at) e
   \<or> (\<exists>err. run_op sha (ReplaceSubjectIncarnation i at) e = (e, Inl err))"
  by (auto simp: replace_policy_def replace_subject_incarnation_def subject_replaced_def run_prepared_def
      logged_from_def evaluate_alone [of sha at] forget_observers_def Let_def split: sum.splits)

lemma run_op_recorded:
  "run_op sha (ResolveContradiction c x at) e = run_prepared sha (ResolveContradiction c x at) e
   \<or> (\<exists>err. run_op sha (ResolveContradiction c x at) e = (e, Inl err))"
  "run_op sha (RecordDisposition d now) e = run_prepared sha (RecordDisposition d now) e
   \<or> (\<exists>err. run_op sha (RecordDisposition d now) e = (e, Inl err))"
  "run_op sha (RecordReceipt r at) e = run_prepared sha (RecordReceipt r at) e
   \<or> (\<exists>err. run_op sha (RecordReceipt r at) e = (e, Inl err))"
  by (auto simp: resolve_contradiction_def record_escalation_disposition_def record_diagnostic_receipt_def
      resolved_def receipt_reference_def run_prepared_def logged_from_def case_prod_unfold Let_def
      prepend_logged log_event_def [symmetric] split: option.splits)

lemma run_op_prepared:
  "run_op sha op e = run_prepared sha op e \<or> (\<exists>err. run_op sha op e = (e, Inl err))"
proof (cases op)
  case (Ingest r now)
  then show ?thesis using run_op_ingest by simp
next
  case (ReplacePolicy p b at)
  then show ?thesis using run_op_replace(1) by simp
next
  case (ReplaceSubjectIncarnation i at)
  then show ?thesis using run_op_replace(2) by simp
next
  case (ResolveContradiction c x at)
  then show ?thesis using run_op_recorded(1) by simp
next
  case (RecordDisposition d now)
  then show ?thesis using run_op_recorded(2) by simp
next
  case (RecordReceipt r at)
  then show ?thesis using run_op_recorded(3) by simp
next
  case (RestoreMonitorCapability at d)
  then show ?thesis
    by (simp add: run_prepared_def logged_from_def restore_monitor_capability_eq del: prepared.simps)
qed (simp_all add: run_prepared_def logged_from_def tick_def set_monitor_capability_eq
    record_monitor_input_drop_def capability_label_def install_reevaluation_barrier_def
    evaluate_alone)


text \<open>What a successful operation leaves and returns, in terms of the evaluation it ends with.\<close>

lemma run_op_ok:
  assumes "run_op sha op e = (e', Inr out)"
  shows "e' = fst (evaluate sha (op_time op) (prepared sha op e))"
    and "eo_judgment out = eo_judgment (evaluated_output sha (op_time op) (prepared sha op e))"
    and "eo_transition out = eo_transition (evaluated_output sha (op_time op) (prepared sha op e))"
    and "eo_escalation_request out = eo_escalation_request (evaluated_output sha (op_time op) (prepared sha op e))"
    and "eo_sparse_events out = drop (logged_from sha op e) (e_event_log e')"
  using run_op_prepared [of sha op e] assms by (auto simp: run_prepared_def evaluate_since_eq)

lemma evaluated_output_judgment [simp]:
  "ju_category (eo_judgment (evaluated_output sha rn e)) = ds_category (evaluated_derived rn e)"
  "ju_support_expires_at_ms (eo_judgment (evaluated_output sha rn e)) = ds_support_deadline_ms (evaluated_derived rn e)"
  "ju_evaluated_at_ms (eo_judgment (evaluated_output sha rn e)) = evaluated_now rn e"
  "ju_dimensions (eo_judgment (evaluated_output sha rn e)) = ds_dimensions (evaluated_derived rn e)"
  "ju_coverage (eo_judgment (evaluated_output sha rn e)) = ds_coverage (evaluated_derived rn e)"
  by (simp_all add: evaluated_output_def)

lemma run_op_time:
  assumes "run_op sha op e = (e', Inr out)"
  shows "e_last_evaluation_ms e' = Some (ju_evaluated_at_ms (eo_judgment out))"
    and "e_reevaluation_barrier e' = None"
    and "e_last_judgment e' = Some (eo_judgment out)"
  by (simp_all add: run_op_ok [OF assms] evaluate_time evaluate_last_judgment)

lemma run_op_derived:
  assumes "run_op sha op e = (e', Inr out)"
  shows "evaluated_derived (op_time op) (prepared sha op e) =
    barred (e_reevaluation_barrier (prepared sha op e)) (derive e' (ju_evaluated_at_ms (eo_judgment out)))"
proof -
  let ?p = "prepared sha op e" and ?rn = "op_time op"
  have "hot e' = hot (evaluated_state ?rn ?p)"
    using kept_hot [OF evaluate_kept [of sha ?rn ?p]] by (simp add: run_op_ok(1) [OF assms] evaluated_state_hot)
  then have "derive (evaluated_state ?rn ?p) t = derive e' t" for t by (rule hot_derive [symmetric])
  then show ?thesis by (simp add: evaluated_derived_def run_op_ok(2) [OF assms])
qed

lemma run_op_dimensions:
  assumes "run_op sha op e = (e', Inr out)"
  shows "ju_dimensions (eo_judgment out) = derive_dimensions e' (ju_evaluated_at_ms (eo_judgment out))"
    and "ju_coverage (eo_judgment out) = derive_coverage e' (ju_evaluated_at_ms (eo_judgment out))"
  using run_op_derived [OF assms] by (simp_all add: run_op_ok(2) [OF assms] barred_def derive_def)

lemma run_op_category:
  assumes "run_op sha op e = (e', Inr out)"
  shows "ju_category (eo_judgment out) =
     (if e_reevaluation_barrier (prepared sha op e) = None
      then derive_category e' (ju_evaluated_at_ms (eo_judgment out)) else Unknown)"
    and "ju_support_expires_at_ms (eo_judgment out) =
     (if e_reevaluation_barrier (prepared sha op e) = None
      then ds_support_deadline_ms (derive e' (ju_evaluated_at_ms (eo_judgment out))) else None)"
  using run_op_derived [OF assms] by (simp_all add: run_op_ok(2) [OF assms] barred_def derive_def)

end
