(* ===== verification/Standing.thy ===== *)
theory Standing
  imports EvalSteps
begin

text \<open>
  What an evaluator's standing can be over any sequence of operations: what each operation may change
  before it evaluates, and from that the properties of the judgments it returns.
\<close>

section \<open>What an evaluation keeps\<close>

lemma clock_kept:
  "kept (fst (evaluation_clock rn e)) =
     kept (e\<lparr>e_monitor_capability := e_monitor_capability (fst (evaluation_clock rn e))\<rparr>)"
  by (simp add: evaluation_clock_def go_blind_def monitor_event_def sparse_event_def kept_def hot_def Let_def
      split: option.split)

lemma evaluate_fields [simp]:
  "e_policy (fst (evaluate sha rn e)) = e_policy e"
  "e_clock_id (fst (evaluate sha rn e)) = e_clock_id e"
  "e_current_subject_incarnation (fst (evaluate sha rn e)) = e_current_subject_incarnation e"
  "e_retired_subject_incarnations (fst (evaluate sha rn e)) = e_retired_subject_incarnations e"
  "e_observers (fst (evaluate sha rn e)) = e_observers e"
  "e_observer_lineages (fst (evaluate sha rn e)) = e_observer_lineages e"
  "e_retired_observer_incarnations (fst (evaluate sha rn e)) = e_retired_observer_incarnations e"
  "e_contradictions (fst (evaluate sha rn e)) = e_contradictions e"
  "e_last_receiver_arrival_ms (fst (evaluate sha rn e)) = e_last_receiver_arrival_ms e"
  "e_receiver (fst (evaluate sha rn e)) = e_receiver e"
  "e_receiver_incarnation (fst (evaluate sha rn e)) = e_receiver_incarnation e"
  using evaluate_kept [of sha rn e] clock_kept [of rn e] by (simp_all add: kept_def hot_def)

section \<open>What the operations change before they evaluate\<close>

definition judging :: "evaluator \<Rightarrow> u64 option \<times> present_state_judgment option \<times> clock_id \<times> receiver_id
    \<times> incarnation_id \<times> (escalation_request_id, escalation_request) btmap \<times> (digest, active_escalation) btmap
    \<times> u64 \<times> u64" where
  "judging e = (e_last_evaluation_ms e, e_last_judgment e, e_clock_id e, e_receiver e,
     e_receiver_incarnation e, e_issued_requests e, e_active_escalations e, e_request_counter e,
     e_transition_counter e)"

text \<open>The fields that \<open>ingest\<close> leaves to its evaluation.\<close>

definition configured :: "evaluator \<Rightarrow> reliance_policy \<times> reevaluation_barrier option \<times> escalation_state
    \<times> diagnostic_evidence_reference list" where
  "configured e = (e_policy e, e_reevaluation_barrier e, e_escalation_state e, e_diagnostic_evidence e)"

lemma judging_log [step_simps]:
  "judging (log_event at k e) = judging e" "configured (log_event at k e) = configured e"
  by (simp_all add: judging_def configured_def log_event_def sparse_event_def Let_def)

lemma judging_update [step_simps]:
  "judging (e\<lparr>e_reevaluation_barrier := b\<rparr>) = judging e"
  "judging (e\<lparr>e_escalation_state := s\<rparr>) = judging e"
  "judging (e\<lparr>e_policy := p\<rparr>) = judging e"
  "judging (e\<lparr>e_contradictions := c\<rparr>) = judging e"
  "judging (e\<lparr>e_diagnostic_evidence := d\<rparr>) = judging e"
  "judging (e\<lparr>e_retired_subject_incarnations := rs\<rparr>) = judging e"
  "judging (e\<lparr>e_current_subject_incarnation := i\<rparr>) = judging e"
  "judging (forget_observers e) = judging e"
  by (simp_all add: judging_def forget_observers_def)

lemma go_blind_eq: "go_blind at d e = set_capability (Blind d) at ''blind'' d e"
  by (simp add: go_blind_def monitor_event_def set_capability_def log_event_def)

lemma judging_capability [step_simps]:
  "judging (set_capability m at l d e) = judging e" "configured (set_capability m at l d e) = configured e"
  by (simp_all add: set_capability_def step_simps) (simp_all add: judging_def configured_def)

lemma judging_lineage [step_simps]:
  "judging (update_lineage f d e) = judging e" "configured (update_lineage f d e) = configured e"
  by (simp_all add: judging_def configured_def update_lineage_def Let_def
      split: option.split arrival_disposition.split)

lemma judging_create [step_simps]:
  "judging (create_contradiction sha s rs ss at e) = judging e"
  "configured (create_contradiction sha s rs ss at e) = configured e"
  by (simp_all add: create_contradiction_def Let_def step_simps) (simp_all add: judging_def configured_def)

lemma judging_creates [step_simps]:
  "judging (create_contradictions sha at cs e) = judging e"
  "configured (create_contradictions sha at cs e) = configured e"
  by (induction sha at cs e rule: create_contradictions.induct) (simp_all add: step_simps)

lemma judging_detect [step_simps]:
  "judging (detect_signal_contradictions sha r at e) = judging e"
  "configured (detect_signal_contradictions sha r at e) = configured e"
  by (simp_all add: detect_signal_contradictions_def step_simps)

lemma judging_supersession [step_simps]:
  "judging (record_adverse_supersession r at e) = judging e"
  "configured (record_adverse_supersession r at e) = configured e"
  by (simp_all add: record_adverse_supersession_def Let_def step_simps split: option.split)

lemma judging_subject_change [step_simps]:
  "judging (record_subject_incarnation_change sha r at e) = judging e"
  "configured (record_subject_incarnation_change sha r at e) = configured e"
  by (simp_all add: record_subject_incarnation_change_def Let_def step_simps)
     (simp_all add: judging_def configured_def)

lemma judging_counts [step_simps]:
  "judging (count_dropped_stale e) = judging e" "configured (count_dropped_stale e) = configured e"
  "judging (count_duplicate e) = judging e" "configured (count_duplicate e) = configured e"
  "judging (count_gap d e) = judging e" "configured (count_gap d e) = configured e"
  "judging (note_arrival r e) = judging e" "configured (note_arrival r e) = configured e"
  "judging (put_evidence r c e) = judging e" "configured (put_evidence r c e) = configured e"
  "judging (e\<lparr>e_metrics := m\<rparr>) = judging e" "configured (e\<lparr>e_metrics := m\<rparr>) = configured e"
  by (simp_all add: judging_def configured_def count_dropped_stale_def count_duplicate_def count_gap_def
      note_arrival_def put_evidence_def)

lemma judging_ingest [step_simps]:
  "judging (ingest_pulse sha r now e) = judging e" "configured (ingest_pulse sha r now e) = configured e"
  by (simp_all add: ingest_pulse_def ingest_classified_def ingest_accepted_def admit_evidence_def
      go_blind_eq Let_def step_simps split: option.split)

lemma judging_fold_log [step_simps]:
  "judging (fold (\<lambda>c. log_event at (k c)) cs e) = judging e"
  by (induction cs arbitrary: e) (simp_all add: step_simps)

lemma judging_prepared [step_simps]: "judging (prepared sha op e) = judging e"
  by (cases op) (simp_all add: step_simps subject_replaced_def Let_def split: option.split)

lemma prepared_fields [simp]:
  "e_last_evaluation_ms (prepared sha op e) = e_last_evaluation_ms e"
  "e_last_judgment (prepared sha op e) = e_last_judgment e"
  "e_issued_requests (prepared sha op e) = e_issued_requests e"
  "e_active_escalations (prepared sha op e) = e_active_escalations e"
  "e_request_counter (prepared sha op e) = e_request_counter e"
  "e_clock_id (prepared sha op e) = e_clock_id e"
  using judging_prepared [of sha op e] by (simp_all add: judging_def)


section \<open>Reachable evaluators\<close>

text \<open>An evaluator as \<open>Evaluator::new\<close> and any later calls of its public operations leave it.\<close>

inductive reachable :: "hasher \<Rightarrow> evaluator \<Rightarrow> bool" for sha where
  new: "evaluator_new p r ri c i = Inr e \<Longrightarrow> reachable sha e"
| operation: "reachable sha e \<Longrightarrow> run_op sha op e = (e', res) \<Longrightarrow> reachable sha e'"
| imported: "reachable sha e \<Longrightarrow> import_contradictions cs e = (e', res) \<Longrightarrow> reachable sha e'"
| normal_trace: "reachable sha e \<Longrightarrow> reachable sha (set_normal_trace b e)"
| failure_start: "reachable sha e \<Longrightarrow> reachable sha (mark_failure_start at e)"

text \<open>One imported record.\<close>

definition import_one :: "contradiction_record \<Rightarrow> evaluator \<Rightarrow> evaluator" where
  "import_one c e = e\<lparr>e_contradictions := bt_insert (cr_contradiction_id c) c (e_contradictions e)\<rparr>"

text \<open>
  What an invariant owes to hold in every reachable evaluator: every preparation and the evaluation
  preserve it.
\<close>

locale evaluator_invariant =
  fixes sha :: hasher and holds :: "evaluator \<Rightarrow> bool"
  assumes holds_new: "evaluator_new p r ri c i = Inr e \<Longrightarrow> holds e"
    and holds_prepared: "holds e \<Longrightarrow> run_op sha op e = (e', Inr out) \<Longrightarrow> holds (prepared sha op e)"
    and holds_evaluate: "holds e \<Longrightarrow> holds (fst (evaluate sha rn e))"
    and holds_import: "holds e \<Longrightarrow> holds (import_one rec e)"
    and holds_marks: "holds e \<Longrightarrow> holds (set_normal_trace b e)" "holds e \<Longrightarrow> holds (mark_failure_start at e)"
begin

lemma holds_run:
  assumes "holds e" and "run_op sha op e = (e', res)"
  shows "holds e'"
proof (cases res)
  case (Inl err)
  then show ?thesis using assms run_op_prepared [of sha op e] by (auto simp: run_prepared_def evaluate_since_eq)
next
  case (Inr out)
  then have run: "run_op sha op e = (e', Inr out)" using assms(2) by simp
  show ?thesis
    unfolding run_op_ok(1) [OF run] by (intro holds_evaluate holds_prepared [OF assms(1) run])
qed

lemma holds_imports: "holds e \<Longrightarrow> holds (fst (import_contradictions cs e))"
  by (induction cs arbitrary: e) (auto simp: holds_import import_one_def [symmetric])

lemma holds_reachable: "reachable sha e \<Longrightarrow> holds e"
proof (induction rule: reachable.induct)
  case (imported e cs e' res)
  then show ?case using holds_imports [of e cs] by simp
qed (auto intro: holds_new holds_run holds_marks)

end

section \<open>The policy of a reachable evaluator is valid\<close>

lemma evaluator_new_ok:
  "evaluator_new p r ri c i = Inr e \<Longrightarrow> policy_ok p \<and> e = evaluator_initial p r ri c i"
  by (auto simp: evaluator_new_def result_simps policy_validate_ok rbind_def map_err_def split: sum.splits)


lemma prepared_policy:
  "e_policy (prepared sha op e) = (case op of ReplacePolicy p b at \<Rightarrow> p | _ \<Rightarrow> e_policy e)"
proof (cases op)
  case (Ingest r now)
  then show ?thesis using judging_ingest(2) [of sha r now e] by (simp add: configured_def)
next
  case (ReplaceSubjectIncarnation i at)
  have "e_policy (fold (\<lambda>c. log_event at (k c)) cs e') = e_policy e'" for k and cs :: "contradiction_record list" and e'
    by (induction cs arbitrary: e') (simp_all add: step_simps)
  then show ?thesis
    using ReplaceSubjectIncarnation by (simp add: subject_replaced_def forget_observers_def Let_def)
qed (simp_all add: set_capability_def step_simps forget_observers_def split: option.split)

interpretation policies: evaluator_invariant sha "\<lambda>e. policy_ok (e_policy e)" for sha
proof
  fix e op e' out
  assume ok: "policy_ok (e_policy e)" and run: "run_op sha op e = (e', Inr out)"
  show "policy_ok (e_policy (prepared sha op e))"
  proof (cases op)
    case (ReplacePolicy p b at)
    then have "policy_validate p = Inr ()"
      using run by (auto simp: replace_policy_def rbind_def map_err_def split: sum.splits)
    then show ?thesis by (simp add: prepared_policy ReplacePolicy policy_validate_ok del: prepared.simps)
  qed (simp_all add: prepared_policy ok del: prepared.simps)
qed (auto dest: evaluator_new_ok simp: evaluator_initial_def import_one_def set_normal_trace_def
    mark_failure_start_def)


section \<open>What the parts of \<open>ingest\<close> do to the evidence\<close>

definition ground :: "evaluator \<Rightarrow> incarnation_id \<times> incarnation_id btset \<times> (observer_id, observer_lineage) btmap
    \<times> (observer_id \<times> incarnation_id) btset \<times> (observer_id, observer_evidence) btmap
    \<times> monitor_capability \<times> u64 option" where
  "ground e = (e_current_subject_incarnation e, e_retired_subject_incarnations e, e_observer_lineages e,
     e_retired_observer_incarnations e, e_observers e, e_monitor_capability e, e_last_receiver_arrival_ms e)"

lemma ground_log [step_simps]: "ground (log_event at k e) = ground e"
  by (simp add: ground_def log_event_def sparse_event_def Let_def)

lemma ground_create [step_simps]: "ground (create_contradiction sha s rs ss at e) = ground e"
  by (simp add: create_contradiction_def Let_def step_simps) (simp add: ground_def)

lemma ground_creates [step_simps]: "ground (create_contradictions sha at cs e) = ground e"
  by (induction sha at cs e rule: create_contradictions.induct) (simp_all add: step_simps)

lemma ground_detect [step_simps]: "ground (detect_signal_contradictions sha r at e) = ground e"
  by (simp add: detect_signal_contradictions_def step_simps)

lemma ground_supersession [step_simps]: "ground (record_adverse_supersession r at e) = ground e"
  by (simp add: record_adverse_supersession_def Let_def step_simps split: option.split)

lemma ground_counts [step_simps]:
  "ground (count_dropped_stale e) = ground e" "ground (count_duplicate e) = ground e"
  "ground (count_gap d e) = ground e" "ground (e\<lparr>e_metrics := m\<rparr>) = ground e"
  "ground (e\<lparr>e_contradictions := cs\<rparr>) = ground e"
  by (simp_all add: ground_def count_dropped_stale_def count_duplicate_def count_gap_def)

lemma ground_subject_change:
  "ground (record_subject_incarnation_change sha r at e) =
     ground (e\<lparr>e_retired_subject_incarnations :=
          bs_insert (e_current_subject_incarnation e) (e_retired_subject_incarnations e),
        e_current_subject_incarnation := pf_subject_incarnation (rp_frame r)\<rparr>)"
  by (simp add: record_subject_incarnation_change_def Let_def step_simps)

lemma ground_admit:
  "ground (admit_evidence sha r c now e) =
     ground (put_evidence r c (update_lineage (rp_frame r) (ra_disposition (rp_receiver r)) e))"
proof -
  let ?l = "update_lineage (rp_frame r) (ra_disposition (rp_receiver r)) e"
  let ?s = "record_adverse_supersession r now (detect_signal_contradictions sha r now ?l)"
  have "ground ?s = ground ?l" "configured ?s = configured ?l" by (simp_all add: step_simps)
  then show ?thesis
    by (simp add: admit_evidence_def put_evidence_def effective_validity_def ground_def configured_def)
qed

lemma ground_eqs:
  assumes "ground e = ground e'"
  shows "e_current_subject_incarnation e = e_current_subject_incarnation e'"
    "e_retired_subject_incarnations e = e_retired_subject_incarnations e'"
    "e_observer_lineages e = e_observer_lineages e'"
    "e_retired_observer_incarnations e = e_retired_observer_incarnations e'"
    "e_observers e = e_observers e'" "e_monitor_capability e = e_monitor_capability e'"
    "e_last_receiver_arrival_ms e = e_last_receiver_arrival_ms e'"
  using assms by (simp_all add: ground_def)

lemma lineage_fields [simp]:
  "e_current_subject_incarnation (update_lineage f d e) = e_current_subject_incarnation e"
  "e_retired_subject_incarnations (update_lineage f d e) = e_retired_subject_incarnations e"
  "e_observers (update_lineage f d e) = e_observers e"
  "e_contradictions (update_lineage f d e) = e_contradictions e"
  "e_monitor_capability (update_lineage f d e) = e_monitor_capability e"
  "e_policy (update_lineage f d e) = e_policy e"
  by (simp_all add: update_lineage_def Let_def split: option.split arrival_disposition.split)


text \<open>The effect of \<open>ingest\<close> on the evidence depends on the evidence and the policy only.\<close>

lemma ground_congs:
  assumes "ground e = ground e'"
  shows "ground (update_lineage f d e) = ground (update_lineage f d e')"
    and "ground (note_arrival r e) = ground (note_arrival r e')"
    and "ground (e\<lparr>e_monitor_capability := m\<rparr>) = ground (e'\<lparr>e_monitor_capability := m\<rparr>)"
    and "e_policy e = e_policy e' \<Longrightarrow> ground (put_evidence r c e) = ground (put_evidence r c e')"
    and "classify_arrival e f a = classify_arrival e' f a"
    and "arrival_regressed r e = arrival_regressed r e'"
  using ground_eqs [OF assms]
  by (simp_all add: ground_def update_lineage_def note_arrival_def put_evidence_def effective_validity_def
      classify_arrival_def arrival_regressed_def Let_def split: option.split arrival_disposition.split)

definition subject_changed :: "received_pulse \<Rightarrow> evaluator \<Rightarrow> evaluator" where
  "subject_changed r e =
     e\<lparr>e_retired_subject_incarnations := bs_insert (e_current_subject_incarnation e) (e_retired_subject_incarnations e),
       e_current_subject_incarnation := pf_subject_incarnation (rp_frame r)\<rparr>"

text \<open>The evidence after an arrival, as one of four outcomes.\<close>

definition blinded :: "received_pulse \<Rightarrow> evaluator \<Rightarrow> evaluator \<Rightarrow> bool" where
  "blinded r e e' \<longleftrightarrow> (\<exists>d. ground e' = ground (e\<lparr>e_monitor_capability := Blind d\<rparr>)
      \<and> arrival_regressed r e
    \<or> ground e' = ground ((note_arrival r e)\<lparr>e_monitor_capability := Blind d\<rparr>)
      \<and> \<not> arrival_regressed r e \<and> \<not> annotation_agrees r e)"

definition agreed :: "received_pulse \<Rightarrow> evaluator \<Rightarrow> bool" where
  "agreed r e \<longleftrightarrow> \<not> arrival_regressed r e \<and> annotation_agrees r e"

definition dropped :: "received_pulse \<Rightarrow> evaluator \<Rightarrow> bool" where
  "dropped r e \<longleftrightarrow> ra_disposition (rp_receiver r) \<in> {Duplicate, Replay, Stale}
     \<or> observed_delay r < effective_validity r e
       \<and> pf_subject_incarnation (rp_frame r) \<noteq> e_current_subject_incarnation e
       \<and> bs_contains (e_retired_subject_incarnations e) (pf_subject_incarnation (rp_frame r))"

definition unsupported :: "received_pulse \<Rightarrow> evaluator \<Rightarrow> bool" where
  "unsupported r e \<longleftrightarrow> ra_disposition (rp_receiver r) \<notin> {Duplicate, Replay, Stale}
     \<and> effective_validity r e \<le> observed_delay r"

definition admitting :: "received_pulse \<Rightarrow> evaluator \<Rightarrow> evaluator" where
  "admitting r e =
     update_lineage (rp_frame r) (ra_disposition (rp_receiver r))
       (if pf_subject_incarnation (rp_frame r) \<noteq> e_current_subject_incarnation e
        then subject_changed r (note_arrival r e) else note_arrival r e)"

lemma continuity_of_None: "continuity_of d = None \<longleftrightarrow> d \<in> {Duplicate, Replay, Stale}"
  by (cases d) simp_all

lemma ingest_accepted_ground:
  "ground (ingest_accepted sha r c now e) =
     (if effective_validity r e \<le> observed_delay r
      then ground (update_lineage (rp_frame r) (ra_disposition (rp_receiver r)) e)
      else if pf_subject_incarnation (rp_frame r) \<noteq> e_current_subject_incarnation e then
        if bs_contains (e_retired_subject_incarnations e) (pf_subject_incarnation (rp_frame r)) then ground e
        else ground (put_evidence r c (update_lineage (rp_frame r) (ra_disposition (rp_receiver r)) (subject_changed r e)))
      else ground (put_evidence r c (update_lineage (rp_frame r) (ra_disposition (rp_receiver r)) e)))"
proof -
  let ?s = "record_subject_incarnation_change sha r now e" and ?u = "update_lineage (rp_frame r) (ra_disposition (rp_receiver r))"
  have "ground ?s = ground (subject_changed r e)" by (simp add: ground_subject_change subject_changed_def)
  moreover have "configured ?s = configured e" by (simp add: step_simps)
  then have "e_policy ?s = e_policy (subject_changed r e)" by (simp add: configured_def subject_changed_def)
  ultimately have "ground (put_evidence r c (?u ?s)) = ground (put_evidence r c (?u (subject_changed r e)))"
    by (intro ground_congs) simp_all
  then show ?thesis by (simp add: ingest_accepted_def ground_admit step_simps)
qed


lemma note_arrival_fields [simp]:
  "annotation_agrees r (note_arrival r' e) = annotation_agrees r e"
  "effective_validity r (note_arrival r' e) = effective_validity r e"
  "e_current_subject_incarnation (note_arrival r' e) = e_current_subject_incarnation e"
  "e_retired_subject_incarnations (note_arrival r' e) = e_retired_subject_incarnations e"
  "e_observers (note_arrival r' e) = e_observers e"
  "e_observer_lineages (note_arrival r' e) = e_observer_lineages e"
  "e_retired_observer_incarnations (note_arrival r' e) = e_retired_observer_incarnations e"
  "e_monitor_capability (note_arrival r' e) = e_monitor_capability e"
  "e_policy (note_arrival r' e) = e_policy e"
  by (simp_all add: annotation_agrees_def note_arrival_def effective_validity_def classify_arrival_def
      split: option.split)

lemma metrics_update_fields [simp]:
  "annotation_agrees r (e\<lparr>e_metrics := m\<rparr>) = annotation_agrees r e"
  "arrival_regressed r (e\<lparr>e_metrics := m\<rparr>) = arrival_regressed r e"
  "effective_validity r (e\<lparr>e_metrics := m\<rparr>) = effective_validity r e"
  "effective_validity r (count_gap d e) = effective_validity r e"
  "e_current_subject_incarnation (count_gap d e) = e_current_subject_incarnation e"
  "e_retired_subject_incarnations (count_gap d e) = e_retired_subject_incarnations e"
  "e_policy (count_gap d e) = e_policy e"
  by (simp_all add: annotation_agrees_def arrival_regressed_def effective_validity_def classify_arrival_def
      count_gap_def)

lemma blind_ground: "ground (go_blind at d e) = ground (e\<lparr>e_monitor_capability := Blind d\<rparr>)"
  by (simp add: go_blind_eq set_capability_def step_simps)

lemma ingest_ground:
  fixes sha r now e
  defines "P \<equiv> ingest_pulse sha r now e"
  shows "blinded r e P
    \<or> agreed r e \<and> dropped r e \<and> ground P = ground (note_arrival r e)
    \<or> agreed r e \<and> unsupported r e
      \<and> ground P = ground (update_lineage (rp_frame r) (ra_disposition (rp_receiver r)) (note_arrival r e))
    \<or> (\<exists>c. agreed r e \<and> \<not> dropped r e \<and> \<not> unsupported r e
        \<and> continuity_of (ra_disposition (rp_receiver r)) = Some c
        \<and> ground P = ground (put_evidence r c (admitting r e)))"
proof -
  define e0 where "e0 = e\<lparr>e_metrics := (e_metrics e)\<lparr>em_pulse_to_evaluation_latency_ms :=
      sat_sub now (ra_arrival_monotonic_ms (rp_receiver r))\<rparr>\<rparr>"
  define e1 where "e1 = note_arrival r e0"
  have g0: "ground e0 = ground e" "e_policy e0 = e_policy e" by (simp_all add: e0_def step_simps)
  have g1: "ground e1 = ground (note_arrival r e)" "e_policy e1 = e_policy e"
    unfolding e1_def using ground_congs(2) [OF g0(1)] by (simp_all add: g0)
  have P: "P = (if arrival_regressed r e then
      go_blind now ''receiver monotonic arrival regressed within one clock generation'' e0
    else if \<not> annotation_agrees r e then go_blind now (''receiver annotation mismatch: expected ''
               @ disposition_debug (fst (classify_arrival e1 (rp_frame r) (rp_receiver r)))
               @ '', received '' @ disposition_debug (ra_disposition (rp_receiver r))) e1
    else ingest_classified sha r now e1)"
    by (simp add: P_def ingest_pulse_def Let_def e0_def e1_def)
  show ?thesis
  proof (cases "agreed r e")
    case False
    then have "blinded r e P"
      unfolding blinded_def P agreed_def
      using ground_congs(3) [OF g0(1)] ground_congs(3) [OF g1(1)] by (auto simp: blind_ground)
    then show ?thesis by blast
  next
    case True
    then have Pc: "P = ingest_classified sha r now e1" by (simp add: P agreed_def)
    show ?thesis
    proof (cases "continuity_of (ra_disposition (rp_receiver r))")
      case None
      then have "dropped r e" "ground P = ground e1"
        by (auto simp: Pc dropped_def ingest_classified_def step_simps continuity_of_None)
      then show ?thesis using True g1 by simp
    next
      case (Some c)
      define e2 where "e2 = count_gap (ra_disposition (rp_receiver r)) e1"
      have g2: "ground e2 = ground (note_arrival r e)" "e_policy e2 = e_policy e"
        by (simp_all add: e2_def step_simps g1)
      have acc: "ground P = ground (ingest_accepted sha r c now e2)"
        using Some by (simp add: Pc ingest_classified_def e2_def)
      have same: "effective_validity r e2 = effective_validity r e"
        "e_current_subject_incarnation e2 = e_current_subject_incarnation e"
        "e_retired_subject_incarnations e2 = e_retired_subject_incarnations e"
        using ground_eqs [OF g2(1)] g2(2) by (simp_all add: effective_validity_def)
      have changed: "ground (subject_changed r e2) = ground (subject_changed r (note_arrival r e))"
        using g2(1) by (simp add: ground_def subject_changed_def)
      have disp: "ra_disposition (rp_receiver r) \<notin> {Duplicate, Replay, Stale}"
        using Some continuity_of_None [of "ra_disposition (rp_receiver r)"] by auto
      have "ground (put_evidence r c (update_lineage (rp_frame r) (ra_disposition (rp_receiver r)) x))
        = ground (put_evidence r c (update_lineage (rp_frame r) (ra_disposition (rp_receiver r)) y))"
        if "ground x = ground y" "e_policy x = e_policy y" for x y
        using that by (intro ground_congs(4) ground_congs(1)) simp_all
      note put = this [OF changed] this [OF g2(1)]
      show ?thesis
        using True Some disp put ground_congs(1) [OF g2(1)] g2
        by (auto simp: acc ingest_accepted_ground same dropped_def unsupported_def admitting_def
            subject_changed_def)
    qed
  qed
qed


lemma put_evidence_fields [simp]:
  "e_current_subject_incarnation (put_evidence r c e) = e_current_subject_incarnation e"
  "e_retired_subject_incarnations (put_evidence r c e) = e_retired_subject_incarnations e"
  "e_observer_lineages (put_evidence r c e) = e_observer_lineages e"
  "e_retired_observer_incarnations (put_evidence r c e) = e_retired_observer_incarnations e"
  "e_monitor_capability (put_evidence r c e) = e_monitor_capability e"
  "e_last_receiver_arrival_ms (put_evidence r c e) = e_last_receiver_arrival_ms e"
  by (simp_all add: put_evidence_def)

lemma admitting_subject [simp]:
  "e_current_subject_incarnation (admitting r e) = pf_subject_incarnation (rp_frame r)"
  "e_monitor_capability (admitting r e) = e_monitor_capability e"
  "e_observers (admitting r e) = e_observers e" "e_policy (admitting r e) = e_policy e"
  by (simp_all add: admitting_def subject_changed_def)

lemma ingest_subject:
  "e_current_subject_incarnation (ingest_pulse sha r now e)
     \<in> {e_current_subject_incarnation e, pf_subject_incarnation (rp_frame r)}"
  using ingest_ground [of r e sha now] by (auto dest!: ground_eqs(1) simp: blinded_def)

text \<open>The operations but \<open>ingest\<close> and the replacement of the subject leave its incarnation.\<close>

lemma fold_log_fields [simp]:
  "ground (fold (\<lambda>c. log_event at (k c)) cs e) = ground e"
  "e_contradictions (fold (\<lambda>c. log_event at (k c)) cs e) = e_contradictions e"
  "e_policy (fold (\<lambda>c. log_event at (k c)) cs e) = e_policy e"
  by (induction cs arbitrary: e) (simp_all add: step_simps)

lemma prepared_subject:
  "e_current_subject_incarnation (prepared sha op e) =
     (case op of Ingest r now \<Rightarrow> e_current_subject_incarnation (ingest_pulse sha r now e)
      | ReplaceSubjectIncarnation i at \<Rightarrow> i | _ \<Rightarrow> e_current_subject_incarnation e)"
  by (cases op) (simp_all add: set_capability_def subject_replaced_def forget_observers_def step_simps Let_def
      split: option.split)

lemma frame_validate_incarnation:
  "received_validate sha r = Inr u \<Longrightarrow> good_identity (pf_subject_incarnation (rp_frame r))"
  by (auto simp: received_validate_def result_simps frame_validate_ok frame_shape_ok_def)

lemma ingest_checks:
  assumes "run_op sha (Ingest r now) e = (e', Inr out)"
  shows "received_validate sha r = Inr ()" and "validate_binding e r = Inr ()"
    and "ra_arrival_monotonic_ms (rp_receiver r) \<le> now"
  using assms by (auto simp: ingest_def rbind_def map_err_def fail_if_def not_less split: sum.splits if_splits)

definition identities_inv :: "evaluator \<Rightarrow> bool" where
  "identities_inv e \<longleftrightarrow> good_identity (e_clock_id e) \<and> good_identity (e_current_subject_incarnation e)"

interpretation identities: evaluator_invariant sha identities_inv for sha
proof
  show "identities_inv e" if "evaluator_new p r ri c i = Inr e" for p r ri c i e
  proof -
    have "good_identity c" "good_identity i"
      using that by (auto simp: evaluator_new_def rbind_def map_err_def validate_identity_ok split: sum.splits)
    then show ?thesis using evaluator_new_ok [OF that] by (simp add: identities_inv_def evaluator_initial_def)
  qed
  show "identities_inv (prepared sha op e)"
    if inv: "identities_inv e" and run: "run_op sha op e = (e', Inr out)" for e op e' out
  proof -
    have "good_identity (e_current_subject_incarnation (prepared sha op e))"
    proof (cases op)
      case (Ingest r now)
      then have "good_identity (pf_subject_incarnation (rp_frame r))"
        using ingest_checks(1) [of sha r now e e' out] run frame_validate_incarnation by simp
      then show ?thesis
        using inv ingest_subject [of sha r now e] Ingest by (auto simp: identities_inv_def)
    next
      case (ReplaceSubjectIncarnation i at)
      then have "good_identity i"
        using run by (auto simp: replace_subject_incarnation_def rbind_def map_err_def validate_identity_ok
            split: sum.splits)
      then show ?thesis using ReplaceSubjectIncarnation by (simp add: prepared_subject del: prepared.simps)
    qed (use inv in \<open>simp_all add: prepared_subject identities_inv_def del: prepared.simps\<close>)
    then show ?thesis using inv by (simp add: identities_inv_def)
  qed
qed (simp_all add: identities_inv_def import_one_def set_normal_trace_def mark_failure_start_def)


section \<open>Barriers\<close>

text \<open>The operations that demand a separate evaluation before the subject can be CURRENT again.\<close>

fun barring :: "evaluator_op \<Rightarrow> bool" where
  "barring (RestoreMonitorCapability at d) = True"
| "barring (ReplacePolicy p b at) = True"
| "barring (InstallBarrier b at) = True"
| "barring (ReplaceSubjectIncarnation i at) = True"
| "barring _ = False"

lemma reachable_unbarred: "reachable sha e \<Longrightarrow> e_reevaluation_barrier e = None"
proof (induction rule: reachable.induct)
  case (new p r ri c i e)
  then show ?case using evaluator_new_ok [OF new] by (simp add: evaluator_initial_def)
next
  case (operation e op e' res)
  then show ?case
    using run_op_prepared [of sha op e] by (auto simp: run_prepared_def evaluate_since_eq evaluate_time)
next
  case (imported e cs e' res)
  have "e_reevaluation_barrier (fst (import_contradictions cs e)) = e_reevaluation_barrier e"
    by (induction cs arbitrary: e) simp_all
  then show ?case using imported by simp
qed (simp_all add: set_normal_trace_def mark_failure_start_def)

lemma prepared_barrier:
  assumes "e_reevaluation_barrier e = None"
  shows "e_reevaluation_barrier (prepared sha op e) = None \<longleftrightarrow> \<not> barring op"
proof (cases op)
  case (Ingest r now)
  then show ?thesis using judging_ingest(2) [of sha r now e] assms by (simp add: configured_def)
qed (use assms in \<open>simp_all add: set_capability_def subject_replaced_def step_simps Let_def split: option.split\<close>)

end
