(* ===== verification/Samples.thy ===== *)
theory Samples
  imports Standing
begin

text \<open>
  A sample evaluator and pulse at which the properties of the evaluator are exercised: a fresh
  evaluator for \<open>sample_policy\<close>, and the one left by the arrival of the first pulse of its only
  observer, which judges the subject CURRENT until the pulse expires.
\<close>

definition sample_evaluator :: evaluator where
  "sample_evaluator =
     evaluator_initial sample_policy ''receiver-1'' ''r-boot-1'' ''clock-1'' ''boot-1''"

definition sample_received :: received_pulse where
  "sample_received =
     \<lparr>rp_frame = sample_pulse 7,
      rp_receiver = \<lparr>ra_schema_version = SCHEMA_VERSION_V1, ra_receiver = ''receiver-1'',
        ra_receiver_incarnation = ''r-boot-1'', ra_clock_id = ''clock-1'', ra_arrival_monotonic_ms = 100,
        ra_disposition = First, ra_sequence_gap = None, ra_transport_path = ''udp'',
        ra_transport_observed_delay_ms = None, ra_authentication = NotChecked\<rparr>\<rparr>"

definition sample_evidence :: observer_evidence where
  "sample_evidence = \<lparr>oe_received = sample_received, oe_expires_at_ms = 1100,
     oe_continuity = Continuity_FirstSeen\<rparr>"

definition sample_current :: evaluator where
  "sample_current = fst (run_op sample_sha (Ingest sample_received 110) sample_evaluator)"

lemma sample_new:
  "evaluator_new sample_policy ''receiver-1'' ''r-boot-1'' ''clock-1'' ''boot-1'' = Inr sample_evaluator"
proof -
  have "policy_validate sample_policy = Inr ()" using sample_policy_ok by (simp add: policy_validate_ok)
  moreover have "validate_identity n v = Inr ()"
    if "v \<in> {''receiver-1'', ''r-boot-1'', ''clock-1'', ''boot-1''}" for n v
  proof -
    have "list_all good_identity [''receiver-1'', ''r-boot-1'', ''clock-1'', ''boot-1'']" by code_simp
    then show ?thesis using that by (auto simp: result_simps)
  qed
  ultimately show ?thesis by (simp add: sample_evaluator_def evaluator_new_def)
qed


lemma sample_evaluator_fields [simp]:
  "e_policy sample_evaluator = sample_policy" "e_receiver sample_evaluator = ''receiver-1''"
  "e_receiver_incarnation sample_evaluator = ''r-boot-1''" "e_clock_id sample_evaluator = ''clock-1''"
  "e_current_subject_incarnation sample_evaluator = ''boot-1''"
  "e_retired_subject_incarnations sample_evaluator = []" "e_observer_lineages sample_evaluator = []"
  "e_retired_observer_incarnations sample_evaluator = []" "e_observers sample_evaluator = []"
  "e_contradictions sample_evaluator = []" "e_diagnostic_evidence sample_evaluator = []"
  "e_issued_requests sample_evaluator = []" "e_active_escalations sample_evaluator = []"
  "e_monitor_capability sample_evaluator = Operational" "e_escalation_state sample_evaluator = NotRequested"
  "e_reevaluation_barrier sample_evaluator = None" "e_last_judgment sample_evaluator = None"
  "e_last_receiver_arrival_ms sample_evaluator = None" "e_last_evaluation_ms sample_evaluator = None"
  "e_request_counter sample_evaluator = 0" "e_event_counter sample_evaluator = 0"
  "e_event_log sample_evaluator = []"
  by (simp_all add: sample_evaluator_def evaluator_initial_def)

lemma sample_frame [simp]:
  "pf_subject (sample_pulse sq) = ''host-a''" "pf_subject_incarnation (sample_pulse sq) = ''boot-1''"
  "pf_observer (sample_pulse sq) = ''probe-1''" "pf_observer_incarnation (sample_pulse sq) = ''run-1''"
  "pf_sequence (sample_pulse sq) = sq" "pf_validity_ms (sample_pulse sq) = 1000"
  "pf_profile (sample_pulse sq) = sample_profile" "pf_observation_policy_generation (sample_pulse sq) = ''gen-1''"
  "pf_coverage (sample_pulse sq) = sample_coverage" "pf_signals (sample_pulse sq) = [sample_signal]"
  by (simp_all add: sample_pulse_def seal_def)

lemma sample_received_valid: "received_validate sample_sha sample_received = Inr ()"
proof -
  have "good_identity ''receiver-1''" "good_identity ''r-boot-1''" "good_identity ''clock-1''"
    "good_field ''udp''" by code_simp+
  then show ?thesis
    by (simp add: received_validate_def sample_received_def sample_pulse_valid annotation_validate_def
        gap_validate_def result_simps)
qed

lemma sample_ingest:
  "run_op sample_sha (Ingest sample_received 110) sample_evaluator =
   run_prepared sample_sha (Ingest sample_received 110) sample_evaluator"
proof -
  have "validate_binding sample_evaluator sample_received = Inr ()"
    by (simp add: validate_binding_def sample_received_def sample_policy_def)
  moreover have "ra_arrival_monotonic_ms (rp_receiver sample_received) = 100" by (simp add: sample_received_def)
  ultimately show ?thesis
    by (simp add: ingest_def sample_received_valid run_prepared_def logged_from_def)
qed


lemma sample_ingest_pulse:
  "kept (ingest_pulse sample_sha sample_received 110 sample_evaluator) =
     ((sample_policy, ''boot-1'', [(''probe-1'', sample_evidence)], [], Operational),
      ''receiver-1'', ''r-boot-1'', ''clock-1'', [],
      [(''probe-1'', \<lparr>ol_incarnation = ''run-1'', ol_sequence = 7\<rparr>)], [], Some 100)"
proof -
  have ann: "ra_arrival_monotonic_ms (rp_receiver sample_received) = 100"
    "ra_disposition (rp_receiver sample_received) = First" "ra_sequence_gap (rp_receiver sample_received) = None"
    "ra_transport_observed_delay_ms (rp_receiver sample_received) = None"
    "ra_authentication (rp_receiver sample_received) = NotChecked"
    "rp_frame sample_received = sample_pulse 7"
    by (simp_all add: sample_received_def)
  have "po_maximum_validity_ms sample_policy = 2000" by (simp add: sample_policy_def)
  then show ?thesis
    by (simp add: ingest_pulse_def arrival_regressed_def note_arrival_def annotation_agrees_def
        classify_arrival_def effective_stale_def ann bs_contains_def ingest_classified_def count_gap_def
        ingest_accepted_def effective_validity_def observed_delay_def admit_evidence_def update_lineage_def
        detect_signal_contradictions_def received_provenance_is_eligible_def
        record_adverse_supersession_def put_evidence_def sample_evidence_def kept_def hot_def bt_values_def
        sat_add_def Let_def)
qed

lemma sample_current_fields:
  "kept sample_current = kept (ingest_pulse sample_sha sample_received 110 sample_evaluator)"
  "e_last_evaluation_ms sample_current = Some 110" "e_reevaluation_barrier sample_current = None"
proof -
  have clock: "evaluation_clock 110 (ingest_pulse sample_sha sample_received 110 sample_evaluator)
    = (ingest_pulse sample_sha sample_received 110 sample_evaluator, 110)"
    using prepared_fields(1) [of sample_sha "Ingest sample_received 110" sample_evaluator]
    by (simp add: evaluation_clock_def)
  then show
    "kept sample_current = kept (ingest_pulse sample_sha sample_received 110 sample_evaluator)"
    "e_last_evaluation_ms sample_current = Some 110" "e_reevaluation_barrier sample_current = None"
    unfolding sample_current_def sample_ingest
    by (simp_all add: run_prepared_def evaluate_since_eq evaluate_kept evaluate_time evaluated_now_def)
qed

lemma sample_current_hot [simp]:
  "e_policy sample_current = sample_policy" "e_current_subject_incarnation sample_current = ''boot-1''"
  "e_observers sample_current = [(''probe-1'', sample_evidence)]" "e_contradictions sample_current = []"
  "e_monitor_capability sample_current = Operational"
  "e_observer_lineages sample_current = [(''probe-1'', \<lparr>ol_incarnation = ''run-1'', ol_sequence = 7\<rparr>)]"
  "e_last_receiver_arrival_ms sample_current = Some 100"
  using sample_current_fields(1) unfolding sample_ingest_pulse by (simp_all add: kept_def hot_def)


lemma sample_current_binding [simp]:
  "e_receiver sample_current = ''receiver-1''" "e_receiver_incarnation sample_current = ''r-boot-1''"
  "e_clock_id sample_current = ''clock-1''" "e_retired_subject_incarnations sample_current = []"
  using sample_current_fields(1) unfolding sample_ingest_pulse by (simp_all add: kept_def hot_def)

text \<open>The sample evidence covers both tags of the policy for one failure domain, until 1100.\<close>

lemma sample_covers: "covers_tag ''cpu'' sample_evidence" "covers_tag ''disk'' sample_evidence"
proof -
  have "binary_search_ok [''cpu'', ''disk''] ''cpu''" "binary_search_ok [''cpu'', ''disk''] ''disk''"
    by code_simp+
  then show "covers_tag ''cpu'' sample_evidence" "covers_tag ''disk'' sample_evidence"
    by (simp_all add: covers_tag_def sample_evidence_def sample_received_def sample_coverage_def)
qed

lemma sample_domain: "evidence_domain (po_observer_failure_domains sample_policy) sample_evidence = ''rack-1''"
proof -
  have "bt_get [(''probe-1'', ''rack-1'')] ''probe-1'' = Some ''rack-1''" by code_simp
  then show ?thesis
    by (simp add: evidence_domain_def sample_evidence_def sample_received_def failure_domain_def
        sample_policy_def)
qed

lemma sample_current_evidence:
  "fresh_evidence sample_current t = (if t < 1100 then [sample_evidence] else [])"
  "eligible_fresh sample_current t = (if t < 1100 then [sample_evidence] else [])"
  by (simp_all add: fresh_evidence_def relevant_evidence_def eligible_fresh_def bt_values_def
      provenance_is_eligible_def received_provenance_is_eligible_def is_failed_def)
     (simp_all add: sample_evidence_def sample_received_def sample_policy_def)

lemma sample_current_category:
  assumes "t < 1100"
  shows "derive_category sample_current t = Current"
proof -
  have "\<not> has_adverse_signal sample_evidence" "oe_continuity sample_evidence = Continuity_FirstSeen"
    by (simp_all add: has_adverse_signal_def sample_evidence_def sample_received_def sample_signal_def)
  moreover have "covered sample_current t"
  proof -
    have "{x. x = sample_evidence \<and> covers_tag tag x} = {sample_evidence}" if "tag \<in> {''cpu'', ''disk''}" for tag
      using that sample_covers by auto
    then show ?thesis
      using assms by (simp add: covered_def sample_current_evidence tag_domains_def)
        (simp add: sample_policy_def)
  qed
  moreover have "\<not> po_require_verified_authentication sample_policy" by (simp add: sample_policy_def)
  ultimately have "current_conditions sample_current t"
    using assms by (simp add: current_conditions_def sample_current_evidence active_contradictions_def bt_values_def)
  then show ?thesis using derive_current_iff [of sample_current t] sample_policy_ok by simp
qed


lemma sample_lapsed:
  assumes "1100 \<le> t"
  shows "derive_category sample_current t = Unknown"
proof -
  have "\<not> t < 1100" using assms by simp
  moreover have "po_required_coverage sample_policy \<noteq> []" "po_minimum_observers sample_policy = 1"
    by (simp_all add: sample_policy_def)
  ultimately show ?thesis
    by (simp add: derive_category_def active_contradictions_def bt_values_def violation_evidence_refs_def
        sample_current_evidence reliance_unknown_def derive_freshness_def)
qed

lemma sample_deadline: "t < 1100 \<Longrightarrow> ds_support_deadline_ms (derive sample_current t) = Some 1100"
proof -
  assume t: "t < 1100"
  have "tag_deadline sample_policy [sample_evidence] tag = Some 1100" if "tag \<in> {''cpu'', ''disk''}" for tag
    using that sample_covers
    by (auto simp: tag_deadline_def sample_domain bt_values_def)
       (simp_all add: sample_evidence_def sample_policy_def)
  moreover have "po_required_coverage sample_policy = [''cpu'', ''disk'']" by (simp add: sample_policy_def)
  ultimately show ?thesis
    using t by (simp add: derive_def sample_current_category sample_current_evidence support_deadline_def)
qed

lemma sample_reachable: "reachable sample_sha sample_evaluator" "reachable sample_sha sample_current"
proof -
  show e: "reachable sample_sha sample_evaluator" by (rule reachable.new [OF sample_new])
  show "reachable sample_sha sample_current"
    by (rule reachable.operation [OF e, of "Ingest sample_received 110" _ "snd (run_op sample_sha (Ingest sample_received 110) sample_evaluator)"])
       (simp only: sample_current_def prod.collapse)
qed

lemma sample_run:
  obtains out where "run_op sample_sha (Ingest sample_received 110) sample_evaluator = (sample_current, Inr out)"
    and "ju_category (eo_judgment out) = Current" and "ju_evaluated_at_ms (eo_judgment out) = 110"
    and "ju_support_expires_at_ms (eo_judgment out) = Some 1100"
    and "e_last_judgment sample_current = Some (eo_judgment out)"
proof -
  obtain out where run: "run_op sample_sha (Ingest sample_received 110) sample_evaluator = (sample_current, Inr out)"
    unfolding sample_current_def sample_ingest by (simp add: run_prepared_def evaluate_since_eq)
  have now: "ju_evaluated_at_ms (eo_judgment out) = 110"
    using run_op_time(1) [OF run] sample_current_fields(2) by simp
  have barrier: "e_reevaluation_barrier (prepared sample_sha (Ingest sample_received 110) sample_evaluator) = None"
    by (subst prepared_barrier) simp_all
  show thesis
  proof (rule that)
    show "ju_category (eo_judgment out) = Current"
      by (simp only: run_op_category(1) [OF run] barrier now) (simp add: sample_current_category)
    show "ju_support_expires_at_ms (eo_judgment out) = Some 1100"
      by (simp only: run_op_category(2) [OF run] barrier now) (simp add: sample_deadline)
  qed (rule run now run_op_time(3) [OF run])+
qed

lemma sample_hash_32: "hash_32 sample_sha"
  by (simp add: hash_32_def sample_sha_def)

end
