(* ===== verification/EventLog.thy ===== *)
theory EventLog
  imports Samples
begin

text \<open>
  The event log of an evaluator: every step writes by appending numbered events, each operation returns
  the events it appended (with one exception), and the numbers never repeat.
\<close>

section \<open>Writing events\<close>

type_synonym journal = "sparse_durable_event list \<times> u64"

definition journal :: "evaluator \<Rightarrow> journal" where
  "journal e = (e_event_log e, e_event_counter e)"

text \<open>One call of \<open>sparse_event\<close> on the log and its counter.\<close>

definition jot :: "u64 \<times> sparse_durable_event_kind \<Rightarrow> journal \<Rightarrow> journal" where
  "jot w j = (fst j @ [\<lparr>ev_schema_version = SCHEMA_VERSION_V1,
     ev_event_id = ''event:'' @ hex16 (sat_add (snd j) 1), ev_at_ms = fst w, ev_event = snd w\<rparr>],
     sat_add (snd j) 1)"

definition writes :: "evaluator \<Rightarrow> evaluator \<Rightarrow> bool" where
  "writes e e' \<longleftrightarrow> (\<exists>ws. journal e' = fold jot ws (journal e))"

lemma writes_same [simp]: "journal e' = journal e \<Longrightarrow> writes e e'"
  unfolding writes_def by (rule exI [of _ "[]"]) simp

lemma writes_trans [trans]: "writes e e' \<Longrightarrow> writes e' e'' \<Longrightarrow> writes e e''"
  unfolding writes_def by (metis fold_append o_apply)

lemma journal_log: "journal (log_event at k e) = jot (at, k) (journal e)"
  by (simp add: journal_def jot_def log_event_def sparse_event_def Let_def)

lemma writes_log: "journal e' = journal e \<Longrightarrow> writes e (log_event at k e')"
  unfolding writes_def by (rule exI [of _ "[(at, k)]"]) (simp add: journal_log)

lemma journal_update [simp]:
  "journal (e\<lparr>e_metrics := m\<rparr>) = journal e" "journal (e\<lparr>e_contradictions := cs\<rparr>) = journal e"
  "journal (e\<lparr>e_monitor_capability := mc\<rparr>) = journal e" "journal (e\<lparr>e_escalation_state := s\<rparr>) = journal e"
  "journal (e\<lparr>e_request_counter := n\<rparr>) = journal e" "journal (e\<lparr>e_transition_counter := n\<rparr>) = journal e"
  "journal (e\<lparr>e_issued_requests := i\<rparr>) = journal e" "journal (e\<lparr>e_active_escalations := a\<rparr>) = journal e"
  "journal (e\<lparr>e_diagnostic_evidence := de\<rparr>) = journal e" "journal (e\<lparr>e_reevaluation_barrier := b\<rparr>) = journal e"
  "journal (e\<lparr>e_last_judgment := lj\<rparr>) = journal e" "journal (e\<lparr>e_policy := p\<rparr>) = journal e"
  "journal (e\<lparr>e_retired_subject_incarnations := rs\<rparr>) = journal e"
  "journal (e\<lparr>e_current_subject_incarnation := ci\<rparr>) = journal e"
  "journal (update_lineage f d e) = journal e" "journal (put_evidence r c e) = journal e"
  "journal (note_arrival r e) = journal e" "journal (count_gap d e) = journal e"
  "journal (count_duplicate e) = journal e" "journal (count_dropped_stale e) = journal e"
  "journal (forget_observers e) = journal e" "journal (evaluation_metrics ds e) = journal e"
  "journal (evaluation_expiries now e) = journal e" "journal (update_failure_metrics cat now e) = journal e"
  "journal (update_stale_positive_metric j now dl e) = journal e"
  by (simp_all add: journal_def update_lineage_def put_evidence_def note_arrival_def count_gap_def
      count_duplicate_def count_dropped_stale_def forget_observers_def evaluation_metrics_def
      evaluation_expiries_def update_failure_metrics_def update_stale_positive_metric_def Let_def
      split: option.split arrival_disposition.split)

lemma writes_capability: "writes e (set_capability m at l d e)"
  by (simp add: set_capability_def writes_log)

section \<open>The steps of the operations jot\<close>

lemma writes_create: "writes e (create_contradiction sha s rs ss at e)"
  by (simp add: create_contradiction_def Let_def writes_log)

lemma writes_creates: "writes e (create_contradictions sha at cs e)"
  by (induction sha at cs e rule: create_contradictions.induct) (auto intro: writes_trans writes_create)

lemma writes_detect: "writes e (detect_signal_contradictions sha r at e)"
  by (simp add: detect_signal_contradictions_def writes_creates)

lemma writes_supersession: "writes e (record_adverse_supersession r at e)"
  by (simp add: record_adverse_supersession_def Let_def writes_log split: option.split)

lemma writes_journal: "writes x y \<Longrightarrow> journal x = journal e \<Longrightarrow> journal y = journal e' \<Longrightarrow> writes e e'"
  by (simp add: writes_def)

lemma writes_from: "writes x y \<Longrightarrow> journal x = journal e \<Longrightarrow> writes e y"
  by (simp add: writes_def)

lemma writes_admit: "writes e (admit_evidence sha r c now e)"
  using writes_trans [OF writes_detect writes_supersession]
  by (rule writes_journal [of "update_lineage (rp_frame r) (ra_disposition (rp_receiver r)) e"])
     (simp_all add: admit_evidence_def)

lemma writes_subject_change: "writes e (record_subject_incarnation_change sha r at e)"
  unfolding record_subject_incarnation_change_def Let_def
  by (rule writes_journal [OF writes_create]) simp_all

lemma writes_classified: "writes e (ingest_classified sha r now e)"
proof -
  have "writes x (ingest_accepted sha r c now x)" for c x
    by (auto simp: ingest_accepted_def intro: writes_admit writes_trans [OF writes_subject_change writes_admit])
  then have "writes e (ingest_accepted sha r c now (count_gap d e))" for c d
    by (rule writes_journal) simp_all
  then show ?thesis by (simp add: ingest_classified_def split: option.split)
qed

lemma writes_ingest: "writes e (ingest_pulse sha r now e)"
  by (simp add: ingest_pulse_def Let_def go_blind_eq writes_from [OF writes_classified]
      writes_from [OF writes_capability])

lemma fold_logs:
  "journal (fold (\<lambda>c. log_event at (k c)) cs e) = fold jot (map (\<lambda>c. (at, k c)) cs) (journal e)"
  by (induction cs arbitrary: e) (simp_all add: journal_log)

lemma writes_prepared: "writes e (prepared sha op e)"
proof (cases op)
  case (ReplaceSubjectIncarnation i at)
  then show ?thesis
    by (simp add: subject_replaced_def Let_def writes_def fold_logs) blast
next
  case (RecordMonitorInputDrop n at d)
  then show ?thesis by (simp add: writes_from [OF writes_capability])
next
  case (RestoreMonitorCapability at d)
  then show ?thesis
    using writes_capability [of e Operational at "''operational''" d]
    by (simp only: prepared.simps writes_def journal_update)
qed (auto simp: writes_ingest writes_capability writes_log split: option.split)


section \<open>The evaluation writes\<close>

lemma writes_clock: "writes e (fst (evaluation_clock rn e))"
  by (simp add: evaluation_clock_def go_blind_eq writes_capability split: option.split)

lemma writes_transition: "writes e (fst (evaluation_transition sha j now e))"
  by (simp add: evaluation_transition_def build_transition_def Let_def writes_log)

lemma writes_escalation: "writes e (fst (evaluation_escalation sha b t j now e))"
  by (simp add: evaluation_escalation_def maybe_escalate_def deduplicate_escalation_def issue_request_def
      Let_def writes_log split: option.split)

lemma writes_evaluate: "writes e (fst (evaluate sha rn e))"
proof -
  let ?d = "evaluated_derived rn e" and ?j = "evaluated_judgment sha rn e" and ?now = "evaluated_now rn e"
  let ?t = "evaluation_transition sha ?j ?now (evaluation_metrics ?d (evaluated_state rn e))"
  let ?e6 = "update_stale_positive_metric ?j ?now (ds_support_deadline_ms ?d)
    (update_failure_metrics (ju_category ?j) ?now (fst ?t))"
  have "writes e (evaluation_metrics ?d (evaluated_state rn e))"
    using writes_clock [of e rn] by (simp add: writes_def evaluated_state_def)
  also have "writes \<dots> (fst ?t)" by (rule writes_transition)
  also have "writes \<dots> ?e6" by simp
  also have "writes \<dots> (fst (evaluation_escalation sha (e_reevaluation_barrier e) (snd ?t) ?j ?now ?e6))"
    by (rule writes_escalation)
  finally have "writes e (fst (evaluated_steps sha rn e))"
    by (simp add: evaluated_steps_def Let_def case_prod_unfold)
  then show ?thesis by (simp add: evaluate_steps Let_def case_prod_unfold writes_def)
qed

section \<open>Events of an operation\<close>

lemma fold_jot_log: "\<exists>new. fst (fold jot ws j) = fst j @ new"
proof (induction ws arbitrary: j)
  case (Cons w ws)
  obtain new where "fst (fold jot ws (jot w j)) = fst (jot w j) @ new" using Cons by blast
  moreover have "\<exists>x. fst (jot w j) = fst j @ [x]" by (simp add: jot_def)
  ultimately show ?case by (metis append_assoc fold_simps(2))
qed simp

lemma writes_appends: "writes e e' \<Longrightarrow> appends e e'"
  unfolding writes_def appends_def using fold_jot_log by (metis fst_conv journal_def)

text \<open>The records a replacement of the subject incarnation makes inapplicable.\<close>

definition retired_contradictions :: "incarnation_id \<Rightarrow> u64 \<Rightarrow> evaluator \<Rightarrow> contradiction_record list" where
  "retired_contradictions i at e =
     map (inapplicable (e_current_subject_incarnation e) i at)
       (filter (bound_to_incarnation (e_current_subject_incarnation e)) (bt_values (e_contradictions e)))"

lemma jot_events: "map ev_event (fst (fold jot ws j)) = map ev_event (fst j) @ map snd ws"
  by (induction ws arbitrary: j) (simp_all add: jot_def)

lemma replaced_log:
  "map ev_event (e_event_log (subject_replaced i at e)) =
     map ev_event (e_event_log e) @ map ContradictionLifecycleChanged (retired_contradictions i at e)"
proof -
  have "journal (subject_replaced i at e) =
      fold jot (map (\<lambda>c. (at, ContradictionLifecycleChanged c)) (retired_contradictions i at e)) (journal e)"
    by (simp add: subject_replaced_def Let_def fold_logs retired_contradictions_def)
  then show ?thesis
    using jot_events [of "map (\<lambda>c. (at, ContradictionLifecycleChanged c)) (retired_contradictions i at e)" "journal e"]
    by (simp add: journal_def o_def) (metis fst_conv)
qed

text \<open>
  C31: an operation returns exactly the events it appended to the log, with one exception. The log only
  grows; what an operation appends is the list of sparse events of its output. Replacing the subject
  incarnation is the exception: the lifecycle events of the contradictions it retires are appended to the
  log but are not among the events it returns.
\<close>

theorem operation_events:
  assumes run: "run_op sha op e = (e', Inr out)"
  shows "case op of
      ReplaceSubjectIncarnation i at \<Rightarrow>
        map ev_event (e_event_log e') = map ev_event (e_event_log e)
          @ map ContradictionLifecycleChanged (retired_contradictions i at e)
          @ map ev_event (eo_sparse_events out)
    | _ \<Rightarrow> e_event_log e' = e_event_log e @ eo_sparse_events out"
proof -
  have "appends (prepared sha op e) e'"
    using evaluate_appends [of "prepared sha op e" sha "op_time op"] by (simp add: run_op_ok(1) [OF run])
  moreover have "appends e (prepared sha op e)" by (rule writes_appends [OF writes_prepared])
  ultimately obtain new where p: "e_event_log e' = e_event_log (prepared sha op e) @ new"
    and e: "take (length (e_event_log e)) (e_event_log e') = e_event_log e"
    by (auto simp: appends_def)
  show ?thesis
  proof (cases op)
    case (ReplaceSubjectIncarnation i at)
    then have "e_event_log e' = e_event_log (subject_replaced i at e) @ eo_sparse_events out"
      using p run_op_ok(5) [OF run] by (simp add: logged_from_def)
    then show ?thesis by (simp add: ReplaceSubjectIncarnation replaced_log)
  qed (use run_op_ok(5) [OF run] e in \<open>simp_all add: logged_from_def, (metis append_take_drop_id)+\<close>)
qed

theorem operation_events_witness:
  "\<exists>e2 out. run_op sample_sha (Tick 120) sample_current = (e2, Inr out)
     \<and> e_event_log e2 = e_event_log sample_current @ eo_sparse_events out"
proof -
  obtain e2 out where run: "run_op sample_sha (Tick 120) sample_current = (e2, Inr out)"
    by (simp add: tick_def) (metis evaluate_pair)
  then show ?thesis using operation_events [OF run] by simp
qed

section \<open>Event ids never repeat\<close>

definition numbered :: "journal \<Rightarrow> bool" where
  "numbered j \<longleftrightarrow> snd j = sat_of_nat (length (fst j))
     \<and> (\<forall>i < length (fst j). ev_event_id (fst j ! i) = ''event:'' @ hex16 (sat_of_nat (Suc i)))"

lemma sat_add_of_nat: "sat_add (sat_of_nat n) 1 = (sat_of_nat (Suc n) :: u64)"
  by (rule word_unat_eq_iff [THEN iffD2]) (simp add: sat_simps)

lemma numbered_jot: "numbered j \<Longrightarrow> numbered (jot w j)"
  by (auto simp: numbered_def jot_def sat_add_of_nat nth_append less_Suc_eq)

lemma numbered_fold: "numbered j \<Longrightarrow> numbered (fold jot ws j)"
  by (induction ws arbitrary: j) (simp_all add: numbered_jot)

lemma numbered_writes: "writes e e' \<Longrightarrow> numbered (journal e) \<Longrightarrow> numbered (journal e')"
  by (auto simp: writes_def numbered_fold)

interpretation event_ids: evaluator_invariant sha "\<lambda>e. numbered (journal e)" for sha
proof
  show "numbered (journal e)" if "evaluator_new p r ri c i = Inr e" for p r ri c i e
    using evaluator_new_ok [OF that] by (simp add: evaluator_initial_def journal_def numbered_def sat_of_nat_def)
  show "numbered (journal (prepared sha op e))" if "numbered (journal e)" for op e
    by (rule numbered_writes [OF writes_prepared that])
  show "numbered (journal (fst (evaluate sha rn e)))" if "numbered (journal e)" for rn e
    by (rule numbered_writes [OF writes_evaluate that])
qed (simp_all add: journal_def import_one_def set_normal_trace_def mark_failure_start_def)

text \<open>
  C32: event ids never repeat. In every reachable evaluator that has logged fewer than \<open>2^64 - 1\<close> events,
  all event ids of its log are different, and the id of the \<open>i\<close>-th event (from 0) is \<open>event:\<close> followed by
  \<open>i + 1\<close> in 16 hexadecimal digits, with no gap.
\<close>

theorem event_ids_never_repeat:
  assumes "reachable sha e" and "length (e_event_log e) < 2 ^ 64 - 1"
  shows "distinct (map ev_event_id (e_event_log e))
    \<and> map ev_event_id (e_event_log e) = map (\<lambda>i. ''event:'' @ hex16 (of_nat (Suc i))) [0..<length (e_event_log e)]"
proof -
  have n: "numbered (journal e)" by (rule event_ids.holds_reachable [OF assms(1)])
  have small: "(sat_of_nat (Suc i) :: u64) = of_nat (Suc i)" if "i < length (e_event_log e)" for i
    using that assms(2) by (simp add: sat_of_nat_def)
  have ids: "map ev_event_id (e_event_log e) = map (\<lambda>i. ''event:'' @ hex16 (of_nat (Suc i))) [0..<length (e_event_log e)]"
  proof (rule nth_equalityI)
    fix i
    assume "i < length (map ev_event_id (e_event_log e))"
    then have i: "i < length (e_event_log e)" by simp
    then have "ev_event_id (e_event_log e ! i) = ''event:'' @ hex16 (sat_of_nat (Suc i))"
      using n by (simp add: numbered_def journal_def)
    then show "map ev_event_id (e_event_log e) ! i =
        map (\<lambda>i. ''event:'' @ hex16 (of_nat (Suc i))) [0..<length (e_event_log e)] ! i"
      using i small [OF i] by simp
  qed simp
  have "inj_on (\<lambda>i. ''event:'' @ hex16 (of_nat (Suc i))) {0..<length (e_event_log e)}"
  proof (rule inj_onI)
    fix i k
    assume i: "i \<in> {0..<length (e_event_log e)}" and k: "k \<in> {0..<length (e_event_log e)}"
      and "''event:'' @ hex16 (of_nat (Suc i)) = ''event:'' @ hex16 (of_nat (Suc k))"
    then have "(of_nat (Suc i) :: u64) = of_nat (Suc k)" by simp
    then have "unat (of_nat (Suc i) :: u64) = unat (of_nat (Suc k) :: u64)" by (rule arg_cong)
    then show "i = k" using i k assms(2) by (simp add: unat_of_nat del: of_nat_Suc)
  qed
  then show ?thesis using ids by (simp add: distinct_map del: of_nat_Suc)
qed


lemma sample_current_log: "length (e_event_log sample_current) = 1"
proof -
  let ?p = "ingest_pulse sample_sha sample_received 110 sample_evaluator"
  have e: "sample_current = fst (evaluate sample_sha 110 ?p)"
    unfolding sample_current_def sample_ingest by (simp add: run_prepared_def evaluate_since_eq)
  have "judging ?p = judging sample_evaluator" by (simp add: step_simps)
  then have p: "e_last_judgment ?p = None" "e_last_evaluation_ms ?p = None" by (simp_all add: judging_def)
  have ann: "ra_disposition (rp_receiver sample_received) = First" "rp_frame sample_received = sample_pulse 7"
    "ra_sequence_gap (rp_receiver sample_received) = None"
    "ra_transport_observed_delay_ms (rp_receiver sample_received) = None"
    by (simp_all add: sample_received_def)
  have "e_event_log ?p = []"
    by (simp add: ingest_pulse_def arrival_regressed_def note_arrival_def annotation_agrees_def
        classify_arrival_def effective_stale_def ann bs_contains_def ingest_classified_def count_gap_def
        ingest_accepted_def effective_validity_def observed_delay_def admit_evidence_def update_lineage_def
        detect_signal_contradictions_def record_adverse_supersession_def put_evidence_def bt_values_def Let_def)
       (simp add: sample_policy_def)
  moreover have "evaluation_clock 110 ?p = (?p, 110)" using p by (simp add: evaluation_clock_def)
  moreover have "e_last_judgment (evaluation_metrics d (evaluation_expiries 110 ?p)) = None"
    "e_event_log (evaluation_metrics d (evaluation_expiries 110 ?p)) = e_event_log ?p" for d
    using p by (simp_all add: evaluation_metrics_def evaluation_expiries_def)
  ultimately have "length (e_event_log (fst (evaluated_steps sample_sha 110 ?p))) = 1"
    by (simp add: evaluated_steps_def evaluated_state_def evaluated_now_def evaluation_transition_def
        judgment_transitions_def build_transition_def evaluation_escalation_def maybe_escalate_def
        step_simps Let_def)
  then show ?thesis by (simp add: e evaluate_steps Let_def case_prod_unfold)
qed

theorem event_ids_never_repeat_witness:
  "map ev_event_id (e_event_log sample_current) = [''event:'' @ hex16 1]"
  using event_ids_never_repeat [OF sample_reachable(2)] by (simp add: sample_current_log)

end
