(* ===== verification/Custody.thy ===== *)
theory Custody
  imports Samples
begin

text \<open>
  The evaluator's custody of pulse sequences. \<open>ingest\<close> is the second implementation of the contract
  \<open>sequence_custodian\<close>; run behind a receiver's tracker it reaches the same verdict on every arrival, as
  long as the two see the subject change at the same time.
\<close>

section \<open>The evaluator is a sequence custodian\<close>

definition evaluator_lineage :: "evaluator \<Rightarrow> observer_id \<Rightarrow> lineage" where
  "evaluator_lineage e obs =
     \<lparr>li_last = map_option (\<lambda>l. (ol_incarnation l, ol_sequence l)) (bt_get (e_observer_lineages e) obs),
      li_retired = {i. bs_contains (e_retired_observer_incarnations e) (obs, i)}\<rparr>"

text \<open>One call of \<open>ingest\<close>, with the verdict it acts on.\<close>

definition ingest_arrive :: "hasher \<Rightarrow> evaluator \<Rightarrow> received_pulse \<times> u64 \<Rightarrow>
    evaluator \<times> (arrival_disposition \<times> sequence_gap option) option" where
  "ingest_arrive sha e a =
     (let r = fst a; res = run_op sha (Ingest r (snd a)) e
      in (fst res, if is_ok (snd res) \<and> agreed r e
                   then Some (ra_disposition (rp_receiver r), ra_sequence_gap (rp_receiver r)) else None))"

definition ingest_admits :: "hasher \<Rightarrow> evaluator \<Rightarrow> received_pulse \<times> u64 \<Rightarrow> bool" where
  "ingest_admits sha e a =
     (let r = fst a in is_ok (snd (run_op sha (Ingest r (snd a)) e)) \<and> agreed r e
        \<and> \<not> effective_stale (ra_transport_observed_delay_ms (rp_receiver r)) (rp_frame r)
        \<and> \<not> bs_contains (e_retired_subject_incarnations e) (pf_subject_incarnation (rp_frame r)))"

lemma classify_arrival_class:
  assumes "\<not> effective_stale (ra_transport_observed_delay_ms a) f"
    and "\<not> bs_contains (e_retired_subject_incarnations e) (pf_subject_incarnation f)"
  shows "classify_arrival e f a =
    arrival_class (evaluator_lineage e (pf_observer f)) (pf_observer_incarnation f) (pf_sequence f)"
  using assms by (simp add: classify_arrival_def arrival_class_def evaluator_lineage_def Let_def split: option.split)

lemma evaluator_lineage_cong:
  "e_observer_lineages e = e_observer_lineages e' \<Longrightarrow>
   e_retired_observer_incarnations e = e_retired_observer_incarnations e' \<Longrightarrow>
   evaluator_lineage e obs = evaluator_lineage e' obs"
  by (simp add: evaluator_lineage_def)

lemma evaluator_lineage_ground: "ground e = ground e' \<Longrightarrow> evaluator_lineage e obs = evaluator_lineage e' obs"
  by (rule evaluator_lineage_cong) (simp_all add: ground_def)

lemma update_lineage_advance:
  assumes "d = fst (arrival_class (evaluator_lineage e (pf_observer f)) (pf_observer_incarnation f) (pf_sequence f))"
    and "accepted d"
  shows "evaluator_lineage (update_lineage f d e) obs =
    (if obs = pf_observer f then advance (evaluator_lineage e obs) (pf_observer_incarnation f) (pf_sequence f)
     else evaluator_lineage e obs)"
  using assms
  by (auto simp: evaluator_lineage_def update_lineage_def advance_def arrival_class_def btree_simps Let_def
      split: option.splits arrival_disposition.splits if_splits)


lemma agreed_retired:
  assumes "agreed r e" and "bs_contains (e_retired_subject_incarnations e) (pf_subject_incarnation (rp_frame r))
    \<or> effective_stale (ra_transport_observed_delay_ms (rp_receiver r)) (rp_frame r)"
  shows "(ra_disposition (rp_receiver r), ra_sequence_gap (rp_receiver r)) \<in> {(Stale, None), (Replay, None)}"
  using assms by (auto simp: agreed_def annotation_agrees_def classify_arrival_def split: if_splits)

text \<open>What \<open>ingest\<close> does to the lineages when it agrees with the annotation.\<close>

lemma ingest_lineage:
  assumes run: "run_op sha (Ingest r now) e = (e', Inr out)"
  shows "evaluator_lineage e' obs =
    (if agreed r e \<and> accepted (ra_disposition (rp_receiver r))
     then evaluator_lineage (update_lineage (rp_frame r) (ra_disposition (rp_receiver r)) e) obs
     else evaluator_lineage e obs)"
proof -
  let ?P = "ingest_pulse sha r now e" and ?u = "update_lineage (rp_frame r) (ra_disposition (rp_receiver r))"
  have e': "evaluator_lineage e' obs = evaluator_lineage ?P obs"
    by (rule evaluator_lineage_cong) (simp_all add: run_op_ok(1) [OF run])
  have u: "evaluator_lineage (?u x) obs = evaluator_lineage (?u e) obs"
    if "e_observer_lineages x = e_observer_lineages e"
      "e_retired_observer_incarnations x = e_retired_observer_incarnations e" for x
    using that by (intro evaluator_lineage_cong)
      (simp_all add: update_lineage_def Let_def split: option.split arrival_disposition.split)
  have acc: "accepted (ra_disposition (rp_receiver r)) \<longleftrightarrow>
      ra_disposition (rp_receiver r) \<notin> {Duplicate, Replay, Stale}"
    by (cases "ra_disposition (rp_receiver r)") simp_all
  consider (blind) "blinded r e ?P"
    | (drop) "agreed r e" "dropped r e" "ground ?P = ground (note_arrival r e)"
    | (late) "agreed r e" "unsupported r e" "ground ?P = ground (?u (note_arrival r e))"
    | (admit) c where "agreed r e" "\<not> dropped r e" "\<not> unsupported r e"
        "ground ?P = ground (put_evidence r c (admitting r e))"
    using ingest_ground [of r e sha now] by blast
  then show ?thesis
  proof cases
    case blind
    then have "\<not> agreed r e" by (auto simp: blinded_def agreed_def)
    moreover have "evaluator_lineage ?P obs = evaluator_lineage e obs"
      using blind by (auto simp: blinded_def intro!: evaluator_lineage_cong dest: ground_eqs(3,4))
    ultimately show ?thesis by (simp add: e')
  next
    case drop
    have "\<not> accepted (ra_disposition (rp_receiver r))"
      using drop(1,2) agreed_retired [of r e] by (auto simp: dropped_def)
    moreover have "evaluator_lineage ?P obs = evaluator_lineage e obs"
      using drop(3) by (auto intro!: evaluator_lineage_cong dest: ground_eqs(3,4))
    ultimately show ?thesis by (simp add: e')
  next
    case late
    then show ?thesis
      using evaluator_lineage_ground [OF late(3), of obs] u [of "note_arrival r e"] acc
      by (simp add: e' unsupported_def)
  next
    case (admit c)
    have "evaluator_lineage ?P obs = evaluator_lineage (admitting r e) obs"
      using evaluator_lineage_ground [OF admit(4), of obs] by (simp add: evaluator_lineage_def)
    also have "\<dots> = evaluator_lineage (?u e) obs"
      unfolding admitting_def by (rule u) (simp_all add: subject_changed_def)
    finally show ?thesis using admit acc by (simp add: e' dropped_def)
  qed
qed


interpretation evaluator_custody: sequence_custodian evaluator_lineage pf_observer "\<lambda>a. rp_frame (fst a)"
  "ingest_admits sha" "ingest_arrive sha" for sha
proof
  fix e and a :: "received_pulse \<times> u64" and obs
  let ?r = "fst a"
  let ?cls = "arrival_class (evaluator_lineage e (pf_observer (rp_frame ?r)))
      (pf_observer_incarnation (rp_frame ?r)) (pf_sequence (rp_frame ?r))"
  have cls: "(ra_disposition (rp_receiver ?r), ra_sequence_gap (rp_receiver ?r)) = ?cls" if "ingest_admits sha e a"
    using that classify_arrival_class [of "rp_receiver ?r" "rp_frame ?r" e]
    by (simp add: ingest_admits_def agreed_def annotation_agrees_def Let_def)
  show "snd (ingest_arrive sha e a) = Some ?cls" if "ingest_admits sha e a"
    using that cls [OF that] by (simp add: ingest_arrive_def ingest_admits_def Let_def)
  show "snd (ingest_arrive sha e a) \<in> {None, Some (Replay, None), Some (Stale, None)}"
    if "\<not> ingest_admits sha e a"
    using that agreed_retired [of ?r e] by (auto simp: ingest_arrive_def ingest_admits_def Let_def)
  show "evaluator_lineage (fst (ingest_arrive sha e a)) obs =
      (if obs = pf_observer (rp_frame ?r) \<and> ingest_admits sha e a
       then lineage_step (evaluator_lineage e obs) (pf_observer_incarnation (rp_frame ?r)) (pf_sequence (rp_frame ?r))
       else evaluator_lineage e obs)"
  proof (cases "snd (run_op sha (Ingest ?r (snd a)) e)")
    case (Inl err)
    then have "fst (run_op sha (Ingest ?r (snd a)) e) = e"
      using run_op_prepared [of sha "Ingest ?r (snd a)" e] by (auto simp: run_prepared_def evaluate_since_eq)
    then show ?thesis using Inl by (simp add: ingest_arrive_def ingest_admits_def Let_def is_ok_def)
  next
    case (Inr out)
    then have run: "run_op sha (Ingest ?r (snd a)) e = (fst (ingest_arrive sha e a), Inr out)"
      by (simp add: ingest_arrive_def Let_def prod_eq_iff)
    have refused: "\<not> accepted (ra_disposition (rp_receiver ?r))" if "agreed ?r e" "\<not> ingest_admits sha e a"
      using that Inr agreed_retired [OF that(1)] by (auto simp: ingest_admits_def Let_def is_ok_def)
    show ?thesis
    proof (cases "ingest_admits sha e a")
      case True
      then have "agreed ?r e" by (simp add: ingest_admits_def Let_def)
      moreover have "ra_disposition (rp_receiver ?r) = fst ?cls" using cls [OF True] by (metis fst_conv)
      ultimately show ?thesis
        using True update_lineage_advance [of "ra_disposition (rp_receiver ?r)" e "rp_frame ?r" obs]
        by (auto simp: ingest_lineage [OF run] lineage_step_def)
    next
      case False
      then show ?thesis using refused by (auto simp: ingest_lineage [OF run])
    qed
  qed
qed


section \<open>No occurrence is admitted twice\<close>

definition sound_lineage :: "lineage \<Rightarrow> bool" where
  "sound_lineage l \<longleftrightarrow> lineage_ok l \<and> (li_last l = None \<longrightarrow> li_retired l = {})"

lemma sound_advance:
  "sound_lineage l \<Longrightarrow> accepted (fst (arrival_class l inc sq)) \<Longrightarrow> sound_lineage (advance l inc sq)"
  by (auto simp: sound_lineage_def advance_last intro: advance_ok)

lemma sound_ingest:
  assumes "\<forall>obs. sound_lineage (evaluator_lineage e obs)" and run: "run_op sha (Ingest r now) e = (e', res)"
  shows "sound_lineage (evaluator_lineage e' obs)"
proof -
  have e': "fst (ingest_arrive sha e (r, now)) = e'" by (simp add: ingest_arrive_def Let_def run [simplified])
  show ?thesis
  proof (cases "takes (snd (ingest_arrive sha e (r, now))) \<and> pf_observer (rp_frame r) = obs")
    case True
    then show ?thesis
      using evaluator_custody.arrive_takes [of sha e "(r, now)" obs] assms(1) by (simp add: e' sound_advance)
  next
    case False
    then have "evaluator_lineage e' obs = evaluator_lineage e obs"
      using evaluator_custody.arrive_not_taken [of sha e "(r, now)" obs]
        evaluator_custody.view_arrive [of sha e "(r, now)" obs] by (auto simp: e')
    then show ?thesis using assms(1) by simp
  qed
qed

lemma empty_lineage [simp]:
  "e_observer_lineages e = [] \<Longrightarrow> e_retired_observer_incarnations e = [] \<Longrightarrow> sound_lineage (evaluator_lineage e obs)"
  by (simp add: sound_lineage_def evaluator_lineage_def lineage_ok_def bs_contains_def)

lemma evaluator_lineage_simps [simp]:
  "evaluator_lineage (fst (evaluate sha rn e)) obs = evaluator_lineage e obs"
  "evaluator_lineage (log_event at k e) obs = evaluator_lineage e obs"
  "evaluator_lineage (set_capability m at l d e) obs = evaluator_lineage e obs"
  "evaluator_lineage (import_one c e) obs = evaluator_lineage e obs"
  "evaluator_lineage (set_normal_trace b e) obs = evaluator_lineage e obs"
  "evaluator_lineage (mark_failure_start at e) obs = evaluator_lineage e obs"
  by (simp_all add: evaluator_lineage_def step_simps set_capability_def import_one_def set_normal_trace_def
      mark_failure_start_def)

interpretation lineages: evaluator_invariant sha "\<lambda>e. \<forall>obs. sound_lineage (evaluator_lineage e obs)" for sha
proof
  show "\<forall>obs. sound_lineage (evaluator_lineage e obs)" if "evaluator_new p r ri c i = Inr e" for p r ri c i e
    using evaluator_new_ok [OF that] by (simp add: evaluator_initial_def)
  show "\<forall>obs. sound_lineage (evaluator_lineage (prepared sha op e) obs)"
    if inv: "\<forall>obs. sound_lineage (evaluator_lineage e obs)" and run: "run_op sha op e = (e', Inr out)" for e op e' out
  proof (cases op)
    case (Ingest r now)
    then show ?thesis
      using sound_ingest [OF inv run [unfolded Ingest]] run_op_ok(1) [OF run] by simp
  next
    case (ReplacePolicy p b at)
    then show ?thesis using inv by (simp add: forget_observers_def) (simp add: evaluator_lineage_def)
  next
    case (ReplaceSubjectIncarnation i at)
    then show ?thesis by (simp add: subject_replaced_def forget_observers_def Let_def)
  qed (use inv in \<open>simp_all add: step_simps evaluator_lineage_def set_capability_def split: option.split\<close>)
qed simp_all

text \<open>
  C27: the evaluator admits no occurrence twice. Whatever is delivered to a reachable evaluator, in
  whatever order and with whatever annotations, no pulse of an observer (one observer incarnation and
  sequence number) is accepted more than once, and none that lies behind the observer's lineage already.
\<close>

theorem evaluator_accepts_once:
  assumes "reachable sha e"
  shows "distinct (map occurrence (filter (\<lambda>f. pf_observer f = obs)
      (custody_run (ingest_arrive sha) (\<lambda>a. rp_frame (fst a)) e arrivals)))
    \<and> occurrence ` {f \<in> set (custody_run (ingest_arrive sha) (\<lambda>a. rp_frame (fst a)) e arrivals). pf_observer f = obs}
        \<inter> behind (evaluator_lineage e obs) = {}"
proof -
  have "sound_lineage (evaluator_lineage e obs)" using lineages.holds_reachable [OF assms] by blast
  then show ?thesis by (intro evaluator_custody.accepted_once) (simp_all add: sound_lineage_def)
qed


theorem evaluator_accepts_once_witness:
  "sample_pulse 7 \<notin> set (custody_run (ingest_arrive sample_sha) (\<lambda>a. rp_frame (fst a)) sample_current
     [(sample_received, 120), (sample_received, 130)])"
proof -
  have "occurrence (sample_pulse 7) \<in> behind (evaluator_lineage sample_current ''probe-1'')"
    by (simp add: occurrence_def behind_def evaluator_lineage_def bt_get_def)
  moreover have "pf_observer (sample_pulse 7) = ''probe-1''" by simp
  ultimately show ?thesis
    using evaluator_accepts_once [OF sample_reachable(2), of "''probe-1''" "[(sample_received, 120), (sample_received, 130)]"]
    by blast
qed

section \<open>Tracker and evaluator in step\<close>

definition stream_of :: "reliance_policy \<Rightarrow> observer_id \<Rightarrow> receiver_stream_key" where
  "stream_of p obs =
     ReceiverStreamKey (po_subject p) obs (po_observation_profile p) (po_observation_policy_generation p)"

text \<open>The tracker and the evaluator hold the same view of the evaluator's subject.\<close>

definition in_step :: "receiver_tracker \<Rightarrow> evaluator \<Rightarrow> bool" where
  "in_step tr e \<longleftrightarrow>
     tr_receiver tr = e_receiver e \<and> tr_receiver_incarnation tr = e_receiver_incarnation e
     \<and> tr_clock_id tr = e_clock_id e
     \<and> (\<forall>obs. tracker_lineage tr (stream_of (e_policy e) obs) = evaluator_lineage e obs)
     \<and> bt_get (tr_subject_incarnations tr) (po_subject (e_policy e)) = Some (e_current_subject_incarnation e)
     \<and> (\<forall>i. bs_contains (tr_retired_subject_incarnations tr) (po_subject (e_policy e), i)
           \<longleftrightarrow> bs_contains (e_retired_subject_incarnations e) i)"

text \<open>A frame of the subject, profile and generation that the evaluator's policy names.\<close>

definition addressed :: "pulse_frame \<Rightarrow> evaluator \<Rightarrow> bool" where
  "addressed f e \<longleftrightarrow> pf_subject f = po_subject (e_policy e)
     \<and> pf_observation_policy_generation f = po_observation_policy_generation (e_policy e)
     \<and> pf_profile f = po_observation_profile (e_policy e)"

lemma addressed_stream: "addressed f e \<Longrightarrow> stream_of (e_policy e) obs = stream_key f \<longleftrightarrow> obs = pf_observer f"
  by (auto simp: addressed_def stream_of_def stream_key_def)

text \<open>What the annotation says is what the evaluator would say.\<close>

lemma annotation_fields:
  assumes "annotate_arrival sha tr a = (tr', Inr an)"
  shows "ra_receiver an = tr_receiver tr" "ra_receiver_incarnation an = tr_receiver_incarnation tr"
    "ra_clock_id an = tr_clock_id tr" "ra_arrival_monotonic_ms an = ar_at_ms a"
    "ra_transport_observed_delay_ms an = ar_delay_ms a"
    "tr_receiver tr' = tr_receiver tr" "tr_receiver_incarnation tr' = tr_receiver_incarnation tr"
    "tr_clock_id tr' = tr_clock_id tr"
proof -
  have n: "tr_receiver (note_subject tr f) = tr_receiver tr"
    "tr_receiver_incarnation (note_subject tr f) = tr_receiver_incarnation tr"
    "tr_clock_id (note_subject tr f) = tr_clock_id tr" for f
    by (simp_all add: note_subject_def split: option.split)
  have c: "tr_receiver (fst (classify_stream x f)) = tr_receiver x"
    "tr_receiver_incarnation (fst (classify_stream x f)) = tr_receiver_incarnation x"
    "tr_clock_id (fst (classify_stream x f)) = tr_clock_id x" for x f
    by (simp_all add: classify_stream_def put_stream_def Let_def split: option.split)
  show "ra_receiver an = tr_receiver tr" "ra_receiver_incarnation an = tr_receiver_incarnation tr"
    "ra_clock_id an = tr_clock_id tr" "ra_arrival_monotonic_ms an = ar_at_ms a"
    "ra_transport_observed_delay_ms an = ar_delay_ms a"
    "tr_receiver tr' = tr_receiver tr" "tr_receiver_incarnation tr' = tr_receiver_incarnation tr"
    "tr_clock_id tr' = tr_clock_id tr"
    using assms n c [of "note_subject tr (ar_frame a)" "ar_frame a"]
    by (auto simp: annotate_arrival_def annotate_def observe_frame_def annotation_def
        split: sum.splits if_splits prod.splits)
qed

lemma in_step_agrees:
  assumes step: "in_step tr e" and an: "annotate_arrival sha tr a = (tr', Inr an)"
    and addr: "addressed (ar_frame a) e"
  shows "annotation_agrees \<lparr>rp_frame = ar_frame a, rp_receiver = an\<rparr> e"
proof -
  let ?f = "ar_frame a"
  have valid: "frame_validate sha ?f = Inr ()"
    using an by (auto simp: annotate_arrival_def annotate_def split: sum.splits)
  have ret: "retired_subject tr ?f \<longleftrightarrow> bs_contains (e_retired_subject_incarnations e) (pf_subject_incarnation ?f)"
    using step addr by (simp add: retired_subject_def in_step_def addressed_def)
  have verdict: "snd (tracker_arrive sha tr a) = Some (ra_disposition an, ra_sequence_gap an)"
    by (simp add: tracker_arrive_def an)
  show ?thesis
  proof (cases "tracker_admits sha tr a")
    case True
    have lin: "tracker_lineage tr (stream_key ?f) = evaluator_lineage e (pf_observer ?f)"
      using step addressed_stream [OF addr, of "pf_observer ?f"] unfolding in_step_def by metis
    have "classify_arrival e ?f an = arrival_class (evaluator_lineage e (pf_observer ?f))
        (pf_observer_incarnation ?f) (pf_sequence ?f)"
      using True ret by (intro classify_arrival_class) (simp_all add: tracker_admits_def annotation_fields [OF an])
    then show ?thesis
      using tracker.arrive_class [OF True] verdict by (simp add: annotation_agrees_def lin)
  next
    case False
    then have "classify_arrival e ?f an = (if effective_stale (ar_delay_ms a) ?f then (Stale, None) else (Replay, None))"
      using valid ret by (auto simp: tracker_admits_def classify_arrival_def annotation_fields [OF an])
    moreover have "(ra_disposition an, ra_sequence_gap an)
        = (if effective_stale (ar_delay_ms a) ?f then (Stale, None) else (Replay, None))"
      using an valid False
      by (auto simp: tracker_admits_def annotate_arrival_def annotate_def observe_frame_def annotation_def
          split: if_splits prod.splits)
    ultimately show ?thesis by (simp add: annotation_agrees_def)
  qed
qed


text \<open>The subject incarnations on both sides.\<close>

lemma tracker_subjects:
  assumes "annotate_arrival sha tr a = (tr', Inr an)"
  shows "(tr_subject_incarnations tr', tr_retired_subject_incarnations tr') =
    (if effective_stale (ar_delay_ms a) (ar_frame a) then (tr_subject_incarnations tr, tr_retired_subject_incarnations tr)
     else (tr_subject_incarnations (note_subject tr (ar_frame a)),
           tr_retired_subject_incarnations (note_subject tr (ar_frame a))))"
proof -
  obtain t d g where c: "classify_stream (note_subject tr (ar_frame a)) (ar_frame a) = (t, d, g)"
    by (cases "classify_stream (note_subject tr (ar_frame a)) (ar_frame a)")
  have "tr_subject_incarnations (fst (classify_stream x f)) = tr_subject_incarnations x
      \<and> tr_retired_subject_incarnations (fst (classify_stream x f)) = tr_retired_subject_incarnations x" for x f
    by (simp add: classify_stream_def put_stream_def Let_def split: option.split)
  from this [of "note_subject tr (ar_frame a)" "ar_frame a"]
  have t: "tr_subject_incarnations t = tr_subject_incarnations (note_subject tr (ar_frame a))"
    "tr_retired_subject_incarnations t = tr_retired_subject_incarnations (note_subject tr (ar_frame a))"
    by (simp_all add: c)
  show ?thesis
    using assms t by (auto simp: annotate_arrival_def annotate_def observe_frame_def c
        split: sum.splits if_splits)
qed

lemma ingest_subjects:
  assumes run: "run_op sha (Ingest r now) e = (e', Inr out)" and "agreed r e"
  shows "(e_current_subject_incarnation e', e_retired_subject_incarnations e') =
    (if dropped r e \<or> unsupported r e \<or> pf_subject_incarnation (rp_frame r) = e_current_subject_incarnation e
     then (e_current_subject_incarnation e, e_retired_subject_incarnations e)
     else (pf_subject_incarnation (rp_frame r),
           bs_insert (e_current_subject_incarnation e) (e_retired_subject_incarnations e)))"
proof -
  let ?P = "ingest_pulse sha r now e"
  have e': "e_current_subject_incarnation e' = e_current_subject_incarnation ?P"
    "e_retired_subject_incarnations e' = e_retired_subject_incarnations ?P"
    by (simp_all add: run_op_ok(1) [OF run])
  have "\<not> blinded r e ?P" using assms(2) by (auto simp: blinded_def agreed_def)
  then consider
      "dropped r e" "ground ?P = ground (note_arrival r e)"
    | "unsupported r e" "ground ?P = ground (update_lineage (rp_frame r) (ra_disposition (rp_receiver r)) (note_arrival r e))"
    | c where "\<not> dropped r e" "\<not> unsupported r e" "ground ?P = ground (put_evidence r c (admitting r e))"
    using ingest_ground [of r e sha now] by blast
  then show ?thesis
  proof cases
    case 1
    then show ?thesis using ground_eqs(1,2) [OF 1(2)] by (simp add: e')
  next
    case 2
    then show ?thesis using ground_eqs(1,2) [OF 2(2)] by (simp add: e')
  next
    case 3
    then show ?thesis
      using ground_eqs(1,2) [OF 3(3)] by (simp add: e' admitting_def subject_changed_def)
  qed
qed

definition moves_together :: "received_pulse \<Rightarrow> evaluator \<Rightarrow> bool" where
  "moves_together r e \<longleftrightarrow>
     pf_subject_incarnation (rp_frame r) = e_current_subject_incarnation e
     \<or> bs_contains (e_retired_subject_incarnations e) (pf_subject_incarnation (rp_frame r))
     \<or> effective_stale (ra_transport_observed_delay_ms (rp_receiver r)) (rp_frame r)
     \<or> accepted (ra_disposition (rp_receiver r)) \<and> observed_delay r < effective_validity r e"

text \<open>
  C3: a receiver and an evaluator that agree keep agreeing, one arrival at a time. If tracker and
  evaluator hold the same lineages and subject incarnations, the tracker annotates a pulse addressed to
  the evaluator's policy, the annotated pulse is valid, it arrived no later than it is ingested and no
  earlier than the last arrival, and a pulse of a subject incarnation that is neither the current nor a
  retired one, and not stale, is one both accept (accepted by its sequence, and not delayed beyond the
  validity the policy grants it), then \<open>ingest\<close> succeeds, finds the annotation to be its own verdict (so
  that it does not blind the monitor), and both hold the same view afterwards, whatever the arrival is:
  new, duplicate, replayed, stale, after a gap or a restart. \<open>refused_pulse_retires_subject\<close> shows what
  happens without the last condition.
\<close>

theorem tracker_and_evaluator_stay_in_step:
  assumes step: "in_step tr e" and an: "annotate_arrival sha tr a = (tr', Inr an)"
    and addr: "addressed (ar_frame a) e" and r: "r = \<lparr>rp_frame = ar_frame a, rp_receiver = an\<rparr>"
    and valid: "received_validate sha r = Inr ()" and "ar_at_ms a \<le> now" and "\<not> arrival_regressed r e"
    and together: "moves_together r e"
  shows "\<exists>e' out. ingest sha r now e = (e', Inr out) \<and> annotation_agrees r e \<and> in_step tr' e'"
proof -
  let ?f = "ar_frame a"
  have rf: "rp_frame r = ?f" "rp_receiver r = an" by (simp_all add: r)
  have agrees: "annotation_agrees r e" unfolding r by (rule in_step_agrees [OF step an addr])
  then have agreed: "agreed r e" using assms(7) by (simp add: agreed_def)
  note fields = annotation_fields [OF an]
  have "validate_binding e r = Inr ()"
    using step addr by (simp add: validate_binding_def r fields in_step_def addressed_def)
  then obtain e' out where run: "run_op sha (Ingest r now) e = (e', Inr out)"
    using valid leD [OF assms(6)] by (simp add: ingest_def r fields evaluate_since_eq)
  have e': "fst (ingest_arrive sha e (r, now)) = e'" "e_policy e' = e_policy e" "e_receiver e' = e_receiver e"
    "e_receiver_incarnation e' = e_receiver_incarnation e" "e_clock_id e' = e_clock_id e"
    using prepared_policy [of sha "Ingest r now" e] judging_ingest(1) [of sha r now e]
    by (simp_all add: ingest_arrive_def Let_def run [simplified] run_op_ok(1) [OF run] judging_def)
  have ret: "retired_subject tr ?f \<longleftrightarrow> bs_contains (e_retired_subject_incarnations e) (pf_subject_incarnation ?f)"
    using step addr by (simp add: retired_subject_def in_step_def addressed_def)
  have frame_ok: "frame_validate sha ?f = Inr ()"
    using an by (auto simp: annotate_arrival_def annotate_def split: sum.splits)
  have "ingest_admits sha e (r, now) \<longleftrightarrow> tracker_admits sha tr a"
    using agreed run ret frame_ok by (simp add: ingest_admits_def tracker_admits_def rf fields)
  then have lin: "tracker_lineage tr' (stream_of (e_policy e) obs) = evaluator_lineage e' obs" for obs
    using tracker.view_arrive [of sha tr a "stream_of (e_policy e) obs"]
      evaluator_custody.view_arrive [of sha e "(r, now)" obs] step addressed_stream [OF addr, of obs]
    by (auto simp: e' tracker_arrive_def an in_step_def rf)
  have subj: "bt_get (tr_subject_incarnations tr') (po_subject (e_policy e)) = Some (e_current_subject_incarnation e')
      \<and> (bs_contains (tr_retired_subject_incarnations tr') (po_subject (e_policy e), i)
           \<longleftrightarrow> bs_contains (e_retired_subject_incarnations e') i)" for i
  proof (cases "effective_stale (ar_delay_ms a) ?f \<or> retired_subject tr ?f")
    case True
    have "dropped r e \<or> unsupported r e"
      using agreed_retired [OF agreed] True ret by (auto simp: dropped_def rf fields)
    moreover have "tr_subject_incarnations tr' = tr_subject_incarnations tr"
      "tr_retired_subject_incarnations tr' = tr_retired_subject_incarnations tr"
      using True tracker_subjects [OF an] by (auto simp: note_subject_def split: if_splits)
    ultimately show ?thesis using ingest_subjects [OF run agreed] step by (auto simp: in_step_def)
  next
    case False
    then have disp: "dropped r e \<or> unsupported r e \<Longrightarrow> pf_subject_incarnation ?f = e_current_subject_incarnation e"
      using together ret by (auto simp: moves_together_def dropped_def unsupported_def rf fields)
    have "tr_subject_incarnations tr' = tr_subject_incarnations (note_subject tr ?f)"
      "tr_retired_subject_incarnations tr' = tr_retired_subject_incarnations (note_subject tr ?f)"
      using False tracker_subjects [OF an] by simp_all
    then show ?thesis
      using False ingest_subjects [OF run agreed] step addr disp
      by (cases "pf_subject_incarnation ?f = e_current_subject_incarnation e")
         (auto simp: note_subject_def in_step_def addressed_def rf bt_get_insert bs_contains_insert split: if_splits)
  qed
  show ?thesis
    using run agrees lin subj step by (auto simp: in_step_def e' fields)
qed


definition sample_arrival :: arrival where
  "sample_arrival = \<lparr>ar_frame = sample_pulse 7, ar_at_ms = 100, ar_path = ''udp'', ar_delay_ms = None,
     ar_authentication = NotChecked\<rparr>"

definition sample_active_tracker :: receiver_tracker where
  "sample_active_tracker = fst (activate_subject_incarnation sample_tracker ''host-a'' ''boot-1'')"

lemma sample_active_tracker_eq:
  "sample_active_tracker = sample_tracker\<lparr>tr_subject_incarnations := [(''host-a'', ''boot-1'')]\<rparr>"
proof -
  have "good_identity ''host-a''" "good_identity ''boot-1''" by code_simp+
  then have "validate_identity ''SubjectId'' ''host-a'' = Inr ()" "validate_identity ''IncarnationId'' ''boot-1'' = Inr ()"
    by (simp_all only: validate_identity_ok)
  then show ?thesis
    by (simp add: sample_active_tracker_def activate_subject_incarnation_def sample_tracker_def tracker_new_def Let_def)
qed

lemma sample_in_step: "in_step sample_active_tracker sample_evaluator"
  by (simp add: in_step_def sample_active_tracker_eq sample_tracker_def tracker_new_def tracker_lineage_def
      evaluator_lineage_def bs_contains_def bt_get_def) (simp add: sample_policy_def)

lemma sample_annotation:
  "snd (annotate_arrival sample_sha sample_active_tracker sample_arrival) = Inr (rp_receiver sample_received)"
  by (simp add: annotate_arrival_def annotate_def sample_arrival_def sample_pulse_valid effective_stale_def
      observe_frame_def retired_subject_def note_subject_def sample_active_tracker_eq sample_tracker_def
      tracker_new_def bs_contains_def bt_get_def classify_stream_def put_stream_def annotation_def
      sample_received_def)

theorem tracker_and_evaluator_stay_in_step_witness:
  "\<exists>tr' e' out. annotate_arrival sample_sha sample_active_tracker sample_arrival = (tr', Inr (rp_receiver sample_received))
     \<and> ingest sample_sha sample_received 110 sample_evaluator = (e', Inr out) \<and> in_step tr' e'"
proof -
  obtain tr' where an: "annotate_arrival sample_sha sample_active_tracker sample_arrival = (tr', Inr (rp_receiver sample_received))"
    using sample_annotation by (metis prod.collapse)
  have r: "sample_received = \<lparr>rp_frame = ar_frame sample_arrival, rp_receiver = rp_receiver sample_received\<rparr>"
    by (simp add: sample_received_def sample_arrival_def)
  have "addressed (ar_frame sample_arrival) sample_evaluator"
    by (simp add: addressed_def sample_arrival_def) (simp add: sample_policy_def)
  moreover have "ar_at_ms sample_arrival \<le> 110" by (simp add: sample_arrival_def)
  moreover have "\<not> arrival_regressed sample_received sample_evaluator" by (simp add: arrival_regressed_def)
  moreover have "moves_together sample_received sample_evaluator"
    by (simp add: moves_together_def) (simp add: sample_received_def)
  ultimately show ?thesis
    using tracker_and_evaluator_stay_in_step [OF sample_in_step an _ r sample_received_valid] an by blast
qed

section \<open>How the two fall out of step\<close>

text \<open>
  C33: a refused pulse can retire the live subject. If a pulse carries another subject incarnation than
  the one the tracker holds, that incarnation is not retired, and the tracker answers the pulse Duplicate or
  Replay, then the tracker has nevertheless retired the incarnation it held and adopted the pulse's, while
  every evaluator in step with it to whose policy the pulse is addressed, and which ingests the pulse with
  an arrival that has not regressed, keeps its incarnation: it holds one the tracker has retired, and the
  two are out of step.
\<close>

theorem refused_pulse_retires_subject:
  assumes an: "annotate_arrival sha tr a = (tr', Inr an)"
    and held: "bt_get (tr_subject_incarnations tr) (pf_subject (ar_frame a)) = Some i"
    and other: "pf_subject_incarnation (ar_frame a) \<noteq> i" and "\<not> retired_subject tr (ar_frame a)"
    and refused: "ra_disposition an \<in> {Duplicate, Replay}"
  shows "bs_contains (tr_retired_subject_incarnations tr') (pf_subject (ar_frame a), i)
    \<and> bt_get (tr_subject_incarnations tr') (pf_subject (ar_frame a)) = Some (pf_subject_incarnation (ar_frame a))
    \<and> (\<forall>e e' out r now. r = \<lparr>rp_frame = ar_frame a, rp_receiver = an\<rparr> \<longrightarrow> in_step tr e \<longrightarrow> addressed (ar_frame a) e
         \<longrightarrow> \<not> arrival_regressed r e \<longrightarrow> ingest sha r now e = (e', Inr out)
         \<longrightarrow> e_current_subject_incarnation e' = i \<and> \<not> in_step tr' e')"
proof -
  have "\<not> effective_stale (ar_delay_ms a) (ar_frame a)"
    using an refused by (auto simp: annotate_arrival_def annotate_def annotation_def split: sum.splits if_splits)
  then have tr': "bt_get (tr_subject_incarnations tr') (pf_subject (ar_frame a)) = Some (pf_subject_incarnation (ar_frame a))"
    "bs_contains (tr_retired_subject_incarnations tr') (pf_subject (ar_frame a), i)"
    using tracker_subjects [OF an] held other assms(4)
    by (auto simp: note_subject_def bt_get_insert bs_contains_insert)
  have "e_current_subject_incarnation e' = i \<and> \<not> in_step tr' e'"
    if r: "r = \<lparr>rp_frame = ar_frame a, rp_receiver = an\<rparr>" and step: "in_step tr e" and addr: "addressed (ar_frame a) e"
      and "\<not> arrival_regressed r e" and run: "ingest sha r now e = (e', Inr out)" for e e' out r now
  proof -
    have "agreed r e" using in_step_agrees [OF step an addr] that(4) by (simp add: agreed_def r)
    moreover have "dropped r e" using refused by (auto simp: dropped_def r)
    ultimately have "e_current_subject_incarnation e' = e_current_subject_incarnation e"
      using ingest_subjects [of sha r now e e' out] run by simp
    moreover have "e_current_subject_incarnation e = i" "po_subject (e_policy e) = pf_subject (ar_frame a)"
      using step addr held by (simp_all add: in_step_def addressed_def)
    moreover have "e_policy e' = e_policy e"
      using prepared_policy [of sha "Ingest r now" e] run_op_ok(1) [of sha "Ingest r now" e e' out] run by simp
    ultimately show ?thesis using tr'(1) other by (auto simp: in_step_def)
  qed
  then show ?thesis using tr' by blast
qed


text \<open>The same occurrence again, as if observed on another incarnation of the subject.\<close>

definition sample_other_arrival :: arrival where
  "sample_other_arrival = sample_arrival\<lparr>ar_frame :=
     seal sample_sha ((sample_pulse 7)\<lparr>pf_subject_incarnation := ''boot-2''\<rparr>)\<rparr>"

lemma sample_other_frame:
  "frame_validate sample_sha (ar_frame sample_other_arrival) = Inr ()"
  "pf_subject (ar_frame sample_other_arrival) = ''host-a''"
  "pf_subject_incarnation (ar_frame sample_other_arrival) = ''boot-2''"
  "stream_key (ar_frame sample_other_arrival) = stream_key (sample_pulse 7)"
  "pf_observer_incarnation (ar_frame sample_other_arrival) = ''run-1''"
  "pf_sequence (ar_frame sample_other_arrival) = 7"
proof -
  have "list_all good_identity [''host-a'', ''boot-2'', ''probe-1'', ''run-1'', ''gen-1'']"
    "list_all good_field [''host-v1'', ''cpu'', ''disk'', ''load'', ''ratio'', ''none'']"
    by code_simp+
  moreover have "is_finite 0x3FF8000000000000" by (simp add: is_finite_def f64_exp_def)
  ultimately show "frame_validate sample_sha (ar_frame sample_other_arrival) = Inr ()"
    unfolding frame_validate_ok
    by (auto simp: sample_other_arrival_def sample_pulse_def seal_def frame_shape_ok_def
        recompute_observation_digest_def observation_parts_def sample_digest_parts profile_ok_def
        sample_profile_def sample_digest_def coverage_ok_def sample_coverage_def signals_ok_def
        sample_signal_def authentication_field_ok_def MAX_VALIDITY_MS_def MAX_COVERAGE_TAGS_def MAX_SIGNALS_def)
qed (simp_all add: sample_other_arrival_def sample_pulse_def seal_def stream_key_def)

theorem refused_pulse_retires_subject_witness:
  "let tr = fst (annotate_arrival sample_sha sample_active_tracker sample_arrival) in
   \<exists>tr' an. annotate_arrival sample_sha tr sample_other_arrival = (tr', Inr an) \<and> ra_disposition an = Duplicate
     \<and> bs_contains (tr_retired_subject_incarnations tr') (''host-a'', ''boot-1'')"
proof -
  define tr where "tr = fst (annotate_arrival sample_sha sample_active_tracker sample_arrival)"
  have tr: "tr_streams tr = [(stream_key (sample_pulse 7), \<lparr>rs_incarnation = ''run-1'', rs_sequence = 7\<rparr>)]"
    "tr_subject_incarnations tr = [(''host-a'', ''boot-1'')]" "tr_retired_subject_incarnations tr = []"
    by (simp_all add: tr_def annotate_arrival_def annotate_def sample_arrival_def sample_pulse_valid
        effective_stale_def observe_frame_def retired_subject_def note_subject_def sample_active_tracker_eq
        sample_tracker_def tracker_new_def bs_contains_def bt_get_def classify_stream_def put_stream_def)
  have held: "bt_get (tr_subject_incarnations tr) (pf_subject (ar_frame sample_other_arrival)) = Some ''boot-1''"
    and fresh: "\<not> retired_subject tr (ar_frame sample_other_arrival)"
    by (simp_all add: tr sample_other_frame bt_get_def retired_subject_def bs_contains_def)
  have other: "pf_subject_incarnation (ar_frame sample_other_arrival) \<noteq> ''boot-1''" by (simp add: sample_other_frame)
  have "ar_delay_ms sample_other_arrival = None" by (simp add: sample_other_arrival_def sample_arrival_def)
  then obtain tr' an where an: "annotate_arrival sample_sha tr sample_other_arrival = (tr', Inr an)"
    and dup: "ra_disposition an = Duplicate"
    using fresh tr by (simp add: annotate_arrival_def annotate_def sample_other_frame effective_stale_def
        observe_frame_def classify_stream_def bt_get_def annotation_def)
  then show ?thesis
    using refused_pulse_retires_subject [OF an held other fresh] by (simp add: sample_other_frame tr_def)
qed

end
