(* ===== verification/Reliance.thy ===== *)
theory Reliance
  imports Samples
begin

text \<open>
  What a consumer may rely on: when a judgment is CURRENT and for how long, what withholds it, and
  what the operations of the evaluator leave of it.
\<close>

section \<open>When a judgment is CURRENT\<close>

text \<open>
  C1: a judgment is CURRENT exactly under the stated conditions. For every operation on a reachable
  evaluator, the judgment returned is CURRENT if and only if the operation is not a context change and,
  in the state the operation leaves, no contradiction is active, no fresh eligible evidence violates its
  bound, every required tag is covered by enough independent failure domains, verified authentication is
  present where required, the fresh evidence shows neither a gap nor a restart, and the monitor is
  operational.
\<close>

theorem current_iff_supported:
  assumes "reachable sha e" and run: "run_op sha op e = (e', Inr out)"
  shows "ju_category (eo_judgment out) = Current \<longleftrightarrow>
    \<not> barring op \<and> current_conditions e' (ju_evaluated_at_ms (eo_judgment out))"
proof -
  have "policy_ok (e_policy e')" by (rule policies.holds_run [OF policies.holds_reachable [OF assms(1)] run])
  then show ?thesis
    using prepared_barrier [OF reachable_unbarred [OF assms(1)], of sha op]
    by (simp add: run_op_category(1) [OF run] derive_current_iff)
qed

theorem current_iff_supported_witness:
  "current_conditions sample_current 110"
proof -
  obtain out where run: "run_op sample_sha (Ingest sample_received 110) sample_evaluator = (sample_current, Inr out)"
    and cur: "ju_category (eo_judgment out) = Current" and now: "ju_evaluated_at_ms (eo_judgment out) = 110"
    and dl: "ju_support_expires_at_ms (eo_judgment out) = Some 1100"
    and last: "e_last_judgment sample_current = Some (eo_judgment out)"
    by (rule sample_run)
  from current_iff_supported [OF sample_reachable(1) run] show ?thesis by (simp add: cur now)
qed

section \<open>How long it stays CURRENT\<close>

lemma tick_returns: "\<exists>e' out. run_op sha (Tick t) e = (e', Inr out)"
  by (simp add: tick_def) (metis evaluate_pair)

lemma tick_later:
  assumes "e_last_evaluation_ms e = Some l" and "l \<le> t" and "e_reevaluation_barrier e = None"
    and run: "run_op sha (Tick t) e = (e', Inr out)"
  shows "ju_evaluated_at_ms (eo_judgment out) = t" and "hot e' = hot e"
    and "ju_category (eo_judgment out) = derive_category e t"
proof -
  have clock: "evaluation_clock t e = (e, t)" using assms(1,2) by (auto simp: evaluation_clock_def)
  show now: "ju_evaluated_at_ms (eo_judgment out) = t"
    using clock by (simp add: run_op_ok(2) [OF run] evaluated_now_def)
  show hot: "hot e' = hot e"
    using kept_hot [OF evaluate_kept [of sha t e]] clock by (simp add: run_op_ok(1) [OF run])
  show "ju_category (eo_judgment out) = derive_category e t"
    using hot_category [OF hot, of t] assms(3) by (simp add: run_op_category(1) [OF run] now)
qed

text \<open>
  C2: the support deadline of a CURRENT judgment is exact. If an operation returned CURRENT, then
  evaluating again at any later instant, with nothing else in between, returns CURRENT if and only if
  the instant is before the deadline that the judgment reported (before the end of the clock when it
  reported none). Silence therefore ends CURRENT at the deadline, and never earlier.
\<close>

theorem tick_current_until_deadline:
  assumes "reachable sha e" and run: "run_op sha op e = (e1, Inr out)"
    and cur: "ju_category (eo_judgment out) = Current" and later: "ju_evaluated_at_ms (eo_judgment out) \<le> t"
  shows "\<exists>e2 out2. tick sha t e1 = (e2, Inr out2) \<and> ju_evaluated_at_ms (eo_judgment out2) = t
    \<and> (ju_category (eo_judgment out2) = Current \<longleftrightarrow>
         t < support_until (ju_support_expires_at_ms (eo_judgment out)))"
proof -
  obtain e2 out2 where tick: "run_op sha (Tick t) e1 = (e2, Inr out2)" using tick_returns by blast
  let ?now = "ju_evaluated_at_ms (eo_judgment out)"
  have ok: "policy_ok (e_policy e1)" by (rule policies.holds_run [OF policies.holds_reachable [OF assms(1)] run])
  have barrier: "e_reevaluation_barrier (prepared sha op e) = None"
    using cur by (auto simp: run_op_category(1) [OF run] split: if_splits)
  then have cat: "derive_category e1 ?now = Current"
    and dl: "ju_support_expires_at_ms (eo_judgment out) = ds_support_deadline_ms (derive e1 ?now)"
    using cur by (simp_all add: run_op_category [OF run])
  note nxt = tick_later [OF run_op_time(1) [OF run] later run_op_time(2) [OF run] tick]
  show ?thesis
    using tick nxt support_deadline_exact [OF ok cat later] by (auto simp: dl)
qed

theorem tick_current_until_deadline_witness:
  "\<exists>e2 out2. tick sample_sha 1099 sample_current = (e2, Inr out2) \<and> ju_category (eo_judgment out2) = Current"
proof -
  obtain out where run: "run_op sample_sha (Ingest sample_received 110) sample_evaluator = (sample_current, Inr out)"
    and cur: "ju_category (eo_judgment out) = Current" and now: "ju_evaluated_at_ms (eo_judgment out) = 110"
    and dl: "ju_support_expires_at_ms (eo_judgment out) = Some 1100"
    and last: "e_last_judgment sample_current = Some (eo_judgment out)"
    by (rule sample_run)
  from tick_current_until_deadline [OF sample_reachable(1) run cur, of 1099] show ?thesis
    by (auto simp: now dl support_until_def)
qed


section \<open>What withholds CURRENT\<close>

text \<open>Without a barrier before it, an evaluation under a barrier asks for nothing.\<close>

lemma barred_request: "e_reevaluation_barrier e \<noteq> None \<Longrightarrow> eo_escalation_request (evaluated_output sha rn e) = None"
  by (auto simp: evaluated_output_def evaluated_steps_def evaluation_escalation_def Let_def case_prod_unfold)

text \<open>
  C26: a change of context is never inherited. Replacing the policy, installing a barrier, replacing the
  subject incarnation and restoring the monitor each return UNKNOWN, with no support deadline and no
  diagnostic request, whatever the evidence; and the barrier is spent by that one evaluation, so that a
  separate evaluation afterwards judges the evidence afresh.
\<close>

theorem context_change_withholds_standing:
  assumes "reachable sha e" and "barring op" and run: "run_op sha op e = (e', Inr out)"
  shows "ju_category (eo_judgment out) = Unknown \<and> ju_support_expires_at_ms (eo_judgment out) = None
    \<and> eo_escalation_request out = None
    \<and> (\<forall>t \<ge> ju_evaluated_at_ms (eo_judgment out). \<exists>e2 out2. tick sha t e' = (e2, Inr out2)
         \<and> (ju_category (eo_judgment out2) = Current \<longleftrightarrow> current_conditions e' t))"
proof -
  have barrier: "e_reevaluation_barrier (prepared sha op e) \<noteq> None"
    using prepared_barrier [OF reachable_unbarred [OF assms(1)], of sha op] assms(2) by simp
  have ok: "policy_ok (e_policy e')" by (rule policies.holds_run [OF policies.holds_reachable [OF assms(1)] run])
  have "\<exists>e2 out2. tick sha t e' = (e2, Inr out2)
      \<and> (ju_category (eo_judgment out2) = Current \<longleftrightarrow> current_conditions e' t)"
    if later: "ju_evaluated_at_ms (eo_judgment out) \<le> t" for t
  proof -
    obtain e2 out2 where tick: "run_op sha (Tick t) e' = (e2, Inr out2)" using tick_returns by blast
    then show ?thesis
      using tick_later(3) [OF run_op_time(1) [OF run] later run_op_time(2) [OF run] tick]
        derive_current_iff [OF ok, of t] by auto
  qed
  moreover have "ju_category (eo_judgment out) = Unknown \<and> ju_support_expires_at_ms (eo_judgment out) = None
    \<and> eo_escalation_request out = None"
    using barrier by (auto simp: run_op_category [OF run] run_op_ok(4) [OF run] barred_request)
  ultimately show ?thesis by blast
qed

theorem context_change_withholds_standing_witness:
  "\<exists>e2 out. run_op sample_sha (InstallBarrier (ReceiverRestart ''restarted'') 120) sample_current = (e2, Inr out)
     \<and> ju_category (eo_judgment out) = Unknown"
proof -
  obtain e2 out where "run_op sample_sha (InstallBarrier (ReceiverRestart ''restarted'') 120) sample_current = (e2, Inr out)"
    by (simp add: install_reevaluation_barrier_def) (metis evaluate_pair)
  then show ?thesis
    using context_change_withholds_standing [OF sample_reachable(2)] by (metis barring.simps(3))
qed

section \<open>The clock and the blind monitor\<close>

definition is_blind :: "evaluator \<Rightarrow> bool" where
  "is_blind e \<longleftrightarrow> (case e_monitor_capability e of Blind _ \<Rightarrow> True | _ \<Rightarrow> False)"

lemma blind_category: "is_blind e \<Longrightarrow> derive_category e t \<notin> {Current, Degraded}"
  by (auto simp: is_blind_def derive_category_def reliance_unknown_def derive_transport_def
      split: monitor_capability.splits)

lemma evaluate_blind: "is_blind e \<Longrightarrow> is_blind (fst (evaluate sha rn e))"
  using evaluate_kept [of sha rn e]
  by (auto simp: is_blind_def kept_def hot_def evaluation_clock_def go_blind_def monitor_event_def
      sparse_event_def Let_def split: option.splits if_splits)

lemma evaluate_regressed:
  assumes "e_last_evaluation_ms e = Some l" and "rn < l"
  shows "is_blind (fst (evaluate sha rn e))" and "evaluated_now rn e = l"
  using evaluate_kept [of sha rn e] assms
  by (simp_all add: is_blind_def kept_def hot_def evaluated_now_def evaluation_clock_def go_blind_def
      monitor_event_def sparse_event_def Let_def)

text \<open>The operations that may set the monitor to something other than blind.\<close>

fun sighting :: "evaluator_op \<Rightarrow> bool" where
  "sighting (SetMonitorCapability m at) = (case m of Blind _ \<Rightarrow> False | _ \<Rightarrow> True)"
| "sighting (RestoreMonitorCapability at d) = True"
| "sighting _ = False"

lemma prepared_blind:
  assumes "is_blind e" and "\<not> sighting op"
  shows "is_blind (prepared sha op e)"
proof (cases op)
  case (Ingest r now)
  have "e_monitor_capability (ingest_pulse sha r now e) = e_monitor_capability e \<or>
      (\<exists>d. e_monitor_capability (ingest_pulse sha r now e) = Blind d)"
    using ingest_ground [of r e sha now] by (auto dest!: ground_eqs(6) simp: blinded_def)
  then show ?thesis using assms(1) Ingest by (auto simp: is_blind_def)
next
  case (ReplaceSubjectIncarnation i at)
  have "ground (fold (\<lambda>c. log_event at (ContradictionLifecycleChanged c)) cs (e\<lparr>e_contradictions := m\<rparr>)) = ground e" for cs m
    by (simp add: step_simps)
  from ground_eqs(6) [OF this] show ?thesis
    using ReplaceSubjectIncarnation assms(1) by (simp add: subject_replaced_def Let_def is_blind_def forget_observers_def)
qed (use assms in \<open>auto simp: is_blind_def set_capability_def step_simps forget_observers_def
    split: option.split monitor_capability.splits\<close>)

text \<open>
  C28: time never runs backwards, and a clock that does blinds the monitor. Each judgment is evaluated no
  earlier than the one before it; if the requested instant lies before, the evaluation is made at the
  instant of the previous one, the monitor is blind afterwards, and the judgment is neither CURRENT nor
  DEGRADED.
\<close>

theorem clock_regression_blinds:
  assumes run: "run_op sha op e = (e', Inr out)" and last: "e_last_evaluation_ms e = Some l"
  shows "l \<le> ju_evaluated_at_ms (eo_judgment out) \<and> e_last_evaluation_ms e' = Some (ju_evaluated_at_ms (eo_judgment out))
    \<and> (l \<le> op_time op \<longrightarrow> ju_evaluated_at_ms (eo_judgment out) = op_time op)
    \<and> (op_time op < l \<longrightarrow> ju_evaluated_at_ms (eo_judgment out) = l \<and> is_blind e'
         \<and> ju_category (eo_judgment out) \<notin> {Current, Degraded})"
proof -
  let ?p = "prepared sha op e"
  have p: "e_last_evaluation_ms ?p = Some l" using last by simp
  have now: "ju_evaluated_at_ms (eo_judgment out) = evaluated_now (op_time op) ?p" by (simp add: run_op_ok(2) [OF run])
  have "ju_evaluated_at_ms (eo_judgment out) = op_time op" if "l \<le> op_time op"
    using p that by (auto simp: now evaluated_now_def evaluation_clock_def)
  moreover have "ju_evaluated_at_ms (eo_judgment out) = l \<and> is_blind e'
         \<and> ju_category (eo_judgment out) \<notin> {Current, Degraded}" if "op_time op < l"
  proof -
    have "is_blind e'" "evaluated_now (op_time op) ?p = l"
      using evaluate_regressed(1) [OF p that, of sha] evaluate_regressed(2) [OF p that]
      by (simp_all add: run_op_ok(1) [OF run])
    then show ?thesis
      using blind_category [of e' l] by (simp add: run_op_category(1) [OF run] now)
  qed
  moreover have "l \<le> ju_evaluated_at_ms (eo_judgment out)"
    using p by (auto simp: now evaluated_now_def evaluation_clock_def)
  ultimately show ?thesis using run_op_time(1) [OF run] by blast
qed

theorem clock_regression_blinds_witness:
  "\<exists>e2 out. run_op sample_sha (Tick 50) sample_current = (e2, Inr out)
     \<and> ju_evaluated_at_ms (eo_judgment out) = 110 \<and> ju_category (eo_judgment out) \<noteq> Current"
proof -
  obtain e2 out where run: "run_op sample_sha (Tick 50) sample_current = (e2, Inr out)" using tick_returns by blast
  then show ?thesis using clock_regression_blinds [OF run sample_current_fields(2)] by simp
qed

text \<open>
  C29: a blind monitor stays blind until it is told otherwise. Once blind, by a regressed clock, a
  mismatched annotation or lost input, no operation but an explicit capability change returns a CURRENT
  or DEGRADED judgment or clears the blindness, however good the evidence that arrives.
\<close>

theorem blindness_persists:
  assumes "is_blind e" and "\<not> sighting op" and run: "run_op sha op e = (e', Inr out)"
  shows "is_blind e' \<and> ju_category (eo_judgment out) \<notin> {Current, Degraded}"
proof -
  have "is_blind e'"
    using evaluate_blind [OF prepared_blind [OF assms(1,2)]] by (simp add: run_op_ok(1) [OF run])
  then show ?thesis using blind_category by (simp add: run_op_category(1) [OF run])
qed

theorem blindness_persists_witness:
  "let e = sample_evaluator\<lparr>e_monitor_capability := Blind ''lost input''\<rparr> in
   \<exists>e2 out. run_op sample_sha (Ingest sample_received 110) e = (e2, Inr out) \<and> is_blind e2"
proof -
  let ?e = "sample_evaluator\<lparr>e_monitor_capability := Blind ''lost input''\<rparr>"
  have "validate_binding ?e sample_received = Inr ()"
    by (simp add: validate_binding_def sample_received_def sample_policy_def)
  moreover have "ra_arrival_monotonic_ms (rp_receiver sample_received) = 100" by (simp add: sample_received_def)
  ultimately obtain e2 out where run: "run_op sample_sha (Ingest sample_received 110) ?e = (e2, Inr out)"
    by (simp add: ingest_def sample_received_valid evaluate_since_eq)
  have "is_blind ?e" by (simp add: is_blind_def)
  then show ?thesis using blindness_persists [OF _ _ run] run by simp
qed


section \<open>Contradictions stay until they are resolved\<close>

text \<open>A step that keeps every contradiction record there is.\<close>

definition retains :: "evaluator \<Rightarrow> evaluator \<Rightarrow> bool" where
  "retains e e' \<longleftrightarrow> (\<forall>cid c. bt_get (e_contradictions e) cid = Some c \<longrightarrow> bt_get (e_contradictions e') cid = Some c)"

lemma retains_same [simp]: "e_contradictions e' = e_contradictions e \<Longrightarrow> retains e e'"
  by (simp add: retains_def)

lemma retains_trans: "retains e e' \<Longrightarrow> retains e' e'' \<Longrightarrow> retains e e''"
  by (simp add: retains_def)

lemma retains_create: "retains e (create_contradiction sha s rs ss at e)"
  by (auto simp: retains_def create_contradiction_def Let_def step_simps bt_get_insert bt_contains_def)

lemma retains_creates: "retains e (create_contradictions sha at cs e)"
  by (induction sha at cs e rule: create_contradictions.induct)
     (auto intro: retains_trans retains_create)

lemma contradictions_kept [simp]:
  "e_contradictions (record_adverse_supersession r at e) = e_contradictions e"
  "e_contradictions (put_evidence r c e) = e_contradictions e"
  "e_contradictions (note_arrival r e) = e_contradictions e"
  "e_contradictions (count_gap g e) = e_contradictions e"
  "e_contradictions (count_duplicate e) = e_contradictions e"
  "e_contradictions (count_dropped_stale e) = e_contradictions e"
  "e_contradictions (set_capability m at l d e) = e_contradictions e"
  by (simp_all add: record_adverse_supersession_def put_evidence_def note_arrival_def count_gap_def
      count_duplicate_def count_dropped_stale_def set_capability_def step_simps Let_def split: option.split)

lemma retains_detect: "retains e (detect_signal_contradictions sha r at e)"
  by (simp add: detect_signal_contradictions_def retains_creates)

lemma retains_admit: "retains e (admit_evidence sha r c now e)"
proof -
  let ?l = "update_lineage (rp_frame r) (ra_disposition (rp_receiver r)) e"
  have "retains ?l (detect_signal_contradictions sha r now ?l)" by (rule retains_detect)
  then show ?thesis by (simp add: retains_def admit_evidence_def)
qed

lemma retains_subject_change: "retains e (record_subject_incarnation_change sha r at e)"
proof -
  let ?e = "subject_changed r e"
  have "retains ?e (create_contradiction sha s rs ss at ?e)" for s rs ss by (rule retains_create)
  then show ?thesis
    by (simp add: record_subject_incarnation_change_def Let_def subject_changed_def retains_def)
qed

lemma retains_ingest: "retains e (ingest_pulse sha r now e)"
proof -
  have "retains x (ingest_classified sha r now x)" for x
    using retains_admit [of "count_gap (ra_disposition (rp_receiver r)) x"]
      retains_trans [OF retains_subject_change retains_admit]
    by (auto simp: ingest_classified_def ingest_accepted_def retains_def split: option.split)
  then show ?thesis
    by (simp add: ingest_pulse_def Let_def go_blind_eq) (simp add: retains_def)
qed

text \<open>The operations that may end a contradiction.\<close>

definition settles :: "evaluator_op \<Rightarrow> evaluator \<Rightarrow> contradiction_id \<Rightarrow> contradiction_record \<Rightarrow> bool" where
  "settles op e cid c \<longleftrightarrow>
     (case op of ResolveContradiction cid' x at \<Rightarrow> cid' = cid
      | ReplaceSubjectIncarnation i at \<Rightarrow> bound_to_incarnation (e_current_subject_incarnation e) c
      | _ \<Rightarrow> False)"

lemma prepared_contradiction:
  assumes "bt_get (e_contradictions e) cid = Some c" and "\<not> settles op e cid c"
  shows "bt_get (e_contradictions (prepared sha op e)) cid = Some c"
proof (cases op)
  case (Ingest r now)
  then show ?thesis using assms(1) retains_ingest [of e sha r now] by (simp add: retains_def)
next
  case (ReplaceSubjectIncarnation i at)
  then show ?thesis
    using assms by (simp add: subject_replaced_def Let_def forget_observers_def settles_def bt_get_map_values)
next
  case (ResolveContradiction cid' x at)
  then show ?thesis using assms by (auto simp: settles_def bt_get_insert step_simps split: option.split)
qed (use assms in \<open>simp_all add: step_simps forget_observers_def\<close>)

text \<open>
  C25: a contradiction is retained, not averaged away. Under every operation of a reachable evaluator
  that returns a judgment, but the resolution of that very contradiction and the replacement of the
  subject incarnation it is bound to, an active contradiction stays active, record and all; and the
  judgment is CONTRADICTED, or UNKNOWN where the operation is a change of context (a replaced policy or
  subject incarnation, a barrier, a restored monitor), no matter what evidence arrives or expires.
\<close>

theorem active_contradiction_persists:
  assumes "reachable sha e" and c: "bt_get (e_contradictions e) cid = Some c" "cr_is_active c"
    and "\<not> settles op e cid c" and run: "run_op sha op e = (e', Inr out)"
  shows "bt_get (e_contradictions e') cid = Some c
    \<and> ju_category (eo_judgment out) = (if barring op then Unknown else Contradicted)"
proof -
  have c': "bt_get (e_contradictions e') cid = Some c"
    using prepared_contradiction [OF c(1) assms(4), of sha] by (simp add: run_op_ok(1) [OF run])
  then have "active_contradictions e' \<noteq> []"
    using c(2) bt_get_values [OF c'] by (auto simp: active_contradictions_def filter_empty_conv)
  then show ?thesis
    using c' prepared_barrier [OF reachable_unbarred [OF assms(1)], of sha op]
    by (simp add: run_op_category(1) [OF run] derive_category_def)
qed


definition sample_contradiction :: contradiction_record where
  "sample_contradiction =
     \<lparr>cr_schema_version = SCHEMA_VERSION_V1, cr_contradiction_id = ''contradiction:1'',
      cr_subject_scope = \<lparr>ss_subject = ''host-a'', ss_subject_incarnation = ''boot-1'', ss_scope = ''host''\<rparr>,
      cr_policy_generation = ''policy-1'', cr_signal = ''load'', cr_first_observed_at_ms = 5,
      cr_evidence_refs = [], cr_incompatible_statements = [], cr_status = Active\<rparr>"

theorem active_contradiction_persists_witness:
  "\<exists>e out. run_op sample_sha (Ingest sample_received 110) (import_one sample_contradiction sample_evaluator)
       = (e, Inr out)
     \<and> bt_get (e_contradictions e) ''contradiction:1'' = Some sample_contradiction
     \<and> ju_category (eo_judgment out) = Contradicted"
proof -
  let ?e = "import_one sample_contradiction sample_evaluator"
  have imp: "import_contradictions [sample_contradiction] sample_evaluator = (?e, Inr ())"
    by (simp add: sample_contradiction_def import_one_def sample_policy_def)
  have reach: "reachable sample_sha ?e" by (rule reachable.imported [OF sample_reachable(1) imp])
  have c: "bt_get (e_contradictions ?e) ''contradiction:1'' = Some sample_contradiction" "cr_is_active sample_contradiction"
    by (simp_all add: import_one_def sample_contradiction_def bt_get_def cr_is_active_def)
  have "validate_binding ?e sample_received = Inr ()"
    by (simp add: validate_binding_def sample_received_def import_one_def sample_policy_def)
  moreover have "ra_arrival_monotonic_ms (rp_receiver sample_received) = 100" by (simp add: sample_received_def)
  ultimately obtain e out where run: "run_op sample_sha (Ingest sample_received 110) ?e = (e, Inr out)"
    by (simp add: ingest_def sample_received_valid evaluate_since_eq)
  then show ?thesis
    using active_contradiction_persists [OF reach c _ run] by (simp add: settles_def)
qed

section \<open>Failures and events\<close>






end
