(* ===== verification/Evidence.thy ===== *)
theory Evidence
  imports Custody Reliance
begin

text \<open>
  What the evidence an evaluator holds always is: well formed, addressed to its policy, and bounded in
  time by the pulse it came with; hence how silence and refused pulses are judged.
\<close>

section \<open>The evidence invariant\<close>

text \<open>The latest instant at which a pulse may support anything.\<close>

definition pulse_limit :: "received_pulse \<Rightarrow> u64" where
  "pulse_limit r =
     sat_add (ra_arrival_monotonic_ms (rp_receiver r)) (pf_validity_ms (rp_frame r) - observed_delay r)"

definition evidence_ok :: "hasher \<Rightarrow> evaluator \<Rightarrow> observer_id \<Rightarrow> observer_evidence \<Rightarrow> bool" where
  "evidence_ok sha e obs x \<longleftrightarrow>
     (let r = oe_received x in
      pf_observer (rp_frame r) = obs \<and> received_validate sha r = Inr () \<and> addressed (rp_frame r) e
      \<and> ra_clock_id (rp_receiver r) = e_clock_id e
      \<and> (\<exists>A. e_last_receiver_arrival_ms e = Some A \<and> ra_arrival_monotonic_ms (rp_receiver r) \<le> A)
      \<and> observed_delay r < pf_validity_ms (rp_frame r) \<and> oe_expires_at_ms x \<le> pulse_limit r)"

definition evidence_inv :: "hasher \<Rightarrow> evaluator \<Rightarrow> bool" where
  "evidence_inv sha e \<longleftrightarrow> bt_ok (e_observers e)
     \<and> (\<forall>obs x. bt_get (e_observers e) obs = Some x \<longrightarrow> evidence_ok sha e obs x)"

lemma sat_add_mono: "b \<le> c \<Longrightarrow> sat_add a b \<le> sat_add a c" for a b c :: "'a::len word"
  by (simp add: word_le_nat_alt sat_simps)

lemma sat_add_mono_left: "a \<le> c \<Longrightarrow> sat_add a b \<le> sat_add c b" for a b c :: "'a::len word"
  by (simp add: word_le_nat_alt sat_simps)

lemma word_diff_mono: "d < b \<Longrightarrow> b \<le> c \<Longrightarrow> b - d \<le> c - d" for b c d :: u64
  by (simp add: word_le_nat_alt word_less_nat_alt unat_sub)

lemma evidence_ok_cong:
  "e_policy e' = e_policy e \<Longrightarrow> e_clock_id e' = e_clock_id e \<Longrightarrow>
   e_last_receiver_arrival_ms e' = e_last_receiver_arrival_ms e \<Longrightarrow> evidence_ok sha e' obs x = evidence_ok sha e obs x"
  by (simp add: evidence_ok_def addressed_def)

lemma evidence_inv_cong:
  "e_policy e' = e_policy e \<Longrightarrow> e_clock_id e' = e_clock_id e \<Longrightarrow> e_observers e' = e_observers e \<Longrightarrow>
   e_last_receiver_arrival_ms e' = e_last_receiver_arrival_ms e \<Longrightarrow> evidence_inv sha e' = evidence_inv sha e"
  using evidence_ok_cong [of e' e sha] by (simp add: evidence_inv_def)

lemma binding_addressed:
  "validate_binding e r = Inr () \<Longrightarrow> addressed (rp_frame r) e \<and> ra_clock_id (rp_receiver r) = e_clock_id e"
  by (auto simp: validate_binding_def addressed_def rbind_def fail_if_def split: if_splits)

text \<open>An arrival that did not regress leaves earlier evidence behind it.\<close>

lemma evidence_ok_arrival:
  assumes "evidence_ok sha e obs x" and "e_policy e' = e_policy e" and "e_clock_id e' = e_clock_id e"
    and "e_last_receiver_arrival_ms e' = e_last_receiver_arrival_ms (note_arrival r e)"
  shows "evidence_ok sha e' obs x"
  using assms by (auto simp: evidence_ok_def addressed_def note_arrival_def Let_def le_max_iff_disj)

lemma put_evidence_ok:
  assumes "received_validate sha r = Inr ()" and "addressed (rp_frame r) e" and "ra_clock_id (rp_receiver r) = e_clock_id e"
    and "observed_delay r < effective_validity r e"
    and e': "e_policy e' = e_policy e" "e_clock_id e' = e_clock_id e"
      "e_last_receiver_arrival_ms e' = e_last_receiver_arrival_ms (note_arrival r e)"
  shows "evidence_ok sha e' (pf_observer (rp_frame r))
    \<lparr>oe_received = r, oe_expires_at_ms = sat_add (ra_arrival_monotonic_ms (rp_receiver r))
        (effective_validity r e - observed_delay r), oe_continuity = c\<rparr>"
proof -
  have eff: "effective_validity r e \<le> pf_validity_ms (rp_frame r)" by (simp add: effective_validity_def)
  have "sat_add (ra_arrival_monotonic_ms (rp_receiver r)) (effective_validity r e - observed_delay r) \<le> pulse_limit r"
    unfolding pulse_limit_def by (intro sat_add_mono word_diff_mono assms(4) eff)
  moreover have "observed_delay r < pf_validity_ms (rp_frame r)" using assms(4) eff by (rule less_le_trans)
  moreover have "\<exists>A. e_last_receiver_arrival_ms e' = Some A \<and> ra_arrival_monotonic_ms (rp_receiver r) \<le> A"
    using e'(3) by (simp add: note_arrival_def le_max_iff_disj split: option.split)
  ultimately show ?thesis
    using assms(1,2,3) e' by (simp add: evidence_ok_def addressed_def)
qed


section \<open>The operations keep the invariant\<close>

lemma evidence_ingest:
  assumes inv: "evidence_inv sha e" and run: "run_op sha (Ingest r now) e = (e', Inr out)"
  shows "evidence_inv sha (ingest_pulse sha r now e)"
proof -
  let ?P = "ingest_pulse sha r now e"
  have P: "e_policy ?P = e_policy e" "e_clock_id ?P = e_clock_id e"
    using judging_ingest [of sha r now e] by (simp_all add: judging_def configured_def)
  have ok: "bt_ok (e_observers e)" using inv by (simp add: evidence_inv_def)
  have bound: "addressed (rp_frame r) e" "ra_clock_id (rp_receiver r) = e_clock_id e"
    using binding_addressed [OF ingest_checks(2) [OF run]] by simp_all
  have kept: "evidence_ok sha ?P obs x"
    if "bt_get (e_observers e) obs = Some x"
      "e_last_receiver_arrival_ms ?P = e_last_receiver_arrival_ms (note_arrival r e)" for obs x
  proof (rule evidence_ok_arrival [OF _ P that(2)])
    show "evidence_ok sha e obs x" using inv that(1) by (simp add: evidence_inv_def)
  qed
  have lin: "e_last_receiver_arrival_ms (update_lineage f d x) = e_last_receiver_arrival_ms x" for f d x
    by (simp add: update_lineage_def Let_def split: option.split arrival_disposition.split)
  have arrived: "evidence_inv sha ?P"
    if "e_observers ?P = e_observers e" "e_last_receiver_arrival_ms ?P = e_last_receiver_arrival_ms (note_arrival r e)"
    using kept that ok by (simp add: evidence_inv_def)
  consider (blind) d where "ground ?P = ground (e\<lparr>e_monitor_capability := Blind d\<rparr>)"
    | (mismatch) d where "ground ?P = ground ((note_arrival r e)\<lparr>e_monitor_capability := Blind d\<rparr>)"
    | (drop) "ground ?P = ground (note_arrival r e)"
    | (late) "ground ?P = ground (update_lineage (rp_frame r) (ra_disposition (rp_receiver r)) (note_arrival r e))"
    | (admit) c where "\<not> dropped r e" "\<not> unsupported r e" "continuity_of (ra_disposition (rp_receiver r)) = Some c"
        "ground ?P = ground (put_evidence r c (admitting r e))"
    using ingest_ground [of r e sha now] unfolding blinded_def by blast
  then show ?thesis
  proof cases
    case blind
    then show ?thesis using ground_eqs(5,7) [OF blind] inv P evidence_inv_cong [of ?P e sha] by simp
  next
    case mismatch
    then show ?thesis using ground_eqs(5,7) [OF mismatch] by (intro arrived) simp_all
  next
    case drop
    then show ?thesis using ground_eqs(5,7) [OF drop] by (intro arrived) simp_all
  next
    case late
    then show ?thesis using ground_eqs(5,7) [OF late] by (intro arrived) (simp_all add: lin)
  next
    case (admit c)
    have arr: "e_last_receiver_arrival_ms ?P = e_last_receiver_arrival_ms (note_arrival r e)"
      using ground_eqs(7) [OF admit(4)] by (simp add: admitting_def lin subject_changed_def)
    have obs: "e_observers ?P = bt_insert (pf_observer (rp_frame r))
        \<lparr>oe_received = r, oe_expires_at_ms = sat_add (ra_arrival_monotonic_ms (rp_receiver r))
            (effective_validity r e - observed_delay r), oe_continuity = c\<rparr> (e_observers e)"
      using ground_eqs(5) [OF admit(4)] by (simp add: put_evidence_def effective_validity_def)
    have "observed_delay r < effective_validity r e"
      using admit(2,3) by (auto simp: unsupported_def not_le)
    from put_evidence_ok [OF ingest_checks(1) [OF run] bound this P arr, of c] show ?thesis
      using kept arr ok by (auto simp: evidence_inv_def obs bt_get_insert bt_ok_insert)
  qed
qed


lemma prepared_evidence:
  assumes "case op of Ingest _ _ \<Rightarrow> False | ReplacePolicy _ _ _ \<Rightarrow> False | ReplaceSubjectIncarnation _ _ \<Rightarrow> False | _ \<Rightarrow> True"
  shows "e_observers (prepared sha op e) = e_observers e"
    and "e_last_receiver_arrival_ms (prepared sha op e) = e_last_receiver_arrival_ms e"
    and "e_policy (prepared sha op e) = e_policy e"
  using assms by (cases op; simp add: set_capability_def log_event_def sparse_event_def Let_def split: option.split)+

lemma replace_policy_checks:
  assumes "run_op sha (ReplacePolicy p b at) e = (e', Inr out)"
  shows "policy_ok p" and "po_subject p = po_subject (e_policy e)"
  using assms by (auto simp: replace_policy_def rbind_def map_err_def fail_if_def policy_validate_ok [symmetric, of _ "()"]
      split: sum.splits if_splits)

interpretation evidence: evaluator_invariant sha "evidence_inv sha" for sha
proof
  show "evidence_inv sha e" if "evaluator_new p r ri c i = Inr e" for p r ri c i e
    using evaluator_new_ok [OF that] by (simp add: evaluator_initial_def evidence_inv_def)
  show "evidence_inv sha (prepared sha op e)"
    if inv: "evidence_inv sha e" and run: "run_op sha op e = (e', Inr out)" for e op e' out
  proof (cases op)
    case (Ingest r now)
    then show ?thesis using evidence_ingest [OF inv run [unfolded Ingest]] by simp
  next
    case (ReplacePolicy p b at)
    show ?thesis
    proof (cases "po_observation_profile p \<noteq> po_observation_profile (e_policy e)
         \<or> po_observation_policy_generation p \<noteq> po_observation_policy_generation (e_policy e)")
      case True
      then show ?thesis by (simp add: ReplacePolicy evidence_inv_def forget_observers_def)
    next
      case False
      have "evidence_ok sha (e\<lparr>e_policy := p, e_escalation_state := NotRequested, e_reevaluation_barrier := Some b\<rparr>) obs x
          = evidence_ok sha e obs x" for obs x
        using False replace_policy_checks(2) [OF run [unfolded ReplacePolicy]]
        by (simp add: evidence_ok_def addressed_def)
      then show ?thesis using False inv by (simp add: ReplacePolicy evidence_inv_def)
    qed
  next
    case (ReplaceSubjectIncarnation i at)
    then show ?thesis by (simp add: subject_replaced_def evidence_inv_def forget_observers_def Let_def)
  qed (use inv prepared_evidence [of op sha e] evidence_inv_cong [of "prepared sha op e" e sha] in
      \<open>simp_all del: prepared.simps\<close>)
  show "evidence_inv sha (fst (evaluate sha rn e))" if "evidence_inv sha e" for rn e
    using that evidence_inv_cong [of "fst (evaluate sha rn e)" e sha] by simp
  show "evidence_inv sha (import_one c e)" "evidence_inv sha (set_normal_trace b e)"
    "evidence_inv sha (mark_failure_start at e)" if "evidence_inv sha e" for c b at e
    using that evidence_inv_cong [of "import_one c e" e sha] evidence_inv_cong [of "set_normal_trace b e" e sha]
      evidence_inv_cong [of "mark_failure_start at e" e sha]
    by (simp_all add: import_one_def set_normal_trace_def mark_failure_start_def)
qed


section \<open>What the evidence of a reachable evaluator is\<close>

text \<open>
  C13: an evaluator only ever holds evidence it may use. In every reachable evaluator each piece of
  evidence is stored under its own observer, is a received pulse that validates (so its digest is
  recomputed), carries the subject, the profile and the observation-policy generation of the policy in
  force and the evaluator's clock, was younger than its validity when it arrived, and expires no later
  than its arrival plus what was left of that validity. In particular no evidence crosses a change of
  profile or generation.
\<close>

theorem evidence_is_bound:
  assumes "reachable sha e" and "bt_get (e_observers e) obs = Some x"
  shows "pf_observer (rp_frame (oe_received x)) = obs \<and> received_validate sha (oe_received x) = Inr ()
    \<and> addressed (rp_frame (oe_received x)) e \<and> ra_clock_id (rp_receiver (oe_received x)) = e_clock_id e
    \<and> observed_delay (oe_received x) < pf_validity_ms (rp_frame (oe_received x))
    \<and> oe_expires_at_ms x \<le> sat_add (ra_arrival_monotonic_ms (rp_receiver (oe_received x)))
        (pf_validity_ms (rp_frame (oe_received x)) - observed_delay (oe_received x))"
proof -
  have "evidence_ok sha e obs x"
    using evidence.holds_reachable [OF assms(1)] assms(2) by (simp add: evidence_inv_def)
  then show ?thesis by (simp add: evidence_ok_def Let_def pulse_limit_def)
qed

theorem evidence_is_bound_witness: "addressed (sample_pulse 7) sample_current"
proof -
  have "bt_get (e_observers sample_current) ''probe-1'' = Some sample_evidence" by (simp add: bt_get_def)
  from evidence_is_bound [OF sample_reachable(2) this] show ?thesis
    by (simp add: sample_evidence_def sample_received_def)
qed

lemma evidence_expires:
  assumes inv: "evidence_inv sha e" and last: "e_last_receiver_arrival_ms e = Some A"
    and late: "sat_add A MAX_VALIDITY_MS \<le> t"
  shows "fresh_evidence e t = []"
proof -
  have "oe_expires_at_ms x \<le> t" if x: "x \<in> set (bt_values (e_observers e))" for x
  proof -
    obtain obs where "evidence_ok sha e obs x"
      using inv x by (auto simp: evidence_inv_def bt_values_get)
    then have ok: "received_validate sha (oe_received x) = Inr ()" "oe_expires_at_ms x \<le> pulse_limit (oe_received x)"
      "ra_arrival_monotonic_ms (rp_receiver (oe_received x)) \<le> A"
      "observed_delay (oe_received x) < pf_validity_ms (rp_frame (oe_received x))"
      using last by (auto simp: evidence_ok_def Let_def)
    have "pf_validity_ms (rp_frame (oe_received x)) \<le> MAX_VALIDITY_MS"
      using ok(1) by (auto simp: received_validate_def result_simps frame_validate_ok frame_shape_ok_def)
    moreover have "pf_validity_ms (rp_frame (oe_received x)) - observed_delay (oe_received x)
        \<le> pf_validity_ms (rp_frame (oe_received x))"
      using ok(4) by (simp add: word_sub_le)
    ultimately have "pulse_limit (oe_received x) \<le> sat_add A MAX_VALIDITY_MS"
      unfolding pulse_limit_def using sat_add_mono sat_add_mono_left ok(3) by (meson order_trans)
    then show ?thesis using ok(2) late by simp
  qed
  then show ?thesis
    by (auto simp: fresh_evidence_def relevant_evidence_def filter_empty_conv not_less)
qed


text \<open>
  C12: silence ends CURRENT within an hour. If the last arrival a reachable evaluator has seen was at
  \<open>A\<close>, then evaluating it at any instant from \<open>A + MAX_VALIDITY_MS\<close> on returns a judgment that is not
  CURRENT and names no support deadline, whatever validity the observers claimed in their pulses.
\<close>

theorem silence_ends_current:
  assumes reach: "reachable sha e" and "e_last_receiver_arrival_ms e = Some A"
    and late: "sat_add A MAX_VALIDITY_MS \<le> t"
  shows "\<exists>e' out. tick sha t e = (e', Inr out) \<and> ju_category (eo_judgment out) \<noteq> Current
    \<and> ju_support_expires_at_ms (eo_judgment out) = None"
proof -
  obtain e' out where run: "run_op sha (Tick t) e = (e', Inr out)" using tick_returns by blast
  let ?now = "ju_evaluated_at_ms (eo_judgment out)"
  have inv: "evidence_inv sha e'" "policy_ok (e_policy e')"
    using evidence.holds_run [OF evidence.holds_reachable [OF reach] run]
      policies.holds_run [OF policies.holds_reachable [OF reach] run] .
  have last: "e_last_receiver_arrival_ms e' = Some A" using assms(2) by (simp add: run_op_ok(1) [OF run])
  have "t \<le> ?now"
    by (auto simp: run_op_ok(2) [OF run] evaluated_now_def evaluation_clock_def split: option.split)
  then have "fresh_evidence e' ?now = []" using late by (intro evidence_expires [OF inv(1) last]) simp
  then have "derive_category e' ?now \<noteq> Current"
    using derive_current_iff [OF inv(2), of ?now] covered_fresh [of e' ?now] inv(2)
    by (auto simp: current_conditions_def eligible_fresh_def policy_ok_def)
  then show ?thesis
    using run by (auto simp: run_op_category [OF run] derive_def)
qed

theorem silence_ends_current_witness:
  "\<exists>e' out. tick sample_sha 3600100 sample_current = (e', Inr out) \<and> ju_category (eo_judgment out) \<noteq> Current"
proof -
  have "e_last_receiver_arrival_ms sample_current = Some 100" by simp
  moreover have "sat_add 100 MAX_VALIDITY_MS \<le> 3600100" by (simp add: MAX_VALIDITY_MS_def sat_add_def)
  ultimately show ?thesis using silence_ends_current [OF sample_reachable(2)] by blast
qed

section \<open>Refused pulses\<close>

text \<open>The continuity of the observers, and the incarnations an evaluator has retired.\<close>

definition lineages :: "evaluator \<Rightarrow>
    (observer_id, observer_lineage) btmap \<times> (observer_id \<times> incarnation_id) btset \<times> incarnation_id btset" where
  "lineages e = (e_observer_lineages e, e_retired_observer_incarnations e, e_retired_subject_incarnations e)"

lemma refused_hot:
  assumes "agreed r e" and "dropped r e"
  shows "hot (ingest_pulse sha r now e) = hot e" and "lineages (ingest_pulse sha r now e) = lineages e"
proof -
  have "ra_disposition (rp_receiver r) \<in> {Duplicate, Replay, Stale}"
    using assms agreed_retired [of r e] by (auto simp: dropped_def)
  then have "continuity_of (ra_disposition (rp_receiver r)) = None" by (simp add: continuity_of_None)
  then have "hot (ingest_pulse sha r now e) = hot e \<and> lineages (ingest_pulse sha r now e) = lineages e"
    using assms(1)
    by (simp add: agreed_def ingest_pulse_def Let_def ingest_classified_def)
       (simp add: count_duplicate_def count_dropped_stale_def note_arrival_def hot_def lineages_def)
  then show "hot (ingest_pulse sha r now e) = hot e" "lineages (ingest_pulse sha r now e) = lineages e" by simp_all
qed

lemma evaluate_lineages: "lineages (fst (evaluate sha rn e)) = lineages e"
  using evaluate_kept [of sha rn e]
  by (auto simp: kept_def lineages_def evaluation_clock_def go_blind_def monitor_event_def sparse_event_def Let_def
      split: option.splits)

lemma clock_hot:
  assumes "hot e' = hot e" and "e_last_evaluation_ms e' = e_last_evaluation_ms e"
  shows "hot (fst (evaluation_clock rn e')) = hot (fst (evaluation_clock rn e))
    \<and> snd (evaluation_clock rn e') = snd (evaluation_clock rn e)"
  using assms by (simp add: hot_def evaluation_clock_def go_blind_def monitor_event_def sparse_event_def Let_def
      split: option.split)

text \<open>
  C14: a refused pulse is no more than the passage of time. When the arrival has not regressed, \<open>ingest\<close>
  agrees with the annotation, and the pulse is a duplicate, a replay or stale (or belongs to a retired
  subject incarnation), then the judgment \<open>ingest\<close> returns has the category, dimensions, coverage and
  support deadline that \<open>tick\<close> would have returned at that instant, and policy, subject, evidence,
  contradictions, capability, lineages and retired incarnations are what \<open>tick\<close> would have left: such a
  pulse neither extends nor ends anyone's standing. (Where the annotation disagrees, or the arrival has
  regressed, \<open>ingest\<close> blinds the monitor instead.)
\<close>

theorem refused_pulse_is_a_tick:
  assumes run: "run_op sha (Ingest r now) e = (e', Inr out)" and "agreed r e" and "dropped r e"
    and tick: "run_op sha (Tick now) e = (e2, Inr out2)"
  shows "hot e' = hot e2 \<and> lineages e' = lineages e2 \<and> ju_category (eo_judgment out) = ju_category (eo_judgment out2)
    \<and> ju_support_expires_at_ms (eo_judgment out) = ju_support_expires_at_ms (eo_judgment out2)
    \<and> ju_dimensions (eo_judgment out) = ju_dimensions (eo_judgment out2)
    \<and> ju_coverage (eo_judgment out) = ju_coverage (eo_judgment out2)"
proof -
  let ?P = "ingest_pulse sha r now e"
  have P: "judging ?P = judging e" "configured ?P = configured e" by (simp_all add: step_simps)
  have same: "hot (evaluated_state now ?P) = hot (evaluated_state now e)" "evaluated_now now ?P = evaluated_now now e"
    using clock_hot [OF refused_hot(1) [OF assms(2,3), of sha now]] P
    by (simp_all add: evaluated_state_hot judging_def evaluated_now_def)
  then have d: "evaluated_derived now ?P = evaluated_derived now e"
    using hot_derive [OF same(1), of "evaluated_now now e"] P(2) by (simp add: evaluated_derived_def configured_def)
  have "hot e' = hot e2"
    using same(1) kept_hot [OF evaluate_kept [of sha now ?P]] kept_hot [OF evaluate_kept [of sha now e]]
    by (simp add: run_op_ok(1) [OF run] run_op_ok(1) [OF tick] evaluated_state_hot)
  moreover have "lineages e' = lineages e2"
    using refused_hot(2) [OF assms(2,3), of sha now]
    by (simp add: run_op_ok(1) [OF run] run_op_ok(1) [OF tick] evaluate_lineages)
  ultimately show ?thesis by (simp add: run_op_ok(2) [OF run] run_op_ok(2) [OF tick] d)
qed


definition sample_duplicate :: received_pulse where
  "sample_duplicate = sample_received\<lparr>rp_receiver := (rp_receiver sample_received)\<lparr>ra_disposition := Duplicate\<rparr>\<rparr>"

theorem refused_pulse_is_a_tick_witness:
  "\<exists>e' out. run_op sample_sha (Ingest sample_duplicate 2000) sample_current = (e', Inr out)
     \<and> ju_category (eo_judgment out) = Unknown"
proof -
  have ann: "rp_frame sample_duplicate = sample_pulse 7" "ra_disposition (rp_receiver sample_duplicate) = Duplicate"
    "ra_arrival_monotonic_ms (rp_receiver sample_duplicate) = 100"
    "ra_sequence_gap (rp_receiver sample_duplicate) = None"
    "ra_transport_observed_delay_ms (rp_receiver sample_duplicate) = None"
    by (simp_all add: sample_duplicate_def sample_received_def)
  have "received_validate sample_sha sample_duplicate = Inr ()"
    using sample_received_valid
    by (auto simp: received_validate_def sample_duplicate_def annotation_validate_def result_simps gap_validate_def
        sample_received_def split: option.splits)
  moreover have "validate_binding sample_current sample_duplicate = Inr ()"
    using evidence.holds_reachable [OF sample_reachable(2)]
    by (simp add: validate_binding_def sample_duplicate_def sample_received_def sample_policy_def sample_current_binding)
  ultimately obtain e' out where run: "run_op sample_sha (Ingest sample_duplicate 2000) sample_current = (e', Inr out)"
    by (simp add: ingest_def ann evaluate_since_eq)
  obtain e2 out2 where tick: "run_op sample_sha (Tick 2000) sample_current = (e2, Inr out2)" using tick_returns by blast
  have "agreed sample_duplicate sample_current"
    by (simp add: agreed_def arrival_regressed_def ann annotation_agrees_def classify_arrival_def effective_stale_def
        bt_get_def bs_contains_def sample_current_binding)
  moreover have "dropped sample_duplicate sample_current" by (simp add: dropped_def ann)
  moreover have "ju_category (eo_judgment out2) = Unknown"
    using tick_later(3) [OF sample_current_fields(2) _ sample_current_fields(3) tick] sample_lapsed [of 2000] by simp
  ultimately show ?thesis using refused_pulse_is_a_tick [OF run _ _ tick] run by auto
qed

end
