(* ===== verification/RuntimeState.thy ===== *)
theory RuntimeState
  imports Evaluator
begin

text \<open>
  The data of the receiver/scheduler runtime (\<open>crates/pulse-runtime/src/lib.rs\<close>): bounds and
  configuration, registrations, activations and inputs with the order in which inputs are taken, the
  output of a cycle, and the state of the runtime. \<open>usize\<close> is \<open>nat\<close>, with the 64-bit bound written
  out where the code checks it.
\<close>

section \<open>Errors\<close>

record runtime_error =
  re_code :: string
  re_detail :: string

definition runtime_error_new :: "string \<Rightarrow> string \<Rightarrow> runtime_error" where
  "runtime_error_new code detail = \<lparr>re_code = code, re_detail = detail\<rparr>"

definition from_evaluator :: "evaluator_error \<Rightarrow> runtime_error" where
  "from_evaluator err = runtime_error_new (ee_code err) (ee_detail err)"

definition from_qualification :: "qualification_error \<Rightarrow> runtime_error" where
  "from_qualification err = runtime_error_new (qe_code err) (qe_detail err)"

definition from_custody :: "custody_type_error \<Rightarrow> runtime_error" where
  "from_custody err = runtime_error_new (ye_code err) (ye_detail err)"

definition from_runtime_type :: "runtime_type_error \<Rightarrow> runtime_error" where
  "from_runtime_type err = runtime_error_new (te_code err) (te_detail err)"

text \<open>\<open>QualificationError\<close>'s \<open>Display\<close>.\<close>

definition qualification_error_str :: "qualification_error \<Rightarrow> string" where
  "qualification_error_str err = qe_code err @ '': '' @ qe_detail err"

section \<open>Bounds and configuration\<close>

record runtime_bounds =
  mb_subjects :: nat
  mb_consumers_per_subject :: nat
  mb_observers_per_subject :: nat
  mb_receiver_streams :: nat
  mb_incarnations_per_observer :: nat
  mb_subject_incarnations_per_subject :: nat
  mb_pending_inputs :: nat
  mb_scheduled_deadlines :: nat
  mb_context_activations_per_consumer :: nat
  mb_active_escalations :: nat
  mb_supporting_evidence_refs :: nat
  mb_sparse_events :: nat
  mb_diagnostic_receipts :: nat

definition qualification_bounds :: runtime_bounds where
  "qualification_bounds =
     \<lparr>mb_subjects = 4, mb_consumers_per_subject = 4, mb_observers_per_subject = 8, mb_receiver_streams = 32,
      mb_incarnations_per_observer = 8, mb_subject_incarnations_per_subject = 8, mb_pending_inputs = 32,
      mb_scheduled_deadlines = 16, mb_context_activations_per_consumer = 32, mb_active_escalations = 16,
      mb_supporting_evidence_refs = 16, mb_sparse_events = 2048, mb_diagnostic_receipts = 64\<rparr>"

definition bounds_validate :: "runtime_bounds \<Rightarrow> runtime_error + unit" where
  "bounds_validate b =
     rbind (fail_if (0 \<in> set [mb_subjects b, mb_consumers_per_subject b, mb_observers_per_subject b,
         mb_receiver_streams b, mb_incarnations_per_observer b, mb_subject_incarnations_per_subject b,
         mb_pending_inputs b, mb_scheduled_deadlines b, mb_context_activations_per_consumer b,
         mb_active_escalations b, mb_supporting_evidence_refs b, mb_sparse_events b, mb_diagnostic_receipts b])
       (runtime_error_new ''invalid_bounds'' ''every runtime bound must be nonzero'')) (\<lambda>_.
     fail_if (mb_supporting_evidence_refs b < mb_observers_per_subject b
         \<or> MAX_CERTIFICATE_EVIDENCE_REFS < mb_supporting_evidence_refs b)
       (runtime_error_new ''invalid_bounds''
         ''certificate evidence bound must cover observer capacity and fit v1''))"

record runtime_config =
  cf_schema_version :: u16
  cf_receiver :: receiver_id
  cf_receiver_incarnation :: incarnation_id
  cf_clock_id :: clock_id
  cf_transport_custody_policy :: "transport_custody_policy_binding option"
  cf_bounds :: runtime_bounds

definition config_validate :: "runtime_config \<Rightarrow> runtime_error + unit" where
  "config_validate c =
     rbind (fail_if (cf_schema_version c \<noteq> SCHEMA_VERSION_V1)
       (runtime_error_new ''unsupported_schema'' ''runtime config schema is unsupported'')) (\<lambda>_.
     rbind (map_err (\<lambda>_. runtime_error_new ''invalid_identity'' ''invalid receiver identity'')
       (validate_identity ''ReceiverId'' (cf_receiver c))) (\<lambda>_.
     rbind (map_err (\<lambda>_. runtime_error_new ''invalid_identity'' ''invalid receiver incarnation'')
       (validate_identity ''IncarnationId'' (cf_receiver_incarnation c))) (\<lambda>_.
     rbind (map_err (\<lambda>_. runtime_error_new ''invalid_identity'' ''invalid clock identity'')
       (validate_identity ''ClockId'' (cf_clock_id c))) (\<lambda>_.
     rbind (case cf_transport_custody_policy c of
         None \<Rightarrow> Inr ()
       | Some binding \<Rightarrow> map_err from_custody (transport_binding_validate binding)) (\<lambda>_.
     bounds_validate (cf_bounds c))))))"

section \<open>Inputs\<close>

record consumer_registration =
  cn_policy :: reliance_policy
  cn_context :: reliance_context
  cn_subject_incarnation :: incarnation_id

record consumer_activation =
  ca_policy :: reliance_policy
  ca_context :: reliance_context
  ca_cause :: generation_transition_cause

record pulse_ingress =
  pi_frame :: pulse_frame
  pi_transport_path :: string
  pi_transport_observed_delay_ms :: "u64 option"
  pi_authentication :: authentication_result

text \<open>\<open>VerifiedRemoteObservationV1\<close> of \<open>custody.rs\<close>; \<open>into_parts\<close> is its fields.\<close>

record verified_remote_observation =
  vr_frame :: pulse_frame
  vr_custody :: remote_observation_custody_reference
  vr_receipt :: receiver_acceptance_receipt

datatype runtime_input =
  ActivateConsumer consumer_activation
| ReplaceSubjectIncarnation subject_id incarnation_id "consumer_activation list"
| PulseInput pulse_ingress
| RemotePulse verified_remote_observation
| DispositionInput escalation_disposition
| ReceiptInput diagnostic_receipt
| Reevaluate subject_id consumer_id
| RevalidateTransportActivation subject_id consumer_id transport_custody_policy_binding
| ReceiverBoundaryCondition "subject_id option" transport_custody_finding "digest option" string bool
| RestoreMonitorCapability "subject_id option" string

fun input_priority :: "runtime_input \<Rightarrow> u8" where
  "input_priority (ActivateConsumer _) = 0"
| "input_priority (ReplaceSubjectIncarnation _ _ _) = 0"
| "input_priority (ReceiverBoundaryCondition _ _ _ _ _) = 0"
| "input_priority (PulseInput _) = 2"
| "input_priority (RemotePulse _) = 2"
| "input_priority (RevalidateTransportActivation _ _ _) = 1"
| "input_priority (DispositionInput _) = 3"
| "input_priority (ReceiptInput _) = 3"
| "input_priority (RestoreMonitorCapability _ _) = 4"
| "input_priority (Reevaluate _ _) = 5"

fun ordering_subject :: "runtime_input \<Rightarrow> string" where
  "ordering_subject (ActivateConsumer a) = po_subject (ca_policy a)"
| "ordering_subject (ReplaceSubjectIncarnation subject _ _) = subject"
| "ordering_subject (Reevaluate subject _) = subject"
| "ordering_subject (RevalidateTransportActivation subject _ _) = subject"
| "ordering_subject (PulseInput p) = pf_subject (pi_frame p)"
| "ordering_subject (RemotePulse v) = pf_subject (vr_frame v)"
| "ordering_subject (RestoreMonitorCapability subject _) = (case subject of Some s \<Rightarrow> s | None \<Rightarrow> [])"
| "ordering_subject (ReceiverBoundaryCondition subject _ _ _ _) = (case subject of Some s \<Rightarrow> s | None \<Rightarrow> [])"
| "ordering_subject (DispositionInput _) = []"
| "ordering_subject (ReceiptInput _) = []"

text \<open>\<open>{:0w$}\<close> of an unsigned number: zeros in front up to the width, never truncated.\<close>

definition dec_pad :: "nat \<Rightarrow> nat \<Rightarrow> string" where
  "dec_pad w n = replicate (w - length (dec n)) (CHR ''0'') @ dec n"

fun finding_debug :: "transport_custody_finding \<Rightarrow> string" where
  "finding_debug TransportUnavailable = ''TransportUnavailable''"
| "finding_debug TransportOverloaded = ''TransportOverloaded''"
| "finding_debug TransportMalformed = ''TransportMalformed''"
| "finding_debug AuthenticationFailed = ''AuthenticationFailed''"
| "finding_debug SenderKeyMismatch = ''SenderKeyMismatch''"
| "finding_debug ReceiverChallengeInvalid = ''ReceiverChallengeInvalid''"
| "finding_debug SessionExpired = ''SessionExpired''"
| "finding_debug SessionUnknown = ''SessionUnknown''"
| "finding_debug SessionConflict = ''SessionConflict''"
| "finding_debug SenderOccurrenceConflict = ''SenderOccurrenceConflict''"
| "finding_debug SignatureInvalid = ''SignatureInvalid''"
| "finding_debug QualifiedIdentityMismatch = ''QualifiedIdentityMismatch''"
| "finding_debug CertificateSupersededFinding = ''CertificateSuperseded''"
| "finding_debug CertificateRevokedFinding = ''CertificateRevoked''"
| "finding_debug ReplayDetected = ''ReplayDetected''"
| "finding_debug DuplicateDetected = ''DuplicateDetected''"
| "finding_debug SequenceGapFinding = ''SequenceGap''"
| "finding_debug ObservationRejected = ''ObservationRejected''"
| "finding_debug PayloadMalformed = ''PayloadMalformed''"
| "finding_debug SubjectScopeMismatch = ''SubjectScopeMismatch''"
| "finding_debug ObserverRoleMismatch = ''ObserverRoleMismatch''"
| "finding_debug ReceiverBlind = ''ReceiverBlind''"
| "finding_debug EvidenceAdmitted = ''EvidenceAdmitted''"

definition frame_discriminator :: "pulse_frame \<Rightarrow> string" where
  "frame_discriminator f =
     pf_subject_incarnation f @ '':'' @ pf_observer f @ '':'' @ pf_observer_incarnation f @ '':''
     @ op_name (pf_profile f) @ '':'' @ dec_pad 5 (unat (op_version (pf_profile f))) @ '':''
     @ pf_observation_policy_generation f @ '':'' @ dec_pad 20 (unat (pf_sequence f)) @ '':''
     @ pf_observation_digest f"

fun ordering_discriminator :: "runtime_input \<Rightarrow> string" where
  "ordering_discriminator (ActivateConsumer a) =
     ''activation:'' @ po_consumer (ca_policy a) @ '':'' @ rc_activation_id (ca_context a)"
| "ordering_discriminator (ReplaceSubjectIncarnation _ replacement _) = ''subject-replacement:'' @ replacement"
| "ordering_discriminator (PulseInput p) = ''pulse:'' @ frame_discriminator (pi_frame p)"
| "ordering_discriminator (RemotePulse v) = ''remote-pulse:'' @ frame_discriminator (vr_frame v)"
| "ordering_discriminator (DispositionInput d) = ''disposition:'' @ ed_request_id d"
| "ordering_discriminator (ReceiptInput r) = ''receipt:'' @ dr_request_id r @ '':'' @ dr_receipt_id r"
| "ordering_discriminator (Reevaluate _ consumer) = ''reevaluate:'' @ consumer"
| "ordering_discriminator (RevalidateTransportActivation _ consumer expected) =
     ''transport-activation-revalidation:'' @ consumer @ '':'' @ tb_policy_generation expected @ '':''
     @ tb_policy_digest expected"
| "ordering_discriminator (ReceiverBoundaryCondition _ finding _ detail _) =
     ''receiver-boundary:'' @ finding_debug finding @ '':'' @ detail"
| "ordering_discriminator (RestoreMonitorCapability _ detail) = ''restore:'' @ detail"

section \<open>The output of a cycle\<close>

record cycle_output =
  co_certificates :: "reliance_support_certificate list"
  co_escalation_requests :: "escalation_request list"
  co_refusals :: "runtime_refusal list"
  co_sparse_events :: "sparse_durable_event list"
  co_trace_lines :: "string list"

definition output_default :: cycle_output where
  "output_default =
     \<lparr>co_certificates = [], co_escalation_requests = [], co_refusals = [], co_sparse_events = [],
      co_trace_lines = []\<rparr>"

definition output_append :: "cycle_output \<Rightarrow> cycle_output \<Rightarrow> cycle_output" where
  "output_append out other =
     \<lparr>co_certificates = co_certificates out @ co_certificates other,
      co_escalation_requests = co_escalation_requests out @ co_escalation_requests other,
      co_refusals = co_refusals out @ co_refusals other,
      co_sparse_events = co_sparse_events out @ co_sparse_events other,
      co_trace_lines = co_trace_lines out @ co_trace_lines other\<rparr>"

text \<open>A trace line starts with the time, \<open>[{at:06}ms]\<close>.\<close>

definition push_trace :: "u64 \<Rightarrow> string \<Rightarrow> cycle_output \<Rightarrow> cycle_output" where
  "push_trace at line out =
     out\<lparr>co_trace_lines := co_trace_lines out @ [''['' @ dec_pad 6 (unat at) @ ''ms] '' @ line]\<rparr>"

section \<open>The state\<close>

text \<open>
  The four key structs derive \<open>Ord\<close>, which compares their fields in the order of declaration: they are
  tuples under the lexicographic order. \<open>ConsumerKey\<close> is subject and consumer; \<open>ReceiverStreamIdentity\<close>
  is subject, subject incarnation, observer, profile and observation-policy generation; \<open>PendingKey\<close> is
  time, priority, subject, discriminator and ingress ordinal; \<open>ScheduleKey\<close> is deadline, subject,
  consumer and activation.
\<close>

type_synonym consumer_key = "subject_id \<times> consumer_id"
type_synonym receiver_stream_identity =
  "subject_id \<times> incarnation_id \<times> observer_id \<times> observation_profile_id \<times> observation_policy_generation_id"
type_synonym pending_key = "u64 \<times> u8 \<times> string \<times> string \<times> u64"
type_synonym schedule_key = "u64 \<times> subject_id \<times> consumer_id \<times> context_activation_id"

definition sk_deadline :: "schedule_key \<Rightarrow> u64" where
  "sk_deadline s = fst s"

definition sk_key :: "schedule_key \<Rightarrow> consumer_key" where
  "sk_key s = (fst (snd s), fst (snd (snd s)))"

definition sk_activation_id :: "schedule_key \<Rightarrow> context_activation_id" where
  "sk_activation_id s = snd (snd (snd s))"

definition schedule_key :: "u64 \<Rightarrow> consumer_key \<Rightarrow> context_activation_id \<Rightarrow> schedule_key" where
  "schedule_key deadline key activation = (deadline, fst key, snd key, activation)"

record consumer_state =
  ks_evaluator :: evaluator
  ks_context :: reliance_context
  ks_seen_activations :: "context_activation_id btset"
  ks_certificate :: "reliance_support_certificate option"

text \<open>
  \<open>VerifiedActivationV1\<close> of \<open>qualification.rs\<close> without its open file handle: what rereading that handle
  answers is \<open>en_executable\<close> below.
\<close>

record verified_activation =
  vc_binding :: qualified_generation_binding
  vc_receipt :: activation_receipt
  vc_measurements :: "artifact_measurement list"

record binding_slot =
  bd_state :: runtime_binding_state
  bd_receipt :: activation_receipt
  bd_acceptance :: local_activation_acceptance
  bd_accepted :: "verified_activation option"

record subject_state =
  su_consumers :: "consumer_id btset"
  su_observers :: "observer_id btset"
  su_subject_incarnations :: "incarnation_id btset"

definition subject_state_default :: subject_state where
  "subject_state_default = \<lparr>su_consumers = [], su_observers = [], su_subject_incarnations = []\<rparr>"

record runtime =
  rt_config :: runtime_config
  rt_receiver :: receiver_tracker
  rt_subjects :: "(subject_id, subject_state) btmap"
  rt_consumers :: "(consumer_key, consumer_state) btmap"
  rt_bindings :: "(consumer_key, binding_slot) btmap"
  rt_receiver_streams :: "receiver_stream_identity btset"
  rt_observer_incarnations :: "(subject_id \<times> observer_id, incarnation_id btset) btmap"
  rt_remote_custody :: "(subject_id \<times> observer_id, remote_observation_custody_reference) btmap"
  rt_pending :: "(pending_key, runtime_input) btmap"
  rt_schedules :: "schedule_key btset"
  rt_request_owners :: "(escalation_request_id, consumer_key \<times> u64) btmap"
  rt_sparse_history :: "sparse_durable_event list"
  rt_historical_contradictions :: "contradiction_custody list"
  rt_diagnostic_receipts :: "diagnostic_receipt list"
  rt_historical_activation_ids :: "context_activation_id btset"
  rt_historical_policy_bodies :: "(subject_id \<times> consumer_id \<times> policy_generation_id, digest) btmap"
  rt_metrics :: runtime_metrics
  rt_current_ms :: u64
  rt_ingress_counter :: u64
  rt_event_counter :: u64
  rt_refusal_counter :: u64
  rt_history_exhausted :: bool
  rt_history_exhaustion_reported :: bool
  rt_history_blindness_latched :: bool
  rt_pending_output :: cycle_output
  rt_probes :: nat

text \<open>
  \<open>rt_probes\<close> is not a field of the code: it counts the rereadings of executables, so that the answers
  of the operating system may differ from one to the next.
\<close>

definition runtime_new :: "runtime_config \<Rightarrow> runtime_error + runtime" where
  "runtime_new config =
     rbind (config_validate config) (\<lambda>_.
     Inr \<lparr>rt_config = config,
          rt_receiver = tracker_new (cf_receiver config) (cf_receiver_incarnation config) (cf_clock_id config),
          rt_subjects = [], rt_consumers = [], rt_bindings = [], rt_receiver_streams = [],
          rt_observer_incarnations = [], rt_remote_custody = [], rt_pending = [], rt_schedules = [],
          rt_request_owners = [], rt_sparse_history = [], rt_historical_contradictions = [],
          rt_diagnostic_receipts = [], rt_historical_activation_ids = [], rt_historical_policy_bodies = [],
          rt_metrics = runtime_metrics_empty, rt_current_ms = 0, rt_ingress_counter = 0, rt_event_counter = 0,
          rt_refusal_counter = 0, rt_history_exhausted = False, rt_history_exhaustion_reported = False,
          rt_history_blindness_latched = False, rt_pending_output = output_default, rt_probes = 0\<rparr>)"

definition current_certificate :: "runtime \<Rightarrow> subject_id \<Rightarrow> consumer_id \<Rightarrow> reliance_support_certificate option" where
  "current_certificate rt subject consumer =
     (case bt_get (rt_consumers rt) (subject, consumer) of
        None \<Rightarrow> None | Some state \<Rightarrow> ks_certificate state)"

definition current_certificates :: "runtime \<Rightarrow> reliance_support_certificate list" where
  "current_certificates rt = present (map ks_certificate (bt_values (rt_consumers rt)))"

definition next_scheduled_deadline :: "runtime \<Rightarrow> u64 option" where
  "next_scheduled_deadline rt = (case rt_schedules rt of [] \<Rightarrow> None | s # _ \<Rightarrow> Some (sk_deadline s))"

definition binding_state :: "runtime \<Rightarrow> consumer_key \<Rightarrow> runtime_binding_state" where
  "binding_state rt key =
     (case bt_get (rt_bindings rt) key of None \<Rightarrow> Unbound | Some slot \<Rightarrow> bd_state slot)"

end
