(* ===== verification/Artifacts.thy ===== *)
theory Artifacts
  imports RuntimeState
begin

text \<open>
  The typed artifacts a running receiver measures (\<open>crates/pulse-runtime/src/binding.rs\<close>): the canonical
  policy, evaluator, profile, observer set, observation policy, configuration and contracts, and their
  measurements. \<open>serde_json::to_vec\<close> is the field \<open>en_artifact\<close> of the environment; assembling and
  signing a qualification package is not modelled.
\<close>

section \<open>Artifact values\<close>

record canonical_escalation_policy =
  xa_triggers :: "string list"
  xa_diagnostic_profile_name :: string
  xa_diagnostic_profile_version :: u16
  xa_diagnostic_profile_digest :: digest
  xa_maximum_runtime_ms :: u64
  xa_maximum_output_bytes :: u64
  xa_maximum_observations :: u32
  xa_request_ttl_ms :: u64

record canonical_policy_artifact =
  pa_schema_version :: u16
  pa_subject :: subject_id
  pa_scope :: string
  pa_consumer :: consumer_id
  pa_generation :: policy_generation_id
  pa_observation_policy_generation :: observation_policy_generation_id
  pa_observation_profile :: observation_profile_id
  pa_required_coverage :: "string list"
  pa_minimum_observers :: u32
  pa_maximum_validity_ms :: u64
  pa_require_verified_authentication :: bool
  pa_coherence_tolerances :: "(string \<times> u64) list"
  pa_observer_failure_domains :: "(string \<times> string) list"
  pa_escalation :: "canonical_escalation_policy option"

definition canonical_escalation :: "escalation_policy \<Rightarrow> canonical_escalation_policy" where
  "canonical_escalation x =
     \<lparr>xa_triggers = map trigger_str (xp_triggers x),
      xa_diagnostic_profile_name = dp_name (xp_diagnostic_profile x),
      xa_diagnostic_profile_version = dp_version (xp_diagnostic_profile x),
      xa_diagnostic_profile_digest = dp_semantic_digest (xp_diagnostic_profile x),
      xa_maximum_runtime_ms = db_maximum_runtime_ms (xp_bounds x),
      xa_maximum_output_bytes = db_maximum_output_bytes (xp_bounds x),
      xa_maximum_observations = db_maximum_observations (xp_bounds x),
      xa_request_ttl_ms = xp_request_ttl_ms x\<rparr>"

definition canonical_policy :: "reliance_policy \<Rightarrow> canonical_policy_artifact" where
  "canonical_policy p =
     \<lparr>pa_schema_version = po_schema_version p, pa_subject = po_subject p, pa_scope = po_scope p,
      pa_consumer = po_consumer p, pa_generation = po_generation p,
      pa_observation_policy_generation = po_observation_policy_generation p,
      pa_observation_profile = po_observation_profile p, pa_required_coverage = po_required_coverage p,
      pa_minimum_observers = po_minimum_observers p, pa_maximum_validity_ms = po_maximum_validity_ms p,
      pa_require_verified_authentication = po_require_verified_authentication p,
      pa_coherence_tolerances = po_coherence_tolerances p,
      pa_observer_failure_domains = po_observer_failure_domains p,
      pa_escalation = map_option canonical_escalation (po_escalation p)\<rparr>"

record evaluator_artifact =
  ea_schema_version :: u16
  ea_evaluator_generation :: evaluator_semantic_generation_id
  ea_embedded_implementation_marker_digest :: digest
  ea_executable_contains_implementation :: bool
  ea_source_to_binary_correspondence_claimed :: bool

record profile_artifact =
  fa_schema_version :: u16
  fa_generation :: consumer_profile_generation_id
  fa_consumer :: consumer_id
  fa_subject :: subject_id
  fa_scope :: string
  fa_reliance_contract :: string

record observer_set_artifact =
  oa_schema_version :: u16
  oa_generation :: observer_set_generation_id
  oa_minimum_observers :: u32
  oa_failure_domains :: "(string \<times> string) list"

record observation_policy_artifact =
  na_schema_version :: u16
  na_generation :: observation_policy_generation_id
  na_profile :: observation_profile_id
  na_admitted_coverage :: "string list"

record configuration_artifact =
  ga_schema_version :: u16
  ga_receiver :: receiver_id
  ga_bounds :: runtime_bounds
  ga_transport_custody_policy :: "transport_custody_policy_binding option"
  ga_receiver_incarnation_is_process_occurrence :: bool
  ga_receiver_clock_is_process_occurrence :: bool
  ga_deadline_custody_contract :: string
  ga_history_restarts_unknown :: bool

record semantic_contract_identity =
  si_name :: string
  si_version :: u16
  si_digest :: digest

record contracts_artifact =
  ta_schema_version :: u16
  ta_contracts :: "semantic_contract_identity list"

datatype runtime_artifact =
  EvaluatorArtifact evaluator_artifact
| PolicyArtifact canonical_policy_artifact
| ProfileArtifact profile_artifact
| ObserverSetArtifact observer_set_artifact
| ObservationPolicyArtifact observation_policy_artifact
| ConfigurationArtifact configuration_artifact
| ContractsArtifact contracts_artifact

section \<open>What the runtime takes from elsewhere\<close>

text \<open>
  SHA-256, \<open>serde_json::to_vec\<close> of artifacts, custody references, acceptance receipts and lifecycle facts,
  the answer to each rereading of an executable (\<open>VerifiedActivationV1::revalidate_executable\<close>), and the
  version and platform fixed when the program is built.
\<close>

record runtime_env =
  en_sha :: hasher
  en_artifact :: "runtime_artifact \<Rightarrow> bytes"
  en_custody :: "remote_observation_custody_reference \<Rightarrow> bytes"
  en_receipt :: "receiver_acceptance_receipt \<Rightarrow> bytes"
  en_lifecycle :: "generation_lifecycle_fact_body \<Rightarrow> bytes"
  en_executable :: "nat \<Rightarrow> verified_activation \<Rightarrow> qualification_error + unit"
  en_runtime_version :: string
  en_target_platform :: string

section \<open>Semantic contracts\<close>

definition NL :: string where
  "NL = [char_of (10 :: nat)]"

definition EVALUATOR_IMPLEMENTATION_MARKER :: bytes where
  "EVALUATOR_IMPLEMENTATION_MARKER =
     ''monitor-skunkworks/pulse-evaluator/consumer-indexed-evaluator/v1'' @ NL
     @ ''category-precedence=contradicted,suspect,unknown,degraded,current'' @ NL
     @ ''receiver-owned-freshness=true'' @ NL @ ''scalar-confidence=false'' @ NL"

definition RUNTIME_BINDING_CONTRACT :: bytes where
  "RUNTIME_BINDING_CONTRACT =
     ''monitor-skunkworks/qualified-generation-binding/v1'' @ NL
     @ ''declared!=qualified!=activated'' @ NL @ ''current-requires-qualified-and-matched=true'' @ NL"

definition SUPPORT_CERTIFICATE_CONTRACT :: bytes where
  "SUPPORT_CERTIFICATE_CONTRACT =
     ''monitor-skunkworks/reliance-support-certificate/v2'' @ NL
     @ ''qualified-generation-binding-required-for-current=true'' @ NL @ ''mutation-authority=none'' @ NL"

definition REMOTE_SUPPORT_CERTIFICATE_CONTRACT :: bytes where
  "REMOTE_SUPPORT_CERTIFICATE_CONTRACT =
     ''monitor-skunkworks/reliance-support-certificate/v3'' @ NL
     @ ''qualified-generation-binding-required-for-current=true'' @ NL
     @ ''remote-custody-is-exact-and-receiver-anchored=true'' @ NL @ ''mutation-authority=none'' @ NL"

definition RECEIVER_BOUNDARY_CONTRACT :: bytes where
  "RECEIVER_BOUNDARY_CONTRACT =
     ''monitor-skunkworks/receiver-boundary-custody/v1'' @ NL
     @ ''authenticated-transport!=sender-activation!=receiver-admission!=reliance'' @ NL
     @ ''receiver-owned-arrival-freshness=true'' @ NL"

definition contract_identity :: "hasher \<Rightarrow> string \<Rightarrow> u16 \<Rightarrow> bytes \<Rightarrow> semantic_contract_identity" where
  "contract_identity sha name version bytes =
     \<lparr>si_name = name, si_version = version, si_digest = artifact_content_digest sha bytes\<rparr>"

definition runtime_semantic_contracts :: "hasher \<Rightarrow> semantic_contract_identity list" where
  "runtime_semantic_contracts sha =
     [contract_identity sha ''monitor.qualified_generation_binding'' 1 RUNTIME_BINDING_CONTRACT,
      contract_identity sha ''monitor.reliance_support_certificate'' 2 SUPPORT_CERTIFICATE_CONTRACT,
      contract_identity sha ''monitor.runtime_evaluator'' 1 EVALUATOR_IMPLEMENTATION_MARKER]"

definition runtime_semantic_contracts_for_config :: "hasher \<Rightarrow> runtime_config \<Rightarrow> semantic_contract_identity list" where
  "runtime_semantic_contracts_for_config sha config =
     (if cf_transport_custody_policy config = None then runtime_semantic_contracts sha
      else sort_key si_name
        [contract_identity sha ''monitor.qualified_generation_binding'' 1 RUNTIME_BINDING_CONTRACT,
         contract_identity sha ''monitor.receiver_boundary_custody'' 1 RECEIVER_BOUNDARY_CONTRACT,
         contract_identity sha ''monitor.reliance_support_certificate'' 3 REMOTE_SUPPORT_CERTIFICATE_CONTRACT,
         contract_identity sha ''monitor.runtime_evaluator'' 1 EVALUATOR_IMPLEMENTATION_MARKER])"

section \<open>Payloads and measurements\<close>

record artifact_payload =
  ap_role :: artifact_role
  ap_logical_name :: string
  ap_logical_path :: string
  ap_media_type :: string
  ap_bytes :: bytes
  ap_provenance :: measurement_provenance

definition payload_measurement :: "hasher \<Rightarrow> artifact_payload \<Rightarrow> artifact_measurement" where
  "payload_measurement sha p =
     \<lparr>am_role = ap_role p, am_content_digest = artifact_content_digest sha (ap_bytes p),
      am_byte_length = of_nat (length (ap_bytes p)), am_provenance = ap_provenance p, am_caller_supplied = False\<rparr>"

definition typed_payload ::
  "runtime_env \<Rightarrow> artifact_role \<Rightarrow> string \<Rightarrow> string \<Rightarrow> runtime_artifact \<Rightarrow> string \<Rightarrow>
   qualification_error + artifact_payload" where
  "typed_payload en role name path v type_name =
     rbind (canonical_encode (en_artifact en) v) (\<lambda>bytes.
     Inr \<lparr>ap_role = role, ap_logical_name = name, ap_logical_path = path, ap_media_type = ''application/json'',
          ap_bytes = bytes, ap_provenance = OwnedCanonicalValue type_name\<rparr>)"

definition evaluator_value :: "hasher \<Rightarrow> consumer_registration \<Rightarrow> evaluator_artifact" where
  "evaluator_value sha reg =
     \<lparr>ea_schema_version = SCHEMA_VERSION_V1,
      ea_evaluator_generation = rc_evaluator_semantic_generation (cn_context reg),
      ea_embedded_implementation_marker_digest = artifact_content_digest sha EVALUATOR_IMPLEMENTATION_MARKER,
      ea_executable_contains_implementation = True, ea_source_to_binary_correspondence_claimed = False\<rparr>"

definition profile_value :: "consumer_registration \<Rightarrow> profile_artifact" where
  "profile_value reg =
     \<lparr>fa_schema_version = SCHEMA_VERSION_V1,
      fa_generation = rc_consumer_profile_generation (cn_context reg),
      fa_consumer = po_consumer (cn_policy reg), fa_subject = po_subject (cn_policy reg),
      fa_scope = po_scope (cn_policy reg), fa_reliance_contract = ''consumer-indexed-present-reliance/v1''\<rparr>"

definition observer_set_value :: "consumer_registration \<Rightarrow> observer_set_artifact" where
  "observer_set_value reg =
     \<lparr>oa_schema_version = SCHEMA_VERSION_V1, oa_generation = rc_observer_set_generation (cn_context reg),
      oa_minimum_observers = po_minimum_observers (cn_policy reg),
      oa_failure_domains = po_observer_failure_domains (cn_policy reg)\<rparr>"

definition observation_policy_value :: "consumer_registration \<Rightarrow> observation_policy_artifact" where
  "observation_policy_value reg =
     \<lparr>na_schema_version = SCHEMA_VERSION_V1,
      na_generation = rc_observation_policy_generation (cn_context reg),
      na_profile = po_observation_profile (cn_policy reg),
      na_admitted_coverage = po_required_coverage (cn_policy reg)\<rparr>"

definition configuration_value :: "runtime_config \<Rightarrow> configuration_artifact" where
  "configuration_value config =
     \<lparr>ga_schema_version = SCHEMA_VERSION_V1, ga_receiver = cf_receiver config, ga_bounds = cf_bounds config,
      ga_transport_custody_policy = cf_transport_custody_policy config,
      ga_receiver_incarnation_is_process_occurrence = True, ga_receiver_clock_is_process_occurrence = True,
      ga_deadline_custody_contract = ''receiver-owned-inclusive-support-expiry/v1'',
      ga_history_restarts_unknown = True\<rparr>"

definition contracts_payload :: "runtime_env \<Rightarrow> runtime_config \<Rightarrow> qualification_error + artifact_payload" where
  "contracts_payload en config =
     rbind (canonical_encode (en_artifact en)
         (ContractsArtifact \<lparr>ta_schema_version = SCHEMA_VERSION_V1,
            ta_contracts = runtime_semantic_contracts_for_config (en_sha en) config\<rparr>)) (\<lambda>bytes.
     Inr \<lparr>ap_role = SemanticContracts, ap_logical_name = ''semantic-contracts'',
          ap_logical_path = ''embedded/semantic-contracts.json'', ap_media_type = ''application/json'',
          ap_bytes = bytes, ap_provenance = EmbeddedArtifact ''pulse-runtime semantic contract inventory''\<rparr>)"

definition active_runtime_artifact_payloads ::
  "runtime_env \<Rightarrow> runtime_config \<Rightarrow> consumer_registration \<Rightarrow> qualification_error + artifact_payload list" where
  "active_runtime_artifact_payloads en config reg =
     rbind (typed_payload en EvaluatorImplementation ''evaluator-implementation''
       ''typed/evaluator-implementation.json'' (EvaluatorArtifact (evaluator_value (en_sha en) reg))
       ''EvaluatorImplementationArtifactV1'') (\<lambda>p1.
     rbind (typed_payload en ReliancePolicyRole ''reliance-policy'' ''typed/reliance-policy.json''
       (PolicyArtifact (canonical_policy (cn_policy reg))) ''CanonicalReliancePolicyArtifactV1'') (\<lambda>p2.
     rbind (typed_payload en ConsumerProfile ''consumer-profile'' ''typed/consumer-profile.json''
       (ProfileArtifact (profile_value reg)) ''ConsumerProfileArtifactV1'') (\<lambda>p3.
     rbind (typed_payload en ObserverSet ''observer-set'' ''typed/observer-set.json''
       (ObserverSetArtifact (observer_set_value reg)) ''ObserverSetArtifactV1'') (\<lambda>p4.
     rbind (typed_payload en ObservationPolicy ''observation-policy'' ''typed/observation-policy.json''
       (ObservationPolicyArtifact (observation_policy_value reg)) ''ObservationPolicyArtifactV1'') (\<lambda>p5.
     rbind (typed_payload en RuntimeConfiguration ''runtime-configuration'' ''typed/runtime-configuration.json''
       (ConfigurationArtifact (configuration_value config)) ''RuntimeConfigurationArtifactV1'') (\<lambda>p6.
     rbind (contracts_payload en config) (\<lambda>p7.
     Inr (sort_key (\<lambda>p. role_rank (ap_role p)) [p1, p2, p3, p4, p5, p6, p7]))))))))"

definition active_runtime_measurements ::
  "runtime_env \<Rightarrow> runtime_config \<Rightarrow> consumer_registration \<Rightarrow> qualification_error + artifact_measurement list" where
  "active_runtime_measurements en config reg =
     rbind (active_runtime_artifact_payloads en config reg) (\<lambda>ps. Inr (map (payload_measurement (en_sha en)) ps))"

end
