(* ===== verification/Runtime.thy ===== *)
theory Runtime
  imports Artifacts
begin

text \<open>
  The receiver/scheduler runtime (\<open>crates/pulse-runtime/src/lib.rs\<close>, \<open>ReceiverSchedulerRuntime\<close>): its
  bookkeeping, the evaluation that issues certificates and schedules their expiry, the inputs, and the
  scheduler loop. A function that writes to \<open>&mut output\<close> works on the pair of runtime and output; one
  that can fail returns that pair with a result, since the code changes the state before it fails. A
  failed \<open>expect\<close> is the result \<open>RuntimePanic\<close>.
\<close>

datatype runtime_failure = RuntimeFault runtime_error | RuntimePanic string

type_synonym cycle = "runtime \<times> cycle_output"
type_synonym 'a cycled = "cycle \<times> (runtime_failure + 'a)"

text \<open>\<open>?\<close> after a call that changes the cycle.\<close>

definition cbind :: "'a cycled \<Rightarrow> ('a \<Rightarrow> cycle \<Rightarrow> 'b cycled) \<Rightarrow> 'b cycled" where
  "cbind r f = (case snd r of Inl err \<Rightarrow> (fst r, Inl err) | Inr x \<Rightarrow> f x (fst r))"

definition fault :: "string \<Rightarrow> string \<Rightarrow> runtime_failure + 'a" where
  "fault code detail = Inl (RuntimeFault (runtime_error_new code detail))"

section \<open>Names in texts\<close>

fun binding_state_debug :: "runtime_binding_state \<Rightarrow> string" where
  "binding_state_debug Unbound = ''Unbound''"
| "binding_state_debug BindingPending = ''BindingPending''"
| "binding_state_debug QualifiedAndMatched = ''QualifiedAndMatched''"
| "binding_state_debug MissingCertificate = ''MissingCertificate''"
| "binding_state_debug UnsupportedCertificate = ''UnsupportedCertificate''"
| "binding_state_debug ManifestMismatch = ''ManifestMismatch''"
| "binding_state_debug ExecutableMismatch = ''ExecutableMismatch''"
| "binding_state_debug EvaluatorMismatch = ''EvaluatorMismatch''"
| "binding_state_debug PolicyMismatch = ''PolicyMismatch''"
| "binding_state_debug ProfileMismatch = ''ProfileMismatch''"
| "binding_state_debug ObserverSetMismatch = ''ObserverSetMismatch''"
| "binding_state_debug ObservationPolicyMismatch = ''ObservationPolicyMismatch''"
| "binding_state_debug ConfigurationMismatch = ''ConfigurationMismatch''"
| "binding_state_debug ContractMismatch = ''ContractMismatch''"
| "binding_state_debug QualificationEvidenceMissing = ''QualificationEvidenceMissing''"
| "binding_state_debug BindingSuperseded = ''Superseded''"
| "binding_state_debug BindingRevoked = ''Revoked''"
| "binding_state_debug MutableAfterActivation = ''MutableAfterActivation''"
| "binding_state_debug MeasurementUnavailable = ''MeasurementUnavailable''"
| "binding_state_debug Ambiguous = ''Ambiguous''"

fun role_debug :: "artifact_role \<Rightarrow> string" where
  "role_debug RunningExecutable = ''RunningExecutable''"
| "role_debug EvaluatorImplementation = ''EvaluatorImplementation''"
| "role_debug ReliancePolicyRole = ''ReliancePolicy''"
| "role_debug ConsumerProfile = ''ConsumerProfile''"
| "role_debug ObserverSet = ''ObserverSet''"
| "role_debug ObservationPolicy = ''ObservationPolicy''"
| "role_debug RuntimeConfiguration = ''RuntimeConfiguration''"
| "role_debug SemanticContracts = ''SemanticContracts''"
| "role_debug QualificationCorpus = ''QualificationCorpus''"
| "role_debug QualificationResults = ''QualificationResults''"

fun refusal_class_debug :: "runtime_refusal_class \<Rightarrow> string" where
  "refusal_class_debug SubjectCapacity = ''SubjectCapacity''"
| "refusal_class_debug ConsumerCapacity = ''ConsumerCapacity''"
| "refusal_class_debug ObserverCapacity = ''ObserverCapacity''"
| "refusal_class_debug ReceiverStreamCapacity = ''ReceiverStreamCapacity''"
| "refusal_class_debug IncarnationHistoryCapacity = ''IncarnationHistoryCapacity''"
| "refusal_class_debug PendingQueueCapacity = ''PendingQueueCapacity''"
| "refusal_class_debug ScheduledDeadlineCapacity = ''ScheduledDeadlineCapacity''"
| "refusal_class_debug ContextHistoryCapacity = ''ContextHistoryCapacity''"
| "refusal_class_debug EscalationCapacity = ''EscalationCapacity''"
| "refusal_class_debug CertificateCapacity = ''CertificateCapacity''"
| "refusal_class_debug SparseHistoryCapacity = ''SparseHistoryCapacity''"
| "refusal_class_debug ReceiptHistoryCapacity = ''ReceiptHistoryCapacity''"
| "refusal_class_debug ClockRegression = ''ClockRegression''"
| "refusal_class_debug InvalidBinding = ''InvalidBinding''"
| "refusal_class_debug ReusedActivation = ''ReusedActivation''"
| "refusal_class_debug HistoricalStateInvalid = ''HistoricalStateInvalid''"
| "refusal_class_debug RuntimeBlind = ''RuntimeBlind''"

fun cause_debug :: "generation_transition_cause \<Rightarrow> string" where
  "cause_debug InitialActivation = ''InitialActivation''"
| "cause_debug ReliancePolicyChanged = ''ReliancePolicyChanged''"
| "cause_debug ConsumerProfileChanged = ''ConsumerProfileChanged''"
| "cause_debug EvaluatorSemanticsChanged = ''EvaluatorSemanticsChanged''"
| "cause_debug ObserverSetChanged = ''ObserverSetChanged''"
| "cause_debug ObservationPolicyChanged = ''ObservationPolicyChanged''"
| "cause_debug EquivalentBodyNewGeneration = ''EquivalentBodyNewGeneration''"
| "cause_debug PolicyRollback = ''PolicyRollback''"
| "cause_debug AbaReactivation = ''AbaReactivation''"
| "cause_debug SubjectIncarnationChanged = ''SubjectIncarnationChanged''"
| "cause_debug ReceiverRestarted = ''ReceiverRestarted''"

section \<open>Refusals and the sparse history\<close>

definition refusal ::
  "runtime_refusal_class \<Rightarrow> u64 \<Rightarrow> subject_id option \<Rightarrow> consumer_id option \<Rightarrow> u64 \<Rightarrow> u64 \<Rightarrow> string \<Rightarrow>
   runtime \<Rightarrow> runtime \<times> runtime_refusal" where
  "refusal class at subject consumer bound count detail rt =
     (let n = sat_add (rt_refusal_counter rt) 1
      in (rt\<lparr>rt_refusal_counter := n\<rparr>,
          \<lparr>rf_schema_version = SCHEMA_VERSION_V1, rf_refusal_id = ''runtime-refusal:'' @ hex16 n, rf_class = class,
           rf_at_ms = at, rf_subject = subject, rf_consumer = consumer, rf_configured_bound = bound,
           rf_observed_count = count, rf_detail = detail, rf_current_preserved = False,
           rf_mutation_authority = NoAuthority\<rparr>))"

definition report_refusal :: "u64 \<Rightarrow> runtime_refusal \<Rightarrow> cycle_output \<Rightarrow> cycle_output" where
  "report_refusal at r out =
     (push_trace at (''REFUSAL class='' @ refusal_class_debug (rf_class r) @ '' detail='' @ rf_detail r) out)
       \<lparr>co_refusals := co_refusals out @ [r]\<rparr>"

definition event_lineage :: "hasher \<Rightarrow> runtime_config \<Rightarrow> string" where
  "event_lineage sha config =
     trim_start_matches ''sha256:''
       (digest_parts sha ''runtime.event-lineage.v1'' [cf_receiver_incarnation config, cf_clock_id config])"

definition record_sparse :: "runtime_env \<Rightarrow> u64 \<Rightarrow> sparse_durable_event_kind \<Rightarrow> cycle \<Rightarrow> cycle" where
  "record_sparse en at event c =
     (let rt = fst c; out = snd c; bound = mb_sparse_events (cf_bounds (rt_config rt)) in
      if bound \<le> length (rt_sparse_history rt) then
        let rt1 = rt\<lparr>rt_history_exhausted := True,
              rt_metrics := (rt_metrics rt)\<lparr>rm_sparse_history_refusal_count :=
                sat_add (rm_sparse_history_refusal_count (rt_metrics rt)) 1\<rparr>\<rparr> in
        if rt_history_exhaustion_reported rt then (rt1, out)
        else
          let (rt2, r) = refusal SparseHistoryCapacity at None None (sat_of_nat bound)
                (sat_of_nat (length (rt_sparse_history rt) + 1))
                ''sparse historical custody capacity is exhausted; the event was refused and monitor blindness latched''
                (rt1\<lparr>rt_history_exhaustion_reported := True\<rparr>)
          in (rt2, report_refusal at r out)
      else
        let n = sat_add (rt_event_counter rt) 1;
            item = \<lparr>ev_schema_version = SCHEMA_VERSION_V1,
                    ev_event_id = ''runtime-event:'' @ event_lineage (en_sha en) (rt_config rt) @ '':'' @ hex16 n,
                    ev_at_ms = at, ev_event = event\<rparr>
        in (rt\<lparr>rt_event_counter := n, rt_sparse_history := rt_sparse_history rt @ [item]\<rparr>,
            out\<lparr>co_sparse_events := co_sparse_events out @ [item]\<rparr>))"

definition push_refusal ::
  "runtime_env \<Rightarrow> runtime_refusal_class \<Rightarrow> u64 \<Rightarrow> subject_id option \<Rightarrow> consumer_id option \<Rightarrow> u64 \<Rightarrow> u64 \<Rightarrow>
   string \<Rightarrow> cycle \<Rightarrow> cycle" where
  "push_refusal en class at subject consumer bound count detail c =
     (let (rt, r) = refusal class at subject consumer bound count detail (fst c);
          (rt', out) = record_sparse en at (RuntimeRefusal r) (rt, snd c)
      in (rt', report_refusal at r out))"

definition stage_refusal :: "runtime_env \<Rightarrow> runtime_refusal \<Rightarrow> runtime \<Rightarrow> runtime" where
  "stage_refusal en r rt =
     (let (rt', out) = record_sparse en (rf_at_ms r) (RuntimeRefusal r) (rt, output_default)
      in rt'\<lparr>rt_pending_output := output_append (rt_pending_output rt') (report_refusal (rf_at_ms r) r out)\<rparr>)"

section \<open>Schedules\<close>

definition consumer_keys :: "subject_id option \<Rightarrow> runtime \<Rightarrow> consumer_key list" where
  "consumer_keys subject rt =
     filter (\<lambda>key. case subject of None \<Rightarrow> True | Some s \<Rightarrow> fst key = s) (map fst (rt_consumers rt))"

definition cancel_schedule :: "consumer_key \<Rightarrow> runtime \<Rightarrow> runtime" where
  "cancel_schedule key rt = rt\<lparr>rt_schedules := filter (\<lambda>s. sk_key s \<noteq> key) (rt_schedules rt)\<rparr>"

definition late :: "u64 \<Rightarrow> u64 \<Rightarrow> runtime_metrics \<Rightarrow> runtime_metrics" where
  "late deadline at m =
     (let overshoot = sat_sub at deadline
      in m\<lparr>rm_expected_support_expiry_ms := Some deadline, rm_actual_reevaluation_ms := Some at,
           rm_scheduler_lateness_ms := max (rm_scheduler_lateness_ms m) overshoot,
           rm_maximum_stale_positive_duration_ms := max (rm_maximum_stale_positive_duration_ms m) overshoot\<rparr>)"

definition account_due_schedule_before_cancellation :: "consumer_key \<Rightarrow> u64 \<Rightarrow> runtime \<Rightarrow> runtime" where
  "account_due_schedule_before_cancellation key at rt =
     (let due = map sk_deadline (filter (\<lambda>s. sk_key s = key \<and> sk_deadline s \<le> at) (rt_schedules rt))
      in case due of
           [] \<Rightarrow> rt
         | d # ds \<Rightarrow> rt\<lparr>rt_metrics := late (fold min ds d) at (rt_metrics rt)\<rparr>)"

section \<open>Qualified bindings\<close>

definition generation_matches :: "consumer_key \<Rightarrow> reliance_context \<Rightarrow> qualified_generation_binding \<Rightarrow> bool" where
  "generation_matches key context b \<longleftrightarrow>
     gs_subject (qb_generation_set b) = fst key \<and> gs_consumer (qb_generation_set b) = snd key
     \<and> matches_context (qb_generation_set b) context"

definition descriptive_qualified_binding ::
  "runtime \<Rightarrow> consumer_key \<Rightarrow> consumer_state \<Rightarrow> qualified_generation_binding option" where
  "descriptive_qualified_binding rt key state =
     (case bt_get (rt_bindings rt) key of
        None \<Rightarrow> None
      | Some slot \<Rightarrow>
          if bd_state slot \<noteq> QualifiedAndMatched then None
          else case bd_accepted slot of
            None \<Rightarrow> None
          | Some live \<Rightarrow>
              if generation_matches key (ks_context state) (vc_binding live)
              then Some (vc_binding live) else None)"

definition withdraw_binding :: "consumer_key \<Rightarrow> runtime_binding_state \<Rightarrow> runtime \<Rightarrow> runtime" where
  "withdraw_binding key state rt =
     (case bt_get (rt_bindings rt) key of
        None \<Rightarrow> rt
      | Some slot \<Rightarrow>
          rt\<lparr>rt_bindings := bt_insert key (slot\<lparr>bd_state := state, bd_accepted := None\<rparr>) (rt_bindings rt)\<rparr>)"

definition report_invalidation ::
  "runtime_env \<Rightarrow> consumer_key \<Rightarrow> digest \<Rightarrow> runtime_binding_state \<Rightarrow> string \<Rightarrow> u64 \<Rightarrow> cycle \<Rightarrow> cycle" where
  "report_invalidation en key prior_receipt state detail at c =
     (let (rt, out) = record_sparse en at
            (QualifiedGenerationBindingInvalidated (snd key) prior_receipt state detail False) c
      in (rt, push_trace at (''BINDING_INVALIDATED consumer='' @ snd key @ '' state='' @ binding_state_debug state
             @ '' detail='' @ detail) out))"

definition invalidate_binding_for_context_change ::
  "runtime_env \<Rightarrow> consumer_key \<Rightarrow> reliance_context \<Rightarrow> u64 \<Rightarrow> cycle \<Rightarrow> cycle" where
  "invalidate_binding_for_context_change en key context at c =
     (case bt_get (rt_bindings (fst c)) key of
        None \<Rightarrow> c
      | Some slot \<Rightarrow>
          case bd_accepted slot of
            None \<Rightarrow> c
          | Some live \<Rightarrow>
              if matches_context (qb_generation_set (vc_binding live)) context then c
              else report_invalidation en key (ar_receipt_digest (vc_receipt live)) Unbound
                ''reliance context changed without a matching fresh qualified activation'' at
                (withdraw_binding key Unbound (fst c), snd c))"

text \<open>An active artifact differs from what was qualified under its role.\<close>

definition measurement_differs :: "artifact_measurement list \<Rightarrow> artifact_measurement \<Rightarrow> bool" where
  "measurement_differs qualified observed =
     (case find (\<lambda>q. am_role q = am_role observed) qualified of
        None \<Rightarrow> True
      | Some q \<Rightarrow>
          am_content_digest q \<noteq> am_content_digest observed \<or> am_byte_length q \<noteq> am_byte_length observed
          \<or> am_caller_supplied q)"

definition invalidate_binding ::
  "runtime_env \<Rightarrow> consumer_key \<Rightarrow> verified_activation \<Rightarrow> runtime_binding_state \<Rightarrow> string \<Rightarrow> u64 \<Rightarrow> cycle \<Rightarrow> cycle" where
  "invalidate_binding en key live state detail at c =
     report_invalidation en key (ar_receipt_digest (vc_receipt live)) state detail at
       (cancel_schedule key (withdraw_binding key state (fst c)), snd c)"

definition consumer_registration_of :: "consumer_state \<Rightarrow> consumer_registration" where
  "consumer_registration_of state =
     \<lparr>cn_policy = e_policy (ks_evaluator state), cn_context = ks_context state,
      cn_subject_incarnation = e_current_subject_incarnation (ks_evaluator state)\<rparr>"

definition recheck_activation ::
  "runtime_env \<Rightarrow> consumer_key \<Rightarrow> consumer_state \<Rightarrow> artifact_measurement list \<Rightarrow> verified_activation \<Rightarrow> u64 \<Rightarrow>
   cycle \<Rightarrow> cycle \<times> qualified_generation_binding option" where
  "recheck_activation en key state observed live at c =
     (if \<not> generation_matches key (ks_context state) (vc_binding live) then
        (invalidate_binding en key live Ambiguous
           ''active qualified generation does not match the evaluator context'' at c, None)
      else
        let c1 = ((fst c)\<lparr>rt_probes := Suc (rt_probes (fst c))\<rparr>, snd c) in
        case en_executable en (rt_probes (fst c)) live of
          Inl err \<Rightarrow>
            (invalidate_binding en key live MutableAfterActivation (qualification_error_str err) at c1, None)
        | Inr _ \<Rightarrow>
            case find (measurement_differs (vc_measurements live)) observed of
              Some m \<Rightarrow>
                (invalidate_binding en key live (mismatch_state (am_role m))
                   (''owned active artifact '' @ role_debug (am_role m)
                    @ '' changed after qualification activation'') at c1, None)
            | None \<Rightarrow> (c1, Some (vc_binding live)))"

definition revalidated_qualified_binding ::
  "runtime_env \<Rightarrow> consumer_key \<Rightarrow> consumer_state \<Rightarrow> u64 \<Rightarrow> cycle \<Rightarrow>
   qualified_generation_binding option cycled" where
  "revalidated_qualified_binding en key state at c =
     (case active_runtime_measurements en (rt_config (fst c)) (consumer_registration_of state) of
        Inl err \<Rightarrow> (c, Inl (RuntimeFault (from_qualification err)))
      | Inr observed \<Rightarrow>
          case bt_get (rt_bindings (fst c)) key of
            None \<Rightarrow> (c, Inr None)
          | Some slot \<Rightarrow>
              if bd_state slot \<noteq> QualifiedAndMatched then (c, Inr None)
              else case bd_accepted slot of
                None \<Rightarrow> (c, Inr None)
              | Some live \<Rightarrow>
                  let (c', b) = recheck_activation en key state observed live at c in (c', Inr b))"

section \<open>\<open>apply_evaluation\<close>\<close>

fun dedup_by_key :: "('a \<Rightarrow> 'b) \<Rightarrow> 'a list \<Rightarrow> 'a list" where
  "dedup_by_key f [] = []"
| "dedup_by_key f [x] = [x]"
| "dedup_by_key f (x # y # xs) =
     (if f x = f y then dedup_by_key f (x # xs) else x # dedup_by_key f (y # xs))"

definition is_current :: "reliance_support_certificate option \<Rightarrow> bool" where
  "is_current c = (case c of None \<Rightarrow> False | Some cert \<Rightarrow> sc_judgment cert = Current)"

definition runtime_current :: "runtime \<Rightarrow> consumer_key \<Rightarrow> bool" where
  "runtime_current rt key =
     (case bt_get (rt_consumers rt) key of None \<Rightarrow> False | Some state \<Rightarrow> is_current (ks_certificate state))"

definition record_events :: "runtime_env \<Rightarrow> sparse_durable_event list \<Rightarrow> cycle \<Rightarrow> cycle" where
  "record_events en events c = fold (\<lambda>ev. record_sparse en (ev_at_ms ev) (ev_event ev)) events c"

text \<open>A request goes out only where the runtime itself had issued CURRENT before.\<close>

definition dispatch_request ::
  "runtime_env \<Rightarrow> consumer_key \<Rightarrow> bool \<Rightarrow> escalation_request option \<Rightarrow> u64 \<Rightarrow> cycle \<Rightarrow> cycle" where
  "dispatch_request en key prior_current request at c =
     (case request of
        None \<Rightarrow> c
      | Some q \<Rightarrow>
          let rt = fst c; out = snd c; bound = mb_active_escalations (cf_bounds (rt_config rt)) in
          if \<not> prior_current then
            (rt, push_trace at (''ESCALATION_SUPPRESSED consumer='' @ snd key
                @ '' reason=no_prior_runtime_supported_current'') out)
          else if bound \<le> length (rt_request_owners rt) then
            push_refusal en EscalationCapacity at (Some (fst key)) (Some (snd key)) (sat_of_nat bound)
              (sat_of_nat (length (rt_request_owners rt) + 1))
              ''active escalation request bound is full; request was not dispatched'' c
          else
            (rt\<lparr>rt_request_owners := bt_insert (rq_request_id q) (key, rq_expires_at_ms q) (rt_request_owners rt)\<rparr>,
             out\<lparr>co_escalation_requests := co_escalation_requests out @ [q]\<rparr>))"

definition certificate_evidence :: "consumer_state \<Rightarrow> u64 \<Rightarrow> string list" where
  "certificate_evidence state at = remdups_adj (sort (supporting_evidence_refs (ks_evaluator state) at))"

definition certificate_contradictions :: "consumer_state \<Rightarrow> contradiction_id list" where
  "certificate_contradictions state = remdups_adj (sort (active_contradiction_ids (ks_evaluator state)))"

definition certificate_custody ::
  "runtime_env \<Rightarrow> runtime \<Rightarrow> subject_scope \<Rightarrow> string list \<Rightarrow> remote_observation_custody_reference list" where
  "certificate_custody en rt scope evidence =
     (let identity = custody_reference_digest (en_sha en) (en_custody en)
      in dedup_by_key identity (sort_key identity
           (filter (\<lambda>r. ro_subject_scope r = scope \<and> ro_supporting_evidence_id r \<in> set evidence)
             (bt_values (rt_remote_custody rt)))))"

definition certificate_judgment ::
  "evaluation_output \<Rightarrow> qualified_generation_binding option \<Rightarrow> judgment_category" where
  "certificate_judgment ev qualified =
     (if ju_category (eo_judgment ev) = Current \<and> qualified = None then Unknown
      else ju_category (eo_judgment ev))"

definition certificate_missing ::
  "runtime \<Rightarrow> consumer_key \<Rightarrow> evaluation_output \<Rightarrow> qualified_generation_binding option \<Rightarrow> string list" where
  "certificate_missing rt key ev qualified =
     (let reasons = (if certificate_judgment ev qualified = Current then []
            else map jr_code (filter (\<lambda>r. jr_code r \<noteq> ''named_reliance_conditions_satisfied'')
              (je_reasons (ju_explanation (eo_judgment ev)))));
          unqualified = (if ju_category (eo_judgment ev) = Current \<and> qualified = None
            then [''qualified_generation_binding:'' @ binding_state_debug (binding_state rt key)] else []);
          uncovered = map (\<lambda>tag. ''coverage:'' @ tag) (cs_missing (ju_coverage (eo_judgment ev)))
      in remdups_adj (sort (reasons @ unqualified @ uncovered)))"

definition certificate_deadline ::
  "evaluation_output \<Rightarrow> qualified_generation_binding option \<Rightarrow> u64 option" where
  "certificate_deadline ev qualified =
     (if certificate_judgment ev qualified = Current then ju_support_expires_at_ms (eo_judgment ev) else None)"

definition draft_certificate ::
  "runtime_env \<Rightarrow> consumer_key \<Rightarrow> consumer_state \<Rightarrow> evaluation_output \<Rightarrow>
   qualified_generation_binding option \<Rightarrow> remote_observation_custody_reference list \<Rightarrow> u64 \<Rightarrow> runtime \<Rightarrow>
   reliance_support_certificate" where
  "draft_certificate en key state ev qualified custody at rt =
     \<lparr>sc_schema_version = SCHEMA_VERSION_V1, sc_certificate_id = ''pending'', sc_consumer = snd key,
      sc_subject_scope = ju_subject_scope (eo_judgment ev), sc_context = ks_context state,
      sc_qualified_generation = qualified, sc_evaluated_at_ms = at,
      sc_receiver_clock_id = cf_clock_id (rt_config rt), sc_judgment = certificate_judgment ev qualified,
      sc_evidence_window_id = ju_evidence_window_id (eo_judgment ev),
      sc_supporting_evidence_ids = certificate_evidence state at, sc_remote_observation_custody = custody,
      sc_missing_premises = certificate_missing rt key ev qualified,
      sc_applicable_contradictions = certificate_contradictions state,
      sc_coverage = ju_coverage (eo_judgment ev), sc_earliest_support_expiry_ms = certificate_deadline ev qualified,
      sc_next_scheduled_reevaluation_ms = certificate_deadline ev qualified,
      sc_escalation = ju_escalation (eo_judgment ev), sc_mutation_authority = NoAuthority\<rparr>"

definition seal_certificate :: "runtime_env \<Rightarrow> reliance_support_certificate \<Rightarrow> reliance_support_certificate" where
  "seal_certificate en cert = cert\<lparr>sc_certificate_id := certificate_compute_id (en_sha en) (en_custody en) cert\<rparr>"

definition schedule_expiry :: "consumer_key \<Rightarrow> context_activation_id \<Rightarrow> u64 option \<Rightarrow> runtime \<Rightarrow> runtime" where
  "schedule_expiry key activation deadline rt =
     (case deadline of
        None \<Rightarrow> rt
      | Some d \<Rightarrow>
          rt\<lparr>rt_schedules := bs_insert (schedule_key d key activation) (rt_schedules rt),
             rt_metrics := (rt_metrics rt)\<lparr>rm_expected_support_expiry_ms := Some d\<rparr>\<rparr>)"

text \<open>\<open>sum()\<close> of \<open>u64\<close> as an optimised build computes it.\<close>

definition count_duplicate_escalations :: "runtime \<Rightarrow> runtime" where
  "count_duplicate_escalations rt =
     rt\<lparr>rt_metrics := (rt_metrics rt)\<lparr>rm_duplicate_escalation_count :=
          sum_list (map (\<lambda>s. em_escalation_deduplication_count (e_metrics (ks_evaluator s)))
            (bt_values (rt_consumers rt)))\<rparr>\<rparr>"

definition certificate_trace :: "consumer_key \<Rightarrow> reliance_support_certificate \<Rightarrow> string" where
  "certificate_trace key cert =
     ''CERTIFICATE consumer='' @ snd key @ '' activation='' @ rc_activation_id (sc_context cert) @ '' judgment=''
     @ category_str (sc_judgment cert) @ '' support_expires=''
     @ (case sc_earliest_support_expiry_ms cert of None \<Rightarrow> ''none'' | Some d \<Rightarrow> dec (unat d) @ ''ms'')
     @ '' standing_inherited=false''"

definition install_certificate ::
  "runtime_env \<Rightarrow> consumer_key \<Rightarrow> consumer_state \<Rightarrow> reliance_support_certificate \<Rightarrow> u64 \<Rightarrow> cycle \<Rightarrow> cycle" where
  "install_certificate en key state cert at c =
     (let rt1 = schedule_expiry key (rc_activation_id (ks_context state))
            (sc_earliest_support_expiry_ms cert) (fst c);
          rt2 = rt1\<lparr>rt_consumers := bt_insert key (state\<lparr>ks_certificate := Some cert\<rparr>) (rt_consumers rt1)\<rparr>;
          out2 = (snd c)\<lparr>co_certificates := co_certificates (snd c) @ [cert]\<rparr>;
          (rt3, out3) = (if ks_certificate state \<noteq> Some cert
            then record_sparse en at (SupportCertificateIssued cert) (rt2, out2) else (rt2, out2))
      in (count_duplicate_escalations rt3, push_trace at (certificate_trace key cert) out3))"

definition issue_certificate ::
  "runtime_env \<Rightarrow> consumer_key \<Rightarrow> consumer_state \<Rightarrow> evaluation_output \<Rightarrow>
   remote_observation_custody_reference list \<Rightarrow> u64 \<Rightarrow> qualified_generation_binding option \<Rightarrow> cycle \<Rightarrow>
   unit cycled" where
  "issue_certificate en key state ev custody at qualified c =
     (let cert = seal_certificate en (draft_certificate en key state ev qualified custody at (fst c))
      in case certificate_validate (en_sha en) (en_custody en) cert of
           Inl err \<Rightarrow> (c, Inl (RuntimeFault (from_runtime_type err)))
         | Inr _ \<Rightarrow> (install_certificate en key state cert at c, Inr ()))"

definition certificate_over_capacity :: "consumer_state \<Rightarrow> u64 \<Rightarrow> runtime \<Rightarrow> bool" where
  "certificate_over_capacity state at rt \<longleftrightarrow>
     mb_supporting_evidence_refs (cf_bounds (rt_config rt)) < length (certificate_evidence state at)
     \<or> MAX_CERTIFICATE_CONTRADICTIONS < length (certificate_contradictions state)"

definition refuse_certificate :: "runtime_env \<Rightarrow> consumer_key \<Rightarrow> consumer_state \<Rightarrow> u64 \<Rightarrow> cycle \<Rightarrow> cycle" where
  "refuse_certificate en key state at c =
     (let rt = (fst c)\<lparr>rt_consumers := bt_insert key (state\<lparr>ks_certificate := None\<rparr>) (rt_consumers (fst c))\<rparr>
      in push_refusal en CertificateCapacity at (Some (fst key)) (Some (snd key))
           (sat_of_nat (mb_supporting_evidence_refs (cf_bounds (rt_config rt))))
           (sat_of_nat (max (length (certificate_evidence state at)) (length (certificate_contradictions state))))
           ''support certificate references exceed their exact bound; no positive certificate was issued''
           (rt, snd c))"

definition qualified_for ::
  "runtime_env \<Rightarrow> consumer_key \<Rightarrow> consumer_state \<Rightarrow> evaluation_output \<Rightarrow> u64 \<Rightarrow> cycle \<Rightarrow>
   qualified_generation_binding option cycled" where
  "qualified_for en key state ev at c =
     (if ju_category (eo_judgment ev) = Current then revalidated_qualified_binding en key state at c
      else (c, Inr (descriptive_qualified_binding (fst c) key state)))"

definition without_consumer :: "consumer_key \<Rightarrow> runtime \<Rightarrow> runtime" where
  "without_consumer key rt = rt\<lparr>rt_consumers := bt_remove key (rt_consumers rt)\<rparr>"

definition apply_evaluation ::
  "runtime_env \<Rightarrow> consumer_key \<Rightarrow> evaluation_output \<Rightarrow> u64 \<Rightarrow> cycle \<Rightarrow> unit cycled" where
  "apply_evaluation en key ev at c =
     (let prior_current = runtime_current (fst c) key;
          (rt2, out) = dispatch_request en key prior_current (eo_escalation_request ev) at
            (record_events en (eo_sparse_events ev) c);
          rt3 = cancel_schedule key (account_due_schedule_before_cancellation key at rt2)
      in case bt_get (rt_consumers rt3) key of
           None \<Rightarrow> ((rt3, out), fault ''unknown_consumer'' ''evaluation consumer disappeared'')
         | Some state \<Rightarrow>
             let custody = certificate_custody en rt3 (ju_subject_scope (eo_judgment ev)) (certificate_evidence state at);
                 rt4 = without_consumer key rt3
             in if certificate_over_capacity state at rt4 then
                  (refuse_certificate en key state at (rt4, out), Inr ())
                else
                  cbind (qualified_for en key state ev at (rt4, out))
                    (issue_certificate en key state ev custody at))"

section \<open>Withdrawing standing\<close>

definition put_consumer :: "consumer_key \<Rightarrow> consumer_state \<Rightarrow> runtime \<Rightarrow> runtime" where
  "put_consumer key state rt = rt\<lparr>rt_consumers := bt_insert key state (rt_consumers rt)\<rparr>"

definition latch_blind_consumer :: "runtime_env \<Rightarrow> u64 \<Rightarrow> string \<Rightarrow> consumer_key \<Rightarrow> runtime \<Rightarrow> runtime" where
  "latch_blind_consumer en at detail key rt =
     (case bt_get (rt_consumers rt) key of
        None \<Rightarrow> rt
      | Some state \<Rightarrow>
          let (e, r) = record_monitor_input_drop (en_sha en) 1 at detail (ks_evaluator state);
              rt1 = put_consumer key (state\<lparr>ks_evaluator := e\<rparr>) rt
          in case r of
               Inl _ \<Rightarrow> rt1
             | Inr ev \<Rightarrow>
                 let ((rt2, out), res) = apply_evaluation en key ev (max at (rt_current_ms rt1)) (rt1, output_default)
                 in if is_ok res then rt2\<lparr>rt_pending_output := output_append (rt_pending_output rt2) out\<rparr> else rt2)"

definition latch_blind_all :: "runtime_env \<Rightarrow> u64 \<Rightarrow> string \<Rightarrow> runtime \<Rightarrow> runtime" where
  "latch_blind_all en at detail rt = fold (latch_blind_consumer en at detail) (consumer_keys None rt) rt"

definition latch_blind_subject :: "runtime_env \<Rightarrow> subject_id \<Rightarrow> u64 \<Rightarrow> string \<Rightarrow> runtime \<Rightarrow> runtime" where
  "latch_blind_subject en subject at detail rt =
     fold (latch_blind_consumer en at detail) (consumer_keys (Some subject) rt) rt"

definition latch_history_blindness :: "runtime_env \<Rightarrow> u64 \<Rightarrow> runtime \<Rightarrow> runtime" where
  "latch_history_blindness en at rt =
     (if rt_history_blindness_latched rt then rt
      else latch_blind_all en at ''sparse historical custody capacity is exhausted''
             (rt\<lparr>rt_history_blindness_latched := True\<rparr>))"

definition ensure_time_not_regressed :: "runtime_env \<Rightarrow> u64 \<Rightarrow> runtime \<Rightarrow> runtime \<times> (runtime_failure + unit)" where
  "ensure_time_not_regressed en at rt =
     (if at < rt_current_ms rt then
        (latch_blind_all en (rt_current_ms rt) ''runtime management time regressed within one clock generation'' rt,
         fault ''clock_regression'' ''runtime operation time regressed'')
      else (rt\<lparr>rt_current_ms := at\<rparr>, Inr ()))"

text \<open>\<open>std::mem::take(&mut self.pending_output)\<close>.\<close>

definition take_pending_output :: "runtime \<Rightarrow> cycle" where
  "take_pending_output rt = (rt\<lparr>rt_pending_output := output_default\<rparr>, rt_pending_output rt)"

definition flush_pending_output :: "cycle \<Rightarrow> cycle" where
  "flush_pending_output c =
     (let (rt, staged) = take_pending_output (fst c) in (rt, output_append (snd c) staged))"

section \<open>Validation\<close>

definition validate_policy_context :: "hasher \<Rightarrow> reliance_policy \<Rightarrow> reliance_context \<Rightarrow> runtime_error + unit" where
  "validate_policy_context sha policy context =
     rbind (map_err from_runtime_type (context_validate context)) (\<lambda>_.
     fail_if (rc_reliance_policy_generation context \<noteq> po_generation policy
         \<or> rc_reliance_policy_semantic_digest context \<noteq> policy_semantic_digest sha policy
         \<or> rc_observation_policy_generation context \<noteq> po_observation_policy_generation policy)
       (runtime_error_new ''context_binding_mismatch''
         ''reliance context does not exactly bind the policy generation, body, and admitted observation generation''))"

definition validate_registration :: "hasher \<Rightarrow> consumer_registration \<Rightarrow> runtime_error + unit" where
  "validate_registration sha reg =
     rbind (map_err (runtime_error_new ''invalid_policy'') (policy_validate (cn_policy reg))) (\<lambda>_.
     rbind (map_err (\<lambda>_. runtime_error_new ''invalid_identity'' ''invalid subject incarnation'')
       (validate_identity ''IncarnationId'' (cn_subject_incarnation reg))) (\<lambda>_.
     validate_policy_context sha (cn_policy reg) (cn_context reg)))"

definition validate_activation :: "hasher \<Rightarrow> consumer_activation \<Rightarrow> runtime_error + unit" where
  "validate_activation sha a =
     rbind (map_err (runtime_error_new ''invalid_policy'') (policy_validate (ca_policy a))) (\<lambda>_.
     validate_policy_context sha (ca_policy a) (ca_context a))"

definition record_context_transition ::
  "runtime_env \<Rightarrow> consumer_key \<Rightarrow> reliance_context option \<Rightarrow> reliance_context \<Rightarrow> generation_transition_cause \<Rightarrow>
   incarnation_id \<Rightarrow> u64 \<Rightarrow> cycle \<Rightarrow> cycle" where
  "record_context_transition en key prior new cause incarnation at c =
     record_sparse en at
       (RelianceContextTransition
          \<lparr>ct_schema_version = SCHEMA_VERSION_V1,
           ct_subject_scope = \<lparr>ss_subject = fst key, ss_subject_incarnation = incarnation,
             ss_scope = (case bt_get (rt_consumers (fst c)) key of
               None \<Rightarrow> ''unknown'' | Some state \<Rightarrow> po_scope (e_policy (ks_evaluator state)))\<rparr>,
           ct_consumer = snd key, ct_prior_context = prior, ct_new_context = new, ct_cause = cause,
           ct_at_ms = at, ct_standing_inherited = False\<rparr>) c"

section \<open>Evaluating one consumer\<close>

text \<open>
  The consumer's state is taken out of the map, its evaluator runs, and the state is put back only when
  the evaluator succeeds; then the evaluation is applied.
\<close>

definition consumer_evaluates ::
  "runtime_env \<Rightarrow> consumer_key \<Rightarrow> consumer_state \<Rightarrow> evaluation_output evaluation \<Rightarrow> u64 \<Rightarrow> cycle \<Rightarrow>
   unit cycled" where
  "consumer_evaluates en key state result at c =
     (case snd result of
        Inl err \<Rightarrow> ((without_consumer key (fst c), snd c), Inl (RuntimeFault (from_evaluator err)))
      | Inr ev \<Rightarrow>
          apply_evaluation en key ev at (put_consumer key (state\<lparr>ks_evaluator := fst result\<rparr>) (fst c), snd c))"

section \<open>Context changes\<close>

definition refuse_activation ::
  "runtime_env \<Rightarrow> consumer_key \<Rightarrow> runtime_refusal_class \<Rightarrow> u64 \<Rightarrow> u64 \<Rightarrow> string \<Rightarrow> string \<Rightarrow> u64 \<Rightarrow> cycle \<Rightarrow>
   unit cycled" where
  "refuse_activation en key class bound count detail blind at c =
     (let (rt, out) = push_refusal en class at (Some (fst key)) (Some (snd key)) bound count detail c
      in ((latch_blind_consumer en at blind key rt, out), Inr ()))"

definition count_context_refusal :: "runtime \<Rightarrow> runtime" where
  "count_context_refusal rt =
     rt\<lparr>rt_metrics := (rt_metrics rt)\<lparr>rm_context_refusal_count :=
          sat_add (rm_context_refusal_count (rt_metrics rt)) 1\<rparr>\<rparr>"

definition count_withdrawal :: "bool \<Rightarrow> u64 \<Rightarrow> runtime \<Rightarrow> runtime" where
  "count_withdrawal was_current latency rt =
     (if was_current then
        rt\<lparr>rt_metrics := (rt_metrics rt)\<lparr>
             rm_policy_transition_withdrawal_latency_ms :=
               max (rm_policy_transition_withdrawal_latency_ms (rt_metrics rt)) latency,
             rm_maximum_stale_positive_duration_ms :=
               max (rm_maximum_stale_positive_duration_ms (rt_metrics rt)) latency\<rparr>\<rparr>
      else rt)"

definition remember_context ::
  "subject_id \<times> consumer_id \<times> policy_generation_id \<Rightarrow> digest \<Rightarrow> context_activation_id \<Rightarrow> runtime \<Rightarrow> runtime" where
  "remember_context policy_key body activation rt =
     rt\<lparr>rt_historical_activation_ids := bs_insert activation (rt_historical_activation_ids rt),
        rt_historical_policy_bodies := bt_insert policy_key body (rt_historical_policy_bodies rt)\<rparr>"

text \<open>The accepted half of \<open>activate_consumer\<close>.\<close>

definition change_context ::
  "runtime_env \<Rightarrow> consumer_key \<Rightarrow> consumer_state \<Rightarrow> consumer_activation \<Rightarrow> u64 \<Rightarrow> u64 \<Rightarrow> cycle \<Rightarrow> unit cycled" where
  "change_context en key state a logical_at at c =
     (let c1 = invalidate_binding_for_context_change en key (ca_context a) at (without_consumer key (fst c), snd c);
          prior = ks_context state;
          activation = rc_activation_id (ca_context a);
          (e, r) = replace_policy (en_sha en) (ca_policy a)
            (GenerationTransition (''exact reliance context changed from '' @ rc_activation_id prior @ '' to ''
               @ activation @ ''; prior CURRENT was not inherited'')) at (ks_evaluator state)
      in case r of
           Inl err \<Rightarrow> (c1, Inl (RuntimeFault (from_evaluator err)))
         | Inr ev \<Rightarrow>
             let rt2 = put_consumer key (state\<lparr>ks_evaluator := e, ks_context := ca_context a,
                   ks_seen_activations := bs_insert activation (ks_seen_activations state)\<rparr>) (fst c1);
                 rt3 = cancel_schedule key (remember_context (fst key, snd key, po_generation (ca_policy a))
                   (policy_semantic_digest (en_sha en) (ca_policy a)) activation rt2);
                 rt4 = count_withdrawal (is_current (ks_certificate state)) (sat_sub at logical_at) rt3;
                 (rt5, out) = record_context_transition en key (Some prior) (ca_context a) (ca_cause a)
                   (e_current_subject_incarnation e) at (rt4, snd c1)
             in apply_evaluation en key ev at
                  (rt5, push_trace at (''CONTEXT consumer='' @ snd key @ '' cause='' @ cause_debug (ca_cause a)
                     @ '' standing_inherited=false'') out))"

definition activate_consumer ::
  "runtime_env \<Rightarrow> u64 \<Rightarrow> consumer_activation \<Rightarrow> u64 \<Rightarrow> cycle \<Rightarrow> unit cycled" where
  "activate_consumer en logical_at a at c =
     (case validate_activation (en_sha en) a of
        Inl err \<Rightarrow> (c, Inl (RuntimeFault err))
      | Inr _ \<Rightarrow>
          let key = (po_subject (ca_policy a), po_consumer (ca_policy a));
              activation = rc_activation_id (ca_context a);
              rt = fst c;
              bound = mb_context_activations_per_consumer (cf_bounds (rt_config rt))
          in case bt_get (rt_consumers rt) key of
               None \<Rightarrow> (c, fault ''unknown_consumer'' ''activation consumer is not registered'')
             | Some state \<Rightarrow>
                 if bs_contains (ks_seen_activations state) activation
                    \<or> bs_contains (rt_historical_activation_ids rt) activation then
                   refuse_activation en key ReusedActivation (sat_of_nat bound)
                     (sat_of_nat (length (ks_seen_activations state)))
                     ''context activation identity was already used; standing was withdrawn''
                     ''reused context activation identity was refused'' at (count_context_refusal rt, snd c)
                 else if bound \<le> length (ks_seen_activations state) then
                   refuse_activation en key ContextHistoryCapacity (sat_of_nat bound) (sat_of_nat (bound + 1))
                     ''consumer context activation history is full''
                     ''consumer context history capacity was exceeded'' at (count_context_refusal rt, snd c)
                 else if (case bt_get (rt_historical_policy_bodies rt)
                       (fst key, snd key, po_generation (ca_policy a)) of
                     None \<Rightarrow> False | Some body \<Rightarrow> body \<noteq> policy_semantic_digest (en_sha en) (ca_policy a)) then
                   refuse_activation en key InvalidBinding 1 2
                     ''one reliance-policy generation identity was rebound to different semantic content''
                     ''reliance-policy generation identity was rebound'' at c
                 else change_context en key state a logical_at at c)"

text \<open>\<open>replace_subject_incarnation\<close>: one consumer, then all of them, in the order of their identities.\<close>

definition replace_subject_of ::
  "runtime_env \<Rightarrow> u64 \<Rightarrow> subject_id \<Rightarrow> incarnation_id \<Rightarrow> u64 \<Rightarrow> consumer_activation \<Rightarrow> cycle \<Rightarrow> unit cycled" where
  "replace_subject_of en logical_at subject replacement at a c =
     (let key = (subject, po_consumer (ca_policy a)) in
      case bt_get (rt_consumers (fst c)) key of
        None \<Rightarrow> (c, Inl (RuntimePanic ''consumer exists''))
      | Some state \<Rightarrow>
          let (e, r) = Evaluator.replace_subject_incarnation (en_sha en) replacement at (ks_evaluator state) in
          case r of
            Inl err \<Rightarrow> ((without_consumer key (fst c), snd c), Inl (RuntimeFault (from_evaluator err)))
          | Inr ev \<Rightarrow>
              cbind (apply_evaluation en key ev at
                  (cancel_schedule key (put_consumer key (state\<lparr>ks_evaluator := e\<rparr>) (fst c)), snd c)) (\<lambda>_ c1.
              cbind (activate_consumer en logical_at a at c1) (\<lambda>_ c2.
              ((fst c2, push_trace at (''SUBJECT consumer='' @ snd key @ '' prior_activation=''
                  @ rc_activation_id (ks_context state) @ '' replacement='' @ replacement
                  @ '' standing_inherited=false'') (snd c2)), Inr ()))))"

fun replace_subject_of_each ::
  "runtime_env \<Rightarrow> u64 \<Rightarrow> subject_id \<Rightarrow> incarnation_id \<Rightarrow> u64 \<Rightarrow> consumer_activation list \<Rightarrow> cycle \<Rightarrow>
   unit cycled" where
  "replace_subject_of_each en logical_at subject replacement at [] c = (c, Inr ())"
| "replace_subject_of_each en logical_at subject replacement at (a # as) c =
     cbind (replace_subject_of en logical_at subject replacement at a c)
       (\<lambda>_. replace_subject_of_each en logical_at subject replacement at as)"

definition put_subject_incarnation :: "subject_id \<Rightarrow> incarnation_id \<Rightarrow> runtime \<Rightarrow> runtime_failure + runtime" where
  "put_subject_incarnation subject replacement rt =
     (case bt_get (rt_subjects rt) subject of
        None \<Rightarrow> Inl (RuntimePanic ''subject exists'')
      | Some s \<Rightarrow> Inr (rt\<lparr>rt_subjects := bt_insert subject
            (s\<lparr>su_subject_incarnations := bs_insert replacement (su_subject_incarnations s)\<rparr>) (rt_subjects rt)\<rparr>))"

definition activations_cover :: "subject_state \<Rightarrow> consumer_activation list \<Rightarrow> bool" where
  "activations_cover s as \<longleftrightarrow>
     su_consumers s = map (\<lambda>a. po_consumer (ca_policy a)) as \<and> distinct_adj (map (\<lambda>a. po_consumer (ca_policy a)) as)"

definition validate_replacements :: "hasher \<Rightarrow> subject_id \<Rightarrow> consumer_activation list \<Rightarrow> runtime_error + unit" where
  "validate_replacements sha subject as =
     try_each (\<lambda>a.
       rbind (validate_activation sha a) (\<lambda>_.
       fail_if (po_subject (ca_policy a) \<noteq> subject)
         (runtime_error_new ''subject_mismatch'' ''subject replacement activation names another subject''))) as"

definition runtime_replace_subject ::
  "runtime_env \<Rightarrow> u64 \<Rightarrow> subject_id \<Rightarrow> incarnation_id \<Rightarrow> consumer_activation list \<Rightarrow> u64 \<Rightarrow> cycle \<Rightarrow>
   unit cycled" where
  "runtime_replace_subject en logical_at subject replacement activations at c =
     (let rt = fst c; bound = mb_subject_incarnations_per_subject (cf_bounds (rt_config rt)) in
      if validate_identity ''IncarnationId'' replacement \<noteq> Inr () then
        (c, fault ''invalid_identity'' ''invalid subject incarnation'')
      else case bt_get (rt_subjects rt) subject of
        None \<Rightarrow> (c, fault ''unknown_subject'' ''subject replacement target is unknown'')
      | Some s \<Rightarrow>
          if \<not> bs_contains (su_subject_incarnations s) replacement
              \<and> bound \<le> length (su_subject_incarnations s) then
            let (rt1, out) = push_refusal en IncarnationHistoryCapacity at (Some subject) None (sat_of_nat bound)
                  (sat_of_nat (length (su_subject_incarnations s) + 1))
                  ''subject incarnation history bound is full'' c
            in ((latch_blind_subject en subject at ''subject incarnation history capacity was exceeded'' rt1, out),
                Inr ())
          else
            let as = sort_key (\<lambda>a. po_consumer (ca_policy a)) activations in
            if \<not> activations_cover s as then
              (c, fault ''incomplete_subject_transition''
                 ''subject replacement must activate every registered consumer exactly once'')
            else case validate_replacements (en_sha en) subject as of
              Inl err \<Rightarrow> (c, Inl (RuntimeFault err))
            | Inr _ \<Rightarrow>
                let (tr, r) = activate_subject_incarnation (rt_receiver rt) subject replacement;
                    c1 = (rt\<lparr>rt_receiver := tr\<rparr>, snd c)
                in case r of
                     Inl err \<Rightarrow> (c1, fault ''receiver_refusal'' (pulse_error_display err))
                   | Inr _ \<Rightarrow>
                       cbind (replace_subject_of_each en logical_at subject replacement at as c1) (\<lambda>_ c2.
                       case put_subject_incarnation subject replacement (fst c2) of
                         Inl failure \<Rightarrow> (c2, Inl failure)
                       | Inr rt3 \<Rightarrow> ((rt3, snd c2), Inr ())))"

section \<open>Pulses\<close>

definition refuse_pulse ::
  "runtime_env \<Rightarrow> runtime_refusal_class \<Rightarrow> subject_id \<Rightarrow> nat \<Rightarrow> nat \<Rightarrow> string \<Rightarrow> string \<Rightarrow> u64 \<Rightarrow> cycle \<Rightarrow> cycle" where
  "refuse_pulse en class subject bound count detail blind at c =
     (let (rt, out) = push_refusal en class at (Some subject) None (sat_of_nat bound) (sat_of_nat (count + 1)) detail c
      in (latch_blind_subject en subject at blind rt, out))"

definition stream_identity :: "pulse_frame \<Rightarrow> receiver_stream_identity" where
  "stream_identity f =
     (pf_subject f, pf_subject_incarnation f, pf_observer f, pf_profile f, pf_observation_policy_generation f)"

definition known_incarnations :: "runtime \<Rightarrow> pulse_frame \<Rightarrow> incarnation_id btset" where
  "known_incarnations rt f =
     (case bt_get (rt_observer_incarnations rt) (pf_subject f, pf_observer f) of None \<Rightarrow> [] | Some s \<Rightarrow> s)"

definition count_observer_refusal :: "runtime \<Rightarrow> runtime" where
  "count_observer_refusal rt =
     rt\<lparr>rt_metrics := (rt_metrics rt)\<lparr>rm_observer_refusal_count :=
          sat_add (rm_observer_refusal_count (rt_metrics rt)) 1\<rparr>\<rparr>"

definition count_stream_refusal :: "runtime \<Rightarrow> runtime" where
  "count_stream_refusal rt =
     rt\<lparr>rt_metrics := (rt_metrics rt)\<lparr>rm_receiver_stream_refusal_count :=
          sat_add (rm_receiver_stream_refusal_count (rt_metrics rt)) 1\<rparr>\<rparr>"

text \<open>The capacity checks at the head of \<open>process_pulse\<close>: \<open>None\<close> when the pulse is refused.\<close>

definition admit_pulse :: "runtime_env \<Rightarrow> pulse_frame \<Rightarrow> u64 \<Rightarrow> cycle \<Rightarrow> cycle \<times> subject_state option" where
  "admit_pulse en f at c =
     (let rt = fst c; b = cf_bounds (rt_config rt); subject = pf_subject f in
      case bt_get (rt_subjects rt) subject of
        None \<Rightarrow>
          (push_refusal en InvalidBinding at (Some subject) None (sat_of_nat (mb_subjects b))
             (sat_of_nat (length (rt_subjects rt) + 1)) ''pulse subject has no registered consumer'' c, None)
      | Some s \<Rightarrow>
          if \<not> bs_contains (su_observers s) (pf_observer f) \<and> mb_observers_per_subject b \<le> length (su_observers s) then
            (refuse_pulse en ObserverCapacity subject (mb_observers_per_subject b) (length (su_observers s))
               ''new observer identity refused at subject cardinality bound''
               ''observer identity capacity was exceeded'' at (count_observer_refusal rt, snd c), None)
          else if \<not> bs_contains (rt_receiver_streams rt) (stream_identity f)
              \<and> mb_receiver_streams b \<le> length (rt_receiver_streams rt) then
            (refuse_pulse en ReceiverStreamCapacity subject (mb_receiver_streams b) (length (rt_receiver_streams rt))
               ''new receiver stream identity refused at capacity''
               ''receiver stream identity capacity was exceeded'' at (count_stream_refusal rt, snd c), None)
          else if \<not> bs_contains (known_incarnations rt f) (pf_observer_incarnation f)
              \<and> mb_incarnations_per_observer b \<le> length (known_incarnations rt f) then
            (refuse_pulse en IncarnationHistoryCapacity subject (mb_incarnations_per_observer b)
               (length (known_incarnations rt f))
               ''observer incarnation churn exceeded the receiver history bound''
               ''observer incarnation history capacity was exceeded'' at c, None)
          else (c, Some s))"

definition note_stream :: "pulse_frame \<Rightarrow> subject_state \<Rightarrow> runtime \<Rightarrow> runtime" where
  "note_stream f s rt =
     rt\<lparr>rt_subjects := bt_insert (pf_subject f) (s\<lparr>su_observers := bs_insert (pf_observer f) (su_observers s)\<rparr>)
          (rt_subjects rt),
        rt_receiver_streams := bs_insert (stream_identity f) (rt_receiver_streams rt),
        rt_observer_incarnations := bt_insert (pf_subject f, pf_observer f)
          (bs_insert (pf_observer_incarnation f) (known_incarnations rt f)) (rt_observer_incarnations rt)\<rparr>"

definition custody_mismatch ::
  "pulse_frame \<Rightarrow> remote_observation_custody_reference \<Rightarrow> receiver_acceptance_receipt \<Rightarrow> bool" where
  "custody_mismatch f r receipt \<longleftrightarrow>
     ss_subject (ro_subject_scope r) \<noteq> pf_subject f
     \<or> ss_subject_incarnation (ro_subject_scope r) \<noteq> pf_subject_incarnation f
     \<or> ro_observer r \<noteq> pf_observer f \<or> ro_observation_sequence r \<noteq> pf_sequence f
     \<or> ro_observation_identity r \<noteq> pf_observation_digest f
     \<or> av_accepted_evidence_identity receipt \<noteq> Some (ro_accepted_evidence_identity r)
     \<or> av_envelope_digest receipt \<noteq> Some (ro_envelope_digest r)"

definition note_custody ::
  "runtime_env \<Rightarrow> pulse_frame \<Rightarrow> (remote_observation_custody_reference \<times> receiver_acceptance_receipt) option \<Rightarrow>
   u64 \<Rightarrow> cycle \<Rightarrow> unit cycled" where
  "note_custody en f remote at c =
     (let path = (pf_subject f, pf_observer f) in
      case remote of
        None \<Rightarrow> (((fst c)\<lparr>rt_remote_custody := bt_remove path (rt_remote_custody (fst c))\<rparr>, snd c), Inr ())
      | Some (r, receipt) \<Rightarrow>
          case rbind (map_err from_custody (custody_reference_validate r)) (\<lambda>_.
               rbind (map_err from_custody (acceptance_receipt_validate (en_sha en) (en_receipt en) receipt)) (\<lambda>_.
               fail_if (custody_mismatch f r receipt)
                 (runtime_error_new ''remote_custody_mismatch''
                   ''verified remote custody no longer matches the admitted pulse''))) of
            Inl err \<Rightarrow> (c, Inl (RuntimeFault err))
          | Inr _ \<Rightarrow>
              let (rt, out) = record_sparse en at (ReceiverBoundaryAcceptanceRecorded receipt) c
              in ((rt\<lparr>rt_remote_custody := bt_insert path r (rt_remote_custody rt)\<rparr>, out), Inr ()))"

definition compatible_policy :: "received_pulse \<Rightarrow> consumer_state \<Rightarrow> bool" where
  "compatible_policy r state \<longleftrightarrow>
     po_observation_profile (e_policy (ks_evaluator state)) = pf_profile (rp_frame r)
     \<and> po_observation_policy_generation (e_policy (ks_evaluator state))
         = pf_observation_policy_generation (rp_frame r)"

definition pulse_trace :: "u64 \<Rightarrow> received_pulse \<Rightarrow> u64 \<Rightarrow> string" where
  "pulse_trace ordinal r arrival =
     ''PULSE ordinal='' @ dec (unat ordinal) @ '' observer='' @ pf_observer (rp_frame r) @ '' sequence=''
     @ dec (unat (pf_sequence (rp_frame r))) @ '' arrival='' @ dec (unat arrival) @ ''ms''"

definition ingest_for ::
  "runtime_env \<Rightarrow> received_pulse \<Rightarrow> u64 \<Rightarrow> u64 \<Rightarrow> u64 \<Rightarrow> consumer_key \<Rightarrow> cycle \<Rightarrow> unit cycled" where
  "ingest_for en r arrival ordinal at key c =
     (case bt_get (rt_consumers (fst c)) key of
        None \<Rightarrow> (c, Inr ())
      | Some state \<Rightarrow>
          if \<not> compatible_policy r state then (c, Inr ())
          else
            let result = ingest (en_sha en) r at (ks_evaluator state);
                out = (if is_ok (snd result) then push_trace at (pulse_trace ordinal r arrival) (snd c) else snd c)
            in consumer_evaluates en key state result at (fst c, out))"

fun ingest_for_each ::
  "runtime_env \<Rightarrow> received_pulse \<Rightarrow> u64 \<Rightarrow> u64 \<Rightarrow> u64 \<Rightarrow> consumer_key list \<Rightarrow> cycle \<Rightarrow> unit cycled" where
  "ingest_for_each en r arrival ordinal at [] c = (c, Inr ())"
| "ingest_for_each en r arrival ordinal at (key # keys) c =
     cbind (ingest_for en r arrival ordinal at key c) (\<lambda>_. ingest_for_each en r arrival ordinal at keys)"

definition annotate_pulse ::
  "runtime_env \<Rightarrow> pulse_ingress \<Rightarrow> u64 \<Rightarrow> cycle \<Rightarrow> receiver_annotation cycled" where
  "annotate_pulse en p arrival c =
     (let (tr, r) = annotate (en_sha en) (rt_receiver (fst c)) (pi_frame p) arrival (pi_transport_path p)
            (pi_transport_observed_delay_ms p) (pi_authentication p)
      in (((fst c)\<lparr>rt_receiver := tr\<rparr>, snd c),
          case r of Inl err \<Rightarrow> fault ''receiver_refusal'' (pulse_error_display err) | Inr a \<Rightarrow> Inr a))"

definition process_pulse ::
  "runtime_env \<Rightarrow> u64 \<Rightarrow> u64 \<Rightarrow> pulse_ingress \<Rightarrow>
   (remote_observation_custody_reference \<times> receiver_acceptance_receipt) option \<Rightarrow> u64 \<Rightarrow> cycle \<Rightarrow>
   unit cycled" where
  "process_pulse en arrival ordinal p remote at c =
     (let (c1, admitted) = admit_pulse en (pi_frame p) at c in
      case admitted of
        None \<Rightarrow> (c1, Inr ())
      | Some s \<Rightarrow>
          cbind (note_custody en (pi_frame p) remote at (note_stream (pi_frame p) s (fst c1), snd c1)) (\<lambda>_ c2.
          cbind (annotate_pulse en p arrival c2) (\<lambda>a c3.
          ingest_for_each en \<lparr>rp_frame = pi_frame p, rp_receiver = a\<rparr> arrival ordinal at
            (consumer_keys (Some (pf_subject (pi_frame p))) (fst c3)) c3)))"

section \<open>Deadlines\<close>

definition process_deadline :: "runtime_env \<Rightarrow> schedule_key \<Rightarrow> u64 \<Rightarrow> cycle \<Rightarrow> unit cycled" where
  "process_deadline en s at c =
     (let key = sk_key s; rt = fst c in
      case bt_get (rt_consumers rt) key of
        None \<Rightarrow> (c, Inr ())
      | Some state \<Rightarrow>
          if rc_activation_id (ks_context state) \<noteq> sk_activation_id s then (c, Inr ())
          else
            let (e, r) = tick (en_sha en) at (ks_evaluator state) in
            case r of
              Inl err \<Rightarrow> ((without_consumer key rt, snd c), Inl (RuntimeFault (from_evaluator err)))
            | Inr ev \<Rightarrow>
                let overshoot = sat_sub at (sk_deadline s);
                    rt1 = put_consumer key (state\<lparr>ks_evaluator := e\<rparr>)
                      (rt\<lparr>rt_metrics := late (sk_deadline s) at (rt_metrics rt)\<rparr>);
                    (rt2, out) = record_sparse en at
                      (SchedulerReevaluated (snd key) (sk_activation_id s) (sk_deadline s) at overshoot) (rt1, snd c)
                in apply_evaluation en key ev at
                     (rt2, push_trace at (''DEADLINE consumer='' @ snd key @ '' expected=''
                        @ dec (unat (sk_deadline s)) @ ''ms actual='' @ dec (unat at) @ ''ms overshoot=''
                        @ dec (unat overshoot) @ ''ms'') out))"

section \<open>Inputs\<close>

definition process_disposition :: "runtime_env \<Rightarrow> escalation_disposition \<Rightarrow> u64 \<Rightarrow> cycle \<Rightarrow> unit cycled" where
  "process_disposition en d at c =
     (case bt_get (rt_request_owners (fst c)) (ed_request_id d) of
        None \<Rightarrow>
          (push_refusal en InvalidBinding at None None 0 1
             ''escalation disposition references no active runtime request'' c, Inr ())
      | Some (owner, _) \<Rightarrow>
          case bt_get (rt_consumers (fst c)) owner of
            None \<Rightarrow> (c, Inl (RuntimePanic ''request owner consumer exists''))
          | Some state \<Rightarrow>
              consumer_evaluates en owner state
                (record_escalation_disposition (en_sha en) d at (ks_evaluator state)) at c)"

definition process_receipt :: "runtime_env \<Rightarrow> diagnostic_receipt \<Rightarrow> u64 \<Rightarrow> cycle \<Rightarrow> unit cycled" where
  "process_receipt en r at c =
     (let rt = fst c; bound = mb_diagnostic_receipts (cf_bounds (rt_config rt));
          subject = ss_subject (dr_subject_scope r) in
      if bound \<le> length (rt_diagnostic_receipts rt) then
        let (rt1, out) = push_refusal en ReceiptHistoryCapacity at (Some subject) (Some (dr_consumer r))
              (sat_of_nat bound) (sat_of_nat (length (rt_diagnostic_receipts rt) + 1))
              ''diagnostic receipt custody bound is full'' c
        in ((latch_blind_subject en subject at ''diagnostic receipt custody was refused at capacity'' rt1, out), Inr ())
      else case bt_get (rt_request_owners rt) (dr_request_id r) of
        None \<Rightarrow>
          (push_refusal en InvalidBinding at (Some subject) (Some (dr_consumer r)) 0 1
             ''diagnostic receipt references no active runtime request'' c, Inr ())
      | Some (owner, _) \<Rightarrow>
          case bt_get (rt_consumers rt) owner of
            None \<Rightarrow> (c, Inl (RuntimePanic ''request owner consumer exists''))
          | Some state \<Rightarrow>
              let result = record_diagnostic_receipt (en_sha en) r at (ks_evaluator state);
                  rt1 = (if is_ok (snd result)
                    then rt\<lparr>rt_diagnostic_receipts := rt_diagnostic_receipts rt @ [r]\<rparr> else rt)
              in consumer_evaluates en owner state result at (rt1, snd c))"

definition process_reevaluation :: "runtime_env \<Rightarrow> consumer_key \<Rightarrow> u64 \<Rightarrow> cycle \<Rightarrow> unit cycled" where
  "process_reevaluation en key at c =
     (case bt_get (rt_consumers (fst c)) key of
        None \<Rightarrow> (c, fault ''unknown_consumer'' ''reevaluation consumer is unknown'')
      | Some state \<Rightarrow> consumer_evaluates en key state (tick (en_sha en) at (ks_evaluator state)) at c)"

definition process_transport_revalidation ::
  "runtime_env \<Rightarrow> consumer_key \<Rightarrow> transport_custody_policy_binding \<Rightarrow> u64 \<Rightarrow> cycle \<Rightarrow> unit cycled" where
  "process_transport_revalidation en key expected at c =
     (if cf_transport_custody_policy (rt_config (fst c)) \<noteq> Some expected then
        (c, fault ''transport_policy_mismatch''
           ''transport revalidation policy differs from the activated runtime configuration'')
      else case bt_get (rt_consumers (fst c)) key of
        None \<Rightarrow> (c, fault ''unknown_consumer'' ''transport activation consumer is unknown'')
      | Some state \<Rightarrow>
          cbind (revalidated_qualified_binding en key state at (without_consumer key (fst c), snd c)) (\<lambda>_ c1.
          consumer_evaluates en key state (tick (en_sha en) at (ks_evaluator state)) at c1))"

definition process_boundary_condition ::
  "runtime_env \<Rightarrow> subject_id option \<Rightarrow> transport_custody_finding \<Rightarrow> digest option \<Rightarrow> string \<Rightarrow> bool \<Rightarrow> u64 \<Rightarrow>
   cycle \<Rightarrow> unit cycled" where
  "process_boundary_condition en subject finding session detail withdraw at c =
     (if detail = [] \<or> 256 < length detail \<or> has_control detail then
        (c, fault ''invalid_receiver_boundary_condition''
           ''receiver-boundary condition detail is empty, over-bound, or contains control characters'')
      else
        let (rt, out) = record_sparse en at (ReceiverBoundaryCustodyChanged finding session detail) c;
            out1 = push_trace at (''RECEIVER_BOUNDARY state='' @ finding_debug finding @ '' detail='' @ detail) out
        in if \<not> withdraw then ((rt, out1), Inr ())
           else
             (flush_pending_output
                ((case subject of
                    Some s \<Rightarrow> latch_blind_subject en s at detail rt
                  | None \<Rightarrow> latch_blind_all en at detail rt), out1), Inr ()))"

fun restore_each :: "runtime_env \<Rightarrow> string \<Rightarrow> u64 \<Rightarrow> consumer_key list \<Rightarrow> cycle \<Rightarrow> unit cycled" where
  "restore_each en detail at [] c = (c, Inr ())"
| "restore_each en detail at (key # keys) c =
     (case bt_get (rt_consumers (fst c)) key of
        None \<Rightarrow> (c, Inl (RuntimePanic ''consumer exists''))
      | Some state \<Rightarrow>
          cbind (consumer_evaluates en key state
              (restore_monitor_capability (en_sha en) at detail (ks_evaluator state)) at c)
            (\<lambda>_. restore_each en detail at keys))"

definition process_restore ::
  "runtime_env \<Rightarrow> subject_id option \<Rightarrow> string \<Rightarrow> u64 \<Rightarrow> cycle \<Rightarrow> unit cycled" where
  "process_restore en subject detail at c =
     cbind (restore_each en detail at (consumer_keys subject (fst c)) c) (\<lambda>_ c1.
     ((fst c1, push_trace at (''MONITOR operational detail='' @ detail
         @ ''; explicit reevaluation still governs standing'') (snd c1)), Inr ()))"

fun process_input :: "runtime_env \<Rightarrow> u64 \<Rightarrow> u64 \<Rightarrow> runtime_input \<Rightarrow> u64 \<Rightarrow> cycle \<Rightarrow> unit cycled" where
  "process_input en logical_at ordinal (ActivateConsumer a) at c = activate_consumer en logical_at a at c"
| "process_input en logical_at ordinal (ReplaceSubjectIncarnation subject replacement as) at c =
     runtime_replace_subject en logical_at subject replacement as at c"
| "process_input en logical_at ordinal (PulseInput p) at c = process_pulse en logical_at ordinal p None at c"
| "process_input en logical_at ordinal (RemotePulse v) at c =
     process_pulse en (ro_receiver_arrival_ms (vr_custody v)) ordinal
       \<lparr>pi_frame = vr_frame v, pi_transport_path = ''udp-authenticated-custody/v1'',
        pi_transport_observed_delay_ms = None,
        pi_authentication = Verified ''ed25519-pinned-custody/v1'' (ro_sender_key_identity_digest (vr_custody v))\<rparr>
       (Some (vr_custody v, vr_receipt v)) at c"
| "process_input en logical_at ordinal (DispositionInput d) at c = process_disposition en d at c"
| "process_input en logical_at ordinal (ReceiptInput r) at c = process_receipt en r at c"
| "process_input en logical_at ordinal (Reevaluate subject consumer) at c =
     process_reevaluation en (subject, consumer) at c"
| "process_input en logical_at ordinal (RevalidateTransportActivation subject consumer expected) at c =
     process_transport_revalidation en (subject, consumer) expected at c"
| "process_input en logical_at ordinal (ReceiverBoundaryCondition subject finding session detail withdraw) at c =
     process_boundary_condition en subject finding session detail withdraw at c"
| "process_input en logical_at ordinal (RestoreMonitorCapability subject detail) at c =
     process_restore en subject detail at c"

section \<open>The queue and the scheduler loop\<close>

definition pending_key_of :: "u64 \<Rightarrow> runtime_input \<Rightarrow> u64 \<Rightarrow> pending_key" where
  "pending_key_of at input ordinal =
     (at, input_priority input, ordering_subject input, ordering_discriminator input, ordinal)"

definition refuse_input ::
  "runtime_env \<Rightarrow> runtime_refusal_class \<Rightarrow> u64 \<Rightarrow> u64 \<Rightarrow> u64 \<Rightarrow> string \<Rightarrow> runtime \<Rightarrow> runtime \<times> runtime_refusal" where
  "refuse_input en class at bound count detail rt =
     (let (rt1, r) = refusal class at None None bound count detail rt in (stage_refusal en r rt1, r))"

definition enqueue :: "runtime_env \<Rightarrow> u64 \<Rightarrow> runtime_input \<Rightarrow> runtime \<Rightarrow> runtime \<times> (runtime_refusal + u64)" where
  "enqueue en at input rt =
     (let b = cf_bounds (rt_config rt); now = rt_current_ms rt in
      if rt_history_exhausted rt then
        let (rt1, r) = refuse_input en RuntimeBlind now (sat_of_nat (mb_sparse_events b))
              (sat_of_nat (length (rt_sparse_history rt) + 1))
              ''sparse historical custody is exhausted; new runtime input is fail-stopped'' rt
        in (latch_history_blindness en (rt_current_ms rt1) rt1, Inl r)
      else if at < now then
        let (rt1, r) = refuse_input en ClockRegression now now at
              ''input time regressed within one receiver clock generation'' rt
        in (latch_blind_all en (rt_current_ms rt1) ''input time regressed within one receiver clock generation'' rt1,
            Inl r)
      else if mb_pending_inputs b \<le> length (rt_pending rt) then
        let (rt1, r) = refuse_input en PendingQueueCapacity at (sat_of_nat (mb_pending_inputs b))
              (sat_of_nat (length (rt_pending rt) + 1))
              ''pending input queue is full; the new input was refused and monitor blindness latched''
              (rt\<lparr>rt_metrics := (rt_metrics rt)\<lparr>rm_queue_refusal_count :=
                 sat_add (rm_queue_refusal_count (rt_metrics rt)) 1\<rparr>\<rparr>)
        in (latch_blind_all en at ''pending input queue saturated; at least one receiver input was not admitted'' rt1,
            Inl r)
      else if rt_ingress_counter rt = - 1 then
        let (rt1, r) = refuse_input en RuntimeBlind at (- 1) (- 1)
              ''receiver ingress ordinal space is exhausted; input was refused'' rt
        in (latch_blind_all en at ''receiver ingress ordinal space is exhausted'' rt1, Inl r)
      else
        let n = rt_ingress_counter rt + 1
        in (rt\<lparr>rt_ingress_counter := n, rt_pending := bt_insert (pending_key_of at input n) input (rt_pending rt)\<rparr>,
            Inr n))"

datatype due_item = DuePending pending_key runtime_input | DueSchedule schedule_key

definition next_pending :: "u64 \<Rightarrow> runtime \<Rightarrow> (pending_key \<times> runtime_input) option" where
  "next_pending now rt =
     (case rt_pending rt of [] \<Rightarrow> None | e # _ \<Rightarrow> if fst (fst e) \<le> now then Some e else None)"

definition next_schedule :: "u64 \<Rightarrow> runtime \<Rightarrow> schedule_key option" where
  "next_schedule now rt =
     (case rt_schedules rt of [] \<Rightarrow> None | s # _ \<Rightarrow> if sk_deadline s \<le> now then Some s else None)"

text \<open>An input goes before a deadline when its time, priority, subject and discriminator say so.\<close>

definition pending_first :: "pending_key \<Rightarrow> schedule_key \<Rightarrow> bool" where
  "pending_first k s =
     (case k of (at, priority, subject, discriminator, _) \<Rightarrow>
        (at, priority, subject, discriminator) \<le> (sk_deadline s, 1, fst (sk_key s), snd (sk_key s)))"

definition next_due :: "u64 \<Rightarrow> runtime \<Rightarrow> due_item option" where
  "next_due now rt =
     (case (next_pending now rt, next_schedule now rt) of
        (None, None) \<Rightarrow> None
      | (Some (k, input), None) \<Rightarrow> Some (DuePending k input)
      | (None, Some s) \<Rightarrow> Some (DueSchedule s)
      | (Some (k, input), Some s) \<Rightarrow> Some (if pending_first k s then DuePending k input else DueSchedule s))"

fun process_due :: "runtime_env \<Rightarrow> u64 \<Rightarrow> due_item \<Rightarrow> cycle \<Rightarrow> unit cycled" where
  "process_due en now (DuePending k input) c =
     process_input en (fst k) (snd (snd (snd (snd k)))) input now
       ((fst c)\<lparr>rt_pending := bt_remove k (rt_pending (fst c))\<rparr>, snd c)"
| "process_due en now (DueSchedule s) c =
     process_deadline en s now
       ((fst c)\<lparr>rt_schedules := filter (\<lambda>x. x \<noteq> s) (rt_schedules (fst c))\<rparr>, snd c)"

text \<open>The loop of \<open>run_until\<close>; \<open>None\<close> is a loop that does not end.\<close>

partial_function (option) run_loop :: "runtime_env \<Rightarrow> u64 \<Rightarrow> cycle \<Rightarrow> unit cycled option" where
  "run_loop en now c =
     (case next_due now (fst c) of
        None \<Rightarrow> Some (c, Inr ())
      | Some item \<Rightarrow>
          (case snd (process_due en now item c) of
             Inl failure \<Rightarrow> Some (fst (process_due en now item c), Inl failure)
           | Inr _ \<Rightarrow> run_loop en now (fst (process_due en now item c))))"

declare run_loop.simps [code]

definition begin_run :: "u64 \<Rightarrow> runtime \<Rightarrow> cycle" where
  "begin_run now rt =
     take_pending_output (rt\<lparr>rt_current_ms := now,
       rt_request_owners := bt_retain (\<lambda>_ owner. now < snd owner) (rt_request_owners rt)\<rparr>)"

definition finish_run :: "runtime_env \<Rightarrow> u64 \<Rightarrow> cycle \<Rightarrow> cycle" where
  "finish_run en now c =
     (if rt_history_exhausted (fst c)
      then flush_pending_output (latch_history_blindness en now (fst c), snd c) else c)"

definition run_until ::
  "runtime_env \<Rightarrow> u64 \<Rightarrow> runtime \<Rightarrow> (runtime \<times> (runtime_failure + cycle_output)) option" where
  "run_until en now rt =
     (if now < rt_current_ms rt then
        let at = rt_current_ms rt;
            (rt1, r) = refuse_input en ClockRegression at at now
              ''scheduler time regressed within one receiver clock generation'' rt;
            (rt2, out) = take_pending_output (latch_blind_all en at ''scheduler monotonic clock regressed'' rt1)
        in Some (rt2, Inr out)
      else
        (case run_loop en now (begin_run now rt) of
           None \<Rightarrow> None
         | Some (c, Inl failure) \<Rightarrow> Some (fst c, Inl failure)
         | Some (c, Inr _) \<Rightarrow> (let (rt1, out) = finish_run en now c in Some (rt1, Inr out))))"

end
