(* ===== verification/Management.thy ===== *)
theory Management
  imports Runtime
begin

text \<open>
  The operations of \<open>ReceiverSchedulerRuntime\<close> outside its loop (\<open>crates/pulse-runtime/src/lib.rs\<close>):
  registration, external blindness, qualified activation, lifecycle facts, and the export and recovery of
  history. \<open>verify_local_activation\<close> is an argument.
\<close>

section \<open>Management operations\<close>

definition declare_external_monitor_blindness ::
  "runtime_env \<Rightarrow> u64 \<Rightarrow> string \<Rightarrow> string \<Rightarrow> runtime \<Rightarrow> runtime \<times> (runtime_failure + cycle_output)" where
  "declare_external_monitor_blindness en at state detail rt =
     (let (rt1, r) = ensure_time_not_regressed en at rt in
      case r of
        Inl failure \<Rightarrow> (rt1, Inl failure)
      | Inr _ \<Rightarrow>
          let (rt2, out) = record_sparse en at (MonitorCapabilityChanged state detail) (take_pending_output rt1);
              (rt3, out3) = flush_pending_output (latch_blind_all en at detail rt2, out)
          in (rt3, Inr out3))"

definition register_policy_rebound :: "hasher \<Rightarrow> consumer_registration \<Rightarrow> runtime \<Rightarrow> bool" where
  "register_policy_rebound sha reg rt =
     (case bt_get (rt_historical_policy_bodies rt)
         (po_subject (cn_policy reg), po_consumer (cn_policy reg), po_generation (cn_policy reg)) of
        None \<Rightarrow> False | Some body \<Rightarrow> body \<noteq> policy_semantic_digest sha (cn_policy reg))"

text \<open>The refusals of \<open>register_consumer\<close> and the counters they touch.\<close>

definition register_checks ::
  "runtime_env \<Rightarrow> consumer_registration \<Rightarrow> runtime \<Rightarrow> runtime \<times> (runtime_failure + unit)" where
  "register_checks en reg rt =
     (let subject = po_subject (cn_policy reg); b = cf_bounds (rt_config rt) in
      case validate_registration (en_sha en) reg of
        Inl err \<Rightarrow> (rt, Inl (RuntimeFault err))
      | Inr _ \<Rightarrow>
          if bt_contains (rt_consumers rt) (subject, po_consumer (cn_policy reg)) then
            (rt, fault ''consumer_exists'' ''consumer is already registered for the subject'')
          else if \<not> bt_contains (rt_subjects rt) subject \<and> mb_subjects b \<le> length (rt_subjects rt) then
            (rt\<lparr>rt_metrics := (rt_metrics rt)\<lparr>rm_subject_refusal_count :=
                 sat_add (rm_subject_refusal_count (rt_metrics rt)) 1\<rparr>\<rparr>,
             fault ''subject_capacity'' ''subject cardinality bound is full'')
          else if mb_consumers_per_subject b
              \<le> (case bt_get (rt_subjects rt) subject of None \<Rightarrow> 0 | Some s \<Rightarrow> length (su_consumers s)) then
            (rt, fault ''consumer_capacity'' ''consumer cardinality bound is full for the subject'')
          else if mb_scheduled_deadlines b \<le> length (rt_consumers rt) then
            (rt\<lparr>rt_metrics := (rt_metrics rt)\<lparr>rm_deadline_refusal_count :=
                 sat_add (rm_deadline_refusal_count (rt_metrics rt)) 1\<rparr>\<rparr>,
             fault ''scheduled_deadline_capacity'' ''no deadline slot can be reserved for another consumer'')
          else if bs_contains (rt_historical_activation_ids rt) (rc_activation_id (cn_context reg)) then
            (rt, fault ''reused_activation'' ''historical context activation identity cannot be reactivated'')
          else if register_policy_rebound (en_sha en) reg rt then
            (rt, fault ''policy_generation_rebound''
               ''historical reliance-policy generation identity names different semantic content'')
          else (rt, Inr ()))"

definition install_consumer :: "runtime_env \<Rightarrow> consumer_registration \<Rightarrow> evaluator \<Rightarrow> runtime \<Rightarrow> runtime" where
  "install_consumer en reg e rt =
     (let subject = po_subject (cn_policy reg); consumer = po_consumer (cn_policy reg);
          activation = rc_activation_id (cn_context reg);
          s = (case bt_get (rt_subjects rt) subject of None \<Rightarrow> subject_state_default | Some s \<Rightarrow> s);
          rt1 = put_consumer (subject, consumer)
            \<lparr>ks_evaluator = e, ks_context = cn_context reg, ks_seen_activations = [activation],
             ks_certificate = None\<rparr> rt
      in remember_context (subject, consumer, po_generation (cn_policy reg))
           (policy_semantic_digest (en_sha en) (cn_policy reg)) activation
           (rt1\<lparr>rt_subjects := bt_insert subject
              (s\<lparr>su_consumers := bs_insert consumer (su_consumers s),
                 su_subject_incarnations := bs_insert (cn_subject_incarnation reg) (su_subject_incarnations s)\<rparr>)
              (rt_subjects rt1)\<rparr>))"

definition register_new ::
  "runtime_env \<Rightarrow> consumer_registration \<Rightarrow> u64 \<Rightarrow> runtime \<Rightarrow> runtime \<times> (runtime_failure + cycle_output)" where
  "register_new en reg at rt =
     (case evaluator_new (cn_policy reg) (cf_receiver (rt_config rt)) (cf_receiver_incarnation (rt_config rt))
          (cf_clock_id (rt_config rt)) (cn_subject_incarnation reg) of
        Inl err \<Rightarrow> (rt, Inl (RuntimeFault (from_evaluator err)))
      | Inr e0 \<Rightarrow>
          let key = (po_subject (cn_policy reg), po_consumer (cn_policy reg));
              (e, r) = install_reevaluation_barrier (en_sha en)
                (GenerationTransition ''initial exact reliance context activated; no prior standing exists'') at e0
          in case r of
               Inl err \<Rightarrow> (rt, Inl (RuntimeFault (from_evaluator err)))
             | Inr ev \<Rightarrow>
                 let c = record_context_transition en key None (cn_context reg) InitialActivation
                       (cn_subject_incarnation reg) at (install_consumer en reg e rt, output_default);
                     ((rt1, out), res) = apply_evaluation en key ev at c
                 in (rt1, case res of Inl failure \<Rightarrow> Inl failure | Inr _ \<Rightarrow> Inr out))"

definition register_consumer ::
  "runtime_env \<Rightarrow> consumer_registration \<Rightarrow> u64 \<Rightarrow> runtime \<Rightarrow> runtime \<times> (runtime_failure + cycle_output)" where
  "register_consumer en reg at rt =
     (if rt_history_exhausted rt then
        (rt, fault ''sparse_history_capacity''
           ''sparse historical custody is exhausted; registration is fail-stopped'')
      else
        let (rt1, r) = ensure_time_not_regressed en at rt in
        case r of
          Inl failure \<Rightarrow> (rt1, Inl failure)
        | Inr _ \<Rightarrow>
            let (rt2, r2) = register_checks en reg rt1 in
            case r2 of Inl failure \<Rightarrow> (rt2, Inl failure) | Inr _ \<Rightarrow> register_new en reg at rt2)"

section \<open>Qualified activation and lifecycle facts\<close>

record local_activation_context =
  lx_expected_generation_set :: qualified_generation_set
  lx_receiver_incarnation :: incarnation_id
  lx_receiver_clock_id :: clock_id
  lx_activated_at_ms :: u64
  lx_runtime_version :: string
  lx_target_platform :: string
  lx_semantic_measurements :: "artifact_measurement list"

record local_activation_attempt =
  lt_receipt :: activation_receipt
  lt_accepted :: "verified_activation option"

text \<open>
  \<open>verify_local_activation\<close> reads the process and its executable; here it is the argument \<open>verify\<close>, given
  the package bytes, the acceptance and the context.
\<close>

type_synonym activation_verifier =
  "bytes option \<Rightarrow> bytes option \<Rightarrow> bytes option \<Rightarrow> local_activation_acceptance \<Rightarrow> local_activation_context \<Rightarrow>
   qualification_error + local_activation_attempt"

definition activation_context ::
  "runtime_env \<Rightarrow> runtime_config \<Rightarrow> consumer_registration \<Rightarrow> u64 \<Rightarrow> artifact_measurement list \<Rightarrow>
   local_activation_context" where
  "activation_context en config reg at measurements =
     \<lparr>lx_expected_generation_set =
        generation_set_from_context (po_subject (cn_policy reg)) (po_consumer (cn_policy reg)) (cn_context reg),
      lx_receiver_incarnation = cf_receiver_incarnation config, lx_receiver_clock_id = cf_clock_id config,
      lx_activated_at_ms = at, lx_runtime_version = en_runtime_version en,
      lx_target_platform = en_target_platform en, lx_semantic_measurements = measurements\<rparr>"

text \<open>An installed result is a barrier for a consumer that is already registered.\<close>

definition bar_consumer :: "runtime_env \<Rightarrow> consumer_key \<Rightarrow> string \<Rightarrow> u64 \<Rightarrow> cycle \<Rightarrow> unit cycled" where
  "bar_consumer en key detail at c =
     (case bt_get (rt_consumers (fst c)) key of
        None \<Rightarrow> (c, Inr ())
      | Some state \<Rightarrow>
          consumer_evaluates en key state
            (install_reevaluation_barrier (en_sha en) (QualifiedGenerationBinding detail) at (ks_evaluator state)) at c)"

definition commit_activation ::
  "runtime_env \<Rightarrow> consumer_key \<Rightarrow> local_activation_acceptance \<Rightarrow> local_activation_attempt \<Rightarrow> u64 \<Rightarrow> runtime \<Rightarrow>
   runtime \<times> (runtime_failure + activation_receipt \<times> cycle_output)" where
  "commit_activation en key acceptance attempt at rt =
     (let receipt = lt_receipt attempt; state = ab_state (ar_body receipt);
          rt1 = rt\<lparr>rt_bindings := bt_insert key
            \<lparr>bd_state = state, bd_receipt = receipt, bd_acceptance = acceptance, bd_accepted = lt_accepted attempt\<rparr>
            (rt_bindings rt)\<rparr>;
          (rt2, out) = record_sparse en at (QualifiedGenerationBindingChanged receipt) (take_pending_output rt1);
          (c3, r) = bar_consumer en key (''qualified-generation activation result is '' @ binding_state_debug state
            @ ''; prior standing is not inherited'') at (cancel_schedule key rt2, out)
      in case r of
           Inl failure \<Rightarrow> (fst c3, Inl failure)
         | Inr _ \<Rightarrow>
             let (rt4, out4) = flush_pending_output (fst c3, push_trace at (''BINDING consumer='' @ snd key @ '' state=''
                   @ binding_state_debug state @ '' receipt='' @ ar_receipt_digest receipt
                   @ '' standing_inherited=false'') (snd c3))
             in (rt4, Inr (receipt, out4)))"

definition binding_slots_full :: "consumer_key \<Rightarrow> runtime \<Rightarrow> runtime_failure + unit" where
  "binding_slots_full key rt =
     (let slots = mb_subjects (cf_bounds (rt_config rt)) * mb_consumers_per_subject (cf_bounds (rt_config rt)) in
      if 2 ^ 64 \<le> slots then fault ''invalid_bounds'' ''binding slot bound overflow''
      else if \<not> bt_contains (rt_bindings rt) key \<and> slots \<le> length (rt_bindings rt)
      then fault ''qualified_binding_capacity'' ''qualified binding slot bound is full; no entry was evicted''
      else Inr ())"

definition activate_qualified_binding ::
  "runtime_env \<Rightarrow> activation_verifier \<Rightarrow> consumer_registration \<Rightarrow> bytes option \<Rightarrow> bytes option \<Rightarrow>
   bytes option \<Rightarrow> local_activation_acceptance \<Rightarrow> u64 \<Rightarrow> runtime \<Rightarrow>
   runtime \<times> (runtime_failure + activation_receipt \<times> cycle_output)" where
  "activate_qualified_binding en verify reg manifest certificate report acceptance at rt =
     (if rt_history_exhausted rt then
        (rt, fault ''sparse_history_capacity'' ''sparse historical custody is exhausted; binding is fail-stopped'')
      else
        let (rt1, r) = ensure_time_not_regressed en at rt;
            key = (po_subject (cn_policy reg), po_consumer (cn_policy reg)) in
        case r of
          Inl failure \<Rightarrow> (rt1, Inl failure)
        | Inr _ \<Rightarrow>
            case rbind (map_err RuntimeFault (validate_registration (en_sha en) reg)) (\<lambda>_.
                 rbind (binding_slots_full key rt1) (\<lambda>_.
                 rbind (map_err (\<lambda>err. RuntimeFault (from_qualification err))
                   (active_runtime_measurements en (rt_config rt1) reg)) (\<lambda>measurements.
                 map_err (\<lambda>err. RuntimeFault (from_qualification err))
                   (verify manifest certificate report acceptance
                     (activation_context en (rt_config rt1) reg at measurements))))) of
              Inl failure \<Rightarrow> (rt1, Inl failure)
            | Inr attempt \<Rightarrow> commit_activation en key acceptance attempt at rt1)"

definition lifecycle_rejected :: "generation_lifecycle_fact \<Rightarrow> binding_slot \<Rightarrow> runtime_failure + unit" where
  "lifecycle_rejected f slot =
     (case la_certificate_status (bd_acceptance slot) of
        CertificateAccepted observed_through \<Rightarrow>
          if lb_authority_id (lf_body f) \<noteq> la_lifecycle_authority_id (bd_acceptance slot)
              \<or> lb_certificate_digest (lf_body f) \<noteq> la_accepted_certificate_digest (bd_acceptance slot)
              \<or> lb_fact_sequence (lf_body f) \<le> observed_through
          then fault ''lifecycle_authority_mismatch''
            ''fact authority, certificate, or sequence is not accepted by local policy''
          else Inr ()
      | _ \<Rightarrow> fault ''lifecycle_already_terminal''
          ''binding lifecycle is already superseded, revoked, or unknown'')"

definition lifecycle_state :: "generation_lifecycle_fact \<Rightarrow> runtime_binding_state" where
  "lifecycle_state f = (case lb_kind (lf_body f) of Superseded \<Rightarrow> BindingSuperseded | Revoked \<Rightarrow> BindingRevoked)"

definition lifecycle_status :: "generation_lifecycle_fact \<Rightarrow> local_certificate_status" where
  "lifecycle_status f =
     (case lb_kind (lf_body f) of Superseded \<Rightarrow> CertificateSuperseded f | Revoked \<Rightarrow> CertificateRevoked f)"

definition end_generation :: "generation_lifecycle_fact \<Rightarrow> binding_slot \<Rightarrow> binding_slot" where
  "end_generation f slot =
     slot\<lparr>bd_state := lifecycle_state f, bd_accepted := None,
          bd_acceptance := (bd_acceptance slot)\<lparr>la_certificate_status := lifecycle_status f\<rparr>\<rparr>"

definition apply_lifecycle ::
  "runtime_env \<Rightarrow> consumer_key \<Rightarrow> binding_slot \<Rightarrow> generation_lifecycle_fact \<Rightarrow> u64 \<Rightarrow> runtime \<Rightarrow>
   runtime \<times> (runtime_failure + cycle_output)" where
  "apply_lifecycle en key slot f at rt =
     (let state = lifecycle_state f;
          rt1 = cancel_schedule key (rt\<lparr>rt_bindings := bt_insert key (end_generation f slot) (rt_bindings rt)\<rparr>);
          c2 = record_sparse en at (QualifiedGenerationLifecycleApplied (snd key) f state False)
            (take_pending_output rt1);
          (c3, r) = bar_consumer en key
            (''accepted local lifecycle fact changed binding to '' @ binding_state_debug state) at c2
      in case r of
           Inl failure \<Rightarrow> (fst c3, Inl failure)
         | Inr _ \<Rightarrow>
             let (rt4, out4) = flush_pending_output (fst c3, push_trace at (''LIFECYCLE consumer='' @ snd key
                   @ '' state='' @ binding_state_debug state @ '' standing_preserved=false'') (snd c3))
             in (rt4, Inr out4))"

definition apply_generation_lifecycle_fact ::
  "runtime_env \<Rightarrow> consumer_key \<Rightarrow> generation_lifecycle_fact \<Rightarrow> u64 \<Rightarrow> runtime \<Rightarrow>
   runtime \<times> (runtime_failure + cycle_output)" where
  "apply_generation_lifecycle_fact en key f at rt =
     (if rt_history_exhausted rt then
        (rt, fault ''sparse_history_capacity''
           ''sparse historical custody is exhausted; lifecycle change is fail-stopped'')
      else
        let (rt1, r) = ensure_time_not_regressed en at rt in
        case r of
          Inl failure \<Rightarrow> (rt1, Inl failure)
        | Inr _ \<Rightarrow>
            case lifecycle_fact_validate (en_sha en) (en_lifecycle en) f of
              Inl err \<Rightarrow> (rt1, Inl (RuntimeFault (from_qualification err)))
            | Inr _ \<Rightarrow>
                case bt_get (rt_bindings rt1) key of
                  None \<Rightarrow>
                    (rt1, fault ''unbound_generation'' ''no active local binding exists for this lifecycle fact'')
                | Some slot \<Rightarrow>
                    case lifecycle_rejected f slot of
                      Inl failure \<Rightarrow> (rt1, Inl failure)
                    | Inr _ \<Rightarrow> apply_lifecycle en key slot f at rt1)"

section \<open>History and recovery\<close>

definition custody_key :: "contradiction_custody \<Rightarrow> subject_id \<times> consumer_id \<times> contradiction_id" where
  "custody_key cu =
     (ss_subject (cr_subject_scope (cu_contradiction cu)), cu_consumer cu,
      cr_contradiction_id (cu_contradiction cu))"

definition contradiction_custody_of :: "consumer_key \<Rightarrow> evaluator \<Rightarrow> contradiction_record \<Rightarrow> contradiction_custody" where
  "contradiction_custody_of key e c =
     \<lparr>cu_schema_version = SCHEMA_VERSION_V1, cu_consumer = snd key, cu_contradiction = c,
      cu_applicability =
        (case cr_status c of
           InapplicableBySubjectReplacement prior replacement at rule \<Rightarrow>
             InapplicableBySubject prior replacement at rule
         | _ \<Rightarrow> Applicable (ss_subject_incarnation (cr_subject_scope c))
             (cr_is_active c
              \<and> ss_subject_incarnation (cr_subject_scope c) = e_current_subject_incarnation e))\<rparr>"

definition export_history :: "runtime \<Rightarrow> runtime_historical_state" where
  "export_history rt =
     (let recorded = fold (\<lambda>cu. bt_insert (custody_key cu) cu) (rt_historical_contradictions rt) [];
          live = concat (map (\<lambda>(key, state). map (contradiction_custody_of key (ks_evaluator state))
            (bt_values (e_contradictions (ks_evaluator state)))) (rt_consumers rt))
      in \<lparr>hs_schema_version = SCHEMA_VERSION_V1, hs_sparse_events = rt_sparse_history rt,
          hs_contradictions = bt_values (fold (\<lambda>cu. bt_insert (custody_key cu) cu) live recorded),
          hs_diagnostic_receipts = rt_diagnostic_receipts rt, hs_nonclaims = history_nonclaims\<rparr>)"

text \<open>Activations and policy bodies named by the recorded context transitions.\<close>

fun recover_contexts :: "sparse_durable_event list \<Rightarrow> runtime \<Rightarrow> runtime_failure + runtime" where
  "recover_contexts [] rt = Inr rt"
| "recover_contexts (ev # events) rt =
     (case ev_event ev of
        RelianceContextTransition t \<Rightarrow>
          let policy_key = (ss_subject (ct_subject_scope t), ct_consumer t,
                rc_reliance_policy_generation (ct_new_context t));
              body = rc_reliance_policy_semantic_digest (ct_new_context t)
          in if (case bt_get (rt_historical_policy_bodies rt) policy_key of None \<Rightarrow> False | Some d \<Rightarrow> d \<noteq> body)
             then fault ''historical_generation_rebound''
               ''historical context transitions bind one policy generation to different bodies''
             else recover_contexts events
               (remember_context policy_key body (rc_activation_id (ct_new_context t)) rt)
      | _ \<Rightarrow> recover_contexts events rt)"

fun recover_registrations ::
  "runtime_env \<Rightarrow> context_activation_id btset \<Rightarrow> consumer_registration list \<Rightarrow> u64 \<Rightarrow> cycle \<Rightarrow>
   unit cycled" where
  "recover_registrations en prior [] at c = (c, Inr ())"
| "recover_registrations en prior (reg # regs) at c =
     (if bs_contains prior (rc_activation_id (cn_context reg)) then
        (c, fault ''reused_activation'' ''restart requires a new context activation identity'')
      else
        let (rt, r) = register_consumer en reg at (fst c) in
        case r of
          Inl failure \<Rightarrow> ((rt, snd c), Inl failure)
        | Inr out \<Rightarrow> recover_registrations en prior regs at (rt, output_append (snd c) out))"

definition blocking_contradictions ::
  "contradiction_custody list \<Rightarrow> (consumer_key, contradiction_record list) btmap" where
  "blocking_contradictions custodies =
     fold (\<lambda>cu m.
         let key = (ss_subject (cr_subject_scope (cu_contradiction cu)), cu_consumer cu)
         in bt_insert key ((case bt_get m key of None \<Rightarrow> [] | Some cs \<Rightarrow> cs) @ [cu_contradiction cu]) m)
       (filter (\<lambda>cu. (case cu_applicability cu of Applicable _ blocks \<Rightarrow> blocks | _ \<Rightarrow> False)
          \<and> cr_is_active (cu_contradiction cu)) custodies) []"

fun recover_contradictions ::
  "(consumer_key \<times> contradiction_record list) list \<Rightarrow> runtime \<Rightarrow> runtime_failure + runtime" where
  "recover_contradictions [] rt = Inr rt"
| "recover_contradictions ((key, records) # rest) rt =
     (case bt_get (rt_consumers rt) key of
        None \<Rightarrow> fault ''historical_binding'' ''contradiction history has no registered consumer''
      | Some state \<Rightarrow>
          let (e, r) = import_contradictions records (ks_evaluator state) in
          case r of
            Inl err \<Rightarrow> Inl (RuntimeFault (from_evaluator err))
          | Inr _ \<Rightarrow> recover_contradictions rest (put_consumer key (state\<lparr>ks_evaluator := e\<rparr>) rt))"

fun bar_each :: "runtime_env \<Rightarrow> u64 \<Rightarrow> consumer_key list \<Rightarrow> cycle \<Rightarrow> unit cycled" where
  "bar_each en at [] c = (c, Inr ())"
| "bar_each en at (key # keys) c =
     (case bt_get (rt_consumers (fst c)) key of
        None \<Rightarrow> (c, Inl (RuntimePanic ''registered recovery consumer exists''))
      | Some state \<Rightarrow>
          cbind (consumer_evaluates en key state
              (install_reevaluation_barrier (en_sha en)
                (ReceiverRestart ''historical custody was recovered without hot evidence or current standing'')
                at (ks_evaluator state)) at c)
            (\<lambda>_. bar_each en at keys))"

definition recover_history :: "runtime_historical_state \<Rightarrow> runtime \<Rightarrow> runtime" where
  "recover_history h rt =
     rt\<lparr>rt_sparse_history := hs_sparse_events h, rt_historical_contradictions := hs_contradictions h,
        rt_diagnostic_receipts := hs_diagnostic_receipts h,
        rt_event_counter := sat_of_nat (length (hs_sparse_events h)),
        rt_metrics := (rt_metrics rt)\<lparr>
          rm_recovered_sparse_record_count := sat_of_nat (length (hs_sparse_events h)),
          rm_recovered_receipt_count := sat_of_nat (length (hs_diagnostic_receipts h))\<rparr>\<rparr>"

definition finish_recovery :: "runtime_env \<Rightarrow> u64 \<Rightarrow> cycle \<Rightarrow> cycle" where
  "finish_recovery en at c =
     (let m = rt_metrics (fst c);
          (rt, out) = record_sparse en at
            (RuntimeRestarted (cf_receiver_incarnation (rt_config (fst c))) (cf_clock_id (rt_config (fst c)))
               (rm_recovered_sparse_record_count m) (rm_recovered_receipt_count m) False) c
      in (rt, push_trace at (''RESTART historical_records=''
             @ dec (unat (rm_recovered_sparse_record_count (rt_metrics rt))) @ '' receipts=''
             @ dec (unat (rm_recovered_receipt_count (rt_metrics rt))) @ '' current_standing=UNKNOWN'') out))"

definition history_over_capacity :: "runtime_config \<Rightarrow> runtime_historical_state \<Rightarrow> bool" where
  "history_over_capacity config h \<longleftrightarrow>
     mb_sparse_events (cf_bounds config) < length (hs_sparse_events h)
     \<or> mb_sparse_events (cf_bounds config) < length (hs_contradictions h)
     \<or> mb_diagnostic_receipts (cf_bounds config) < length (hs_diagnostic_receipts h)"

definition recover ::
  "runtime_env \<Rightarrow> runtime_config \<Rightarrow> consumer_registration list \<Rightarrow> runtime_historical_state \<Rightarrow> u64 \<Rightarrow>
   runtime_failure + cycle" where
  "recover en config regs h at =
     rbind (map_err (\<lambda>err. RuntimeFault (from_runtime_type err)) (history_validate h)) (\<lambda>_.
     rbind (map_err RuntimeFault (config_validate config)) (\<lambda>_.
     rbind (if history_over_capacity config h
       then fault ''historical_capacity'' ''historical state exceeds configured runtime bounds'' else Inr ()) (\<lambda>_.
     rbind (map_err RuntimeFault (runtime_new config)) (\<lambda>rt0.
     rbind (recover_contexts (hs_sparse_events h) (recover_history h rt0)) (\<lambda>rt1.
     let (c2, r2) = recover_registrations en (rt_historical_activation_ids rt1) regs at (rt1, output_default) in
     rbind r2 (\<lambda>_.
     rbind (recover_contradictions (blocking_contradictions (hs_contradictions h)) (fst c2)) (\<lambda>rt3.
     let (c4, r4) = bar_each en at (consumer_keys None rt3) (rt3, snd c2) in
     rbind r4 (\<lambda>_. Inr (finish_recovery en at c4)))))))))"

end
