(* ===== verification/Schedule.thy ===== *)
theory Schedule
  imports Management "HOL-Library.Sublist"
begin

text \<open>
  What the runtime keeps about its certificates and deadlines: every CURRENT certificate a consumer holds
  is valid, names the consumer's context, and has its expiry in the schedule. Each step of the runtime
  keeps this and adds no deadline that is already due, which is why the scheduler loop ends and why
  nothing expired is CURRENT after it.
\<close>

section \<open>Bookkeeping\<close>

text \<open>What the runtime stores stays within the configured bounds, and recorded history is never rewritten.\<close>

definition stored_within :: "runtime \<Rightarrow> bool" where
  "stored_within rt \<longleftrightarrow>
     (let b = cf_bounds (rt_config rt) in
      length (rt_sparse_history rt) \<le> mb_sparse_events b
      \<and> length (rt_request_owners rt) \<le> mb_active_escalations b
      \<and> length (rt_diagnostic_receipts rt) \<le> mb_diagnostic_receipts b
      \<and> bs_ok (rt_receiver_streams rt) \<and> length (rt_receiver_streams rt) \<le> mb_receiver_streams b)"

definition grows :: "runtime \<Rightarrow> runtime \<Rightarrow> bool" where
  "grows rt rt' \<longleftrightarrow>
     prefix (rt_sparse_history rt) (rt_sparse_history rt') \<and> (stored_within rt \<longrightarrow> stored_within rt')"

lemmas grows_simps = grows_def stored_within_def Let_def

lemma grows_refl [simp]: "grows rt rt"
  by (simp add: grows_def)

lemma grows_trans: "grows a b \<Longrightarrow> grows b c \<Longrightarrow> grows a c"
  unfolding grows_def by (auto intro: prefix_order.trans)

text \<open>Steps that change history, counters, metrics and staged output only.\<close>

definition silent :: "runtime \<Rightarrow> runtime \<Rightarrow> bool" where
  "silent rt rt' \<longleftrightarrow>
     rt_config rt' = rt_config rt \<and> rt_receiver rt' = rt_receiver rt \<and> rt_subjects rt' = rt_subjects rt
     \<and> rt_consumers rt' = rt_consumers rt \<and> rt_bindings rt' = rt_bindings rt
     \<and> rt_receiver_streams rt' = rt_receiver_streams rt
     \<and> rt_observer_incarnations rt' = rt_observer_incarnations rt
     \<and> rt_remote_custody rt' = rt_remote_custody rt \<and> rt_pending rt' = rt_pending rt
     \<and> rt_schedules rt' = rt_schedules rt \<and> rt_request_owners rt' = rt_request_owners rt
     \<and> rt_historical_contradictions rt' = rt_historical_contradictions rt
     \<and> rt_diagnostic_receipts rt' = rt_diagnostic_receipts rt
     \<and> rt_historical_activation_ids rt' = rt_historical_activation_ids rt
     \<and> rt_historical_policy_bodies rt' = rt_historical_policy_bodies rt
     \<and> rt_current_ms rt' = rt_current_ms rt \<and> rt_ingress_counter rt' = rt_ingress_counter rt
     \<and> rt_history_blindness_latched rt' = rt_history_blindness_latched rt \<and> grows rt rt'"

lemma silent_refl [simp, intro]: "silent rt rt"
  by (simp add: silent_def)

lemma silent_trans [trans]: "silent a b \<Longrightarrow> silent b c \<Longrightarrow> silent a c"
  unfolding silent_def by (auto intro: grows_trans)

lemma silent_refusal: "silent rt (fst (refusal class at subject consumer bound count detail rt))"
  by (simp add: refusal_def silent_def grows_simps)

lemma silent_record_sparse [intro]: "silent (fst c) (fst (record_sparse en at ev c))"
  by (simp add: record_sparse_def refusal_def silent_def grows_simps)

lemma silent_record_sparse_pair: "silent rt (fst (record_sparse en at ev (rt, out)))"
  using silent_record_sparse [of "(rt, out)"] by simp

lemma silent_push_refusal [intro]: "silent (fst c) (fst (push_refusal en class at subject consumer bound count detail c))"
  using silent_trans [OF silent_refusal silent_record_sparse_pair]
  by (simp add: push_refusal_def Let_def split_beta)

lemma silent_record_events [intro]: "silent (fst c) (fst (record_events en events c))"
  unfolding record_events_def
proof (induction events arbitrary: c)
  case (Cons ev events)
  show ?case using silent_trans [OF silent_record_sparse Cons.IH] by simp
qed simp

lemma silent_report_invalidation [intro]:
  "silent (fst c) (fst (report_invalidation en key receipt state detail at c))"
  using silent_record_sparse by (simp add: report_invalidation_def split_beta)

lemma silent_account [intro]: "silent rt (account_due_schedule_before_cancellation key at rt)"
  by (simp add: account_due_schedule_before_cancellation_def silent_def grows_simps split: list.split)

lemma silent_record_context_transition [intro]:
  "silent (fst c) (fst (record_context_transition en key prior new cause incarnation at c))"
  using silent_record_sparse by (simp add: record_context_transition_def)

lemma silent_updates [intro]:
  "silent rt (rt\<lparr>rt_metrics := m\<rparr>)" "silent rt (rt\<lparr>rt_pending_output := out\<rparr>)"
  "silent rt (rt\<lparr>rt_probes := n\<rparr>)" "silent rt (count_context_refusal rt)" "silent rt (count_withdrawal w l rt)"
  "silent rt (count_observer_refusal rt)" "silent rt (count_stream_refusal rt)"
  "silent rt (count_duplicate_escalations rt)" "silent rt (fst (take_pending_output rt))"
  by (simp_all add: silent_def grows_simps count_context_refusal_def count_withdrawal_def count_observer_refusal_def
      count_stream_refusal_def count_duplicate_escalations_def take_pending_output_def)

lemma silent_stage_refusal [intro]: "silent rt (stage_refusal en r rt)"
  using silent_trans [OF silent_record_sparse_pair silent_updates(2)] by (simp add: stage_refusal_def split_beta Let_def)

lemma silent_refuse_input [intro]: "silent rt (fst (refuse_input en class at bound count detail rt))"
  using silent_trans [OF silent_refusal silent_stage_refusal] by (simp add: refuse_input_def split_beta Let_def)

lemma silent_flush [intro]: "silent (fst c) (fst (flush_pending_output c))"
  using silent_updates(9) by (simp add: flush_pending_output_def split_beta Let_def)

section \<open>Certificates and their deadlines\<close>

definition certified :: "runtime_env \<Rightarrow> runtime \<Rightarrow> consumer_key \<Rightarrow> bool" where
  "certified en rt key \<longleftrightarrow>
     (\<forall>state cert. bt_get (rt_consumers rt) key = Some state \<longrightarrow> ks_certificate state = Some cert \<longrightarrow>
        sc_judgment cert = Current \<longrightarrow>
        certificate_validate (en_sha en) (en_custody en) cert = Inr ()
        \<and> sc_context cert = ks_context state \<and> sc_consumer cert = snd key
        \<and> ss_subject (sc_subject_scope cert) = fst key
        \<and> (\<exists>d. sc_earliest_support_expiry_ms cert = Some d
             \<and> schedule_key d key (rc_activation_id (ks_context state)) \<in> set (rt_schedules rt)))"

lemma certified_mono:
  assumes "certified en rt key" and "bt_get (rt_consumers rt') key = bt_get (rt_consumers rt) key"
    and "set (rt_schedules rt) \<subseteq> set (rt_schedules rt')"
  shows "certified en rt' key"
  using assms(1,3) unfolding certified_def assms(2) by blast

text \<open>The number of deadlines due at \<open>now\<close>.\<close>

definition due_count :: "u64 \<Rightarrow> runtime \<Rightarrow> nat" where
  "due_count now rt = length (filter (\<lambda>s. sk_deadline s \<le> now) (rt_schedules rt))"

text \<open>
  From a state certified outside \<open>A\<close> to one certified outside \<open>B\<close>, with the queue, the clock and the
  configuration as they were, no new deadline that is due, history appended to, and bounds respected.
\<close>

definition keeps :: "runtime_env \<Rightarrow> u64 \<Rightarrow> consumer_key set \<Rightarrow> runtime \<Rightarrow> consumer_key set \<Rightarrow> runtime \<Rightarrow> bool" where
  "keeps en now A rt B rt' \<longleftrightarrow>
     ((\<forall>k. k \<notin> A \<longrightarrow> certified en rt k) \<longrightarrow> (\<forall>k. k \<notin> B \<longrightarrow> certified en rt' k))
     \<and> (bs_ok (rt_schedules rt) \<longrightarrow> bs_ok (rt_schedules rt'))
     \<and> rt_pending rt' = rt_pending rt \<and> rt_current_ms rt' = rt_current_ms rt
     \<and> rt_config rt' = rt_config rt \<and> due_count now rt' \<le> due_count now rt \<and> grows rt rt'"

lemma keeps_trans [trans]:
  "keeps en now A a B b \<Longrightarrow> keeps en now B b C c \<Longrightarrow> keeps en now A a C c"
  unfolding keeps_def by (auto intro: le_trans grows_trans)

lemma keeps_silent: "silent rt rt' \<Longrightarrow> keeps en now A rt A rt'"
  by (simp add: keeps_def silent_def certified_def due_count_def)

lemma keeps_refl [simp, intro]: "keeps en now A rt A rt"
  by (rule keeps_silent) simp

lemma keeps_weaken: "keeps en now A rt B rt' \<Longrightarrow> A' \<subseteq> A \<Longrightarrow> B \<subseteq> B' \<Longrightarrow> keeps en now A' rt B' rt'"
  unfolding keeps_def by blast

lemma keeps_put: "keeps en now A rt (insert key A) (put_consumer key state rt)"
  by (auto simp: keeps_def put_consumer_def certified_def due_count_def btree_simps grows_simps)

lemma keeps_without: "keeps en now A rt (A - {key}) (without_consumer key rt)"
  by (auto simp: keeps_def without_consumer_def certified_def due_count_def btree_simps grows_simps)

lemma sk_schedule_key [simp]:
  "sk_deadline (schedule_key d key act) = d" "sk_key (schedule_key d key act) = key"
  "sk_activation_id (schedule_key d key act) = act"
  by (simp_all add: schedule_key_def sk_deadline_def sk_key_def sk_activation_id_def)

lemma bs_ok_filter: "bs_ok s \<Longrightarrow> bs_ok (filter P s)"
  by (simp add: bs_ok_def sorted_wrt_filter)

lemma keeps_cancel: "keeps en now A rt (insert key A) (cancel_schedule key rt)"
proof -
  have "length (filter (\<lambda>s. sk_deadline s \<le> now) (filter (\<lambda>s. sk_key s \<noteq> key) ss))
      \<le> length (filter (\<lambda>s. sk_deadline s \<le> now) ss)" for ss
    by (induction ss) auto
  then show ?thesis
    by (auto simp: keeps_def cancel_schedule_def certified_def due_count_def bs_ok_filter grows_simps)
qed

lemma keeps_bindings: "keeps en now A rt A (rt\<lparr>rt_bindings := b\<rparr>)"
  by (simp add: keeps_def certified_def due_count_def grows_simps)

lemma keeps_withdraw: "keeps en now A rt A (withdraw_binding key state rt)"
  by (simp add: withdraw_binding_def keeps_bindings split: option.split)

lemma keeps_certified:
  assumes "keeps en now A rt B rt'" and "certified en rt' key"
  shows "keeps en now A rt (B - {key}) rt'"
  using assms unfolding keeps_def by blast

lemma keeps_absent:
  assumes "keeps en now A rt B rt'" and "bt_get (rt_consumers rt') key = None"
  shows "keeps en now A rt (B - {key}) rt'"
proof -
  have "certified en rt' key" using assms(2) by (simp add: certified_def)
  then show ?thesis by (rule keeps_certified [OF assms(1)])
qed

section \<open>Valid certificates\<close>

lemmas unit_result_simps = rbind_unit_eq_Inr map_err_eq_Inr fail_if_eq_Inr try_each_eq_Inr

lemma certificate_validate_ok:
  assumes "certificate_validate sha enc c = Inr u"
  shows "sc_qualified_generation c = Some b \<Longrightarrow> certificate_binding_ok c b"
    and "sc_judgment c = Current \<Longrightarrow> \<not> current_unsupported c"
    and "sc_judgment c \<noteq> Current \<Longrightarrow> sc_earliest_support_expiry_ms c = None"
    and "sc_certificate_id c = certificate_compute_id sha enc c"
  using assms unfolding certificate_validate_def
  by (simp_all only: unit_result_simps option.case if_True if_False simp_thms de_Morgan_disj not_not)

lemma certificate_validate_current:
  assumes "certificate_validate sha enc c = Inr u" and "sc_judgment c = Current"
  obtains b d where "sc_qualified_generation c = Some b" and "certificate_binding_ok c b"
    and "sc_earliest_support_expiry_ms c = Some d" and "sc_evaluated_at_ms c < d"
    and "sc_missing_premises c = []" and "sc_applicable_contradictions c = []" and "cs_missing (sc_coverage c) = []"
proof -
  note u = certificate_validate_ok(2) [OF assms]
  then obtain b d where b: "sc_qualified_generation c = Some b" and d: "sc_earliest_support_expiry_ms c = Some d"
    by (auto simp: current_unsupported_def)
  show thesis using u d by (intro that [OF b certificate_validate_ok(1) [OF assms(1) b] d])
      (auto simp: current_unsupported_def not_le)
qed

lemma certificate_validate_deadline:
  "certificate_validate sha enc c = Inr u \<Longrightarrow> sc_earliest_support_expiry_ms c = Some d \<Longrightarrow> sc_evaluated_at_ms c < d"
  by (cases "sc_judgment c = Current")
     (auto elim: certificate_validate_current dest: certificate_validate_ok(3))

section \<open>Issuing a certificate\<close>

lemma length_filter_bs_insert: "\<not> P x \<Longrightarrow> length (filter P (bs_insert x s)) = length (filter P s)"
  by (induction s) auto

lemma keeps_schedule_expiry:
  assumes "\<And>d. deadline = Some d \<Longrightarrow> now < d"
  shows "keeps en now A rt A (schedule_expiry key act deadline rt)"
proof (cases deadline)
  case (Some d)
  have "due_count now (schedule_expiry key act deadline rt) = due_count now rt"
    using assms [OF Some] Some by (simp add: due_count_def schedule_expiry_def length_filter_bs_insert not_le)
  moreover have "certified en (schedule_expiry key act deadline rt) k" if "certified en rt k" for k
    by (rule certified_mono [OF that]) (auto simp: schedule_expiry_def btree_simps split: option.split)
  ultimately show ?thesis
    using Some by (simp add: keeps_def) (simp add: schedule_expiry_def bs_ok_insert grows_simps)
qed (simp add: schedule_expiry_def)

lemma silent_install_certificate:
  "silent (put_consumer key (state\<lparr>ks_certificate := Some cert\<rparr>)
           (schedule_expiry key (rc_activation_id (ks_context state)) (sc_earliest_support_expiry_ms cert) (fst c)))
         (fst (install_certificate en key state cert at c))"
  unfolding install_certificate_def
  by (simp add: Let_def split_beta put_consumer_def)
     (auto intro: silent_trans [OF silent_record_sparse_pair] silent_updates)

lemma install_certificate_consumers [simp]:
  "rt_consumers (fst (install_certificate en key state cert at c)) =
     bt_insert key (state\<lparr>ks_certificate := Some cert\<rparr>) (rt_consumers (fst c))"
  using silent_install_certificate [where key = key and state = state and cert = cert and c = c]
  by (simp add: silent_def put_consumer_def schedule_expiry_def split: option.splits)

lemma install_certificate_schedules:
  "rt_schedules (fst (install_certificate en key state cert at c)) =
     rt_schedules (schedule_expiry key (rc_activation_id (ks_context state)) (sc_earliest_support_expiry_ms cert) (fst c))"
  using silent_install_certificate [where key = key and state = state and cert = cert and c = c]
  by (simp add: silent_def put_consumer_def)

lemma keeps_install:
  assumes valid: "certificate_validate (en_sha en) (en_custody en) cert = Inr ()"
    and at: "now \<le> sc_evaluated_at_ms cert" and ctx: "sc_context cert = ks_context state"
    and consumer: "sc_consumer cert = snd key"
    and subject: "sc_judgment cert = Current \<Longrightarrow> ss_subject (sc_subject_scope cert) = fst key"
  shows "keeps en now A (fst c) (A - {key}) (fst (install_certificate en key state cert at c))"
proof -
  let ?s = "schedule_expiry key (rc_activation_id (ks_context state)) (sc_earliest_support_expiry_ms cert) (fst c)"
  let ?r = "fst (install_certificate en key state cert at c)"
  have "keeps en now A (fst c) A ?s"
    using at certificate_validate_deadline [OF valid] by (intro keeps_schedule_expiry) (auto intro: le_less_trans)
  also have "keeps en now A ?s (insert key A) (put_consumer key (state\<lparr>ks_certificate := Some cert\<rparr>) ?s)"
    by (rule keeps_put)
  also have "keeps en now (insert key A) (put_consumer key (state\<lparr>ks_certificate := Some cert\<rparr>) ?s) (insert key A) ?r"
    by (intro keeps_silent silent_install_certificate)
  finally have k: "keeps en now A (fst c) (insert key A) ?r" .
  have "certified en ?r key"
    unfolding certified_def install_certificate_consumers install_certificate_schedules
    using valid ctx consumer subject
    by (auto simp: btree_simps schedule_expiry_def elim!: certificate_validate_current [OF valid])
  from keeps_certified [OF k this] show ?thesis by (rule keeps_weaken) auto
qed

section \<open>Requalification\<close>

lemma keeps_withdraw_cancel: "keeps en now A rt (insert key A) (cancel_schedule key (withdraw_binding key' state rt))"
  by (rule keeps_trans [OF keeps_withdraw keeps_cancel])

lemma keeps_report_invalidation:
  "keeps en now A rt B (fst c) \<Longrightarrow> keeps en now A rt B (fst (report_invalidation en key receipt state detail at c))"
  by (rule keeps_trans [OF _ keeps_silent [OF silent_report_invalidation]])

lemma keeps_invalidate: "keeps en now A (fst c) (insert key A) (fst (invalidate_binding en key live state detail at c))"
  unfolding invalidate_binding_def by (rule keeps_report_invalidation) (simp add: keeps_withdraw_cancel)

lemma invalidate_binding_frame [simp]:
  "rt_consumers (fst (invalidate_binding en key live state detail at c)) = rt_consumers (fst c)"
  "rt_config (fst (invalidate_binding en key live state detail at c)) = rt_config (fst c)"
proof -
  let ?rt = "cancel_schedule key (withdraw_binding key state (fst c))"
  have "silent ?rt (fst (invalidate_binding en key live state detail at c))"
    using silent_report_invalidation [of "(?rt, snd c)"] by (simp add: invalidate_binding_def)
  then show "rt_consumers (fst (invalidate_binding en key live state detail at c)) = rt_consumers (fst c)"
    and "rt_config (fst (invalidate_binding en key live state detail at c)) = rt_config (fst c)"
    by (simp_all add: silent_def cancel_schedule_def withdraw_binding_def split: option.splits)
qed

lemma recheck_activation_frame:
  "rt_consumers (fst (fst (recheck_activation en key state observed live at c))) = rt_consumers (fst c)"
  "rt_config (fst (fst (recheck_activation en key state observed live at c))) = rt_config (fst c)"
  by (simp_all add: recheck_activation_def Let_def split: sum.split option.split)

lemma recheck_activation_some:
  "snd (recheck_activation en key state observed live at c) = Some b \<Longrightarrow>
     b = vc_binding live \<and> generation_matches key (ks_context state) b
     \<and> en_executable en (rt_probes (fst c)) live = Inr () \<and> (\<forall>m \<in> set observed. \<not> measurement_differs (vc_measurements live) m)"
  by (auto simp: recheck_activation_def Let_def find_None_iff split: sum.splits option.splits if_splits)


lemma keeps_recheck:
  "keeps en now A (fst c) (insert key A) (fst (fst (recheck_activation en key state observed live at c)))"
proof -
  have i: "keeps en now A (fst c) (insert key A)
      (fst (invalidate_binding en key live st detail at ((fst c)\<lparr>rt_probes := n\<rparr>, snd c)))" for st detail n
  proof (rule keeps_trans)
    show "keeps en now A (fst c) A ((fst c)\<lparr>rt_probes := n\<rparr>)" by (intro keeps_silent silent_updates)
    show "keeps en now A ((fst c)\<lparr>rt_probes := n\<rparr>) (insert key A)
        (fst (invalidate_binding en key live st detail at ((fst c)\<lparr>rt_probes := n\<rparr>, snd c)))"
      using keeps_invalidate [where c = "((fst c)\<lparr>rt_probes := n\<rparr>, snd c)"] by simp
  qed
  have p: "keeps en now A (fst c) (insert key A) ((fst c)\<lparr>rt_probes := n\<rparr>)" for n
    by (rule keeps_weaken [OF keeps_silent [OF silent_updates(3)], of A]) auto
  show ?thesis
    unfolding recheck_activation_def Let_def
    by (auto simp: i p keeps_invalidate split: sum.split option.split)
qed

lemma revalidated_frame:
  "rt_consumers (fst (fst (revalidated_qualified_binding en key state at c))) = rt_consumers (fst c)"
  "rt_config (fst (fst (revalidated_qualified_binding en key state at c))) = rt_config (fst c)"
  by (simp_all add: revalidated_qualified_binding_def recheck_activation_frame split_beta Let_def
      split: sum.split option.split)

lemma keeps_revalidated:
  "keeps en now A (fst c) (insert key A) (fst (fst (revalidated_qualified_binding en key state at c)))"
proof -
  have "keeps en now A (fst c) (insert key A) (fst c)" by (rule keeps_weaken [OF keeps_refl, of A]) auto
  then show ?thesis
    by (simp add: revalidated_qualified_binding_def keeps_recheck split_beta Let_def split: sum.split option.split)
qed

lemma revalidated_some:
  assumes "snd (revalidated_qualified_binding en key state at c) = Inr (Some b)"
  shows "generation_matches key (ks_context state) b"
  using assms
  by (auto simp: revalidated_qualified_binding_def split_beta Let_def dest: recheck_activation_some
      split: sum.splits option.splits if_splits)

lemma qualified_for_frame:
  "rt_consumers (fst (fst (qualified_for en key state ev at c))) = rt_consumers (fst c)"
  "rt_config (fst (fst (qualified_for en key state ev at c))) = rt_config (fst c)"
  by (simp_all add: qualified_for_def revalidated_frame)

lemma keeps_qualified_for:
  "keeps en now A (fst c) (insert key A) (fst (fst (qualified_for en key state ev at c)))"
  using keeps_weaken [OF keeps_refl, of A A "insert key A"] by (auto simp: qualified_for_def keeps_revalidated)

lemma qualified_for_some:
  "snd (qualified_for en key state ev at c) = Inr (Some b) \<Longrightarrow> generation_matches key (ks_context state) b"
  by (auto simp: qualified_for_def descriptive_qualified_binding_def dest: revalidated_some
      split: option.splits if_splits)

section \<open>Applying an evaluation\<close>

lemma dispatch_request_frame [simp]:
  "rt_consumers (fst (dispatch_request en key prior request at c)) = rt_consumers (fst c)"
  "rt_bindings (fst (dispatch_request en key prior request at c)) = rt_bindings (fst c)"
  "rt_config (fst (dispatch_request en key prior request at c)) = rt_config (fst c)"
  "rt_schedules (fst (dispatch_request en key prior request at c)) = rt_schedules (fst c)"
  "rt_pending (fst (dispatch_request en key prior request at c)) = rt_pending (fst c)"
  "rt_current_ms (fst (dispatch_request en key prior request at c)) = rt_current_ms (fst c)"
  using silent_push_refusal [of c en]
  by (simp_all add: dispatch_request_def silent_def Let_def split: option.split)

lemma length_bt_insert: "length (bt_insert k v m) \<le> Suc (length m)"
  by (induction m) auto

lemma grows_dispatch: "grows (fst c) (fst (dispatch_request en key prior request at c))"
proof -
  have "grows (fst c) ((fst c)\<lparr>rt_request_owners := bt_insert k v (rt_request_owners (fst c))\<rparr>)"
    if "length (rt_request_owners (fst c)) < mb_active_escalations (cf_bounds (rt_config (fst c)))" for k v
    using that length_bt_insert [of k v "rt_request_owners (fst c)"] by (simp add: grows_simps)
  then show ?thesis
    using silent_push_refusal [of c en] by (simp add: dispatch_request_def silent_def Let_def not_le split: option.split)
qed

lemma keeps_dispatch: "keeps en now A (fst c) A (fst (dispatch_request en key prior request at c))"
  by (simp add: keeps_def certified_def due_count_def grows_dispatch)

lemma keeps_issue:
  assumes "now \<le> at" and "bt_get (rt_consumers (fst c)) key = None"
    and "\<And>b. qualified = Some b \<Longrightarrow> generation_matches key (ks_context state) b"
  shows "keeps en now A (fst c) (A - {key}) (fst (fst (issue_certificate en key state ev custody at qualified c)))"
proof -
  let ?cert = "seal_certificate en (draft_certificate en key state ev qualified custody at (fst c))"
  show ?thesis
  proof (cases "certificate_validate (en_sha en) (en_custody en) ?cert")
    case (Inl err)
    then show ?thesis
      using keeps_absent [OF keeps_refl assms(2)] by (simp add: issue_certificate_def Let_def)
  next
    case (Inr u)
    have fields: "sc_qualified_generation ?cert = qualified" "sc_evaluated_at_ms ?cert = at"
      "sc_context ?cert = ks_context state" "sc_consumer ?cert = snd key"
      by (simp_all add: seal_certificate_def draft_certificate_def)
    have "ss_subject (sc_subject_scope ?cert) = fst key" if "sc_judgment ?cert = Current"
      using certificate_validate_current [OF Inr that] assms(3) fields(1)
      by (metis certificate_binding_ok_def generation_matches_def)
    with Inr show ?thesis
      using keeps_install [of en ?cert now state key A c at] assms(1) fields
      by (simp add: issue_certificate_def Let_def)
  qed
qed

lemma keeps_refuse_certificate:
  "keeps en now A (fst c) (A - {key}) (fst (refuse_certificate en key state at c))"
proof -
  let ?rt = "(fst c)\<lparr>rt_consumers := bt_insert key (state\<lparr>ks_certificate := None\<rparr>) (rt_consumers (fst c))\<rparr>"
  have "keeps en now A (fst c) (insert key A) ?rt"
    using keeps_put [of en now A "fst c" key "state\<lparr>ks_certificate := None\<rparr>"] by (simp add: put_consumer_def)
  moreover have "certified en ?rt key" by (simp add: certified_def btree_simps)
  ultimately have "keeps en now A (fst c) (insert key A - {key}) ?rt" by (rule keeps_certified)
  then have "keeps en now A (fst c) (A - {key}) ?rt" by (rule keeps_weaken) auto
  moreover have "silent ?rt (fst (refuse_certificate en key state at c))"
    unfolding refuse_certificate_def Let_def using silent_push_refusal [of "(?rt, snd c)"] by simp
  ultimately show ?thesis by (rule keeps_trans [OF _ keeps_silent])
qed

text \<open>The state in which \<open>apply_evaluation\<close> looks the consumer up.\<close>

definition applied_start :: "runtime_env \<Rightarrow> consumer_key \<Rightarrow> evaluation_output \<Rightarrow> u64 \<Rightarrow> cycle \<Rightarrow> cycle" where
  "applied_start en key ev at c =
     (let c2 = dispatch_request en key (runtime_current (fst c) key) (eo_escalation_request ev) at
            (record_events en (eo_sparse_events ev) c)
      in (cancel_schedule key (account_due_schedule_before_cancellation key at (fst c2)), snd c2))"

lemma applied_start_frame [simp]:
  "rt_consumers (fst (applied_start en key ev at c)) = rt_consumers (fst c)"
  "rt_config (fst (applied_start en key ev at c)) = rt_config (fst c)"
  "rt_bindings (fst (applied_start en key ev at c)) = rt_bindings (fst c)"
  using silent_record_events [of c en "eo_sparse_events ev"] silent_account [of _ key at]
  by (simp_all add: applied_start_def Let_def cancel_schedule_def silent_def)

lemma keeps_applied_start: "keeps en now A (fst c) (insert key A) (fst (applied_start en key ev at c))"
proof -
  have "keeps en now A (fst c) A (fst (record_events en (eo_sparse_events ev) c))"
    by (intro keeps_silent silent_record_events)
  also note keeps_dispatch
  also note keeps_silent [OF silent_account]
  also note keeps_cancel
  finally show ?thesis by (simp add: applied_start_def Let_def)
qed

lemma apply_evaluation_start:
  "apply_evaluation en key ev at c =
     (let (rt3, out) = applied_start en key ev at c
      in case bt_get (rt_consumers rt3) key of
           None \<Rightarrow> ((rt3, out), fault ''unknown_consumer'' ''evaluation consumer disappeared'')
         | Some state \<Rightarrow>
             let custody = certificate_custody en rt3 (ju_subject_scope (eo_judgment ev)) (certificate_evidence state at);
                 c4 = (without_consumer key rt3, out)
             in if certificate_over_capacity state at (fst c4) then (refuse_certificate en key state at c4, Inr ())
                else cbind (qualified_for en key state ev at c4) (issue_certificate en key state ev custody at))"
  unfolding apply_evaluation_def applied_start_def Let_def split_beta fst_conv snd_conv by (rule refl)

lemma fst_cbind: "fst (cbind r f) = (case snd r of Inl err \<Rightarrow> fst r | Inr x \<Rightarrow> fst (f x (fst r)))"
  by (simp add: cbind_def split: sum.split)

lemma keeps_apply:
  assumes "now \<le> at"
  shows "keeps en now A (fst c) (A - {key}) (fst (fst (apply_evaluation en key ev at c)))"
proof (cases "bt_get (rt_consumers (fst c)) key")
  case None
  then have "keeps en now A (fst c) (insert key A - {key}) (fst (applied_start en key ev at c))"
    by (intro keeps_absent [OF keeps_applied_start]) simp
  then show ?thesis using None by (simp add: apply_evaluation_start split_beta)
next
  case (Some state)
  define c4 where "c4 = (without_consumer key (fst (applied_start en key ev at c)), snd (applied_start en key ev at c))"
  have k4: "keeps en now A (fst c) (A - {key}) (fst c4)"
    using keeps_weaken [OF keeps_trans [OF keeps_applied_start keeps_without], of A A key key "A - {key}"]
    by (simp add: c4_def)
  have absent: "bt_get (rt_consumers (fst c4)) key = None" by (simp add: c4_def without_consumer_def btree_simps)
  define q where "q = qualified_for en key state ev at c4"
  have kq: "keeps en now (A - {key}) (fst c4) (A - {key}) (fst (fst q))"
    and absent': "bt_get (rt_consumers (fst (fst q))) key = None"
    using keeps_absent [OF keeps_qualified_for [of en now "A - {key}" c4 key state ev at], of key] absent
    by (simp_all add: q_def qualified_for_frame)
  have "keeps en now (A - {key}) (fst c4) (A - {key})
      (fst (fst (cbind q (issue_certificate en key state ev custody at))))" for custody
  proof (cases "snd q")
    case (Inr b)
    have "keeps en now (A - {key}) (fst (fst q)) (A - {key} - {key})
        (fst (fst (issue_certificate en key state ev custody at b (fst q))))"
      using Inr absent' assms qualified_for_some by (intro keeps_issue) (auto simp: q_def)
    from keeps_trans [OF kq this] show ?thesis using Inr by (simp add: fst_cbind)
  qed (simp add: kq fst_cbind)
  moreover have "keeps en now (A - {key}) (fst c4) (A - {key} - {key}) (fst (refuse_certificate en key state at c4))"
    by (rule keeps_refuse_certificate)
  ultimately show ?thesis
    using Some keeps_trans [OF k4]
    by (simp add: apply_evaluation_start split_beta Let_def c4_def [symmetric] q_def)
qed

section \<open>Every step of the runtime\<close>

lemma keeps_apply_key:
  "now \<le> at \<Longrightarrow> keeps en now A rt {key} (fst c) \<Longrightarrow> keeps en now A rt {} (fst (fst (apply_evaluation en key ev at c)))"
  using keeps_trans [OF _ keeps_apply [of now at en "{key}" c key ev]] by simp

lemma keeps_put_key: "keeps en now A rt {} rt' \<Longrightarrow> keeps en now A rt {key} (put_consumer key state rt')"
  by (rule keeps_trans [OF _ keeps_put])

lemma keeps_then_silent: "keeps en now A rt B rt' \<Longrightarrow> silent rt' rt'' \<Longrightarrow> keeps en now A rt B rt''"
  by (rule keeps_trans [OF _ keeps_silent])

lemma keeps_drop: "keeps en now A rt {} rt' \<Longrightarrow> keeps en now A rt {} (without_consumer key rt')"
  using keeps_trans [OF _ keeps_without [of en now "{}"]] by simp

lemma keeps_consumer_evaluates:
  assumes "now \<le> at" and "keeps en now A rt {} (fst c)"
  shows "keeps en now A rt {} (fst (fst (consumer_evaluates en key state result at c)))"
  using assms by (cases "snd result")
    (simp_all add: consumer_evaluates_def keeps_drop keeps_apply_key keeps_put_key)

lemma keeps_latch_consumer:
  assumes "now \<le> at"
  shows "keeps en now {} rt {} (latch_blind_consumer en at detail key rt)"
proof (cases "bt_get (rt_consumers rt) key")
  case (Some state)
  define r where "r = record_monitor_input_drop (en_sha en) 1 at detail (ks_evaluator state)"
  define rt1 where "rt1 = put_consumer key (state\<lparr>ks_evaluator := fst r\<rparr>) rt"
  have le: "now \<le> max at (rt_current_ms rt1)" using assms by (simp add: le_max_iff_disj)
  have "\<exists>ev. snd r = Inr ev"
    by (simp add: r_def record_monitor_input_drop_def set_monitor_capability_def prepend_event_def Let_def
        split_beta evaluate_def)
  then obtain ev where ev: "snd r = Inr ev" ..
  let ?a = "apply_evaluation en key ev (max at (rt_current_ms rt1)) (rt1, output_default)"
  have "keeps en now {} rt {} (fst (fst ?a))"
    using le by (rule keeps_apply_key) (simp add: rt1_def keeps_put_key)
  then show ?thesis
    using Some ev by (auto simp: latch_blind_consumer_def r_def [symmetric] rt1_def [symmetric] split_beta Let_def
        intro: keeps_then_silent)
qed (simp add: latch_blind_consumer_def)

lemma keeps_latch_fold: "now \<le> at \<Longrightarrow> keeps en now {} rt {} (fold (latch_blind_consumer en at detail) keys rt)"
proof (induction keys arbitrary: rt)
  case (Cons key keys)
  show ?case
    using keeps_trans [OF keeps_latch_consumer [OF Cons.prems] Cons.IH [OF Cons.prems]] by simp
qed simp

lemma keeps_latch_all: "now \<le> at \<Longrightarrow> keeps en now {} rt {} (latch_blind_all en at detail rt)"
  by (simp add: latch_blind_all_def keeps_latch_fold)

lemma keeps_latch_subject: "now \<le> at \<Longrightarrow> keeps en now {} rt {} (latch_blind_subject en subject at detail rt)"
  by (simp add: latch_blind_subject_def keeps_latch_fold)

lemma keeps_same:
  assumes "rt_consumers rt' = rt_consumers rt" and "rt_schedules rt' = rt_schedules rt"
    and "rt_pending rt' = rt_pending rt" and "rt_current_ms rt' = rt_current_ms rt" and "rt_config rt' = rt_config rt"
    and "grows rt rt'"
  shows "keeps en now A rt A rt'"
  using assms by (simp add: keeps_def certified_def due_count_def)

lemma keeps_latch_history: "now \<le> at \<Longrightarrow> keeps en now {} rt {} (latch_history_blindness en at rt)"
proof -
  assume "now \<le> at"
  then have "keeps en now {} rt {} (latch_blind_all en at d (rt\<lparr>rt_history_blindness_latched := True\<rparr>))" for d
    by (intro keeps_trans [OF keeps_same keeps_latch_all]) (simp_all add: grows_simps)
  then show ?thesis by (simp add: latch_history_blindness_def)
qed

lemma keeps_refuse_activation:
  assumes "now \<le> at" and "keeps en now A rt {} (fst c)"
  shows "keeps en now A rt {} (fst (fst (refuse_activation en key class bound count detail blind at c)))"
  using keeps_trans [OF keeps_then_silent [OF assms(2) silent_push_refusal] keeps_latch_consumer [OF assms(1)]]
  by (simp add: refuse_activation_def split_beta Let_def)

lemma keeps_invalidate_context:
  "keeps en now A (fst c) A (fst (invalidate_binding_for_context_change en key ctx at c))"
  by (simp add: invalidate_binding_for_context_change_def keeps_report_invalidation keeps_withdraw split: option.split)

lemma keeps_remember: "keeps en now A rt A (remember_context policy_key body act rt)"
  by (rule keeps_same) (simp_all add: remember_context_def grows_simps)

lemma keeps_change_context:
  assumes "now \<le> at"
  shows "keeps en now {} (fst c) {} (fst (fst (change_context en key state a logical_at at c)))"
proof -
  define c1 where "c1 = invalidate_binding_for_context_change en key (ca_context a) at (without_consumer key (fst c), snd c)"
  have k1: "keeps en now {} (fst c) {} (fst c1)"
    using keeps_trans [OF keeps_drop [OF keeps_refl] keeps_invalidate_context [where c = "(without_consumer key (fst c), snd c)", simplified]]
    by (simp add: c1_def)
  have k4: "keeps en now {} (fst c) {key}
      (count_withdrawal w l (cancel_schedule key (remember_context pk body act (put_consumer key st (fst c1)))))"
    for w l pk body act st
  proof -
    have "keeps en now {} (fst c) {key} (remember_context pk body act (put_consumer key st (fst c1)))"
      by (rule keeps_trans [OF keeps_put_key [OF k1] keeps_remember])
    then have "keeps en now {} (fst c) {key} (cancel_schedule key (remember_context pk body act (put_consumer key st (fst c1))))"
      using keeps_trans [OF _ keeps_cancel [of en now "{key}" _ key]] by simp
    then show ?thesis by (rule keeps_then_silent) (rule silent_updates)
  qed
  have k5: "keeps en now {} (fst c) {key} (fst (record_context_transition en key prior new cause inc at
      (count_withdrawal w l (cancel_schedule key (remember_context pk body act (put_consumer key st (fst c1)))), out)))"
    for prior new cause inc w l pk body act st out
    using keeps_then_silent [OF k4 silent_record_context_transition [where c = "(_, out)", simplified]] .
  show ?thesis
    unfolding change_context_def Let_def c1_def [symmetric] split_beta
    by (cases "snd (replace_policy (en_sha en) (ca_policy a)
          (GenerationTransition (''exact reliance context changed from '' @ rc_activation_id (ks_context state) @ '' to ''
               @ rc_activation_id (ca_context a) @ ''; prior CURRENT was not inherited'')) at (ks_evaluator state))")
       (simp_all add: k1 k5 keeps_apply_key [OF assms])
qed

lemma keeps_activate_consumer:
  assumes "now \<le> at"
  shows "keeps en now {} (fst c) {} (fst (fst (activate_consumer en logical_at a at c)))"
proof -
  have "keeps en now {} (fst c) {} (count_context_refusal (fst c))"
    by (intro keeps_silent silent_updates)
  then show ?thesis
    unfolding activate_consumer_def Let_def
    by (simp add: keeps_refuse_activation [OF assms] keeps_change_context [OF assms] split: sum.split option.split)
qed

lemma keeps_cbind:
  assumes "keeps en now A rt {} (fst (fst r))" and "\<And>x. keeps en now {} (fst (fst r)) {} (fst (fst (f x (fst r))))"
  shows "keeps en now A rt {} (fst (fst (cbind r f)))"
  using assms(1) keeps_trans [OF assms] by (simp add: fst_cbind split: sum.split)

lemma keeps_replace_subject_of:
  assumes "now \<le> at"
  shows "keeps en now {} (fst c) {} (fst (fst (replace_subject_of en logical_at subject replacement at a c)))"
proof -
  define key where "key = (subject, po_consumer (ca_policy a))"
  have k: "keeps en now {} (fst c) {key} (cancel_schedule key (put_consumer key st (fst c)))" for st
    using keeps_trans [OF keeps_put_key [OF keeps_refl] keeps_cancel [of en now "{key}" _ key]] by simp
  have "keeps en now {} (fst c) {} (fst (fst (cbind
      (apply_evaluation en key ev at (cancel_schedule key (put_consumer key st (fst c)), snd c)) (\<lambda>_ c1.
       cbind (activate_consumer en logical_at a at c1) (\<lambda>_ c2. ((fst c2, g (snd c2)), Inr ()))))))" for ev st g
    by (intro keeps_cbind keeps_apply_key [OF assms] keeps_activate_consumer [OF assms]) (simp_all add: k)
  then show ?thesis
    unfolding replace_subject_of_def Let_def key_def [symmetric] split_beta
    by (simp add: keeps_drop split: option.split sum.split)
qed

lemma keeps_replace_subject_of_each:
  "now \<le> at \<Longrightarrow> keeps en now {} (fst c) {} (fst (fst (replace_subject_of_each en logical_at subject replacement at as c)))"
proof (induction as arbitrary: c)
  case (Cons a as)
  show ?case
    unfolding replace_subject_of_each.simps by (intro keeps_cbind keeps_replace_subject_of Cons.IH Cons.prems)
qed simp

lemma keeps_put_subject_incarnation:
  "put_subject_incarnation subject replacement rt = Inr rt' \<Longrightarrow> keeps en now A rt A rt'"
  by (auto simp: put_subject_incarnation_def grows_simps intro!: keeps_same split: option.splits)

lemma keeps_refuse_pulse:
  assumes "now \<le> at" and "keeps en now A rt {} (fst c)"
  shows "keeps en now A rt {} (fst (refuse_pulse en class subject bound count detail blind at c))"
  using keeps_trans [OF keeps_then_silent [OF assms(2) silent_push_refusal] keeps_latch_subject [OF assms(1)]]
  by (simp add: refuse_pulse_def split_beta Let_def)

lemma keeps_runtime_replace_subject:
  assumes "now \<le> at"
  shows "keeps en now {} (fst c) {} (fst (fst (runtime_replace_subject en logical_at subject replacement as at c)))"
proof -
  have r: "keeps en now {} (fst c) {} (latch_blind_subject en subject at d
      (fst (push_refusal en cl at s k bound count detail c)))" for d cl s k bound count detail
    by (rule keeps_trans [OF keeps_silent [OF silent_push_refusal] keeps_latch_subject [OF assms]])
  have tr: "keeps en now {} (fst c) {} ((fst c)\<lparr>rt_receiver := tr\<rparr>)" for tr
    by (rule keeps_same) (simp_all add: grows_simps)
  have e: "keeps en now {} (fst c) {} (fst (fst (cbind
      (replace_subject_of_each en logical_at subject replacement at xs ((fst c)\<lparr>rt_receiver := tr\<rparr>, snd c)) (\<lambda>_ c2.
       case put_subject_incarnation subject replacement (fst c2) of
         Inl failure \<Rightarrow> (c2, Inl failure) | Inr rt3 \<Rightarrow> ((rt3, snd c2), Inr ())))))" for xs tr
    using keeps_trans [OF tr keeps_replace_subject_of_each [OF assms, where c = "((fst c)\<lparr>rt_receiver := tr\<rparr>, snd c)", simplified]]
    by (intro keeps_cbind) (auto intro: keeps_put_subject_incarnation split: sum.split)
  show ?thesis
    unfolding runtime_replace_subject_def Let_def split_beta
    by (simp add: r tr e split: option.split sum.split)
qed

lemma keeps_admit_pulse:
  assumes "now \<le> at"
  shows "keeps en now {} (fst c) {} (fst (fst (admit_pulse en f at c)))"
proof -
  have "keeps en now {} (fst c) {} (count_observer_refusal (fst c))"
    "keeps en now {} (fst c) {} (count_stream_refusal (fst c))"
    by (intro keeps_silent silent_updates)+
  then show ?thesis
    unfolding admit_pulse_def Let_def
    by (simp add: keeps_refuse_pulse [OF assms] keeps_silent [OF silent_push_refusal] split: option.split)
qed

lemma length_bs_insert: "bs_ok s \<Longrightarrow> length (bs_insert x s) = (if x \<in> set s then length s else Suc (length s))"
  by (induction s) (auto simp: bs_ok_def)

lemma keeps_note_stream:
  assumes "bs_contains (rt_receiver_streams rt) (stream_identity f)
    \<or> length (rt_receiver_streams rt) < mb_receiver_streams (cf_bounds (rt_config rt))"
  shows "keeps en now A rt A (note_stream f s rt)"
proof -
  have "grows rt (note_stream f s rt)"
    using assms by (auto simp: grows_simps note_stream_def bs_contains_def length_bs_insert bs_ok_insert)
  then show ?thesis by (intro keeps_same) (simp_all add: note_stream_def)
qed

lemma admit_pulse_some:
  assumes "snd (admit_pulse en f at c) = Some s"
  shows "bs_contains (rt_receiver_streams (fst c)) (stream_identity f)
    \<or> length (rt_receiver_streams (fst c)) < mb_receiver_streams (cf_bounds (rt_config (fst c)))"
    and "fst (admit_pulse en f at c) = c"
  using assms by (auto simp: admit_pulse_def Let_def split: option.splits if_splits)

lemma keeps_note_custody: "keeps en now A (fst c) A (fst (fst (note_custody en f remote at c)))"
proof -
  have "keeps en now A (fst c) A (rt\<lparr>rt_remote_custody := m\<rparr>)" if "silent (fst c) rt" for rt m
    by (rule keeps_trans [OF keeps_silent [OF that] keeps_same]) (simp_all add: grows_simps)
  then show ?thesis
    using silent_record_sparse [of c] by (auto simp: note_custody_def Let_def split_beta split: option.split sum.split)
qed

lemma keeps_ingest_for:
  "now \<le> at \<Longrightarrow> keeps en now {} (fst c) {} (fst (fst (ingest_for en r arrival ordinal at key c)))"
  by (auto simp: ingest_for_def Let_def intro: keeps_consumer_evaluates split: option.split)

lemma keeps_ingest_for_each:
  "now \<le> at \<Longrightarrow> keeps en now {} (fst c) {} (fst (fst (ingest_for_each en r arrival ordinal at keys c)))"
proof (induction keys arbitrary: c)
  case (Cons key keys)
  show ?case unfolding ingest_for_each.simps by (intro keeps_cbind keeps_ingest_for Cons.IH Cons.prems)
qed simp

lemma keeps_annotate_pulse: "keeps en now A (fst c) A (fst (fst (annotate_pulse en p arrival c)))"
  by (rule keeps_same) (simp_all add: annotate_pulse_def split_beta grows_simps)

lemma keeps_process_pulse:
  assumes "now \<le> at"
  shows "keeps en now {} (fst c) {} (fst (fst (process_pulse en arrival ordinal p remote at c)))"
proof (cases "snd (admit_pulse en (pi_frame p) at c)")
  case None
  then show ?thesis using keeps_admit_pulse [OF assms] by (simp add: process_pulse_def Let_def split_beta)
next
  case (Some s)
  let ?rt = "note_stream (pi_frame p) s (fst c)"
  have "keeps en now {} (fst c) {} ?rt" by (rule keeps_note_stream [OF admit_pulse_some(1) [OF Some]])
  then have "keeps en now {} (fst c) {} (fst (fst (note_custody en (pi_frame p) remote at (?rt, snd c))))"
    using keeps_trans [OF _ keeps_note_custody [of en now "{}" "(?rt, snd c)", simplified]] by blast
  then have "keeps en now {} (fst c) {} (fst (fst (cbind (note_custody en (pi_frame p) remote at (?rt, snd c)) (\<lambda>_ c2.
      cbind (annotate_pulse en p arrival c2) (\<lambda>a c3. ingest_for_each en (r a) arrival ordinal at (keys c3) c3)))))"
    for r keys
    by (intro keeps_cbind keeps_annotate_pulse keeps_ingest_for_each [OF assms])
  then show ?thesis using Some admit_pulse_some(2) [OF Some] by (simp add: process_pulse_def Let_def split_beta)
qed

section \<open>Deadlines\<close>

definition without_schedule :: "schedule_key \<Rightarrow> runtime \<Rightarrow> runtime" where
  "without_schedule s rt = rt\<lparr>rt_schedules := filter (\<lambda>x. x \<noteq> s) (rt_schedules rt)\<rparr>"

lemma without_schedule_frame [simp]:
  "rt_consumers (without_schedule s rt) = rt_consumers rt" "rt_pending (without_schedule s rt) = rt_pending rt"
  "rt_current_ms (without_schedule s rt) = rt_current_ms rt" "rt_config (without_schedule s rt) = rt_config rt"
  by (simp_all add: without_schedule_def)

lemma certified_without_schedule:
  assumes "certified en rt k"
    and "sk_key s \<noteq> k \<or> (\<forall>st. bt_get (rt_consumers rt) k = Some st \<longrightarrow> rc_activation_id (ks_context st) \<noteq> sk_activation_id s)"
  shows "certified en (without_schedule s rt) k"
proof -
  have "schedule_key d k (rc_activation_id (ks_context st)) \<noteq> s" if "bt_get (rt_consumers rt) k = Some st" for d st
    using assms(2) that by auto
  then show ?thesis using assms(1) unfolding certified_def without_schedule_def by fastforce
qed

lemma due_count_without_schedule: "due_count now (without_schedule s rt) \<le> due_count now rt"
proof -
  have "length (filter P (filter Q xs)) \<le> length (filter P xs)" for P Q and xs :: "schedule_key list"
    by (induction xs) auto
  then show ?thesis by (simp add: due_count_def without_schedule_def)
qed

lemma keeps_without_schedule:
  assumes "\<And>k. k \<notin> B \<Longrightarrow> certified en rt k \<Longrightarrow> certified en (without_schedule s rt) k"
  shows "keeps en now {} rt B (without_schedule s rt)"
  using assms due_count_without_schedule
  by (simp add: keeps_def) (simp add: without_schedule_def bs_ok_filter grows_simps)

lemma keeps_process_deadline:
  assumes "now \<le> at"
  shows "keeps en now {} rt {} (fst (fst (process_deadline en s at (without_schedule s rt, out))))"
proof (cases "bt_get (rt_consumers rt) (sk_key s)")
  case None
  have "keeps en now {} rt {} (without_schedule s rt)"
    by (rule keeps_without_schedule, rule certified_without_schedule) (use None in auto)
  then show ?thesis using None by (simp add: process_deadline_def Let_def)
next
  case (Some state)
  show ?thesis
  proof (cases "rc_activation_id (ks_context state) = sk_activation_id s")
    case False
    have "keeps en now {} rt {} (without_schedule s rt)"
      by (rule keeps_without_schedule, rule certified_without_schedule) (use Some False in auto)
    then show ?thesis using Some False by (simp add: process_deadline_def Let_def)
  next
    case True
    obtain ev where ev: "snd (tick (en_sha en) at (ks_evaluator state)) = Inr ev"
      by (simp add: tick_def evaluate_def Let_def split_beta)
    define rt1 where "rt1 = put_consumer (sk_key s) (state\<lparr>ks_evaluator := fst (tick (en_sha en) at (ks_evaluator state))\<rparr>)
        ((without_schedule s rt)\<lparr>rt_metrics := late (sk_deadline s) at (rt_metrics rt)\<rparr>)"
    have "keeps en now {} rt {sk_key s} (without_schedule s rt)"
      by (rule keeps_without_schedule, rule certified_without_schedule) auto
    then have "keeps en now {} rt {sk_key s} rt1"
      using keeps_trans [OF keeps_then_silent [OF _ silent_updates(1)] keeps_put [of en now "{sk_key s}" _ "sk_key s"]]
      by (simp add: rt1_def)
    then have "keeps en now {} rt {sk_key s} (fst (record_sparse en at kind (rt1, out)))" for kind
      by (rule keeps_then_silent) (rule silent_record_sparse_pair)
    then show ?thesis
      using Some True ev
      by (simp add: process_deadline_def Let_def split_beta rt1_def [symmetric] keeps_apply_key [OF assms])
         (simp add: rt1_def without_schedule_def keeps_apply_key [OF assms])
  qed
qed

lemma keeps_deadline_frame:
  assumes "now \<le> at"
  shows "keeps en now UNIV (fst c) UNIV (fst (fst (process_deadline en s at c)))"
proof -
  have ap: "keeps en now UNIV (fst c) UNIV (fst (fst (apply_evaluation en key ev at c')))"
    if "keeps en now UNIV (fst c) UNIV (fst c')" for key ev c'
    by (rule keeps_weaken [OF keeps_trans [OF that keeps_apply [OF assms]]]) auto
  have up: "keeps en now UNIV (fst c) UNIV (put_consumer key st rt)"
    if "keeps en now UNIV (fst c) UNIV rt" for key st rt
    using keeps_trans [OF that keeps_put] by simp
  have "keeps en now UNIV (fst c) UNIV (put_consumer key st ((fst c)\<lparr>rt_metrics := m\<rparr>))" for key st m
    by (intro up keeps_silent silent_updates)
  then have "keeps en now UNIV (fst c) UNIV
      (fst (record_sparse en at kind (put_consumer key st ((fst c)\<lparr>rt_metrics := m\<rparr>), out)))" for key st m kind out
    by (rule keeps_then_silent) (rule silent_record_sparse_pair)
  then show ?thesis
    using keeps_weaken [OF keeps_without, of UNIV UNIV _ UNIV]
    by (simp add: process_deadline_def Let_def split_beta ap split: option.split sum.split)
qed

section \<open>Inputs\<close>

lemma keeps_restore_each:
  "now \<le> at \<Longrightarrow> keeps en now {} (fst c) {} (fst (fst (restore_each en detail at keys c)))"
proof (induction keys arbitrary: c)
  case (Cons key keys)
  have "keeps en now {} (fst c) {} (fst (fst (cbind (consumer_evaluates en key st result at c)
      (\<lambda>_. restore_each en detail at keys))))" for st result
    by (intro keeps_cbind keeps_consumer_evaluates Cons.prems Cons.IH keeps_refl)
  then show ?case by (simp split: option.split)
qed simp

lemma keeps_transport_revalidation:
  assumes "now \<le> at"
  shows "keeps en now {} (fst c) {} (fst (fst (process_transport_revalidation en key expected at c)))"
proof -
  have "keeps en now {} (fst c) {} (fst (fst (cbind (revalidated_qualified_binding en key st at (without_consumer key (fst c), snd c))
      (\<lambda>_ c1. consumer_evaluates en key st result at c1))))" for st result
  proof (rule keeps_cbind)
    let ?c0 = "(without_consumer key (fst c), snd c)"
    let ?r = "revalidated_qualified_binding en key st at ?c0"
    have "keeps en now {} (fst c) {key} (fst (fst ?r))"
      using keeps_trans [OF keeps_drop [OF keeps_refl] keeps_revalidated [where c = ?c0 and A = "{}" and key = key, simplified]] .
    moreover have "bt_get (rt_consumers (fst (fst ?r))) key = None"
      by (simp add: revalidated_frame without_consumer_def btree_simps)
    ultimately show "keeps en now {} (fst c) {} (fst (fst ?r))"
      using keeps_absent [of en now "{}" _ "{key}" _ key] by simp
  qed (rule keeps_consumer_evaluates [OF assms keeps_refl])
  then show ?thesis
    by (simp add: process_transport_revalidation_def split: option.split)
qed

lemma keeps_receipt:
  assumes "now \<le> at"
  shows "keeps en now {} (fst c) {} (fst (fst (process_receipt en r at c)))"
proof -
  have "keeps en now {} (fst c) {} (latch_blind_subject en subject at d
      (fst (push_refusal en cl at s k bound count detail c)))" for subject d cl s k bound count detail
    by (rule keeps_trans [OF keeps_silent [OF silent_push_refusal] keeps_latch_subject [OF assms]])
  moreover have "keeps en now {} (fst c) {} (if b then (fst c)\<lparr>rt_diagnostic_receipts := rt_diagnostic_receipts (fst c) @ [r]\<rparr>
      else fst c)" if "\<not> mb_diagnostic_receipts (cf_bounds (rt_config (fst c))) \<le> length (rt_diagnostic_receipts (fst c))" for b
    using that by (intro keeps_same) (simp_all add: grows_simps)
  ultimately show ?thesis
    unfolding process_receipt_def Let_def split_beta
    by (simp add: keeps_consumer_evaluates [OF assms] keeps_silent [OF silent_push_refusal] split: option.split prod.split)
qed

lemma keeps_boundary_condition:
  assumes "now \<le> at"
  shows "keeps en now {} (fst c) {} (fst (fst (process_boundary_condition en subject finding session detail w at c)))"
proof -
  have q: "keeps en now {} (fst c) {} (fst (record_sparse en at kind c))" for kind
    by (intro keeps_silent silent_record_sparse)
  have "keeps en now {} (fst c) {} (fst (flush_pending_output
      (case subject of Some s \<Rightarrow> latch_blind_subject en s at detail (fst (record_sparse en at kind c))
       | None \<Rightarrow> latch_blind_all en at detail (fst (record_sparse en at kind c)), out)))" for kind out
    using keeps_trans [OF q keeps_latch_all [OF assms]] keeps_trans [OF q keeps_latch_subject [OF assms]]
    by (intro keeps_then_silent [OF _ silent_flush [where c = "(_, out)", simplified]]) (auto split: option.split)
  then show ?thesis by (simp add: process_boundary_condition_def split_beta Let_def q)
qed

lemma keeps_process_input:
  assumes "now \<le> at"
  shows "keeps en now {} (fst c) {} (fst (fst (process_input en logical_at ordinal input at c)))"
proof (cases input)
  case (DispositionInput d)
  then show ?thesis
    by (simp add: process_disposition_def keeps_consumer_evaluates [OF assms] keeps_silent [OF silent_push_refusal]
        split: option.split prod.split)
next
  case (Reevaluate subject consumer)
  then show ?thesis by (simp add: process_reevaluation_def keeps_consumer_evaluates [OF assms] split: option.split)
next
  case (RestoreMonitorCapability subject detail)
  have "keeps en now {} (fst c) {} (fst (fst (process_restore en subject detail at c)))"
    unfolding process_restore_def by (rule keeps_cbind) (simp_all add: keeps_restore_each [OF assms])
  then show ?thesis using RestoreMonitorCapability by simp
qed (simp_all add: keeps_activate_consumer keeps_runtime_replace_subject keeps_process_pulse keeps_receipt
    keeps_transport_revalidation keeps_boundary_condition assms)

section \<open>The loop\<close>

definition without_pending :: "pending_key \<Rightarrow> runtime \<Rightarrow> runtime" where
  "without_pending k rt = rt\<lparr>rt_pending := bt_remove k (rt_pending rt)\<rparr>"

definition loop_measure :: "u64 \<Rightarrow> runtime \<Rightarrow> nat" where
  "loop_measure now rt = length (rt_pending rt) + due_count now rt"

lemma process_due_result:
  "fst (process_due en now (DuePending k input) c) =
     fst (process_input en (fst k) (snd (snd (snd (snd k)))) input now (without_pending k (fst c), snd c))"
  "fst (process_due en now (DueSchedule s) c) = fst (process_deadline en s now (without_schedule s (fst c), snd c))"
  by (simp_all add: without_pending_def without_schedule_def)

lemma next_due_pending:
  "next_due now rt = Some (DuePending k input) \<Longrightarrow> \<exists>es. rt_pending rt = (k, input) # es \<and> fst k \<le> now"
  by (auto simp: next_due_def next_pending_def split: option.splits list.splits if_splits prod.splits)

lemma next_due_schedule:
  "next_due now rt = Some (DueSchedule s) \<Longrightarrow> \<exists>ss. rt_schedules rt = s # ss \<and> sk_deadline s \<le> now"
  by (auto simp: next_due_def next_schedule_def split: option.splits list.splits if_splits prod.splits)

lemma process_due_measure:
  assumes "next_due now (fst c) = Some item"
  shows "loop_measure now (fst (fst (process_due en now item c))) < loop_measure now (fst c)"
proof (cases item)
  case (DuePending k input)
  let ?rt = "without_pending k (fst c)"
  from next_due_pending [of now "fst c" k input] assms DuePending
  obtain es where es: "rt_pending (fst c) = (k, input) # es" by auto
  have "length (rt_pending ?rt) < length (rt_pending (fst c))"
    by (simp add: without_pending_def bt_remove_def es le_imp_less_Suc)
  moreover have "due_count now ?rt = due_count now (fst c)" by (simp add: due_count_def without_pending_def)
  moreover have "keeps en now {} ?rt {} (fst (fst (process_due en now item c)))"
    unfolding DuePending process_due_result
    using keeps_process_input [OF order_refl, where c = "(?rt, snd c)"] by simp
  ultimately show ?thesis by (simp add: loop_measure_def keeps_def)
next
  case (DueSchedule s)
  let ?rt = "without_schedule s (fst c)"
  from next_due_schedule [of now "fst c" s] assms DueSchedule
  obtain ss where ss: "rt_schedules (fst c) = s # ss" and due: "sk_deadline s \<le> now" by auto
  have len: "length (filter P (filter Q xs)) \<le> length (filter P xs)" for P Q and xs :: "schedule_key list"
    by (induction xs) auto
  have "due_count now ?rt < due_count now (fst c)"
    using due len by (simp add: due_count_def without_schedule_def ss le_imp_less_Suc)
  moreover have "keeps en now UNIV ?rt UNIV (fst (fst (process_due en now item c)))"
    unfolding DueSchedule process_due_result
    using keeps_deadline_frame [OF order_refl, where c = "(?rt, snd c)"] by simp
  ultimately show ?thesis by (simp add: loop_measure_def keeps_def)
qed

lemma run_loop_returns: "\<exists>r. run_loop en now c = Some r"
proof (induction "loop_measure now (fst c)" arbitrary: c rule: less_induct)
  case less
  show ?case
  proof (cases "next_due now (fst c)")
    case None
    then show ?thesis by (subst run_loop.simps) simp
  next
    case (Some item)
    from less [OF process_due_measure [OF Some]]
    obtain r where "run_loop en now (fst (process_due en now item c)) = Some r" ..
    then show ?thesis
      using Some by (cases "snd (process_due en now item c)") (subst run_loop.simps, simp)+
  qed
qed

definition runtime_ok :: "runtime_env \<Rightarrow> runtime \<Rightarrow> bool" where
  "runtime_ok en rt \<longleftrightarrow> (\<forall>k. certified en rt k) \<and> bs_ok (rt_schedules rt)"

lemma keeps_ok: "keeps en now {} rt {} rt' \<Longrightarrow> runtime_ok en rt \<Longrightarrow> runtime_ok en rt'"
  by (simp add: keeps_def runtime_ok_def)

text \<open>What every operation but \<open>enqueue\<close> does to a runtime.\<close>

definition advances :: "runtime_env \<Rightarrow> runtime \<Rightarrow> runtime \<Rightarrow> bool" where
  "advances en rt rt' \<longleftrightarrow>
     (runtime_ok en rt \<longrightarrow> runtime_ok en rt') \<and> grows rt rt' \<and> rt_config rt' = rt_config rt
     \<and> length (rt_pending rt') \<le> length (rt_pending rt)"

lemma advances_refl [simp, intro]: "advances en rt rt"
  by (simp add: advances_def)

lemma advances_trans [trans]: "advances en a b \<Longrightarrow> advances en b c \<Longrightarrow> advances en a c"
  unfolding advances_def by (auto intro: grows_trans)

lemma keeps_advances: "keeps en now {} rt {} rt' \<Longrightarrow> advances en rt rt'"
  using keeps_ok [of en now rt rt'] unfolding advances_def by (simp add: keeps_def)

lemma silent_advances: "silent rt rt' \<Longrightarrow> advances en rt rt'"
  by (rule keeps_advances [OF keeps_silent [where now = 0]])

lemma advances_same:
  "rt_consumers rt' = rt_consumers rt \<Longrightarrow> rt_schedules rt' = rt_schedules rt \<Longrightarrow> rt_config rt' = rt_config rt \<Longrightarrow>
   length (rt_pending rt') \<le> length (rt_pending rt) \<Longrightarrow> grows rt rt' \<Longrightarrow> advances en rt rt'"
  by (simp add: advances_def runtime_ok_def certified_def)

lemma process_due_advances:
  "advances en (fst c) (fst (fst (process_due en now item c)))"
  "rt_current_ms (fst (fst (process_due en now item c))) = rt_current_ms (fst c)"
proof -
  have "advances en (fst c) (fst (fst (process_due en now item c)))
    \<and> rt_current_ms (fst (fst (process_due en now item c))) = rt_current_ms (fst c)"
  proof (cases item)
    case (DuePending k input)
    have "advances en (fst c) (without_pending k (fst c))"
      by (rule advances_same) (simp_all add: without_pending_def bt_remove_def grows_simps)
    moreover have k: "keeps en now {} (without_pending k (fst c)) {} (fst (fst (process_due en now item c)))"
      unfolding DuePending process_due_result
      using keeps_process_input [OF order_refl, where c = "(without_pending k (fst c), snd c)"] by simp
    ultimately show ?thesis using advances_trans [OF _ keeps_advances [OF k]] k
      by (auto simp: keeps_def without_pending_def)
  next
    case (DueSchedule s)
    have k: "keeps en now {} (fst c) {} (fst (fst (process_due en now item c)))"
      unfolding DueSchedule process_due_result using keeps_process_deadline [OF order_refl] by simp
    then show ?thesis using keeps_advances [OF k] by (auto simp: keeps_def)
  qed
  then show "advances en (fst c) (fst (fst (process_due en now item c)))"
    and "rt_current_ms (fst (fst (process_due en now item c))) = rt_current_ms (fst c)" by simp_all
qed

lemma run_loop_advances:
  assumes "run_loop en now c = Some (c', r)"
  shows "advances en (fst c) (fst c') \<and> rt_current_ms (fst c') = rt_current_ms (fst c)
    \<and> (is_ok r \<longrightarrow> next_due now (fst c') = None)"
  using assms
proof (induction "loop_measure now (fst c)" arbitrary: c rule: less_induct)
  case less
  show ?case
  proof (cases "next_due now (fst c)")
    case None
    then show ?thesis using less.prems by (subst (asm) run_loop.simps) auto
  next
    case (Some item)
    let ?c1 = "fst (process_due en now item c)"
    note step = process_due_advances [where c = c and now = now and item = item and en = en]
    show ?thesis
    proof (cases "snd (process_due en now item c)")
      case (Inl failure)
      then have "c' = ?c1" and "r = Inl failure"
        using less.prems Some by (subst (asm) run_loop.simps, simp)+
      then show ?thesis using step by simp
    next
      case (Inr u)
      then have "run_loop en now ?c1 = Some (c', r)" using less.prems Some by (subst (asm) run_loop.simps) simp
      from less.hyps [OF process_due_measure [OF Some] this] step show ?thesis
        by (auto intro: advances_trans)
    qed
  qed
qed

text \<open>Nothing is due once the loop has ended: the earliest deadline comes first.\<close>

lemma no_schedule_due:
  assumes "next_due now rt = None" and "bs_ok (rt_schedules rt)" and "s \<in> set (rt_schedules rt)"
  shows "now < sk_deadline s"
proof -
  obtain h ss where h: "rt_schedules rt = h # ss" using assms(3) by (cases "rt_schedules rt") auto
  have "now < sk_deadline h"
    using assms(1) h by (auto simp: next_due_def next_schedule_def not_le split: option.splits if_splits prod.splits)
  moreover have "sk_deadline h \<le> sk_deadline s"
  proof (cases "s = h")
    case False
    then have "h < s" using assms(2,3) h by (auto simp: bs_ok_def)
    then show ?thesis by (cases h; cases s) (auto simp: sk_deadline_def less_prod_def)
  qed simp
  ultimately show ?thesis by simp
qed

lemma certified_after_loop:
  assumes "runtime_ok en rt" and "next_due now rt = None"
    and "current_certificate rt subject consumer = Some cert" and "sc_judgment cert = Current"
  shows "certificate_validate (en_sha en) (en_custody en) cert = Inr ()
    \<and> sc_consumer cert = consumer \<and> ss_subject (sc_subject_scope cert) = subject
    \<and> (\<exists>d. sc_earliest_support_expiry_ms cert = Some d \<and> now < d)"
proof -
  obtain state where state: "bt_get (rt_consumers rt) (subject, consumer) = Some state"
      "ks_certificate state = Some cert"
    using assms(3) by (auto simp: current_certificate_def split: option.splits)
  with assms(1,4) obtain d where "certificate_validate (en_sha en) (en_custody en) cert = Inr ()"
      "sc_consumer cert = consumer" "ss_subject (sc_subject_scope cert) = subject"
      "sc_earliest_support_expiry_ms cert = Some d"
      and s: "schedule_key d (subject, consumer) (rc_activation_id (ks_context state)) \<in> set (rt_schedules rt)"
    unfolding runtime_ok_def certified_def by fastforce
  moreover have "now < d"
    using no_schedule_due [OF assms(2) _ s] assms(1) by (simp add: runtime_ok_def)
  ultimately show ?thesis by blast
qed

end
