(* ===== verification/RuntimeSamples.thy ===== *)
theory RuntimeSamples
  imports Schedule Samples
begin

text \<open>
  A sample runtime at which the properties of the runtime are exercised: one consumer of the sample
  policy, its evaluator at CURRENT, a sealed CURRENT certificate until 1100 and the deadline scheduled
  for it.
\<close>

definition sample_env :: runtime_env where
  "sample_env =
     \<lparr>en_sha = sample_sha, en_artifact = (\<lambda>_. ''artifact''), en_custody = (\<lambda>_. []), en_receipt = (\<lambda>_. []),
      en_lifecycle = (\<lambda>_. []), en_executable = (\<lambda>_ _. Inr ()), en_runtime_version = ''0.1.0'',
      en_target_platform = ''linux-x86_64''\<rparr>"

definition sample_config :: runtime_config where
  "sample_config =
     \<lparr>cf_schema_version = SCHEMA_VERSION_V1, cf_receiver = ''receiver-1'', cf_receiver_incarnation = ''r-boot-1'',
      cf_clock_id = ''clock-1'', cf_transport_custody_policy = None, cf_bounds = qualification_bounds\<rparr>"

definition sample_context :: reliance_context where
  "sample_context =
     \<lparr>rc_schema_version = SCHEMA_VERSION_V1, rc_activation_id = ''activation-1'',
      rc_reliance_policy_generation = ''policy-1'',
      rc_reliance_policy_semantic_digest = policy_semantic_digest sample_sha sample_policy,
      rc_consumer_profile_generation = ''profile-1'', rc_evaluator_semantic_generation = ''evaluator-1'',
      rc_observer_set_generation = ''observers-1'', rc_observation_policy_generation = ''gen-1''\<rparr>"

definition sample_registration :: consumer_registration where
  "sample_registration =
     \<lparr>cn_policy = sample_policy, cn_context = sample_context, cn_subject_incarnation = ''boot-1''\<rparr>"

definition sample_binding :: qualified_generation_binding where
  "sample_binding =
     \<lparr>qb_schema_version = SCHEMA_VERSION_V1, qb_manifest_digest = sample_digest,
      qb_qualification_certificate_digest = sample_digest, qb_activation_receipt_digest = sample_digest,
      qb_activation_occurrence_id = ''occurrence-1'', qb_process_epoch_id = ''epoch-1'',
      qb_generation_set = generation_set_from_context ''host-a'' ''display'' sample_context,
      qb_authority_grants = authority_none\<rparr>"

definition sample_certificate :: reliance_support_certificate where
  "sample_certificate = seal_certificate sample_env
     \<lparr>sc_schema_version = SCHEMA_VERSION_V1, sc_certificate_id = [], sc_consumer = ''display'',
      sc_subject_scope = \<lparr>ss_subject = ''host-a'', ss_subject_incarnation = ''boot-1'', ss_scope = ''host''\<rparr>,
      sc_context = sample_context, sc_qualified_generation = Some sample_binding, sc_evaluated_at_ms = 110,
      sc_receiver_clock_id = ''clock-1'', sc_judgment = Current, sc_evidence_window_id = ''window-1'',
      sc_supporting_evidence_ids = [''evidence-1''], sc_remote_observation_custody = [],
      sc_missing_premises = [], sc_applicable_contradictions = [],
      sc_coverage = \<lparr>cs_required = [''cpu'', ''disk''], cs_active = [''cpu'', ''disk''], cs_missing = [],
        cs_expired = [], cs_active_observers = 1, cs_required_observers = 1, cs_per_tag = []\<rparr>,
      sc_earliest_support_expiry_ms = Some 1100, sc_next_scheduled_reevaluation_ms = Some 1100,
      sc_escalation = NotRequested, sc_mutation_authority = NoAuthority\<rparr>"

definition sample_runtime :: runtime where
  "sample_runtime = (case runtime_new sample_config of Inr rt \<Rightarrow> rt)"

definition sample_key :: consumer_key where
  "sample_key = (''host-a'', ''display'')"

definition sample_state :: consumer_state where
  "sample_state =
     \<lparr>ks_evaluator = sample_current, ks_context = sample_context, ks_seen_activations = [''activation-1''],
      ks_certificate = Some sample_certificate\<rparr>"

definition sample_standing :: runtime where
  "sample_standing = sample_runtime\<lparr>rt_consumers := [(sample_key, sample_state)],
     rt_schedules := [schedule_key 1100 sample_key ''activation-1''], rt_current_ms := 110\<rparr>"

lemma sample_config_ok: "config_validate sample_config = Inr ()"
  by code_simp

lemma sample_runtime_new: "runtime_new sample_config = Inr sample_runtime"
  by (simp add: sample_runtime_def runtime_new_def sample_config_ok)

lemma sample_runtime_fields [simp]:
  "rt_config sample_runtime = sample_config" "rt_consumers sample_runtime = []" "rt_bindings sample_runtime = []"
  "rt_pending sample_runtime = []" "rt_schedules sample_runtime = []" "rt_request_owners sample_runtime = []"
  "rt_sparse_history sample_runtime = []" "rt_current_ms sample_runtime = 0" "rt_ingress_counter sample_runtime = 0"
  "rt_diagnostic_receipts sample_runtime = []" "rt_history_exhausted sample_runtime = False"
  "rt_history_blindness_latched sample_runtime = False"
  by (simp_all add: sample_runtime_def runtime_new_def sample_config_ok)

lemma sample_bounds [simp]: "cf_bounds sample_config = qualification_bounds"
  by (simp add: sample_config_def)

lemma sample_standing_fields [simp]:
  "rt_config sample_standing = sample_config" "rt_consumers sample_standing = [(sample_key, sample_state)]"
  "rt_bindings sample_standing = []" "rt_pending sample_standing = []"
  "rt_schedules sample_standing = [schedule_key 1100 sample_key ''activation-1'']"
  "rt_request_owners sample_standing = []" "rt_current_ms sample_standing = 110"
  "rt_sparse_history sample_standing = []" "rt_history_exhausted sample_standing = False"
  "rt_history_blindness_latched sample_standing = False" "rt_diagnostic_receipts sample_standing = []"
  by (simp_all add: sample_standing_def)

lemma sample_identities:
  "list_all good_identity [''host-a'', ''boot-1'', ''host'', ''display'', ''activation-1'', ''policy-1'',
     ''profile-1'', ''evaluator-1'', ''observers-1'', ''gen-1'', ''occurrence-1'', ''epoch-1'']"
  by code_simp

lemma sample_context_valid: "context_validate sample_context = Inr ()"
  using sample_identities
  by (simp add: context_validate_def sample_context_def result_simps sample_digest_parts policy_semantic_digest_def)

lemma sample_binding_valid: "binding_validate sample_binding = Inr ()"
  using sample_identities
  by (simp add: binding_validate_def sample_binding_def generation_set_validate_def generation_set_from_context_def
      sample_context_def qualified_identity_def qualified_digest_def qualified_schema_def result_simps
      sample_digest_parts sample_digest_def policy_semantic_digest_def grants_nothing_def authority_none_def)

lemma sample_certificate_fields [simp]:
  "sc_schema_version sample_certificate = SCHEMA_VERSION_V1" "sc_consumer sample_certificate = ''display''"
  "sc_subject_scope sample_certificate = \<lparr>ss_subject = ''host-a'', ss_subject_incarnation = ''boot-1'', ss_scope = ''host''\<rparr>"
  "sc_context sample_certificate = sample_context" "sc_qualified_generation sample_certificate = Some sample_binding"
  "sc_judgment sample_certificate = Current" "sc_evaluated_at_ms sample_certificate = 110"
  "sc_supporting_evidence_ids sample_certificate = [''evidence-1'']"
  "sc_remote_observation_custody sample_certificate = []" "sc_missing_premises sample_certificate = []"
  "sc_applicable_contradictions sample_certificate = []" "cs_missing (sc_coverage sample_certificate) = []"
  "sc_earliest_support_expiry_ms sample_certificate = Some 1100"
  "sc_next_scheduled_reevaluation_ms sample_certificate = Some 1100"
  by (simp_all add: sample_certificate_def seal_certificate_def)

lemma sample_certificate_valid:
  "certificate_validate (en_sha sample_env) (en_custody sample_env) sample_certificate = Inr ()"
proof -
  have id: "sc_certificate_id sample_certificate =
      certificate_compute_id (en_sha sample_env) (en_custody sample_env) sample_certificate"
    by (simp add: sample_certificate_def seal_certificate_def certificate_compute_id_def certificate_parts_def)
  have "good_identity (sc_certificate_id sample_certificate)"
    unfolding id certificate_compute_id_def
    by (rule digest_id_good) (simp_all add: sample_env_def sample_hash_32 ascii_printable_def in_range_def)
  moreover have "certificate_binding_ok sample_certificate sample_binding"
    by (simp add: certificate_binding_ok_def sample_binding_def generation_set_from_context_def matches_context_def)
  moreover have "\<not> current_unsupported sample_certificate" by (simp add: current_unsupported_def)
  ultimately show ?thesis
    using id sample_identities sample_context_valid sample_binding_valid
    by (simp add: certificate_validate_def unit_result_simps subject_scope_validate_def result_simps
        MAX_CERTIFICATE_EVIDENCE_REFS_def)
qed

lemma sample_standing_ok: "runtime_ok sample_env sample_standing"
proof -
  have "certified sample_env sample_standing sample_key"
    using sample_certificate_valid
    by (simp add: certified_def bt_get_def sample_key_def sample_state_def sample_context_def)
  moreover have "bt_get (rt_consumers sample_standing) k = None" if "k \<noteq> sample_key" for k
    using that by (simp add: bt_get_def)
  ultimately have "certified sample_env sample_standing k" for k
    by (cases "k = sample_key") (simp_all add: certified_def)
  then show ?thesis by (simp add: runtime_ok_def bs_ok_def)
qed

end
