(* ===== verification/RuntimeRuns.thy ===== *)
theory RuntimeRuns
  imports RuntimeSamples Reliance
begin

text \<open>
  What holds of every runtime a receiver can reach: by starting, recovering, registering, activating,
  enqueueing and running, in any order and with any arguments, errors included. The invariants
  \<open>runtime_ok\<close> (certificates valid and scheduled) and \<open>runtime_within\<close> (configured bounds) hold of all of
  them; also what evaluations, blindness and dropped consumers do to the certificates. The guarantees that
  follow are in \<open>RuntimeStanding\<close>.
\<close>

section \<open>Reachable runtimes\<close>

inductive runtime_reachable :: "runtime_env \<Rightarrow> runtime \<Rightarrow> bool" for en where
  reach_new: "runtime_new config = Inr rt \<Longrightarrow> runtime_reachable en rt"
| reach_recover: "recover en config regs h at = Inr c \<Longrightarrow> runtime_reachable en (fst c)"
| reach_register: "runtime_reachable en rt \<Longrightarrow> runtime_reachable en (fst (register_consumer en reg at rt))"
| reach_enqueue: "runtime_reachable en rt \<Longrightarrow> runtime_reachable en (fst (enqueue en at input rt))"
| reach_run: "runtime_reachable en rt \<Longrightarrow> run_until en now rt = Some (rt', r) \<Longrightarrow> runtime_reachable en rt'"
| reach_blind:
    "runtime_reachable en rt \<Longrightarrow>
     runtime_reachable en (fst (declare_external_monitor_blindness en at state detail rt))"
| reach_activate:
    "runtime_reachable en rt \<Longrightarrow>
     runtime_reachable en (fst (activate_qualified_binding en verify reg manifest certificate report acceptance at rt))"
| reach_lifecycle:
    "runtime_reachable en rt \<Longrightarrow> runtime_reachable en (fst (apply_generation_lifecycle_fact en key f at rt))"

section \<open>Every operation keeps certificates scheduled and stays within bounds\<close>

lemma adv_latch_all: "advances en rt (latch_blind_all en at detail rt)"
  by (rule keeps_advances [OF keeps_latch_all [where now = 0]]) simp

lemma adv_latch_history: "advances en rt (latch_history_blindness en at rt)"
  by (rule keeps_advances [OF keeps_latch_history [where now = 0]]) simp

lemma adv_ensure_time: "advances en rt (fst (ensure_time_not_regressed en at rt))"
proof -
  have "advances en rt (rt\<lparr>rt_current_ms := at\<rparr>)" by (rule advances_same) (simp_all add: grows_simps)
  then show ?thesis by (simp add: ensure_time_not_regressed_def adv_latch_all)
qed

lemma adv_flush: "advances en rt rt' \<Longrightarrow> advances en rt (fst (flush_pending_output (rt', out)))"
  using advances_trans [OF _ silent_advances [OF silent_flush [of "(rt', out)"]]] by simp

lemma adv_take: "advances en rt (fst (take_pending_output rt))"
  by (rule silent_advances) (rule silent_updates)

lemma adv_begin_run: "advances en rt (fst (begin_run now rt))"
proof -
  have "length (bt_retain P m) \<le> length m" for P and m :: "(escalation_request_id, consumer_key \<times> u64) btmap"
    by (simp add: bt_retain_def)
  then have "advances en rt (rt\<lparr>rt_current_ms := now,
      rt_request_owners := bt_retain (\<lambda>_ owner. now < snd owner) (rt_request_owners rt)\<rparr>)"
    by (intro advances_same) (auto simp: grows_simps intro: le_trans)
  then show ?thesis unfolding begin_run_def by (rule advances_trans [OF _ adv_take])
qed

lemma adv_finish_run: "advances en (fst c) (fst (finish_run en now c))"
  by (simp add: finish_run_def adv_flush adv_latch_history)

lemma adv_run_until:
  assumes "run_until en now rt = Some (rt', r)"
  shows "advances en rt rt'"
proof (cases "now < rt_current_ms rt")
  case True
  then obtain d1 d2 where "rt' = fst (take_pending_output (latch_blind_all en (rt_current_ms rt) d2
      (fst (refuse_input en ClockRegression (rt_current_ms rt) (rt_current_ms rt) now d1 rt))))"
    using assms by (auto simp: run_until_def Let_def split_beta)
  then show ?thesis
    using advances_trans [OF silent_advances [OF silent_refuse_input] advances_trans [OF adv_latch_all adv_take]] by simp
next
  case False
  then obtain c' res where l: "run_loop en now (begin_run now rt) = Some (c', res)"
    using assms by (auto simp: run_until_def split: option.splits)
  have "advances en rt (fst c')" using advances_trans [OF adv_begin_run] run_loop_advances [OF l] by blast
  then show ?thesis
    using assms False l advances_trans [OF _ adv_finish_run [of en c' now]]
    by (auto simp: run_until_def Let_def split_beta split: sum.splits)
qed

lemma adv_blindness: "advances en rt (fst (declare_external_monitor_blindness en at state detail rt))"
proof -
  let ?rt1 = "fst (ensure_time_not_regressed en at rt)"
  have "advances en rt (fst (record_sparse en at kind (take_pending_output ?rt1)))" for kind
    by (rule advances_trans [OF adv_ensure_time advances_trans [OF adv_take silent_advances [OF silent_record_sparse]]])
  then have "advances en rt (latch_blind_all en at detail (fst (record_sparse en at kind (take_pending_output ?rt1))))" for kind
    by (rule advances_trans [OF _ adv_latch_all])
  then show ?thesis
    by (simp add: declare_external_monitor_blindness_def Let_def split_beta adv_ensure_time adv_flush split: sum.split)
qed

lemma keeps_install_consumer:
  "keeps en now {} rt {(po_subject (cn_policy reg), po_consumer (cn_policy reg))} (install_consumer en reg e rt)"
proof -
  have "keeps en now {} rt {key} (remember_context pk body act ((put_consumer key st rt)\<lparr>rt_subjects := m\<rparr>))"
    for key st pk body act m
    by (rule keeps_trans [OF keeps_put_key [OF keeps_refl] keeps_same]) (auto simp: remember_context_def grows_simps)
  then show ?thesis by (simp add: install_consumer_def Let_def)
qed

lemma adv_register_new: "advances en rt (fst (register_new en reg at rt))"
proof -
  let ?key = "(po_subject (cn_policy reg), po_consumer (cn_policy reg))"
  have "keeps en 0 {} rt {?key} (fst (record_context_transition en ?key prior new cause inc at
      (install_consumer en reg e rt, output_default)))" for prior new cause inc e
    using keeps_then_silent [OF keeps_install_consumer silent_record_context_transition [where c = "(_, _)", simplified]] .
  then have "advances en rt (fst (fst (apply_evaluation en ?key ev at (record_context_transition en ?key prior new
      cause inc at (install_consumer en reg e rt, output_default)))))" for prior new cause inc e ev
    by (intro keeps_advances [where now = 0] keeps_apply_key) simp_all
  then show ?thesis by (simp add: register_new_def Let_def split_beta split: sum.split)
qed

lemma adv_register_checks: "advances en rt (fst (register_checks en reg rt))"
  using silent_advances [OF silent_updates(1)] by (simp add: register_checks_def Let_def split: sum.split)

lemma adv_register: "advances en rt (fst (register_consumer en reg at rt))"
proof -
  have c: "advances en rt (fst (register_checks en reg (fst (ensure_time_not_regressed en at rt))))"
    by (rule advances_trans [OF adv_ensure_time adv_register_checks])
  show ?thesis
    using advances_trans [OF c adv_register_new]
    by (simp add: register_consumer_def Let_def split_beta adv_ensure_time c split: sum.split)
qed

lemma adv_consumer_evaluates: "advances en (fst c) (fst (fst (consumer_evaluates en key state result at c)))"
  by (rule keeps_advances [OF keeps_consumer_evaluates [where now = 0, OF _ keeps_refl]]) simp

text \<open>Cancelling a deadline and then evaluating its consumer.\<close>

lemma adv_cancel_bar:
  assumes "silent (cancel_schedule key (rt\<lparr>rt_bindings := b\<rparr>)) (fst c)"
  shows "advances en rt (fst (fst (bar_consumer en key detail at c)))"
proof (cases "bt_get (rt_consumers rt) key")
  case None
  have k: "keeps en 0 {} rt {key} (fst c)"
    using keeps_then_silent [OF keeps_trans [OF keeps_bindings keeps_cancel [of en 0 "{}"]] assms] by simp
  have n: "bt_get (rt_consumers (fst c)) key = None"
    using assms None by (simp add: silent_def cancel_schedule_def)
  have "keeps en 0 {} rt {} (fst c)" using keeps_absent [OF k n] by simp
  then show ?thesis using n by (simp add: bar_consumer_def keeps_advances)
next
  case (Some state)
  have k: "keeps en 0 {} rt {key} (fst c)"
    using keeps_then_silent [OF keeps_trans [OF keeps_bindings keeps_cancel [of en 0 "{}"]] assms] by simp
  have s: "bt_get (rt_consumers (fst c)) key = Some state"
    using assms Some by (simp add: silent_def cancel_schedule_def)
  define r where "r = install_reevaluation_barrier (en_sha en) (QualifiedGenerationBinding detail) at (ks_evaluator state)"
  obtain ev where ev: "snd r = Inr ev" by (simp add: r_def install_reevaluation_barrier_def evaluate_returns)
  have "keeps en 0 {} rt {key} (put_consumer key (state\<lparr>ks_evaluator := fst r\<rparr>) (fst c))"
    using keeps_trans [OF k keeps_put [of en 0 "{key}" _ key]] by simp
  then have "keeps en 0 {} rt {} (fst (fst (bar_consumer en key detail at c)))"
    using ev by (simp add: bar_consumer_def s r_def [symmetric] consumer_evaluates_def keeps_apply_key)
  then show ?thesis by (rule keeps_advances)
qed

lemma silent_cancel: "silent rt rt' \<Longrightarrow> silent (cancel_schedule key rt) (cancel_schedule key rt')"
  by (auto simp: silent_def cancel_schedule_def grows_simps)

lemma adv_commit_activation: "advances en rt (fst (commit_activation en key acceptance attempt at rt))"
proof -
  have "advances en rt (fst (fst (bar_consumer en key d at (cancel_schedule key
      (fst (record_sparse en at kind (take_pending_output (rt\<lparr>rt_bindings := b\<rparr>)))), out))))" for d b kind out
    using silent_cancel [OF silent_trans [OF silent_updates(9) silent_record_sparse]]
    by (intro adv_cancel_bar [where b = b]) simp
  then show ?thesis by (simp add: commit_activation_def Let_def split_beta adv_flush split: sum.split)
qed

lemma adv_activate:
  "advances en rt (fst (activate_qualified_binding en verify reg manifest certificate report acceptance at rt))"
  using advances_trans [OF adv_ensure_time adv_commit_activation]
  by (simp add: activate_qualified_binding_def Let_def split_beta adv_ensure_time split: sum.split)

lemma adv_apply_lifecycle: "advances en rt (fst (apply_lifecycle en key slot f at rt))"
proof -
  have "advances en rt (fst (fst (bar_consumer en key d at
      (record_sparse en at kind (take_pending_output (cancel_schedule key (rt\<lparr>rt_bindings := b\<rparr>)))))))" for d b kind
    by (rule adv_cancel_bar [OF silent_trans [OF silent_updates(9) silent_record_sparse]])
  then show ?thesis by (simp add: apply_lifecycle_def Let_def split_beta adv_flush split: sum.split)
qed

lemma adv_lifecycle: "advances en rt (fst (apply_generation_lifecycle_fact en key f at rt))"
  using advances_trans [OF adv_ensure_time adv_apply_lifecycle]
  by (simp add: apply_generation_lifecycle_fact_def Let_def split_beta adv_ensure_time
      split: sum.split option.split)

section \<open>Recovery\<close>

lemma adv_remember: "advances en rt (remember_context pk body act rt)"
  by (rule advances_same) (simp_all add: remember_context_def grows_simps)

lemma adv_recover_contexts: "recover_contexts events rt = Inr rt' \<Longrightarrow> advances en rt rt'"
proof (induction events arbitrary: rt)
  case (Cons ev events)
  then show ?case
    using advances_trans [OF adv_remember Cons.IH]
    by (auto simp: Let_def fault_def split: sparse_durable_event_kind.splits if_splits)
qed simp

lemma adv_recover_registrations: "advances en (fst c) (fst (fst (recover_registrations en prior regs at c)))"
proof (induction regs arbitrary: c)
  case (Cons reg regs)
  show ?case
    using advances_trans [OF adv_register Cons.IH [of "(_, _)", simplified]]
    by (simp add: split_beta Let_def adv_register split: sum.split)
qed simp

lemma adv_put_evaluator:
  assumes "bt_get (rt_consumers rt) key = Some state"
  shows "advances en rt (put_consumer key (state\<lparr>ks_evaluator := e\<rparr>) rt)"
proof -
  let ?rt = "put_consumer key (state\<lparr>ks_evaluator := e\<rparr>) rt"
  have same: "rt_schedules ?rt = rt_schedules rt" "grows rt ?rt" "rt_config ?rt = rt_config rt" "rt_pending ?rt = rt_pending rt"
    by (simp_all add: put_consumer_def grows_simps)
  have "certified en ?rt k" if "certified en rt k" for k
  proof (cases "k = key")
    case True
    then show ?thesis using that assms by (simp add: certified_def put_consumer_def btree_simps)
  next
    case False
    then show ?thesis by (intro certified_mono [OF that]) (simp_all add: put_consumer_def btree_simps)
  qed
  then show ?thesis using same unfolding advances_def runtime_ok_def by simp
qed

lemma adv_recover_contradictions: "recover_contradictions xs rt = Inr rt' \<Longrightarrow> advances en rt rt'"
proof (induction xs arbitrary: rt)
  case (Cons x xs)
  obtain key records where x: "x = (key, records)" by (cases x)
  from Cons.prems x obtain state where s: "bt_get (rt_consumers rt) key = Some state"
    and r: "recover_contradictions xs (put_consumer key
        (state\<lparr>ks_evaluator := fst (import_contradictions records (ks_evaluator state))\<rparr>) rt) = Inr rt'"
    by (auto simp: fault_def Let_def split_beta split: option.splits sum.splits)
  show ?case by (rule advances_trans [OF adv_put_evaluator [OF s] Cons.IH [OF r]])
qed simp

lemma adv_bar_each: "advances en (fst c) (fst (fst (bar_each en at keys c)))"
proof (induction keys arbitrary: c)
  case (Cons key keys)
  show ?case
    using advances_trans [OF adv_consumer_evaluates Cons.IH]
    by (simp add: fst_cbind adv_consumer_evaluates split: option.split sum.split)
qed simp

text \<open>The stages of \<open>recover\<close>.\<close>

lemma recover_stages:
  assumes "recover en config regs h at = Inr c"
  obtains rt0 rt1 rt3 out u where "runtime_new config = Inr rt0" and "\<not> history_over_capacity config h"
    and "recover_contexts (hs_sparse_events h) (recover_history h rt0) = Inr rt1"
    and "advances en rt1 rt3"
    and "snd (bar_each en at (consumer_keys None rt3) (rt3, out)) = Inr u"
    and "c = finish_recovery en at (fst (bar_each en at (consumer_keys None rt3) (rt3, out)))"
proof -
  from assms obtain rt0 rt1 rt3 u where new: "runtime_new config = Inr rt0" and cap: "\<not> history_over_capacity config h"
    and r1: "recover_contexts (hs_sparse_events h) (recover_history h rt0) = Inr rt1"
    and r3: "recover_contradictions (blocking_contradictions (hs_contradictions h))
        (fst (fst (recover_registrations en (rt_historical_activation_ids rt1) regs at (rt1, output_default)))) = Inr rt3"
    and b: "snd (bar_each en at (consumer_keys None rt3)
        (rt3, snd (fst (recover_registrations en (rt_historical_activation_ids rt1) regs at (rt1, output_default))))) = Inr u"
    and c: "c = finish_recovery en at (fst (bar_each en at (consumer_keys None rt3)
        (rt3, snd (fst (recover_registrations en (rt_historical_activation_ids rt1) regs at (rt1, output_default))))))"
    by (auto simp: recover_def result_simps Let_def split_beta fault_def split: if_splits)
  have "advances en rt1 rt3"
    using advances_trans [OF adv_recover_registrations [of en "(rt1, output_default)", simplified] adv_recover_contradictions [OF r3]] .
  then show thesis using new cap r1 b c by (intro that)
qed

lemma new_ok: "runtime_new config = Inr rt \<Longrightarrow> runtime_ok en rt \<and> rt_config rt = config \<and> rt_pending rt = []"
  by (auto simp: runtime_new_def result_simps runtime_ok_def certified_def)

lemma adv_finish_recovery: "advances en (fst c) (fst (finish_recovery en at c))"
  using silent_advances [OF silent_record_sparse] by (simp add: finish_recovery_def Let_def split_beta)

lemma recover_advances:
  assumes "recover en config regs h at = Inr c"
  obtains rt where "runtime_new config = Inr rt" and "\<not> history_over_capacity config h"
    and "advances en (recover_history h rt) (fst c)"
proof -
  from assms obtain rt0 rt1 rt3 out u where new: "runtime_new config = Inr rt0" "\<not> history_over_capacity config h"
    and r1: "recover_contexts (hs_sparse_events h) (recover_history h rt0) = Inr rt1" and r3: "advances en rt1 rt3"
    and c: "c = finish_recovery en at (fst (bar_each en at (consumer_keys None rt3) (rt3, out)))"
    by (rule recover_stages)
  have "advances en rt3 (fst c)"
    unfolding c using advances_trans [OF adv_bar_each [of en "(rt3, out)", simplified] adv_finish_recovery] .
  then show thesis
    using that [OF new] advances_trans [OF adv_recover_contexts [OF r1] advances_trans [OF r3]] by blast
qed

section \<open>Invariants of reachable runtimes\<close>

definition runtime_within :: "runtime \<Rightarrow> bool" where
  "runtime_within rt \<longleftrightarrow>
     stored_within rt \<and> length (rt_pending rt) \<le> mb_pending_inputs (cf_bounds (rt_config rt))"

lemma advances_inv:
  "advances en rt rt' \<Longrightarrow> runtime_ok en rt \<and> runtime_within rt \<Longrightarrow> runtime_ok en rt' \<and> runtime_within rt'"
  by (auto simp: advances_def runtime_within_def grows_def)

text \<open>A refused input leaves the queue as it was.\<close>

lemma enqueue_refused: "enqueue en at input rt = (rt', Inl r) \<Longrightarrow> keeps en 0 {} rt {} rt'"
proof -
  note latched = keeps_trans [OF _ keeps_latch_history] keeps_trans [OF _ keeps_latch_all]
  have r: "keeps en 0 {} rt {} (fst (refuse_input en cl t b n d rt))" for cl t b n d
    by (rule keeps_silent [OF silent_refuse_input])
  have q: "keeps en 0 {} rt {} (fst (refuse_input en cl t b n d (rt\<lparr>rt_metrics := m\<rparr>)))" for cl t b n d m
    by (rule keeps_silent [OF silent_trans [OF silent_updates(1) silent_refuse_input]])
  assume "enqueue en at input rt = (rt', Inl r)"
  then show ?thesis
    unfolding enqueue_def Let_def split_beta
    by (auto intro: latched [OF r] latched [OF q] split: if_splits)
qed

lemma enqueue_admitted:
  assumes "enqueue en at input rt = (rt', Inr n)"
  shows "rt' = rt\<lparr>rt_ingress_counter := n, rt_pending := bt_insert (pending_key_of at input n) input (rt_pending rt)\<rparr>"
    and "length (rt_pending rt) < mb_pending_inputs (cf_bounds (rt_config rt))"
    and "rt_current_ms rt \<le> at" and "\<not> rt_history_exhausted rt" and "n = rt_ingress_counter rt + 1"
  using assms unfolding enqueue_def Let_def split_beta by (auto simp: not_le split: if_splits)

lemma reachable_ok: "runtime_reachable en rt \<Longrightarrow> runtime_ok en rt \<and> runtime_within rt"
proof (induction rule: runtime_reachable.induct)
  case (reach_new config rt)
  then show ?case using new_ok [OF reach_new]
    by (auto simp: runtime_within_def stored_within_def runtime_new_def result_simps)
next
  case (reach_recover config regs h at c)
  then obtain rt where new: "runtime_new config = Inr rt" and cap: "\<not> history_over_capacity config h"
    and adv: "advances en (recover_history h rt) (fst c)" by (rule recover_advances)
  have "runtime_ok en (recover_history h rt)"
    using new_ok [OF new, of en] by (simp add: runtime_ok_def certified_def recover_history_def)
  moreover have "runtime_within (recover_history h rt)"
    using new cap by (auto simp: runtime_within_def stored_within_def recover_history_def history_over_capacity_def
        runtime_new_def result_simps)
  ultimately show ?case by (intro advances_inv [OF adv] conjI)
next
  case (reach_enqueue rt at input)
  show ?case
  proof (cases "snd (enqueue en at input rt)")
    case (Inl r)
    have "advances en rt (fst (enqueue en at input rt))"
      by (rule keeps_advances [OF enqueue_refused [where at = at and input = input and r = r]]) (metis Inl prod.collapse)
    then show ?thesis using reach_enqueue.IH by (rule advances_inv)
  next
    case (Inr n)
    have e: "enqueue en at input rt = (fst (enqueue en at input rt), Inr n)" using Inr by (metis prod.collapse)
    show ?thesis
      using reach_enqueue.IH enqueue_admitted(2) [OF e] length_bt_insert [of "pending_key_of at input n" input "rt_pending rt"]
      by (subst (1 2) enqueue_admitted(1) [OF e])
         (simp add: runtime_ok_def certified_def runtime_within_def stored_within_def)
  qed
next
  case (reach_run rt now rt' r)
  show ?case by (rule advances_inv [OF adv_run_until [OF reach_run.hyps(2)] reach_run.IH])
qed (rule advances_inv, rule adv_register adv_blindness adv_activate adv_lifecycle, assumption)+

section \<open>What an evaluation does to the consumers\<close>

text \<open>
  What qualifies a consumer for CURRENT: an accepted activation of its own context, an executable whose
  bytes still read as activated, and active artifacts that measure as they did at activation.
\<close>

definition binding_intact :: "runtime_env \<Rightarrow> consumer_key \<Rightarrow> consumer_state \<Rightarrow> runtime \<Rightarrow> bool" where
  "binding_intact en key state rt \<longleftrightarrow>
     (case bt_get (rt_bindings rt) key of
        None \<Rightarrow> False
      | Some slot \<Rightarrow>
          bd_state slot = QualifiedAndMatched
          \<and> (case bd_accepted slot of
               None \<Rightarrow> False
             | Some live \<Rightarrow>
                 generation_matches key (ks_context state) (vc_binding live)
                 \<and> is_ok (en_executable en (rt_probes rt) live)
                 \<and> (case active_runtime_measurements en (rt_config rt) (consumer_registration_of state) of
                      Inl _ \<Rightarrow> False
                    | Inr observed \<Rightarrow> list_all (\<lambda>m. \<not> measurement_differs (vc_measurements live) m) observed)))"

lemma find_SomeD: "find P xs = Some x \<Longrightarrow> \<exists>y \<in> set xs. P y"
  by (metis find_None_iff option.distinct(1))

lemma revalidated_iff_intact:
  "(\<exists>b. snd (revalidated_qualified_binding en key state at c) = Inr (Some b)) \<longleftrightarrow> binding_intact en key state (fst c)"
  by (auto simp: revalidated_qualified_binding_def recheck_activation_def binding_intact_def split_beta Let_def
      find_None_iff list_all_iff is_ok_def dest: find_SomeD split: sum.split option.split)

lemma probes_record_sparse [simp]: "rt_probes (fst (record_sparse en at ev c)) = rt_probes (fst c)"
  by (simp add: record_sparse_def refusal_def Let_def)

lemma probes_record_events [simp]: "rt_probes (fst (record_events en events c)) = rt_probes (fst c)"
  unfolding record_events_def by (induction events arbitrary: c) simp_all

lemma probes_applied_start [simp]: "rt_probes (fst (applied_start en key ev at c)) = rt_probes (fst c)"
  by (simp add: applied_start_def Let_def cancel_schedule_def account_due_schedule_before_cancellation_def
      dispatch_request_def push_refusal_def refusal_def count_duplicate_escalations_def split_beta
      split: list.split option.split)

lemma intact_cong:
  assumes "rt_bindings rt = rt_bindings rt'" and "rt_probes rt = rt_probes rt'" and "rt_config rt = rt_config rt'"
  shows "binding_intact en key state rt = binding_intact en key state rt'"
  unfolding binding_intact_def assms by (rule refl)

lemma issue_consumers:
  "\<exists>x. rt_consumers (fst (fst (issue_certificate en key state ev custody at q c))) = rt_consumers (fst c)
     \<or> (rt_consumers (fst (fst (issue_certificate en key state ev custody at q c))) =
          bt_insert key (state\<lparr>ks_certificate := x\<rparr>) (rt_consumers (fst c))
        \<and> (is_current x \<longrightarrow> ju_category (eo_judgment ev) = Current \<and> q \<noteq> None))"
proof -
  let ?cert = "seal_certificate en (draft_certificate en key state ev q custody at (fst c))"
  have "sc_judgment ?cert = Current \<Longrightarrow> ju_category (eo_judgment ev) = Current \<and> q \<noteq> None"
    by (auto simp: seal_certificate_def draft_certificate_def certificate_judgment_def split: if_splits)
  then show ?thesis
    by (intro exI [of _ "Some ?cert"]) (auto simp: issue_certificate_def Let_def is_current_def split: sum.split)
qed

lemma apply_consumers:
  assumes "bt_get (rt_consumers (fst c)) key = Some state"
  shows "\<exists>x. rt_consumers (fst (fst (apply_evaluation en key ev at c))) = bt_remove key (rt_consumers (fst c))
     \<or> (rt_consumers (fst (fst (apply_evaluation en key ev at c))) =
          bt_insert key (state\<lparr>ks_certificate := x\<rparr>) (bt_remove key (rt_consumers (fst c)))
        \<and> (is_current x \<longrightarrow> ju_category (eo_judgment ev) = Current \<and> binding_intact en key state (fst c)))"
proof -
  define c4 where "c4 = (without_consumer key (fst (applied_start en key ev at c)), snd (applied_start en key ev at c))"
  have c4: "rt_consumers (fst c4) = bt_remove key (rt_consumers (fst c))" by (simp add: c4_def without_consumer_def)
  have intact: "binding_intact en key state (fst c4) = binding_intact en key state (fst c)"
    by (rule intact_cong) (simp_all add: c4_def without_consumer_def)
  define q where "q = qualified_for en key state ev at c4"
  have q: "binding_intact en key state (fst c)"
    if "ju_category (eo_judgment ev) = Current" and "snd q = Inr (Some b)" for b
    using that revalidated_iff_intact [of en key state at c4] by (auto simp: q_def qualified_for_def intact)
  have "rt_consumers (fst (refuse_certificate en key state at c4)) =
      bt_insert key (state\<lparr>ks_certificate := None\<rparr>) (bt_remove key (rt_consumers (fst c)))"
    using silent_push_refusal [of "((fst c4)\<lparr>rt_consumers := _\<rparr>, snd c4)"]
    by (simp add: refuse_certificate_def Let_def silent_def c4)
  moreover have "rt_consumers (fst (fst q)) = bt_remove key (rt_consumers (fst c))"
    by (simp add: q_def qualified_for_frame c4)
  moreover note issue_consumers [of en key state ev _ at _ "fst q"]
  ultimately show ?thesis
    using assms q
    by (cases "snd q"; cases "certificate_over_capacity state at (fst c4)")
       (auto simp: apply_evaluation_start split_beta Let_def c4_def [symmetric] q_def [symmetric] fst_cbind is_current_def)
qed

lemma apply_absent:
  "bt_get (rt_consumers (fst c)) key = None \<Longrightarrow>
   rt_consumers (fst (fst (apply_evaluation en key ev at c))) = rt_consumers (fst c)"
  by (simp add: apply_evaluation_start split_beta)

lemma apply_others:
  assumes "k \<noteq> key"
  shows "bt_get (rt_consumers (fst (fst (apply_evaluation en key ev at c)))) k = bt_get (rt_consumers (fst c)) k"
proof (cases "bt_get (rt_consumers (fst c)) key")
  case None
  then show ?thesis by (simp add: apply_absent)
next
  case (Some state)
  then show ?thesis using apply_consumers [OF Some, of en ev at] assms by (auto simp: btree_simps)
qed

lemma apply_current:
  assumes "bt_get (rt_consumers (fst c)) key = Some state"
    and "runtime_current (fst (fst (apply_evaluation en key ev at c))) key"
  shows "ju_category (eo_judgment ev) = Current \<and> binding_intact en key state (fst c)"
  using apply_consumers [OF assms(1), of en ev at] assms(2) by (auto simp: runtime_current_def btree_simps)

lemma apply_not_current:
  assumes "ju_category (eo_judgment ev) \<noteq> Current"
  shows "\<not> runtime_current (fst (fst (apply_evaluation en key ev at c))) key"
proof (cases "bt_get (rt_consumers (fst c)) key")
  case None
  then show ?thesis by (simp add: runtime_current_def apply_absent)
next
  case (Some state)
  then show ?thesis using apply_current [OF Some] assms by blast
qed

section \<open>Blindness withdraws standing\<close>

lemma drop_not_current:
  assumes "snd (record_monitor_input_drop sha n at detail e) = Inr ev"
  shows "ju_category (eo_judgment ev) \<noteq> Current"
proof -
  let ?op = "RecordMonitorInputDrop n at detail"
  obtain e' where run: "run_op sha ?op e = (e', Inr ev)"
    using assms by (metis prod.collapse run_op.simps(4))
  have "is_blind (prepared sha ?op e)" by (simp add: is_blind_def set_capability_def step_simps)
  then have "is_blind e'" using evaluate_blind run_op_ok(1) [OF run] by metis
  then show ?thesis using blind_category [of e'] by (auto simp: run_op_category(1) [OF run])
qed

lemma latch_others: "k \<noteq> key \<Longrightarrow> bt_get (rt_consumers (latch_blind_consumer en at detail key rt)) k = bt_get (rt_consumers rt) k"
  using apply_others
  by (simp add: latch_blind_consumer_def Let_def split_beta put_consumer_def btree_simps split: option.split sum.split)

lemma latch_not_current: "\<not> runtime_current (latch_blind_consumer en at detail key rt) key"
proof (cases "bt_get (rt_consumers rt) key")
  case (Some state)
  define r where "r = record_monitor_input_drop (en_sha en) 1 at detail (ks_evaluator state)"
  obtain ev where ev: "snd r = Inr ev"
    by (simp add: r_def record_monitor_input_drop_def set_monitor_capability_def prepend_event_def Let_def
        split_beta evaluate_returns)
  have "\<not> runtime_current (fst (fst (apply_evaluation en key ev t c))) key" for t c
    using drop_not_current ev by (intro apply_not_current) (simp add: r_def)
  then show ?thesis
    using Some ev by (simp add: latch_blind_consumer_def r_def [symmetric] Let_def split_beta runtime_current_def)
qed (simp add: latch_blind_consumer_def runtime_current_def)

lemma latch_keeps_not_current: "\<not> runtime_current rt k \<Longrightarrow> \<not> runtime_current (latch_blind_consumer en at detail key rt) k"
  using latch_not_current [of en at detail key rt] latch_others [of k key en at detail rt]
  by (cases "k = key") (simp_all add: runtime_current_def)

lemma latch_fold_not_current:
  "k \<in> set keys \<or> \<not> runtime_current rt k \<Longrightarrow> \<not> runtime_current (fold (latch_blind_consumer en at detail) keys rt) k"
proof (induction keys arbitrary: rt)
  case (Cons key keys)
  have "k \<in> set keys \<or> \<not> runtime_current (latch_blind_consumer en at detail key rt) k"
    using Cons.prems latch_not_current [of en at detail key rt] latch_keeps_not_current [of rt k en at detail key] by auto
  then show ?case using Cons.IH by simp
qed simp

lemma current_is_consumer: "runtime_current rt k \<Longrightarrow> k \<in> set (consumer_keys None rt)"
  by (auto simp: runtime_current_def consumer_keys_def bt_get_def intro: rev_image_eqI dest!: map_of_SomeD
      split: option.splits)

lemma latch_all_not_current: "\<not> runtime_current (latch_blind_all en at detail rt) k"
  unfolding latch_blind_all_def using latch_fold_not_current current_is_consumer by blast

end
