(* ===== verification/Requests.thy ===== *)
theory Requests
  imports Samples
begin

text \<open>
  The diagnostic requests an evaluator issues: when it issues one, what the request then is, and that
  two requests for the same question are never open at the same time.
\<close>

section \<open>What one evaluation does to the requests\<close>

text \<open>The fields the escalation reads and writes.\<close>

definition desk :: "evaluator \<Rightarrow> (escalation_request_id, escalation_request) btmap
    \<times> (digest, active_escalation) btmap \<times> u64" where
  "desk e = (e_issued_requests e, e_active_escalations e, e_request_counter e)"

lemma desk_log [step_simps]: "desk (log_event at k e) = desk e"
  by (simp add: desk_def step_simps)

lemma desk_steps [step_simps]:
  "desk (evaluation_metrics d e) = desk e"
  "desk (update_failure_metrics c now e) = desk e"
  "desk (update_stale_positive_metric j now dl e) = desk e"
  "desk (fst (evaluation_clock rn e)) = desk e"
  by (simp_all add: desk_def evaluation_metrics_def update_failure_metrics_def
      update_stale_positive_metric_def evaluation_clock_def go_blind_def monitor_event_def
      sparse_event_def Let_def split: option.split)

lemma desk_transition [step_simps]: "desk (fst (evaluation_transition sha j now e)) = desk e"
  by (simp add: evaluation_transition_def build_transition_def Let_def step_simps) (simp add: desk_def)

definition open_escalations :: "u64 \<Rightarrow> evaluator \<Rightarrow> (digest, active_escalation) btmap" where
  "open_escalations now e = bt_retain (\<lambda>_ a. now < ae_expires_at_ms a) (e_active_escalations e)"

lemma desk_expiries [step_simps]:
  "desk (evaluation_expiries now e) = (e_issued_requests e, open_escalations now e, e_request_counter e)"
  by (simp add: desk_def evaluation_expiries_def open_escalations_def)

text \<open>The escalation either leaves the requests alone or issues one that passed validation.\<close>

definition issues :: "hasher \<Rightarrow> escalation_request \<Rightarrow> u64 \<Rightarrow> evaluator \<Rightarrow> evaluator \<Rightarrow> bool" where
  "issues sha r now e e' \<longleftrightarrow>
     request_ok sha r \<and> bt_get (e_active_escalations e) (rq_deduplication_key r) = None
     \<and> rq_created_at_ms r = now \<and> rq_clock_id r = e_clock_id e
     \<and> rq_request_id r = ''escalation:'' @ hex16 (e_request_counter e')
     \<and> e_escalation_state e' = Requested (rq_request_id r)
     \<and> desk e' = (bt_insert (rq_request_id r) r (e_issued_requests e),
         bt_insert (rq_deduplication_key r)
           \<lparr>ae_request_id = rq_request_id r, ae_expires_at_ms = rq_expires_at_ms r\<rparr> (e_active_escalations e),
         sat_add (e_request_counter e) 1)"

definition quiet :: "evaluator \<Rightarrow> evaluator \<Rightarrow> bool" where
  "quiet e e' \<longleftrightarrow> e_issued_requests e' = e_issued_requests e \<and> e_active_escalations e' = e_active_escalations e
     \<and> e_request_counter e' \<in> {e_request_counter e, sat_add (e_request_counter e) 1}"

lemma maybe_escalate_cases:
  "case snd (maybe_escalate sha t j now e) of
     None \<Rightarrow> quiet e (fst (maybe_escalate sha t j now e))
   | Some r \<Rightarrow> issues sha r now e (fst (maybe_escalate sha t j now e))
       \<and> jt_from t = Some Current \<and> jt_to t \<noteq> Current
       \<and> rq_subject_scope r = ju_subject_scope j
       \<and> (\<exists>x. po_escalation (e_policy e) = Some x \<and> rq_trigger_class r = select_trigger j
            \<and> bs_contains (xp_triggers x) (rq_trigger_class r) \<and> rq_bounds r = xp_bounds x
            \<and> rq_diagnostic_profile r = xp_diagnostic_profile x
            \<and> rq_expires_at_ms r = sat_add now (xp_request_ttl_ms x))"
  by (auto simp: maybe_escalate_def deduplicate_escalation_def issue_request_def draft_request_def
      issues_def quiet_def desk_def request_validate_ok step_simps Let_def split: option.splits if_splits)


lemma evaluation_transition_ends:
  assumes "snd (evaluation_transition sha j now e) = Some t"
  shows "jt_from t = map_option ju_category (e_last_judgment e)" and "jt_to t = ju_category j"
  using assms by (auto simp: evaluation_transition_def build_transition_def Let_def split: if_splits)

text \<open>The state in which the escalation of an evaluation runs.\<close>

definition escalating :: "hasher \<Rightarrow> u64 \<Rightarrow> evaluator \<Rightarrow> evaluator" where
  "escalating sha rn e =
     (let now = evaluated_now rn e; j = evaluated_judgment sha rn e; d = evaluated_derived rn e
      in update_stale_positive_metric j now (ds_support_deadline_ms d)
           (update_failure_metrics (ju_category j) now
             (fst (evaluation_transition sha j now (evaluation_metrics d (evaluated_state rn e))))))"

lemma escalating_fields:
  "desk (escalating sha rn e) = (e_issued_requests e, open_escalations (evaluated_now rn e) e, e_request_counter e)"
  "e_clock_id (escalating sha rn e) = e_clock_id e" "e_policy (escalating sha rn e) = e_policy e"
proof -
  have "e_issued_requests (fst (evaluation_clock rn e)) = e_issued_requests e"
    "e_active_escalations (fst (evaluation_clock rn e)) = e_active_escalations e"
    "e_request_counter (fst (evaluation_clock rn e)) = e_request_counter e"
    using desk_steps(4) [of rn e] by (simp_all add: desk_def)
  then show "desk (escalating sha rn e)
    = (e_issued_requests e, open_escalations (evaluated_now rn e) e, e_request_counter e)"
    by (simp add: escalating_def Let_def step_simps evaluated_state_def open_escalations_def)
  have "kept (escalating sha rn e) = kept (fst (evaluation_clock rn e))"
    by (simp add: escalating_def Let_def step_simps evaluated_state_def)
  then show "e_clock_id (escalating sha rn e) = e_clock_id e" "e_policy (escalating sha rn e) = e_policy e"
    using clock_kept [of rn e] by (simp_all add: kept_def hot_def)
qed

lemma evaluate_escalation:
  "fst (evaluated_steps sha rn e) = fst (evaluation_escalation sha (e_reevaluation_barrier e)
     (eo_transition (evaluated_output sha rn e)) (evaluated_judgment sha rn e) (evaluated_now rn e)
     (escalating sha rn e))"
  "eo_escalation_request (evaluated_output sha rn e) = snd (evaluation_escalation sha (e_reevaluation_barrier e)
     (eo_transition (evaluated_output sha rn e)) (evaluated_judgment sha rn e) (evaluated_now rn e)
     (escalating sha rn e))"
  "eo_transition (evaluated_output sha rn e) = snd (evaluation_transition sha (evaluated_judgment sha rn e)
     (evaluated_now rn e) (evaluation_metrics (evaluated_derived rn e) (evaluated_state rn e)))"
  by (simp_all add: evaluated_steps_def evaluated_output_def escalating_def Let_def case_prod_unfold)

lemma evaluate_desk:
  "desk (fst (evaluate sha rn e)) = desk (fst (evaluated_steps sha rn e))"
  "e_escalation_state (fst (evaluate sha rn e)) = e_escalation_state (fst (evaluated_steps sha rn e))"
  by (simp_all add: evaluate_steps Let_def case_prod_unfold desk_def)

text \<open>The escalation policy a request was drafted under.\<close>

definition drafted_from :: "reliance_policy \<Rightarrow> escalation_request \<Rightarrow> bool" where
  "drafted_from p r \<longleftrightarrow>
     (\<exists>x. po_escalation p = Some x \<and> bs_contains (xp_triggers x) (rq_trigger_class r)
        \<and> rq_bounds r = xp_bounds x \<and> rq_diagnostic_profile r = xp_diagnostic_profile x
        \<and> rq_expires_at_ms r = sat_add (rq_created_at_ms r) (xp_request_ttl_ms x))"

lemma evaluated_scope: "ju_subject_scope (evaluated_judgment sha rn e) = evaluator_subject_scope e"
  using evaluated_state_hot [of rn e] clock_kept [of rn e]
  by (simp add: evaluated_judgment_def build_judgment_def Let_def evaluator_subject_scope_def
      evaluation_metrics_def hot_def kept_def)

lemma evaluate_requests:
  "case eo_escalation_request (evaluated_output sha rn e) of
     None \<Rightarrow> quiet (escalating sha rn e) (fst (evaluate sha rn e))
   | Some r \<Rightarrow> issues sha r (evaluated_now rn e) (escalating sha rn e) (fst (evaluate sha rn e))
       \<and> e_reevaluation_barrier e = None
       \<and> map_option ju_category (e_last_judgment e) = Some Current
       \<and> ds_category (evaluated_derived rn e) \<noteq> Current
       \<and> drafted_from (e_policy e) r \<and> rq_trigger_class r = select_trigger (evaluated_judgment sha rn e)
       \<and> rq_subject_scope r = evaluator_subject_scope e"
proof (cases "eo_escalation_request (evaluated_output sha rn e)")
  case None
  have "quiet (escalating sha rn e) (fst (evaluated_steps sha rn e))"
  proof (cases "e_reevaluation_barrier e = None")
    case True
    show ?thesis
    proof (cases "eo_transition (evaluated_output sha rn e)")
      case None
      then show ?thesis by (simp add: evaluate_escalation(1) evaluation_escalation_def quiet_def)
    next
      case (Some t)
      then show ?thesis
        using None True maybe_escalate_cases [where sha = sha and t = t and j = "evaluated_judgment sha rn e"
            and now = "evaluated_now rn e" and e = "escalating sha rn e"]
        by (simp add: evaluate_escalation(1,2) evaluation_escalation_def)
    qed
  next
    case False
    then show ?thesis by (auto simp: evaluate_escalation(1) evaluation_escalation_def quiet_def)
  qed
  then show ?thesis using None evaluate_desk(1) [of sha rn e] by (simp add: quiet_def desk_def)
next
  case (Some r)
  then obtain t where barrier: "e_reevaluation_barrier e = None"
    and t: "eo_transition (evaluated_output sha rn e) = Some t"
    and r: "snd (maybe_escalate sha t (evaluated_judgment sha rn e) (evaluated_now rn e) (escalating sha rn e)) = Some r"
    and e': "fst (evaluated_steps sha rn e) = fst (maybe_escalate sha t (evaluated_judgment sha rn e)
      (evaluated_now rn e) (escalating sha rn e))"
    by (auto simp: evaluate_escalation(1,2) evaluation_escalation_def split: if_splits option.splits)
  note esc = maybe_escalate_cases [where sha = sha and t = t and j = "evaluated_judgment sha rn e"
      and now = "evaluated_now rn e" and e = "escalating sha rn e", unfolded r option.case e' [symmetric]]
  have "e_last_judgment (evaluation_metrics (evaluated_derived rn e) (evaluated_state rn e)) = e_last_judgment e"
    by (simp add: evaluation_metrics_def evaluated_state_def evaluation_expiries_def clock_fields)
  then have "jt_from t = map_option ju_category (e_last_judgment e)" "jt_to t = ds_category (evaluated_derived rn e)"
    using evaluation_transition_ends [OF t [unfolded evaluate_escalation(3)]] by simp_all
  moreover have "issues sha r (evaluated_now rn e) (escalating sha rn e) (fst (evaluate sha rn e))"
    using esc evaluate_desk [of sha rn e] by (auto simp: issues_def desk_def)
  ultimately show ?thesis
    using Some esc barrier by (auto simp: drafted_from_def escalating_fields issues_def evaluated_scope)
qed


section \<open>The requests of a reachable evaluator\<close>

text \<open>What holds of one issued request, and of two of them.\<close>

definition request_inv :: "hasher \<Rightarrow> evaluator \<Rightarrow> escalation_request_id \<Rightarrow> escalation_request \<Rightarrow> bool" where
  "request_inv sha e rid r \<longleftrightarrow>
     rq_request_id r = rid \<and> request_ok sha r \<and> rq_clock_id r = e_clock_id e
     \<and> (\<exists>n \<le> e_request_counter e. rid = ''escalation:'' @ hex16 n)
     \<and> (\<exists>last. e_last_evaluation_ms e = Some last \<and> rq_created_at_ms r \<le> last
          \<and> (rq_expires_at_ms r \<le> last
             \<or> bt_get (e_active_escalations e) (rq_deduplication_key r)
                = Some \<lparr>ae_request_id = rid, ae_expires_at_ms = rq_expires_at_ms r\<rparr>))"

definition apart :: "escalation_request \<Rightarrow> escalation_request \<Rightarrow> bool" where
  "apart r r' \<longleftrightarrow> rq_expires_at_ms r \<le> rq_created_at_ms r' \<or> rq_expires_at_ms r' \<le> rq_created_at_ms r"

text \<open>An active escalation stands for an issued request.\<close>

definition names_issued :: "evaluator \<Rightarrow> digest \<Rightarrow> active_escalation \<Rightarrow> bool" where
  "names_issued e key a \<longleftrightarrow>
     (\<exists>r. bt_get (e_issued_requests e) (ae_request_id a) = Some r \<and> rq_deduplication_key r = key
        \<and> rq_expires_at_ms r = ae_expires_at_ms a)"

text \<open>
  The ids of requests are drawn from a saturating counter, so the invariant is stated for evaluators
  that have not used all of it.
\<close>

definition requests_inv :: "hasher \<Rightarrow> evaluator \<Rightarrow> bool" where
  "requests_inv sha e \<longleftrightarrow>
     bt_ok (e_issued_requests e) \<and> bt_ok (e_active_escalations e)
     \<and> (e_request_counter e \<noteq> - 1 \<longrightarrow>
          (\<forall>rid r. bt_get (e_issued_requests e) rid = Some r \<longrightarrow> request_inv sha e rid r)
          \<and> (\<forall>rid r rid' r'. bt_get (e_issued_requests e) rid = Some r
               \<longrightarrow> bt_get (e_issued_requests e) rid' = Some r' \<longrightarrow> rid \<noteq> rid'
               \<longrightarrow> rq_deduplication_key r = rq_deduplication_key r' \<longrightarrow> apart r r')
          \<and> (\<forall>key a. bt_get (e_active_escalations e) key = Some a \<longrightarrow> names_issued e key a))"

lemma evaluated_now_later: "e_last_evaluation_ms e = Some l \<Longrightarrow> l \<le> evaluated_now rn e"
  by (auto simp: evaluated_now_def evaluation_clock_def)

lemma request_inv_later:
  assumes inv: "request_inv sha e rid r" and ok: "bt_ok (e_active_escalations e)"
    and e': "e_clock_id e' = e_clock_id e" "e_request_counter e \<le> e_request_counter e'"
      "e_last_evaluation_ms e' = Some (evaluated_now rn e)"
      "\<And>a. bt_get (open_escalations (evaluated_now rn e) e) (rq_deduplication_key r) = Some a \<Longrightarrow>
         bt_get (e_active_escalations e') (rq_deduplication_key r) = Some a"
  shows "request_inv sha e' rid r"
proof -
  let ?now = "evaluated_now rn e"
  obtain last where last: "e_last_evaluation_ms e = Some last" "rq_created_at_ms r \<le> last"
    and opened: "rq_expires_at_ms r \<le> last \<or> bt_get (e_active_escalations e) (rq_deduplication_key r)
       = Some \<lparr>ae_request_id = rid, ae_expires_at_ms = rq_expires_at_ms r\<rparr>"
    using inv by (auto simp: request_inv_def)
  have now: "last \<le> ?now" using last(1) by (rule evaluated_now_later)
  have "rq_expires_at_ms r \<le> ?now \<or> bt_get (e_active_escalations e') (rq_deduplication_key r)
       = Some \<lparr>ae_request_id = rid, ae_expires_at_ms = rq_expires_at_ms r\<rparr>"
  proof (rule disjCI)
    assume "bt_get (e_active_escalations e') (rq_deduplication_key r)
       \<noteq> Some \<lparr>ae_request_id = rid, ae_expires_at_ms = rq_expires_at_ms r\<rparr>"
    then show "rq_expires_at_ms r \<le> ?now"
      using e'(4) [of "\<lparr>ae_request_id = rid, ae_expires_at_ms = rq_expires_at_ms r\<rparr>"] opened now ok
      by (cases "?now < rq_expires_at_ms r") (auto simp: open_escalations_def bt_get_retain)
  qed
  moreover have "\<exists>n \<le> e_request_counter e'. rid = ''escalation:'' @ hex16 n"
    using inv e'(2) by (auto simp: request_inv_def intro: order_trans)
  ultimately show ?thesis
    using inv last(2) now e'(1,3) by (auto simp: request_inv_def)
qed


lemma counter_unsaturated: "a \<le> b \<Longrightarrow> b \<noteq> - 1 \<Longrightarrow> a \<noteq> - 1" for a b :: u64
  by (metis word_n1_ge order_antisym)

text \<open>A request that is issued clears every earlier one with its deduplication key.\<close>

lemma requests_issue:
  assumes inv: "requests_inv sha e" and r: "issues sha r (evaluated_now rn e) x e'"
    and x: "e_issued_requests x = e_issued_requests e"
      "e_active_escalations x = open_escalations (evaluated_now rn e) e"
      "e_request_counter x = e_request_counter e" "e_clock_id x = e_clock_id e"
    and e': "e_clock_id e' = e_clock_id e" "e_last_evaluation_ms e' = Some (evaluated_now rn e)"
  shows "requests_inv sha e'"
proof -
  let ?now = "evaluated_now rn e" and ?open = "open_escalations (evaluated_now rn e) e"
  let ?a = "\<lparr>ae_request_id = rq_request_id r, ae_expires_at_ms = rq_expires_at_ms r\<rparr>"
  have ok: "bt_ok (e_issued_requests e)" "bt_ok (e_active_escalations e)"
    using inv by (simp_all add: requests_inv_def)
  have open_ok: "bt_ok ?open" using ok(2) by (simp add: open_escalations_def bt_ok_retain)
  have issued: "e_issued_requests e' = bt_insert (rq_request_id r) r (e_issued_requests e)"
    and active: "e_active_escalations e' = bt_insert (rq_deduplication_key r) ?a ?open"
    and counter: "e_request_counter e' = sat_add (e_request_counter e) 1"
    and free: "bt_get ?open (rq_deduplication_key r) = None"
    and created: "rq_created_at_ms r = ?now"
    and good: "request_ok sha r" "rq_clock_id r = e_clock_id e"
      "rq_request_id r = ''escalation:'' @ hex16 (e_request_counter e')"
    using r x by (simp_all add: issues_def desk_def)
  have new: "request_inv sha e' (rq_request_id r) r"
    using good e' created by (auto simp: request_inv_def active bt_get_insert)
  have old: "request_inv sha e' rid q \<and> rid \<noteq> rq_request_id r \<and>
       (rq_deduplication_key q = rq_deduplication_key r \<longrightarrow> rq_expires_at_ms q \<le> ?now)"
    if full: "e_request_counter e' \<noteq> - 1" and q: "bt_get (e_issued_requests e) rid = Some q" for rid q
  proof -
    have grow: "e_request_counter e < e_request_counter e'"
      unfolding counter using full counter_unsaturated [of "e_request_counter e" "e_request_counter e'"]
      by (intro sat_add_less) (simp_all add: counter sat_add_ge)
    have qi: "request_inv sha e rid q"
      using inv q full grow counter_unsaturated [of "e_request_counter e" "e_request_counter e'"]
      by (simp add: requests_inv_def)
    have "rid \<noteq> rq_request_id r" using qi good(3) grow by (auto simp: request_inv_def)
    moreover have same: "rq_expires_at_ms q \<le> ?now" if "rq_deduplication_key q = rq_deduplication_key r"
      using qi free ok(2) evaluated_now_later [of e _ rn] that
      by (auto simp: request_inv_def open_escalations_def bt_get_retain split: if_splits intro: order_trans)
    moreover have "request_inv sha e' rid q"
    proof (cases "rq_deduplication_key q = rq_deduplication_key r")
      case True
      then show ?thesis
        using qi same [OF True] e' grow evaluated_now_later [of e _ rn]
        by (auto simp: request_inv_def)
    next
      case False
      then show ?thesis
        using request_inv_later [OF qi ok(2) e'(1) _ e'(2)] grow by (simp add: active bt_get_insert)
    qed
    ultimately show ?thesis by blast
  qed
  have pair: "apart q q'"
    if full: "e_request_counter e' \<noteq> - 1" and key: "rq_deduplication_key q = rq_deduplication_key q'"
      and ne: "rid \<noteq> rid'" and q: "bt_get (e_issued_requests e') rid = Some q"
      and q': "bt_get (e_issued_requests e') rid' = Some q'" for rid q rid' q'
  proof -
    have "e_request_counter e \<noteq> - 1"
      using full counter_unsaturated [of "e_request_counter e" "e_request_counter e'"] by (simp add: counter sat_add_ge)
    then show ?thesis
      using ne key q q' old [OF full] inv created
      by (auto simp: issued bt_get_insert apart_def requests_inv_def split: if_splits)
  qed
  have named: "names_issued e' key a"
    if full: "e_request_counter e' \<noteq> - 1" and a: "bt_get (e_active_escalations e') key = Some a" for key a
  proof (cases "key = rq_deduplication_key r")
    case True
    then show ?thesis using a by (auto simp: names_issued_def active issued bt_get_insert)
  next
    case False
    have "e_request_counter e \<noteq> - 1"
      using full counter_unsaturated [of "e_request_counter e" "e_request_counter e'"] by (simp add: counter sat_add_ge)
    moreover have "bt_get (e_active_escalations e) key = Some a"
      using a False ok(2) by (auto simp: active bt_get_insert open_escalations_def bt_get_retain
          split: option.splits if_splits)
    ultimately have "names_issued e key a" using inv by (simp add: requests_inv_def)
    then obtain q where q: "bt_get (e_issued_requests e) (ae_request_id a) = Some q"
      "rq_deduplication_key q = key" "rq_expires_at_ms q = ae_expires_at_ms a"
      by (auto simp: names_issued_def)
    then show ?thesis using old [OF full q(1)] by (auto simp: names_issued_def issued bt_get_insert)
  qed
  show ?thesis
    using new old pair named ok open_ok
    by (auto simp: requests_inv_def issued active bt_get_insert bt_ok_insert split: if_splits)
qed

lemma requests_evaluate:
  assumes inv: "requests_inv sha e"
  shows "requests_inv sha (fst (evaluate sha rn e))"
proof -
  let ?e' = "fst (evaluate sha rn e)" and ?now = "evaluated_now rn e" and ?x = "escalating sha rn e"
  have clock: "e_clock_id ?e' = e_clock_id e" by simp
  have x: "e_issued_requests ?x = e_issued_requests e" "e_active_escalations ?x = open_escalations ?now e"
    "e_request_counter ?x = e_request_counter e" "e_clock_id ?x = e_clock_id e"
    using escalating_fields [of sha rn e] by (simp_all add: desk_def)
  show ?thesis
  proof (cases "eo_escalation_request (evaluated_output sha rn e)")
    case None
    then have q: "quiet ?x ?e'" using evaluate_requests [where sha = sha and rn = rn and e = e] by simp
    then have same: "e_issued_requests ?e' = e_issued_requests e"
      "e_active_escalations ?e' = open_escalations ?now e"
      and grow: "e_request_counter e \<le> e_request_counter ?e'"
      by (auto simp: quiet_def x sat_add_ge)
    have ok: "bt_ok (e_issued_requests e)" "bt_ok (e_active_escalations e)"
      using inv by (simp_all add: requests_inv_def)
    note later = request_inv_later [OF _ ok(2) clock grow evaluate_time(1)]
    have "bt_get (e_active_escalations e) key = Some a" if "bt_get (open_escalations ?now e) key = Some a" for key a
      using that ok(2) by (auto simp: open_escalations_def bt_get_retain split: option.splits if_splits)
    then show ?thesis
      using inv ok counter_unsaturated [OF grow]
      by (auto simp: requests_inv_def same names_issued_def open_escalations_def bt_ok_retain intro: later)
  next
    case (Some r)
    then have "issues sha r ?now ?x ?e'" using evaluate_requests [where sha = sha and rn = rn and e = e] by simp
    then show ?thesis by (rule requests_issue [OF inv _ x clock evaluate_time(1)])
  qed
qed

interpretation requests: evaluator_invariant sha "requests_inv sha" for sha
proof
  show "requests_inv sha e" if "evaluator_new p r ri c i = Inr e" for p r ri c i e
    using evaluator_new_ok [OF that] by (simp add: requests_inv_def evaluator_initial_def)
  show "requests_inv sha (prepared sha op e)" if "requests_inv sha e" for op e
    using that by (simp add: requests_inv_def request_inv_def names_issued_def)
  show "requests_inv sha (fst (evaluate sha rn e))" if "requests_inv sha e" for e rn
    using that by (rule requests_evaluate)
qed (auto simp: requests_inv_def request_inv_def names_issued_def import_one_def set_normal_trace_def mark_failure_start_def)


section \<open>A drafted request passes its validation\<close>

lemma escalation_id_good: "good_identity (''escalation:'' @ hex16 n)"
proof -
  have "ascii_printable (''escalation:'' @ hex16 n)"
    using ascii_printable_hex_pad [of 16 "unat n"] by (auto simp: hex16_def ascii_printable_def in_range_def)
  then have "\<not> has_control (''escalation:'' @ hex16 n)" by (rule ascii_printable_no_control)
  moreover have "length (''escalation:'' @ hex16 n) = 27" by (simp add: hex16_def)
  ultimately show ?thesis
    unfolding good_identity_def MAX_IDENTITY_BYTES_def by simp
qed

text \<open>What a request needs beyond what \<open>ReliancePolicyV1::validate\<close> asks of the policy.\<close>

definition issuable :: "reliance_policy \<Rightarrow> escalation_policy \<Rightarrow> bool" where
  "issuable p x \<longleftrightarrow> good_identity (po_scope p)
     \<and> digest_validate (dp_semantic_digest (xp_diagnostic_profile x)) = Inr ()
     \<and> dp_name (xp_diagnostic_profile x) \<noteq> [] \<and> dp_version (xp_diagnostic_profile x) \<noteq> 0"

definition escalation_key ::
  "hasher \<Rightarrow> reliance_policy \<Rightarrow> escalation_policy \<Rightarrow> present_state_judgment \<Rightarrow> digest" where
  "escalation_key sha p x j =
     digest_parts sha ''diagnostic.escalation.dedup.v1''
       [ss_subject (ju_subject_scope j), ss_subject_incarnation (ju_subject_scope j),
        ss_scope (ju_subject_scope j), po_consumer p, po_generation p, po_observation_policy_generation p,
        trigger_str (select_trigger j), dp_name (xp_diagnostic_profile x),
        u16_be (dp_version (xp_diagnostic_profile x)), dp_semantic_digest (xp_diagnostic_profile x)]"

lemma draft_key: "rq_deduplication_key (draft_request sha x t j now e) = escalation_key sha (e_policy e) x j"
  by (simp add: draft_request_def Let_def compute_deduplication_key_def deduplication_parts_def escalation_key_def)

lemma evaluated_window:
  "ju_evidence_window_id (evaluated_judgment sha rn e) =
     digest_parts sha ''evidence.window.v1'' (evidence_window_parts
       (evaluation_metrics (evaluated_derived rn e) (evaluated_state rn e)) (evaluated_now rn e))"
  by (simp add: evaluated_judgment_def build_judgment_def Let_def evaluator_window_id_def)

lemma draft_ok_iff:
  assumes "hash_32 sha" and "policy_ok (e_policy e)" and "identities_inv e"
    and x: "po_escalation (e_policy e) = Some x" and now: "now \<noteq> - 1"
    and t: "jt_transition_id t = digest_id ''transition'' (digest_parts sha d ps)"
    and j: "ju_subject_scope j = evaluator_subject_scope e"
  shows "request_ok sha ((draft_request sha x t j now e)\<lparr>rq_request_id := ''escalation:'' @ hex16 n\<rparr>)
    \<longleftrightarrow> issuable (e_policy e) x \<and> digest_validate (ju_evidence_window_id j) = Inr ()"
proof -
  have "xp_request_ttl_ms x \<noteq> 0" using assms(2) x by (simp add: policy_ok_def)
  then have "now < sat_add now (xp_request_ttl_ms x)" using now by (rule sat_add_less)
  moreover have "good_identity (jt_transition_id t)"
    unfolding t by (rule digest_id_good [OF assms(1)]) (simp_all add: ascii_printable_def in_range_def)
  ultimately show ?thesis
    using assms(2,3) x escalation_id_good [of n]
    by (auto simp: request_ok_def draft_request_def Let_def issuable_def j evaluator_subject_scope_def
        subject_scope_validate_ok policy_ok_def identities_inv_def compute_deduplication_key_def
        deduplication_parts_def)
qed


lemma maybe_escalate_iff:
  "snd (maybe_escalate sha t j now e) \<noteq> None \<longleftrightarrow>
     jt_from t = Some Current \<and> jt_to t \<noteq> Current
     \<and> (\<exists>x. po_escalation (e_policy e) = Some x \<and> bs_contains (xp_triggers x) (select_trigger j)
          \<and> bt_get (e_active_escalations e) (escalation_key sha (e_policy e) x j) = None
          \<and> request_ok sha ((draft_request sha x t j now e)
              \<lparr>rq_request_id := ''escalation:'' @ hex16 (sat_add (e_request_counter e) 1)\<rparr>))"
  by (auto simp: maybe_escalate_def Let_def draft_key request_validate_ok split: option.splits)

lemma evaluated_transition:
  assumes "map_option ju_category (e_last_judgment e) = Some Current"
    and "ds_category (evaluated_derived rn e) \<noteq> Current"
  shows "\<exists>t. eo_transition (evaluated_output sha rn e) = Some t"
proof -
  have "e_last_judgment (evaluation_metrics (evaluated_derived rn e) (evaluated_state rn e)) = e_last_judgment e"
    by (simp add: evaluation_metrics_def evaluated_state_def evaluation_expiries_def clock_fields)
  then show ?thesis
    using assms by (auto simp: evaluate_escalation(3) evaluation_transition_def judgment_transitions_def
        judgment_semantically_changed_def Let_def case_prod_unfold split: option.splits)
qed

lemma evaluated_transition_id:
  "eo_transition (evaluated_output sha rn e) = Some t \<Longrightarrow>
   \<exists>d ps. jt_transition_id t = digest_id ''transition'' (digest_parts sha d ps)"
  by (auto simp: evaluate_escalation(3) evaluation_transition_def build_transition_def Let_def split: if_splits)
     blast

lemma evaluate_escalates_iff:
  assumes "hash_32 sha" and "policy_ok (e_policy e)" and "identities_inv e" and "evaluated_now rn e \<noteq> - 1"
  shows "eo_escalation_request (evaluated_output sha rn e) \<noteq> None \<longleftrightarrow>
     e_reevaluation_barrier e = None \<and> map_option ju_category (e_last_judgment e) = Some Current
     \<and> ds_category (evaluated_derived rn e) \<noteq> Current
     \<and> digest_validate (ju_evidence_window_id (evaluated_judgment sha rn e)) = Inr ()
     \<and> (\<exists>x. po_escalation (e_policy e) = Some x \<and> issuable (e_policy e) x
          \<and> bs_contains (xp_triggers x) (select_trigger (evaluated_judgment sha rn e))
          \<and> bt_get (open_escalations (evaluated_now rn e) e)
              (escalation_key sha (e_policy e) x (evaluated_judgment sha rn e)) = None)"
    (is "?L \<longleftrightarrow> ?b \<and> ?from \<and> ?to \<and> ?w \<and> (\<exists>x. ?X x)")
proof -
  let ?e = "escalating sha rn e" and ?j = "evaluated_judgment sha rn e" and ?now = "evaluated_now rn e"
  have esc: "e_policy ?e = e_policy e" "e_active_escalations ?e = open_escalations ?now e"
    using escalating_fields [of sha rn e] by (simp_all add: desk_def)
  have k: "kept ?e = kept (fst (evaluation_clock rn e))"
    by (simp add: escalating_def Let_def step_simps evaluated_state_def)
  have ids: "identities_inv ?e" "evaluator_subject_scope ?e = ju_subject_scope ?j"
    using assms(3) k clock_kept [of rn e] evaluated_state_hot [of rn e]
    by (auto simp: identities_inv_def kept_def hot_def evaluated_judgment_def build_judgment_def Let_def
        evaluator_subject_scope_def evaluation_metrics_def)
  have step: "snd (maybe_escalate sha t ?j ?now ?e) \<noteq> None \<longleftrightarrow> ?from \<and> ?to \<and> ?w \<and> (\<exists>x. ?X x)"
    if t: "eo_transition (evaluated_output sha rn e) = Some t" for t
  proof -
    have "e_last_judgment (evaluation_metrics (evaluated_derived rn e) (evaluated_state rn e)) = e_last_judgment e"
      by (simp add: evaluation_metrics_def evaluated_state_def evaluation_expiries_def clock_fields)
    then have ends: "jt_from t = map_option ju_category (e_last_judgment e)"
      "jt_to t = ds_category (evaluated_derived rn e)"
      using evaluation_transition_ends [OF t [unfolded evaluate_escalation(3)]] by simp_all
    have ok: "request_ok sha ((draft_request sha x t ?j ?now ?e)\<lparr>rq_request_id := ''escalation:'' @ hex16 n\<rparr>)
        \<longleftrightarrow> issuable (e_policy e) x \<and> ?w" if "po_escalation (e_policy e) = Some x" for x n
      using evaluated_transition_id [OF t] draft_ok_iff [OF assms(1) _ ids(1) _ assms(4), of x t _ _ ?j n]
        that assms(2) ids(2) by (auto simp: esc)
    show ?thesis
      unfolding maybe_escalate_iff ends esc using ok by blast
  qed
  show ?thesis
    using step evaluated_transition [of e rn sha]
    by (auto simp: evaluate_escalation(2) evaluation_escalation_def split: option.splits)
qed


section \<open>When requests are issued\<close>

lemma open_none_iff:
  assumes inv: "requests_inv sha e" and "e_request_counter e \<noteq> - 1"
  shows "bt_get (open_escalations (evaluated_now rn e) e) key = None \<longleftrightarrow>
    (\<forall>rid q. bt_get (e_issued_requests e) rid = Some q \<longrightarrow> rq_deduplication_key q = key
       \<longrightarrow> rq_expires_at_ms q \<le> evaluated_now rn e)" (is "?L \<longleftrightarrow> ?R")
proof
  have ok: "bt_ok (e_active_escalations e)" using inv by (simp add: requests_inv_def)
  assume free: ?L
  show ?R
  proof (intro allI impI)
    fix rid q
    assume q: "bt_get (e_issued_requests e) rid = Some q" and key: "rq_deduplication_key q = key"
    have "request_inv sha e rid q" using assms q by (simp add: requests_inv_def)
    then show "rq_expires_at_ms q \<le> evaluated_now rn e"
      using free key ok evaluated_now_later [of e _ rn]
      by (auto simp: request_inv_def open_escalations_def bt_get_retain split: if_splits intro: order_trans)
  qed
next
  have ok: "bt_ok (e_active_escalations e)" using inv by (simp add: requests_inv_def)
  assume spent: ?R
  have "\<not> evaluated_now rn e < ae_expires_at_ms a" if "bt_get (e_active_escalations e) key = Some a" for a
  proof -
    have "names_issued e key a" using assms that by (simp add: requests_inv_def)
    then show ?thesis using spent unfolding names_issued_def not_less by metis
  qed
  then show ?L using ok by (auto simp: open_escalations_def bt_get_retain split: option.split)
qed

lemma select_trigger_output: "select_trigger (eo_judgment (evaluated_output sha rn e)) = select_trigger (evaluated_judgment sha rn e)"
  by (simp add: select_trigger_def evaluated_output_def)

lemma escalation_key_output:
  "escalation_key sha p x (eo_judgment (evaluated_output sha' rn e)) = escalation_key sha p x (evaluated_judgment sha' rn e)"
  by (simp add: escalation_key_def select_trigger_output) (simp add: evaluated_output_def)

text \<open>
  C10: a diagnostic request is issued exactly when standing is lost. For an evaluator in any state its
  operations can reach, an operation returns a request if and only if the previous judgment was
  CURRENT, the new one is not, the operation is not a context change, the policy subscribes to the
  trigger of the new judgment and is issuable (its scope and diagnostic profile are well formed), the
  digest of the evidence window is one that \<open>DigestV1::validate\<close> accepts, and every earlier request with
  the same deduplication key has expired. (SHA-256 yields 32 bytes; the request counter and the clock are
  short of the end of \<open>u64\<close>.)
\<close>

theorem escalation_requested_iff:
  assumes "reachable sha e" and "hash_32 sha" and run: "run_op sha op e = (e', Inr out)"
    and "e_request_counter e \<noteq> - 1" and "ju_evaluated_at_ms (eo_judgment out) \<noteq> - 1"
  shows "eo_escalation_request out \<noteq> None \<longleftrightarrow>
    (\<exists>j x. e_last_judgment e = Some j \<and> ju_category j = Current \<and> ju_category (eo_judgment out) \<noteq> Current
       \<and> \<not> barring op \<and> digest_validate (ju_evidence_window_id (eo_judgment out)) = Inr ()
       \<and> po_escalation (e_policy e') = Some x \<and> issuable (e_policy e') x
       \<and> bs_contains (xp_triggers x) (select_trigger (eo_judgment out))
       \<and> (\<forall>rid q. bt_get (e_issued_requests e) rid = Some q
            \<longrightarrow> rq_deduplication_key q = escalation_key sha (e_policy e') x (eo_judgment out)
            \<longrightarrow> rq_expires_at_ms q \<le> ju_evaluated_at_ms (eo_judgment out)))"
proof -
  let ?p = "prepared sha op e" and ?rn = "op_time op"
  have inv: "policy_ok (e_policy ?p)" "identities_inv ?p" "requests_inv sha ?p"
    using policies.holds_prepared [OF policies.holds_reachable [OF assms(1)] run]
      identities.holds_prepared [OF identities.holds_reachable [OF assms(1)] run]
      requests.holds_prepared [OF requests.holds_reachable [OF assms(1)] run] .
  have now: "evaluated_now ?rn ?p = ju_evaluated_at_ms (eo_judgment out)" by (simp add: run_op_ok(2) [OF run])
  have barrier: "e_reevaluation_barrier ?p = None \<longleftrightarrow> \<not> barring op"
    by (rule prepared_barrier) (rule reachable_unbarred [OF assms(1)])
  have e': "e_policy e' = e_policy ?p" by (simp add: run_op_ok(1) [OF run])
  have cat: "ds_category (evaluated_derived ?rn ?p) = ju_category (eo_judgment out)"
    and trig: "select_trigger (evaluated_judgment sha ?rn ?p) = select_trigger (eo_judgment out)"
    and key: "escalation_key sha q x (evaluated_judgment sha ?rn ?p) = escalation_key sha q x (eo_judgment out)"
    and win: "ju_evidence_window_id (evaluated_judgment sha ?rn ?p) = ju_evidence_window_id (eo_judgment out)" for q x
    by (simp_all add: run_op_ok(2) [OF run] select_trigger_output escalation_key_output)
       (simp add: evaluated_output_def)
  show ?thesis
    using evaluate_escalates_iff [OF assms(2) inv(1,2), of ?rn] open_none_iff [OF inv(3), of ?rn] assms(4,5)
    unfolding run_op_ok(4) [OF run, symmetric] now barrier cat trig key win e' [symmetric]
    by (auto simp: now)
qed


lemma sample_current_requests:
  "e_issued_requests sample_current = []" "e_request_counter sample_current \<in> {0, 1}"
proof -
  let ?p = "prepared sample_sha (Ingest sample_received 110) sample_evaluator"
  have e: "sample_current = fst (evaluate sample_sha 110 ?p)"
    unfolding sample_current_def sample_ingest by (simp add: run_prepared_def evaluate_since_eq)
  have "e_last_judgment ?p = None" by (simp only: prepared_fields) simp
  then have "quiet (escalating sample_sha 110 ?p) sample_current"
    using evaluate_requests [where sha = sample_sha and rn = 110 and e = ?p]
    unfolding e by (cases "eo_escalation_request (evaluated_output sample_sha 110 ?p)") simp_all
  moreover have "e_issued_requests (escalating sample_sha 110 ?p) = e_issued_requests ?p"
    "e_request_counter (escalating sample_sha 110 ?p) = e_request_counter ?p"
    using escalating_fields(1) [of sample_sha 110 ?p] by (simp_all add: desk_def)
  moreover have "e_issued_requests ?p = []" "e_request_counter ?p = 0" by (simp_all only: prepared_fields) simp_all
  ultimately show "e_issued_requests sample_current = []" "e_request_counter sample_current \<in> {0, 1}"
    by (auto simp: quiet_def sat_add_def)
qed

text \<open>The sample evaluator lets its only pulse lapse: the coverage collapses, and it asks.\<close>

lemma sample_lapse:
  obtains e2 out where "run_op sample_sha (Tick 1100) sample_current = (e2, Inr out)"
    and "ju_evaluated_at_ms (eo_judgment out) = 1100" and "ju_category (eo_judgment out) = Unknown"
    and "select_trigger (eo_judgment out) = CoverageCollapse" and "e_policy e2 = sample_policy"
proof -
  obtain e2 out where run: "run_op sample_sha (Tick 1100) sample_current = (e2, Inr out)"
    by (simp add: tick_def) (metis evaluate_pair)
  have clock: "evaluation_clock 1100 sample_current = (sample_current, 1100)"
    by (simp add: evaluation_clock_def sample_current_fields)
  have now: "ju_evaluated_at_ms (eo_judgment out) = 1100"
    using clock by (simp add: run_op_ok(2) [OF run] evaluated_now_def)
  have hot: "hot e2 = hot sample_current"
    using kept_hot [OF evaluate_kept [of sample_sha 1100 sample_current]] clock by (simp add: run_op_ok(1) [OF run])
  have cat: "ju_category (eo_judgment out) = Unknown"
    using hot_category [OF hot, of 1100]
    by (simp add: run_op_category(1) [OF run] now sample_current_fields sample_lapsed)
  have dims: "derive_dimensions e2 1100 = derive_dimensions sample_current 1100"
    "derive_coverage e2 1100 = derive_coverage sample_current 1100"
    using hot_derive [OF hot, of 1100] by (simp_all add: derive_def)
  have "cs_missing (derive_coverage sample_current 1100) \<noteq> []"
    using covered_fresh [of sample_current 1100] sample_policy_ok
    by (auto simp: cs_missing_iff sample_current_evidence policy_ok_def)
  moreover have "dm_transport (derive_dimensions sample_current 1100) = Transport_Normal"
    "dm_provenance (derive_dimensions sample_current 1100) = Provenance_Unknown"
    by (simp_all add: derive_dimensions_def derive_transport_def provenance_dimension_def sample_current_evidence)
  ultimately have "select_trigger (eo_judgment out) = CoverageCollapse"
    using cat by (simp add: select_trigger_def run_op_dimensions [OF run] now dims)
  moreover have "e_policy e2 = sample_policy" using hot by (simp add: hot_def)
  ultimately show thesis using that run now cat by blast
qed

lemma sample_window:
  "run_op sample_sha op e = (e', Inr out) \<Longrightarrow> digest_validate (ju_evidence_window_id (eo_judgment out)) = Inr ()"
  by (simp add: run_op_ok(2) evaluated_window evaluated_output_def sample_digest_parts)

lemma sample_issuable:
  obtains x where "po_escalation sample_policy = Some x" "bs_contains (xp_triggers x) CoverageCollapse"
    "issuable sample_policy x"
proof -
  have "good_identity ''host''" by code_simp
  then show thesis
    using that by (auto simp: sample_policy_def issuable_def sample_digest_ok bs_contains_def)
qed

theorem escalation_requested_iff_witness:
  "\<exists>e2 out. run_op sample_sha (Tick 1100) sample_current = (e2, Inr out) \<and> eo_escalation_request out \<noteq> None"
proof -
  obtain out0 where j: "ju_category (eo_judgment out0) = Current"
    "e_last_judgment sample_current = Some (eo_judgment out0)"
    and run0: "run_op sample_sha (Ingest sample_received 110) sample_evaluator = (sample_current, Inr out0)"
    by (rule sample_run)
  obtain e2 out where run: "run_op sample_sha (Tick 1100) sample_current = (e2, Inr out)"
    and now: "ju_evaluated_at_ms (eo_judgment out) = 1100" and cat: "ju_category (eo_judgment out) = Unknown"
    and trig: "select_trigger (eo_judgment out) = CoverageCollapse" and e2: "e_policy e2 = sample_policy"
    by (rule sample_lapse)
  obtain x where x: "po_escalation sample_policy = Some x" "bs_contains (xp_triggers x) CoverageCollapse"
    "issuable sample_policy x"
    by (rule sample_issuable)
  have quiet: "e_issued_requests sample_current = []" "e_request_counter sample_current \<noteq> - 1"
    using sample_current_requests by auto
  show ?thesis
    using escalation_requested_iff [OF sample_reachable(2) sample_hash_32 run quiet(2)] j x e2 run
    by (simp add: now cat trig quiet sample_window [OF run])
qed


section \<open>At most one open request per question\<close>

definition open_requests :: "evaluator \<Rightarrow> u64 \<Rightarrow> digest \<Rightarrow> escalation_request list" where
  "open_requests e t key =
     filter (\<lambda>r. rq_deduplication_key r = key \<and> rq_created_at_ms r \<le> t \<and> t < rq_expires_at_ms r)
       (bt_values (e_issued_requests e))"

lemma unique_value:
  assumes "bt_ok m"
    and same: "\<And>k v k' v'. bt_get m k = Some v \<Longrightarrow> bt_get m k' = Some v' \<Longrightarrow> P v \<Longrightarrow> P v' \<Longrightarrow> k = k'"
  shows "length (filter P (bt_values m)) \<le> 1"
proof -
  let ?f = "filter (\<lambda>x. P (snd x)) m"
  have dist: "distinct (map fst ?f)" using bt_ok_distinct [OF assms(1)] by (rule distinct_map_filter)
  have mem: "bt_get m k = Some v \<and> P v" if "(k, v) \<in> set ?f" for k v
    using that bt_mem_get [OF assms(1)] by auto
  have one: "k = k'" if "k \<in> set (map fst ?f)" "k' \<in> set (map fst ?f)" for k k'
  proof -
    from that obtain v v' where "(k, v) \<in> set ?f" "(k', v') \<in> set ?f" by fastforce
    from mem [OF this(1)] mem [OF this(2)] show ?thesis using same [of k v k' v'] by blast
  qed
  have "length (map fst ?f) \<le> 1"
  proof (cases "map fst ?f")
    case (Cons k ks)
    have "ks = []"
    proof (rule ccontr)
      assume "ks \<noteq> []"
      then obtain k' where "k' \<in> set ks" by (cases ks) auto
      then show False using one [of k k'] dist by (simp add: Cons)
    qed
    then show ?thesis by (simp add: Cons)
  qed simp
  then have "length ?f \<le> 1" by simp
  then show ?thesis by (simp add: bt_values_def filter_map o_def)
qed

text \<open>
  C11: no question is ever open twice. In every reachable evaluator (short of the end of the request
  counter), at any instant at most one of the requests it has issued with a given deduplication key is
  open, and every request it keeps passes \<open>DiagnosticEscalationRequestV1::validate\<close>, is stored under
  its own id and expires after its creation.
\<close>

theorem one_open_request:
  assumes "reachable sha e" and "e_request_counter e \<noteq> - 1"
  shows "length (open_requests e t key) \<le> 1
    \<and> (\<forall>rid r. bt_get (e_issued_requests e) rid = Some r \<longrightarrow>
         request_validate sha r = Inr () \<and> rq_request_id r = rid \<and> rq_created_at_ms r < rq_expires_at_ms r)"
proof -
  have inv: "requests_inv sha e" by (rule requests.holds_reachable [OF assms(1)])
  then have each: "request_inv sha e rid r" if "bt_get (e_issued_requests e) rid = Some r" for rid r
    using assms(2) that by (simp add: requests_inv_def)
  have apart: "apart r r'" if "bt_get (e_issued_requests e) rid = Some r" "bt_get (e_issued_requests e) rid' = Some r'"
    "rid \<noteq> rid'" "rq_deduplication_key r = rq_deduplication_key r'" for rid r rid' r'
    using inv assms(2) that by (simp add: requests_inv_def)
  have "length (open_requests e t key) \<le> 1"
    unfolding open_requests_def
  proof (rule unique_value)
    show "bt_ok (e_issued_requests e)" using inv by (simp add: requests_inv_def)
  next
    fix k v k' v'
    assume get: "bt_get (e_issued_requests e) k = Some v" "bt_get (e_issued_requests e) k' = Some v'"
      and v: "rq_deduplication_key v = key \<and> rq_created_at_ms v \<le> t \<and> t < rq_expires_at_ms v"
      and v': "rq_deduplication_key v' = key \<and> rq_created_at_ms v' \<le> t \<and> t < rq_expires_at_ms v'"
    have "rq_created_at_ms v' < rq_expires_at_ms v" "rq_created_at_ms v < rq_expires_at_ms v'"
      using v v' by (blast intro: le_less_trans)+
    then have "\<not> apart v v'" by (simp add: apart_def not_le)
    then show "k = k'" using apart [OF get] v v' by auto
  qed
  moreover have "request_validate sha r = Inr () \<and> rq_request_id r = rid \<and> rq_created_at_ms r < rq_expires_at_ms r"
    if "bt_get (e_issued_requests e) rid = Some r" for rid r
  proof -
    have r: "request_ok sha r" "rq_request_id r = rid" using each [OF that] by (simp_all add: request_inv_def)
    from r(1) have "rq_created_at_ms r < rq_expires_at_ms r" by (simp add: request_ok_def)
    with r show ?thesis unfolding request_validate_ok by blast
  qed
  ultimately show ?thesis by blast
qed

lemma sample_asks:
  obtains e2 out r where "run_op sample_sha (Tick 1100) sample_current = (e2, Inr out)"
    and "eo_escalation_request out = Some r" and "e_issued_requests e2 = [(rq_request_id r, r)]"
    and "rq_created_at_ms r = 1100" and "rq_expires_at_ms r = 1600" and "e_request_counter e2 \<noteq> - 1"
proof -
  obtain out0 where
    "run_op sample_sha (Ingest sample_received 110) sample_evaluator = (sample_current, Inr out0)"
    "ju_category (eo_judgment out0) = Current" "ju_evaluated_at_ms (eo_judgment out0) = 110"
    "ju_support_expires_at_ms (eo_judgment out0) = Some 1100"
    "e_last_judgment sample_current = Some (eo_judgment out0)" by (rule sample_run)
  then have last: "map_option ju_category (e_last_judgment sample_current) = Some Current" by simp
  obtain e2 out where run: "run_op sample_sha (Tick 1100) sample_current = (e2, Inr out)"
    and now: "ju_evaluated_at_ms (eo_judgment out) = 1100" and cat: "ju_category (eo_judgment out) = Unknown"
    and trig: "select_trigger (eo_judgment out) = CoverageCollapse"
    by (rule sample_lapse)
  have out: "eo_escalation_request (evaluated_output sample_sha 1100 sample_current) = eo_escalation_request out"
    and e2: "fst (evaluate sample_sha 1100 sample_current) = e2"
    and now': "evaluated_now 1100 sample_current = 1100"
    and cat': "ds_category (evaluated_derived 1100 sample_current) = Unknown"
    and trig': "select_trigger (evaluated_judgment sample_sha 1100 sample_current) = CoverageCollapse"
    using run_op_ok [OF run] now cat trig by (simp_all add: select_trigger_output)
  have inv: "identities_inv sample_current" "requests_inv sample_sha sample_current"
    using identities.holds_reachable [OF sample_reachable(2)] requests.holds_reachable [OF sample_reachable(2)] .
  have open_none: "bt_get (open_escalations 1100 sample_current) key = None" for key
    using open_none_iff [OF inv(2), of 1100 key] sample_current_requests
    by (auto simp: now')
  obtain x where x: "po_escalation sample_policy = Some x" "bs_contains (xp_triggers x) CoverageCollapse"
    "issuable sample_policy x"
    by (rule sample_issuable)
  have "eo_escalation_request out \<noteq> None"
    using evaluate_escalates_iff [OF sample_hash_32, of sample_current 1100] inv(1) last sample_policy_ok
      x open_none
    by (simp add: out now' cat' trig' sample_current_fields evaluated_window sample_digest_parts)
  then obtain r where r: "eo_escalation_request out = Some r" by blast
  have iss: "issues sample_sha r 1100 (escalating sample_sha 1100 sample_current) e2"
    and drafted: "drafted_from sample_policy r"
    using evaluate_requests [where sha = sample_sha and rn = 1100 and e = sample_current]
    by (simp_all add: out r e2 now')
  have esc: "e_issued_requests (escalating sample_sha 1100 sample_current) = []"
    "e_request_counter (escalating sample_sha 1100 sample_current) = e_request_counter sample_current"
    using escalating_fields(1) [of sample_sha 1100 sample_current]
    by (simp_all add: desk_def sample_current_requests)
  have "sat_add (e_request_counter sample_current) 1 \<noteq> - 1"
    using sample_current_requests(2) by (auto simp: sat_add_def)
  then show thesis
    using that [OF run r] iss drafted esc
    by (auto simp: issues_def desk_def drafted_from_def sample_policy_def sat_add_def)
qed

theorem one_open_request_witness:
  "\<exists>e2 out r. run_op sample_sha (Tick 1100) sample_current = (e2, Inr out)
     \<and> open_requests e2 1200 (rq_deduplication_key r) = [r] \<and> request_validate sample_sha r = Inr ()"
proof -
  obtain e2 out r where run: "run_op sample_sha (Tick 1100) sample_current = (e2, Inr out)"
    and r: "e_issued_requests e2 = [(rq_request_id r, r)]" "rq_created_at_ms r = 1100"
      "rq_expires_at_ms r = 1600" and counter: "e_request_counter e2 \<noteq> - 1"
    by (rule sample_asks)
  have "reachable sample_sha e2" by (rule reachable.operation [OF sample_reachable(2) run])
  from one_open_request [OF this counter]
  have one: "length (open_requests e2 1200 (rq_deduplication_key r)) \<le> 1"
    and "bt_get (e_issued_requests e2) rid = Some q \<longrightarrow> request_validate sample_sha q = Inr ()" for rid q
    by blast+
  note one this(2) [of "rq_request_id r" r]
  moreover have "bt_get (e_issued_requests e2) (rq_request_id r) = Some r" by (simp add: r(1) bt_get_def)
  moreover have "r \<in> set (open_requests e2 1200 (rq_deduplication_key r))"
    using r by (simp add: open_requests_def bt_values_def)
  ultimately show ?thesis
    using run by (cases "open_requests e2 1200 (rq_deduplication_key r)") auto
qed


section \<open>Triggers that are never selected\<close>

lemma covered_freshness:
  assumes "policy_ok (e_policy e)" and "cs_missing (derive_coverage e t) = []"
  shows "derive_freshness e t \<notin> {Freshness_Expired, Freshness_NoEvidence}"
proof -
  have "eligible_fresh e t \<noteq> []"
    using assms by (intro covered_fresh) (simp_all add: cs_missing_iff policy_ok_def)
  then have "fresh_evidence e t \<noteq> []" by (auto simp: eligible_fresh_def)
  moreover from this have "relevant_evidence e \<noteq> []" by (auto simp: fresh_evidence_def)
  ultimately show ?thesis by (simp add: derive_freshness_def)
qed

text \<open>
  C34: the trigger \<open>freshness_lost\<close> is never selected. Whatever a reachable evaluator does, the trigger
  class of the judgment it returns is another one: evidence that expires also leaves coverage missing,
  which \<open>select_trigger\<close> tests first. A policy that subscribes to \<open>freshness_lost\<close> alone therefore never
  receives a diagnostic request.
\<close>

theorem freshness_lost_never_selected:
  assumes "reachable sha e" and run: "run_op sha op e = (e', Inr out)"
  shows "select_trigger (eo_judgment out) \<noteq> FreshnessLost
    \<and> (\<forall>x. po_escalation (e_policy e') = Some x \<longrightarrow> set (xp_triggers x) = {FreshnessLost}
         \<longrightarrow> eo_escalation_request out = None)"
proof -
  let ?p = "prepared sha op e" and ?rn = "op_time op"
  have "policy_ok (e_policy e')"
    using policies.holds_run [OF policies.holds_reachable [OF assms(1)] run] .
  then have trig: "select_trigger (eo_judgment out) \<noteq> FreshnessLost"
    using covered_freshness [of e' "ju_evaluated_at_ms (eo_judgment out)"]
    by (auto simp: select_trigger_def run_op_dimensions [OF run] derive_dimensions_def)
  have "eo_escalation_request out = None"
    if x: "po_escalation (e_policy e') = Some x" "set (xp_triggers x) = {FreshnessLost}" for x
  proof (rule ccontr)
    assume "eo_escalation_request out \<noteq> None"
    then obtain r where "eo_escalation_request (evaluated_output sha ?rn ?p) = Some r"
      using run_op_ok(4) [OF run] by auto
    then have "drafted_from (e_policy ?p) r" "rq_trigger_class r = select_trigger (eo_judgment out)"
      using evaluate_requests [where sha = sha and rn = ?rn and e = ?p]
      by (simp_all add: run_op_ok(2) [OF run] select_trigger_output)
    moreover have "e_policy ?p = e_policy e'" by (simp add: run_op_ok(1) [OF run])
    ultimately show False using x trig by (auto simp: drafted_from_def bs_contains_def)
  qed
  with trig show ?thesis by blast
qed

theorem freshness_lost_never_selected_witness:
  "\<exists>e2 out. run_op sample_sha (Tick 1100) sample_current = (e2, Inr out)
     \<and> dm_freshness (ju_dimensions (eo_judgment out)) = Freshness_Expired
     \<and> select_trigger (eo_judgment out) \<noteq> FreshnessLost"
proof -
  obtain e2 out where run: "run_op sample_sha (Tick 1100) sample_current = (e2, Inr out)"
    and now: "ju_evaluated_at_ms (eo_judgment out) = 1100" and cat: "ju_category (eo_judgment out) = Unknown"
    and trig: "select_trigger (eo_judgment out) = CoverageCollapse" and e2: "e_policy e2 = sample_policy"
    by (rule sample_lapse)
  have "e_observers e2 = e_observers sample_current" "e_current_subject_incarnation e2 = ''boot-1''"
    by (simp_all add: run_op_ok(1) [OF run])
  then have "derive_freshness e2 1100 = Freshness_Expired"
    by (simp add: derive_freshness_def relevant_evidence_def fresh_evidence_def bt_values_def)
       (simp add: sample_evidence_def sample_received_def)
  then show ?thesis
    using freshness_lost_never_selected [OF sample_reachable(2) run] run
    by (simp add: run_op_dimensions [OF run] now derive_dimensions_def)
qed

section \<open>Policies whose requests never pass\<close>

text \<open>
  C35: a policy that \<open>ReliancePolicyV1::validate\<close> accepts may be unable to escalate. When the
  diagnostic profile of the policy has no name, version 0 or a malformed digest, or its scope is not a
  well-formed identity, none of which \<open>validate\<close> looks at, no operation ever returns a request and none is
  recorded: the request is drafted, fails its own validation and is dropped without a trace.
\<close>

theorem unissuable_policy_is_silent:
  assumes run: "run_op sha op e = (e', Inr out)" and "po_escalation (e_policy e') = Some x"
    and "\<not> issuable (e_policy e') x"
  shows "eo_escalation_request out = None \<and> e_issued_requests e' = e_issued_requests e"
proof (cases "eo_escalation_request out")
  case None
  let ?p = "prepared sha op e" and ?rn = "op_time op"
  have "quiet (escalating sha ?rn ?p) e'"
    using evaluate_requests [where sha = sha and rn = ?rn and e = ?p] None
    by (simp add: run_op_ok(1,4) [OF run])
  moreover have "e_issued_requests (escalating sha ?rn ?p) = e_issued_requests e"
    using escalating_fields(1) [of sha ?rn ?p] by (simp add: desk_def)
  ultimately show ?thesis using None by (simp add: quiet_def)
next
  case (Some r)
  let ?p = "prepared sha op e" and ?rn = "op_time op"
  have r: "drafted_from (e_policy ?p) r" "request_ok sha r" "rq_subject_scope r = evaluator_subject_scope ?p"
    using evaluate_requests [where sha = sha and rn = ?rn and e = ?p] Some
    by (simp_all add: run_op_ok(4) [OF run] issues_def)
  have "e_policy ?p = e_policy e'" by (simp add: run_op_ok(1) [OF run])
  then have "rq_diagnostic_profile r = xp_diagnostic_profile x" "ss_scope (rq_subject_scope r) = po_scope (e_policy e')"
    using r(1,3) assms(2) by (auto simp: drafted_from_def evaluator_subject_scope_def)
  moreover have "good_identity (ss_scope (rq_subject_scope r))"
    "digest_validate (dp_semantic_digest (rq_diagnostic_profile r)) = Inr ()"
    "dp_name (rq_diagnostic_profile r) \<noteq> []" "dp_version (rq_diagnostic_profile r) \<noteq> 0"
    using r(2) by (simp_all add: request_ok_def subject_scope_validate_ok)
  ultimately have "issuable (e_policy e') x" by (simp add: issuable_def)
  then show ?thesis using assms(3) by blast
qed

text \<open>The sample policy with version 0 of its diagnostic profile still validates.\<close>

definition sample_silent_policy :: reliance_policy where
  "sample_silent_policy = sample_policy\<lparr>po_escalation := map_option (\<lambda>x. x\<lparr>xp_diagnostic_profile :=
     (xp_diagnostic_profile x)\<lparr>dp_version := 0\<rparr>\<rparr>) (po_escalation sample_policy)\<rparr>"

theorem unissuable_policy_is_silent_witness:
  "policy_validate sample_silent_policy = Inr ()
   \<and> (\<exists>e2 out. run_op sample_sha (ReplacePolicy sample_silent_policy (GenerationTransition ''rotated'') 120)
         sample_current = (e2, Inr out)
      \<and> eo_escalation_request out = None \<and> e_issued_requests e2 = e_issued_requests sample_current)"
proof -
  let ?op = "ReplacePolicy sample_silent_policy (GenerationTransition ''rotated'') 120"
  have ok: "policy_validate sample_silent_policy = Inr ()"
    using sample_policy_ok
    by (simp add: policy_validate_ok policy_ok_def sample_silent_policy_def sample_policy_def)
  have same: "po_subject sample_silent_policy = po_subject sample_policy"
    "po_scope sample_silent_policy = po_scope sample_policy"
    "po_consumer sample_silent_policy = po_consumer sample_policy"
    by (simp_all add: sample_silent_policy_def)
  obtain e2 out where run: "run_op sample_sha ?op sample_current = (e2, Inr out)"
    by (simp add: replace_policy_def Let_def ok same) (metis evaluate_pair)
  have "e_policy e2 = sample_silent_policy" by (simp add: run_op_ok(1) [OF run])
  then obtain x where "po_escalation (e_policy e2) = Some x" "\<not> issuable (e_policy e2) x"
    by (auto simp: sample_silent_policy_def sample_policy_def issuable_def)
  from unissuable_policy_is_silent [OF run this] show ?thesis using ok run by blast
qed

end
