(* ===== verification/Bridge.thy ===== *)
theory Bridge
  imports Requests
begin

text \<open>
  The diagnostic bridge (\<open>crates/pulse-l3-bridge/src/lib.rs\<close>): a closed-profile stub that answers an
  escalation request once, remembers its answer, and runs one question at a time; and its composition
  with the evaluator that issued the request.
\<close>

section \<open>The bridge\<close>

definition STUB_PROFILE_NAME :: string where
  "STUB_PROFILE_NAME = ''local.readonly.summary''"

definition STUB_PROFILE_VERSION :: u16 where
  "STUB_PROFILE_VERSION = 1"

definition STUB_RECEIPT_VALIDITY_MS :: u64 where
  "STUB_RECEIPT_VALIDITY_MS = 250"

record bridge_outcome =
  bo_disposition :: escalation_disposition
  bo_receipt :: "diagnostic_receipt option"

record stub_bridge =
  sb_bridge_id :: bridge_id
  sb_clock_id :: clock_id
  sb_profile :: diagnostic_profile_id
  sb_bounds :: diagnostic_bounds
  sb_available :: bool
  sb_outcomes :: "(escalation_request_id, bridge_outcome) btmap"
  sb_active_deduplication :: "(digest, u64 \<times> escalation_request_id) btmap"

definition stub_profile_identity :: "hasher \<Rightarrow> diagnostic_profile_id" where
  "stub_profile_identity sha =
     \<lparr>dp_name = STUB_PROFILE_NAME, dp_version = STUB_PROFILE_VERSION,
      dp_semantic_digest = digest_parts sha ''diagnostic.profile.v1''
        [STUB_PROFILE_NAME, u16_be STUB_PROFILE_VERSION]\<rparr>"

definition bridge_new :: "hasher \<Rightarrow> bridge_id \<Rightarrow> clock_id \<Rightarrow> stub_bridge" where
  "bridge_new sha bid clock =
     \<lparr>sb_bridge_id = bid, sb_clock_id = clock, sb_profile = stub_profile_identity sha,
      sb_bounds = \<lparr>db_maximum_runtime_ms = 50, db_maximum_output_bytes = 4096, db_maximum_observations = 8\<rparr>,
      sb_available = True, sb_outcomes = [], sb_active_deduplication = []\<rparr>"

definition set_available :: "bool \<Rightarrow> stub_bridge \<Rightarrow> stub_bridge" where
  "set_available available b = b\<lparr>sb_available := available\<rparr>"

definition result_parts ::
  "escalation_request \<Rightarrow> diagnostic_result_entry list \<Rightarrow> u64 \<Rightarrow> u64 \<Rightarrow> bytes list" where
  "result_parts r results started completed =
     [rq_request_id r, ss_subject (rq_subject_scope r), ss_scope (rq_subject_scope r),
      u64_be started, u64_be completed]
     @ concat (map (\<lambda>x. [re_name x, re_value x, re_interpretation x]) results)"

definition result_digest ::
  "hasher \<Rightarrow> escalation_request \<Rightarrow> diagnostic_result_entry list \<Rightarrow> u64 \<Rightarrow> u64 \<Rightarrow> digest" where
  "result_digest sha r results started completed =
     digest_parts sha ''diagnostic.stub.result.v1'' (result_parts r results started completed)"

definition bridge_disposition ::
  "stub_bridge \<Rightarrow> escalation_request \<Rightarrow> u64 \<Rightarrow> escalation_disposition_kind \<Rightarrow> escalation_disposition" where
  "bridge_disposition b r now kind =
     \<lparr>ed_schema_version = SCHEMA_VERSION_V1, ed_request_id = rq_request_id r, ed_bridge_id = sb_bridge_id b,
      ed_clock_id = sb_clock_id b, ed_decided_at_ms = now, ed_kind = kind,
      ed_mutation_authority = NoAuthority\<rparr>"

definition bridge_results :: "escalation_request \<Rightarrow> diagnostic_result_entry list" where
  "bridge_results r =
     [\<lparr>re_name = ''stub_execution'', re_value = ''completed'',
       re_interpretation = ''the compiled harmless local stub returned''\<rparr>,
      \<lparr>re_name = ''subject_scope_binding'',
       re_value = ss_subject (rq_subject_scope r) @ ''/'' @ ss_scope (rq_subject_scope r),
       re_interpretation = ''request correlation only; no subject condition inferred''\<rparr>]"

definition bridge_receipt :: "hasher \<Rightarrow> stub_bridge \<Rightarrow> escalation_request \<Rightarrow> u64 \<Rightarrow> diagnostic_receipt" where
  "bridge_receipt sha b r now =
     (let completed = sat_add now 1;
          results = bridge_results r;
          rd = result_digest sha r results now completed;
          run_id = digest_id ''run''
            (digest_parts sha ''diagnostic.stub.run.v1'' [rq_request_id r, u64_be now, rd]);
          receipt_id = digest_id ''receipt''
            (digest_parts sha ''diagnostic.stub.receipt.v1'' [run_id, rq_request_id r, rd])
      in \<lparr>dr_schema_version = SCHEMA_VERSION_V1, dr_receipt_id = receipt_id, dr_run_id = run_id,
          dr_request_id = rq_request_id r, dr_causal_transition_id = rq_causal_transition_id r,
          dr_deduplication_key = rq_deduplication_key r,
          dr_evidence_window_digest = rq_evidence_window_digest r,
          dr_subject_scope = rq_subject_scope r, dr_consumer = rq_consumer r,
          dr_policy_generation = rq_policy_generation r,
          dr_observation_policy_generation = rq_observation_policy_generation r,
          dr_diagnostic_profile = rq_diagnostic_profile r, dr_bridge_id = sb_bridge_id b,
          dr_clock_id = sb_clock_id b, dr_started_at_ms = now, dr_completed_at_ms = completed,
          dr_applicable_until_ms = min (sat_add completed STUB_RECEIPT_VALIDITY_MS) (rq_expires_at_ms r),
          dr_status = DiagnosticCompleted, dr_results = results,
          dr_observed_coverage = [''stub.bridge'', ''stub.profile''], dr_result_digest = rd,
          dr_nonclaims =
            [''This is a mock local diagnostic receipt, not an NQ artifact.'',
             ''Stub completion does not establish subject health or resolve contradiction.'',
             ''This receipt grants no execution, repair, or mutation authority.''],
          dr_mutation_authority = NoAuthority\<rparr>)"

definition bridge_accept :: "hasher \<Rightarrow> stub_bridge \<Rightarrow> escalation_request \<Rightarrow> u64 \<Rightarrow> bridge_outcome" where
  "bridge_accept sha b r now =
     \<lparr>bo_disposition = bridge_disposition b r now (Accept (rq_bounds r)),
      bo_receipt = Some (bridge_receipt sha b r now)\<rparr>"

definition bridge_refuse :: "stub_bridge \<Rightarrow> escalation_request \<Rightarrow> u64 \<Rightarrow> string \<Rightarrow> string \<Rightarrow> bridge_outcome" where
  "bridge_refuse b r now code detail =
     \<lparr>bo_disposition = bridge_disposition b r now (Refuse code detail), bo_receipt = None\<rparr>"

definition bridge_defer :: "stub_bridge \<Rightarrow> escalation_request \<Rightarrow> u64 \<Rightarrow> string \<Rightarrow> string \<Rightarrow> bridge_outcome" where
  "bridge_defer b r now code detail =
     \<lparr>bo_disposition = bridge_disposition b r now (Defer code detail), bo_receipt = None\<rparr>"

definition bridge_narrow :: "stub_bridge \<Rightarrow> escalation_request \<Rightarrow> u64 \<Rightarrow> bridge_outcome" where
  "bridge_narrow b r now =
     \<lparr>bo_disposition = bridge_disposition b r now
        (Narrow (sb_profile b) (narrowed_to (rq_bounds r) (sb_bounds b))
          ''requested bounds exceed the compiled local profile limits; explicit resubmission required''),
      bo_receipt = None\<rparr>"

text \<open>The \<open>if\<close> chain of \<open>handle\<close>, run after the expired entries are dropped.\<close>

definition bridge_decide :: "hasher \<Rightarrow> escalation_request \<Rightarrow> u64 \<Rightarrow> stub_bridge \<Rightarrow> bridge_outcome" where
  "bridge_decide sha r now b =
     (case request_validate sha r of
        Inl err \<Rightarrow> bridge_refuse b r now (xe_code err) (xe_detail err)
      | Inr _ \<Rightarrow>
          if rq_clock_id r \<noteq> sb_clock_id b then
            bridge_refuse b r now ''clock_mismatch'' ''bridge and request monotonic clock generations differ''
          else if now < rq_created_at_ms r then
            bridge_refuse b r now ''request_from_future'' ''bridge time precedes request creation''
          else if rq_expires_at_ms r \<le> now then
            bridge_refuse b r now ''request_expired''
              ''diagnostic request reached inclusive expiry before execution''
          else if rq_diagnostic_profile r \<noteq> sb_profile b then
            bridge_refuse b r now ''profile_not_registered''
              ''requested diagnostic profile is absent from the closed registry''
          else case bt_get (sb_active_deduplication b) (rq_deduplication_key r) of
            Some (_, active) \<Rightarrow>
              bridge_defer b r now ''equivalent_request_active''
                (''equivalent request '' @ active @ '' is already active'')
          | None \<Rightarrow>
              if \<not> sb_available b then
                bridge_defer b r now ''bridge_unavailable''
                  ''local diagnostic capacity is temporarily unavailable; expiry is unchanged''
              else if \<not> fits_within (rq_bounds r) (sb_bounds b) then bridge_narrow b r now
              else bridge_accept sha b r now)"

definition is_accept :: "escalation_disposition_kind \<Rightarrow> bool" where
  "is_accept k = (case k of Accept _ \<Rightarrow> True | _ \<Rightarrow> False)"

definition handle :: "hasher \<Rightarrow> escalation_request \<Rightarrow> u64 \<Rightarrow> stub_bridge \<Rightarrow> stub_bridge \<times> bridge_outcome" where
  "handle sha r now b =
     (case bt_get (sb_outcomes b) (rq_request_id r) of
        Some existing \<Rightarrow> (b, existing)
      | None \<Rightarrow>
          let b1 = b\<lparr>sb_active_deduplication :=
                bt_retain (\<lambda>_ (expiry, _). now < expiry) (sb_active_deduplication b)\<rparr>;
              outcome = bridge_decide sha r now b1;
              b2 = b1\<lparr>sb_outcomes := bt_insert (rq_request_id r) outcome (sb_outcomes b1)\<rparr>
          in (if is_accept (ed_kind (bo_disposition outcome))
              then b2\<lparr>sb_active_deduplication := bt_insert (rq_deduplication_key r)
                     (rq_expires_at_ms r, rq_request_id r) (sb_active_deduplication b2)\<rparr>
              else b2, outcome))"

section \<open>What the bridge answers\<close>

definition was_run :: "bridge_outcome \<Rightarrow> bool" where
  "was_run x \<longleftrightarrow> is_accept (ed_kind (bo_disposition x))"

definition swept :: "u64 \<Rightarrow> stub_bridge \<Rightarrow> stub_bridge" where
  "swept now b = b\<lparr>sb_active_deduplication :=
     bt_retain (\<lambda>_ (expiry, _). now < expiry) (sb_active_deduplication b)\<rparr>"

lemmas answer_defs = bridge_accept_def bridge_refuse_def bridge_defer_def bridge_narrow_def
  bridge_disposition_def

lemma handle_known: "bt_get (sb_outcomes b) (rq_request_id r) = Some x \<Longrightarrow> handle sha r now b = (b, x)"
  by (simp add: handle_def)

lemma handle_fresh:
  assumes "bt_get (sb_outcomes b) (rq_request_id r) = None"
  shows "snd (handle sha r now b) = bridge_decide sha r now (swept now b)"
    and "sb_outcomes (fst (handle sha r now b)) =
      bt_insert (rq_request_id r) (bridge_decide sha r now (swept now b)) (sb_outcomes b)"
    and "sb_active_deduplication (fst (handle sha r now b)) =
      (if was_run (bridge_decide sha r now (swept now b))
       then bt_insert (rq_deduplication_key r) (rq_expires_at_ms r, rq_request_id r)
         (sb_active_deduplication (swept now b))
       else sb_active_deduplication (swept now b))"
  using assms by (simp_all add: handle_def swept_def was_run_def Let_def)

text \<open>The bridge accepts, with a receipt, or declines, without one.\<close>

definition declines :: "stub_bridge \<Rightarrow> escalation_request \<Rightarrow> u64 \<Rightarrow> bridge_outcome \<Rightarrow> bool" where
  "declines b r now x \<longleftrightarrow> bo_receipt x = None \<and> \<not> was_run x
     \<and> bo_disposition x = bridge_disposition b r now (ed_kind (bo_disposition x))"

lemma answers [simp]:
  "was_run (bridge_accept sha b r now)" "declines b r now (bridge_refuse b r now code detail)"
  "declines b r now (bridge_defer b r now code detail)" "declines b r now (bridge_narrow b r now)"
  by (simp_all add: declines_def was_run_def is_accept_def answer_defs)

lemma declines_not_run: "declines b r now x \<Longrightarrow> \<not> was_run x"
  by (simp add: declines_def)

lemma answers_not_run [simp]:
  "\<not> was_run (bridge_refuse b r now code detail)"
  "\<not> was_run (bridge_defer b r now code detail)" "\<not> was_run (bridge_narrow b r now)"
  by (rule declines_not_run, rule answers)+

lemma decide_answers:
  "bridge_decide sha r now b = bridge_accept sha b r now \<or> declines b r now (bridge_decide sha r now b)"
proof -
  let ?Q = "\<lambda>x. x = bridge_accept sha b r now \<or> declines b r now x"
  have ifs: "?Q (if c then x else y)" if "?Q x" "?Q y" for c x y using that by simp
  have opts: "?Q (case m of None \<Rightarrow> x | Some z \<Rightarrow> case z of (u, v) \<Rightarrow> f u v)"
    if "?Q x" "\<And>u v. ?Q (f u v)" for m and x and f :: "u64 \<Rightarrow> escalation_request_id \<Rightarrow> bridge_outcome"
    using that by (auto split: option.split)
  have sums: "?Q (case m of Inl y \<Rightarrow> f y | Inr y \<Rightarrow> g y)" if "\<And>y. ?Q (f y)" "\<And>y. ?Q (g y)"
    for m :: "escalation_error + unit" and f g using that by (auto split: sum.split)
  show ?thesis
    unfolding bridge_decide_def
    by (intro sums ifs opts) (rule disjI2, rule answers | rule disjI1, rule refl)+
qed

lemma decide_accept_iff:
  "was_run (bridge_decide sha r now b) \<longleftrightarrow>
     request_ok sha r \<and> rq_clock_id r = sb_clock_id b \<and> rq_created_at_ms r \<le> now \<and> now < rq_expires_at_ms r
     \<and> rq_diagnostic_profile r = sb_profile b \<and> sb_available b \<and> fits_within (rq_bounds r) (sb_bounds b)
     \<and> bt_get (sb_active_deduplication b) (rq_deduplication_key r) = None"
proof (cases "request_validate sha r")
  case (Inl err)
  then have "\<not> request_ok sha r" using request_validate_ok [of sha r "()"] by auto
  then show ?thesis using Inl by (simp add: bridge_decide_def)
next
  case (Inr u)
  then have "request_ok sha r" by (simp add: request_validate_ok)
  then show ?thesis using Inr by (auto simp: bridge_decide_def split: option.splits)
qed

lemma decide_accepted: "was_run (bridge_decide sha r now b) \<Longrightarrow> bridge_decide sha r now b = bridge_accept sha b r now"
  using decide_answers [of sha r now b] by (auto simp: declines_def)

lemma decide_receipt: "bo_receipt (bridge_decide sha r now b) \<noteq> None \<longleftrightarrow> was_run (bridge_decide sha r now b)"
  using decide_answers [of sha r now b] by (auto simp: declines_def) (simp add: bridge_accept_def)

text \<open>The disposition and the receipt bind the request they answer.\<close>

lemma decide_disposition:
  "\<exists>kind. bo_disposition (bridge_decide sha r now b) = bridge_disposition b r now kind"
  using decide_answers [of sha r now b] by (auto simp: declines_def bridge_accept_def)

lemma decide_binds:
  "ed_schema_version (bo_disposition (bridge_decide sha r now b)) = SCHEMA_VERSION_V1"
  "ed_request_id (bo_disposition (bridge_decide sha r now b)) = rq_request_id r"
  "ed_bridge_id (bo_disposition (bridge_decide sha r now b)) = sb_bridge_id b"
  "ed_clock_id (bo_disposition (bridge_decide sha r now b)) = sb_clock_id b"
  "ed_decided_at_ms (bo_disposition (bridge_decide sha r now b)) = now"
  using decide_disposition [of sha r now b] by (auto simp: bridge_disposition_def)

lemma decide_receipt_eq:
  "bo_receipt (bridge_decide sha r now b) = Some rc \<Longrightarrow> rc = bridge_receipt sha b r now"
  using decide_answers [of sha r now b] by (auto simp: declines_def bridge_accept_def)


section \<open>Every answer is final\<close>

datatype bridge_op = Handle escalation_request u64 | SetAvailable bool

fun bridge_step :: "hasher \<Rightarrow> bridge_op \<Rightarrow> stub_bridge \<Rightarrow> stub_bridge" where
  "bridge_step sha (Handle r now) b = fst (handle sha r now b)"
| "bridge_step sha (SetAvailable a) b = set_available a b"

lemma handle_outcome:
  "bt_get (sb_outcomes (fst (handle sha r now b))) (rq_request_id r) = Some (snd (handle sha r now b))"
  by (cases "bt_get (sb_outcomes b) (rq_request_id r)")
     (simp_all add: handle_known handle_fresh bt_get_insert)

lemma bridge_step_outcome:
  "bt_get (sb_outcomes b) rid = Some x \<Longrightarrow> bt_get (sb_outcomes (bridge_step sha op b)) rid = Some x"
proof (cases op)
  case (Handle r now)
  assume known: "bt_get (sb_outcomes b) rid = Some x"
  show ?thesis
  proof (cases "bt_get (sb_outcomes b) (rq_request_id r)")
    case None
    then show ?thesis using known Handle by (auto simp: handle_fresh bt_get_insert)
  next
    case (Some y)
    then show ?thesis using known Handle by (simp add: handle_known)
  qed
qed (simp add: set_available_def)

lemma bridge_steps_outcome:
  "bt_get (sb_outcomes b) rid = Some x \<Longrightarrow> bt_get (sb_outcomes (fold (bridge_step sha) ops b)) rid = Some x"
  by (induction ops arbitrary: b) (simp_all add: bridge_step_outcome)

text \<open>
  C36: the bridge answers a request identity once. Whatever it is asked and told in between, the same
  request, or another one under the same identity, gets the first answer again, and the bridge is left
  as it was: an accepted request is never run twice, and a deferral is not reconsidered when capacity
  returns.
\<close>

theorem bridge_answer_is_final:
  assumes "rq_request_id r' = rq_request_id r"
    and b2: "b2 = fold (bridge_step sha) ops (fst (handle sha r now b))"
  shows "handle sha r' now' b2 = (b2, snd (handle sha r now b))"
  by (rule handle_known) (simp add: assms bridge_steps_outcome handle_outcome)

section \<open>The requests the bridge runs\<close>

text \<open>
  A bridge with the requests it decided, latest first: each with the time and the answer. Asking again
  for a decided identity changes nothing (\<open>handle_known\<close>) and is not recorded.
\<close>

inductive decided :: "hasher \<Rightarrow> stub_bridge \<Rightarrow> (escalation_request \<times> u64 \<times> bridge_outcome) list \<Rightarrow> bool"
  for sha where
  new: "decided sha (bridge_new sha bid clock) []"
| answered: "decided sha b log \<Longrightarrow> \<forall>(q, t, x) \<in> set log. t \<le> now
    \<Longrightarrow> bt_get (sb_outcomes b) (rq_request_id r) = None \<Longrightarrow> handle sha r now b = (b', x)
    \<Longrightarrow> decided sha b' ((r, now, x) # log)"
| available: "decided sha b log \<Longrightarrow> decided sha (set_available a b) log"

text \<open>An accepted request is active until some decision was taken at or after its expiry.\<close>

definition run_inv :: "stub_bridge \<Rightarrow> (escalation_request \<times> u64 \<times> bridge_outcome) list \<Rightarrow> bool" where
  "run_inv b log \<longleftrightarrow>
     bt_ok (sb_active_deduplication b)
     \<and> (\<forall>k ex rid. bt_get (sb_active_deduplication b) k = Some (ex, rid) \<longrightarrow>
          (\<exists>q t x. (q, t, x) \<in> set log \<and> was_run x \<and> rq_deduplication_key q = k \<and> rq_expires_at_ms q = ex))
     \<and> (\<forall>q t x. (q, t, x) \<in> set log \<longrightarrow> was_run x \<longrightarrow>
          bt_get (sb_active_deduplication b) (rq_deduplication_key q) = Some (rq_expires_at_ms q, rq_request_id q)
          \<or> (\<exists>q' t' x'. (q', t', x') \<in> set log \<and> rq_expires_at_ms q \<le> t'))"

text \<open>The accepted requests for one question that are still open.\<close>

definition running :: "(escalation_request \<times> u64 \<times> bridge_outcome) list \<Rightarrow> digest \<Rightarrow> u64 \<Rightarrow> escalation_request list" where
  "running log key now = map fst (filter (\<lambda>(q, t, x). was_run x \<and> rq_deduplication_key q = key
     \<and> now < rq_expires_at_ms q) log)"

lemma swept_get:
  assumes "bt_ok (sb_active_deduplication b)"
  shows "bt_get (sb_active_deduplication (swept now b)) k = Some (ex, rid) \<longleftrightarrow>
    bt_get (sb_active_deduplication b) k = Some (ex, rid) \<and> now < ex"
  using assms by (auto simp: swept_def bt_get_retain split: option.splits if_splits)

lemma running_iff:
  assumes inv: "run_inv b log" and late: "\<forall>(q, t, x) \<in> set log. t \<le> now"
  shows "bt_get (sb_active_deduplication (swept now b)) key = None \<longleftrightarrow> running log key now = []"
proof
  assume free: "bt_get (sb_active_deduplication (swept now b)) key = None"
  have "rq_expires_at_ms q \<le> now"
    if q: "(q, t, x) \<in> set log" "was_run x" "rq_deduplication_key q = key" for q t x
  proof (rule ccontr)
    assume "\<not> rq_expires_at_ms q \<le> now"
    moreover from this have "\<nexists>q' t' x'. (q', t', x') \<in> set log \<and> rq_expires_at_ms q \<le> t'" using late by force
    then have "bt_get (sb_active_deduplication b) key = Some (rq_expires_at_ms q, rq_request_id q)"
      using inv q unfolding run_inv_def by metis
    ultimately show False using free inv by (simp add: swept_def bt_get_retain run_inv_def not_le)
  qed
  then show "running log key now = []" by (fastforce simp: running_def filter_empty_conv not_less)
next
  assume "running log key now = []"
  then have over: "\<not> now < rq_expires_at_ms q"
    if "(q, t, x) \<in> set log" "was_run x" "rq_deduplication_key q = key" for q t x
    using that by (auto simp: running_def filter_empty_conv)
  have "ex \<le> now" if act: "bt_get (sb_active_deduplication b) key = Some (ex, rid)" for ex rid
  proof -
    obtain q t x where "(q, t, x) \<in> set log" "was_run x" "rq_deduplication_key q = key" "rq_expires_at_ms q = ex"
      using inv act unfolding run_inv_def by metis
    then show ?thesis using over [of q t x] by (simp add: not_less)
  qed
  moreover have "bt_ok (sb_active_deduplication b)" using inv by (simp add: run_inv_def)
  ultimately show "bt_get (sb_active_deduplication (swept now b)) key = None"
    by (auto simp: swept_def bt_get_retain not_less split: option.split)
qed

lemma run_inv_decided: "decided sha b log \<Longrightarrow> run_inv b log"
proof (induction rule: decided.induct)
  case (new bid clock)
  then show ?case by (simp add: run_inv_def bridge_new_def)
next
  case (available b log a)
  then show ?case by (simp add: run_inv_def set_available_def)
next
  case (answered b log now r b' x)
  let ?log = "(r, now, x) # log" and ?d = "bridge_decide sha r now (swept now b)"
  have ok: "bt_ok (sb_active_deduplication b)" using answered.IH by (simp add: run_inv_def)
  have x: "x = ?d" and act: "sb_active_deduplication b' = (if was_run x
      then bt_insert (rq_deduplication_key r) (rq_expires_at_ms r, rq_request_id r) (sb_active_deduplication (swept now b))
      else sb_active_deduplication (swept now b))"
    using handle_fresh [OF answered.hyps(3), of sha now] answered.hyps(4) by simp_all
  note get = swept_get [OF ok, of now]
  have free: "bt_get (sb_active_deduplication (swept now b)) (rq_deduplication_key r) = None" if "was_run x"
    using that by (simp add: x decide_accept_iff)
  show ?case
    unfolding run_inv_def
  proof (intro conjI allI impI)
    show "bt_ok (sb_active_deduplication b')" using ok by (auto simp: act swept_def bt_ok_retain bt_ok_insert)
  next
    fix k ex rid
    assume "bt_get (sb_active_deduplication b') k = Some (ex, rid)"
    then consider "was_run x" "k = rq_deduplication_key r" "ex = rq_expires_at_ms r"
      | "bt_get (sb_active_deduplication b) k = Some (ex, rid)"
      using get by (auto simp: act bt_get_insert split: if_splits)
    then show "\<exists>q t y. (q, t, y) \<in> set ?log \<and> was_run y \<and> rq_deduplication_key q = k \<and> rq_expires_at_ms q = ex"
    proof cases
      case 2
      then show ?thesis using answered.IH unfolding run_inv_def by (meson list.set_intros(2))
    qed auto
  next
    fix q t y
    assume q: "(q, t, y) \<in> set ?log" "was_run y"
    show "bt_get (sb_active_deduplication b') (rq_deduplication_key q) = Some (rq_expires_at_ms q, rq_request_id q)
      \<or> (\<exists>q' t' x'. (q', t', x') \<in> set ?log \<and> rq_expires_at_ms q \<le> t')" (is "?L \<or> ?R")
    proof (cases "(q, t, y) = (r, now, x) \<or> rq_expires_at_ms q \<le> now")
      case True
      then show ?thesis using q(2) by (auto simp: act bt_get_insert)
    next
      case False
      then have old: "(q, t, y) \<in> set log" and fresh: "now < rq_expires_at_ms q" using q by auto
      then consider "bt_get (sb_active_deduplication b) (rq_deduplication_key q) = Some (rq_expires_at_ms q, rq_request_id q)"
        | "\<exists>q' t' x'. (q', t', x') \<in> set log \<and> rq_expires_at_ms q \<le> t'"
        using answered.IH q(2) unfolding run_inv_def by blast
      then show ?thesis
      proof cases
        case 1
        then have "bt_get (sb_active_deduplication (swept now b)) (rq_deduplication_key q)
          = Some (rq_expires_at_ms q, rq_request_id q)" using get fresh by simp
        then show ?thesis using free by (auto simp: act bt_get_insert)
      qed auto
    qed
  qed
qed


text \<open>
  C15: when the bridge runs a diagnostic. It accepts a request it has not answered yet, and returns a
  receipt with the acceptance, if and only if the request validates, is on the bridge's clock, has been
  created and has not expired, names the one registered profile, fits its bounds, the bridge is
  available, and no request it accepted for the same question is still open; so at most one run is open
  per question.
\<close>

theorem bridge_runs_iff:
  assumes log: "decided sha b log" and late: "\<forall>(q, t, x) \<in> set log. t \<le> now"
    and fresh: "bt_get (sb_outcomes b) (rq_request_id r) = None" and run: "handle sha r now b = (b', x)"
  shows "(was_run x \<longleftrightarrow> request_validate sha r = Inr () \<and> rq_clock_id r = sb_clock_id b
      \<and> rq_created_at_ms r \<le> now \<and> now < rq_expires_at_ms r \<and> rq_diagnostic_profile r = sb_profile b
      \<and> sb_available b \<and> fits_within (rq_bounds r) (sb_bounds b)
      \<and> running log (rq_deduplication_key r) now = [])
    \<and> (bo_receipt x \<noteq> None \<longleftrightarrow> was_run x)
    \<and> (was_run x \<longrightarrow> running ((r, now, x) # log) (rq_deduplication_key r) now = [r]
         \<and> ed_kind (bo_disposition x) = Accept (rq_bounds r))"
proof -
  have x: "x = bridge_decide sha r now (swept now b)" using handle_fresh(1) [OF fresh, of sha now] run by simp
  have swept: "sb_clock_id (swept now b) = sb_clock_id b" "sb_profile (swept now b) = sb_profile b"
    "sb_available (swept now b) = sb_available b" "sb_bounds (swept now b) = sb_bounds b"
    by (simp_all add: swept_def)
  note iff = decide_accept_iff [of sha r now "swept now b", folded x, unfolded swept
      running_iff [OF run_inv_decided [OF log] late]]
  have "running ((r, now, x) # log) (rq_deduplication_key r) now = [r]
    \<and> ed_kind (bo_disposition x) = Accept (rq_bounds r)" if "was_run x"
    using that iff decide_accepted [of sha r now "swept now b", folded x]
    by (simp add: running_def bridge_accept_def bridge_disposition_def)
  moreover have "bo_receipt x \<noteq> None \<longleftrightarrow> was_run x"
    using decide_receipt [of sha r now "swept now b"] by (simp add: x)
  ultimately show ?thesis using iff by (simp add: request_validate_ok)
qed

definition sample_bridge :: stub_bridge where
  "sample_bridge = bridge_new sample_sha ''bridge-1'' ''clock-1''"

definition sample_request :: escalation_request where
  "sample_request =
     (let q = \<lparr>rq_schema_version = SCHEMA_VERSION_V1, rq_request_id = ''request-1'',
          rq_subject_scope = \<lparr>ss_subject = ''host-a'', ss_subject_incarnation = ''boot-1'', ss_scope = ''host''\<rparr>,
          rq_consumer = ''display'', rq_trigger_class = CoverageCollapse,
          rq_evidence_window_digest = sample_digest, rq_policy_generation = ''policy-1'',
          rq_observation_policy_generation = ''gen-1'',
          rq_diagnostic_profile = stub_profile_identity sample_sha,
          rq_bounds = \<lparr>db_maximum_runtime_ms = 25, db_maximum_output_bytes = 1024, db_maximum_observations = 4\<rparr>,
          rq_clock_id = ''clock-1'', rq_created_at_ms = 1100, rq_expires_at_ms = 1600,
          rq_deduplication_key = [], rq_causal_transition_id = ''transition-1'',
          rq_nonclaims = ESCALATION_NONCLAIMS\<rparr>
      in q\<lparr>rq_deduplication_key := compute_deduplication_key sample_sha q\<rparr>)"


lemma sample_request_ok: "request_ok sample_sha sample_request"
proof -
  have "list_all good_identity [''request-1'', ''display'', ''policy-1'', ''gen-1'', ''clock-1'', ''transition-1'',
    ''host-a'', ''boot-1'', ''host'']" by code_simp
  moreover have "digest_validate (dp_semantic_digest (stub_profile_identity sample_sha)) = Inr ()"
    by (simp add: stub_profile_identity_def sample_digest_parts)
  ultimately show ?thesis
    by (simp add: request_ok_def sample_request_def Let_def sample_digest_ok is_nonzero_def
        subject_scope_validate_ok stub_profile_identity_def STUB_PROFILE_NAME_def STUB_PROFILE_VERSION_def
        compute_deduplication_key_def deduplication_parts_def)
qed

text \<open>The request is accepted at 1101; the same question under another identity at 1200 is not.\<close>

theorem bridge_runs_iff_witness:
  "was_run (snd (handle sample_sha sample_request 1101 sample_bridge))
   \<and> \<not> was_run (snd (handle sample_sha (sample_request\<lparr>rq_request_id := ''request-2''\<rparr>) 1200
        (fst (handle sample_sha sample_request 1101 sample_bridge))))"
proof -
  let ?q = "sample_request\<lparr>rq_request_id := ''request-2''\<rparr>"
  obtain b1 x1 where h1: "handle sample_sha sample_request 1101 sample_bridge = (b1, x1)" by fastforce
  obtain b2 x2 where h2: "handle sample_sha ?q 1200 b1 = (b2, x2)" by fastforce
  have d0: "decided sample_sha sample_bridge []" unfolding sample_bridge_def by (rule decided.new)
  have f: "bt_get (sb_outcomes sample_bridge) rid = None" for rid by (simp add: sample_bridge_def bridge_new_def)
  have r: "rq_clock_id sample_request = ''clock-1''" "rq_created_at_ms sample_request = 1100"
    "rq_expires_at_ms sample_request = 1600" "rq_diagnostic_profile sample_request = stub_profile_identity sample_sha"
    "rq_bounds sample_request = \<lparr>db_maximum_runtime_ms = 25, db_maximum_output_bytes = 1024, db_maximum_observations = 4\<rparr>"
    "rq_request_id sample_request = ''request-1''" by (simp_all add: sample_request_def Let_def)
  have run: "was_run x1"
    using bridge_runs_iff [OF d0 _ f h1] sample_request_ok
    by (simp add: request_validate_ok r running_def) (simp add: sample_bridge_def bridge_new_def fits_within_def)
  have d1: "decided sample_sha b1 [(sample_request, 1101, x1)]"
    by (rule decided.answered [OF d0 _ f h1]) simp
  have g: "bt_get (sb_outcomes b1) (rq_request_id ?q) = None"
    using handle_fresh(2) [OF f, of sample_sha sample_request 1101] h1 f [of "''request-2''"]
    by (simp add: bt_get_insert r)
  have "\<not> was_run x2"
    using bridge_runs_iff [OF d1 _ g h2] run by (simp add: running_def r)
  then show ?thesis using run h1 h2 by simp
qed


text \<open>Deferred while the bridge is unavailable, the request is still deferred once it is available.\<close>

theorem bridge_answer_is_final_witness:
  "let (b, x) = handle sample_sha sample_request 1101 (set_available False sample_bridge);
       b2 = set_available True b
   in \<not> was_run x \<and> handle sample_sha sample_request 1102 b2 = (b2, x)"
proof -
  let ?b = "set_available False sample_bridge"
  have f: "bt_get (sb_outcomes ?b) rid = None" for rid by (simp add: sample_bridge_def bridge_new_def set_available_def)
  have d: "decided sample_sha ?b []"
    unfolding sample_bridge_def by (rule decided.available [OF decided.new])
  obtain b x where h: "handle sample_sha sample_request 1101 ?b = (b, x)" by fastforce
  have "\<not> was_run x"
    using handle_fresh(1) [OF f, of sample_sha sample_request 1101] h
    by (auto simp: decide_accept_iff swept_def set_available_def)
  then show ?thesis
    using bridge_answer_is_final [OF refl refl, of sample_sha sample_request 1102 "[SetAvailable True]" 1101 ?b] h
    by simp
qed

section \<open>The bridge and the evaluator\<close>

text \<open>
  What an evaluator needs of whoever answers its requests: a disposition that names the request, the
  answerer, its clock and the time, and a receipt that binds the request.
\<close>

locale diagnostic_responder =
  fixes respond :: "escalation_request \<Rightarrow> u64 \<Rightarrow> bridge_outcome" and bridge :: bridge_id and clock :: clock_id
  assumes disposition_schema: "ed_schema_version (bo_disposition (respond r now)) = SCHEMA_VERSION_V1"
    and disposition_binds: "ed_request_id (bo_disposition (respond r now)) = rq_request_id r"
      "ed_bridge_id (bo_disposition (respond r now)) = bridge" "ed_clock_id (bo_disposition (respond r now)) = clock"
      "ed_decided_at_ms (bo_disposition (respond r now)) = now"
    and receipt_binds: "bo_receipt (respond r now) = Some rc \<Longrightarrow>
      \<not> receipt_unbound rc r clock (dr_completed_at_ms rc)"
begin

lemma disposition_recorded:
  assumes "bt_get (e_issued_requests e) (rq_request_id r) = Some r" and "e_clock_id e = clock" and "bridge \<noteq> []"
  obtains e' out where "run_op sha (RecordDisposition (bo_disposition (respond r now)) now) e = (e', Inr out)"
proof -
  have "snd (run_op sha (RecordDisposition (bo_disposition (respond r now)) now) e) \<noteq> Inl err" for err
    using assms by (simp add: record_escalation_disposition_def disposition_schema disposition_binds
        bt_contains_def sparse_event_def prepend_event_def Let_def case_prod_unfold evaluate_returns)
  then show thesis
    using that by (cases "run_op sha (RecordDisposition (bo_disposition (respond r now)) now) e")
      (auto simp del: run_op.simps, metis Inl_Inr_False obj_sumE)
qed

lemma receipt_recorded:
  assumes "bt_get (e_issued_requests e) (rq_request_id r) = Some r" and "e_clock_id e = clock"
    and rc: "bo_receipt (respond r now) = Some rc"
  obtains e' out where "run_op sha (RecordReceipt rc (dr_completed_at_ms rc)) e = (e', Inr out)"
proof -
  have bound: "\<not> receipt_unbound rc r clock (dr_completed_at_ms rc)" by (rule receipt_binds [OF rc])
  then have "dr_request_id rc = rq_request_id r" by (simp add: receipt_unbound_def)
  then have "snd (run_op sha (RecordReceipt rc (dr_completed_at_ms rc)) e) \<noteq> Inl err" for err
    using assms bound by (simp add: record_diagnostic_receipt_def sparse_event_def prepend_event_def Let_def
        case_prod_unfold evaluate_returns)
  then show thesis
    using that by (cases "run_op sha (RecordReceipt rc (dr_completed_at_ms rc)) e")
      (auto simp del: run_op.simps, metis Inl_Inr_False obj_sumE)
qed

end


lemma swept_ids: "sb_bridge_id (swept now b) = sb_bridge_id b" "sb_clock_id (swept now b) = sb_clock_id b"
  by (simp_all add: swept_def)

interpretation stub: diagnostic_responder "\<lambda>r now. bridge_decide sha r now (swept now b)" "sb_bridge_id b" "sb_clock_id b"
  for sha b
proof
  fix r now rc
  assume rc: "bo_receipt (bridge_decide sha r now (swept now b)) = Some rc"
  have completed: "dr_completed_at_ms (bridge_receipt sha (swept now b) r now) = sat_add now 1"
    and "dr_started_at_ms (bridge_receipt sha (swept now b) r now) = now"
    by (simp_all add: bridge_receipt_def Let_def)
  then have "\<not> receipt_unbound (bridge_receipt sha (swept now b) r now) r (sb_clock_id b) (sat_add now 1)"
    by (simp add: receipt_unbound_def not_less sat_add_ge) (simp add: bridge_receipt_def Let_def swept_def)
  then show "\<not> receipt_unbound rc r (sb_clock_id b) (dr_completed_at_ms rc)"
    unfolding decide_receipt_eq [OF rc] completed .
qed (simp_all only: decide_binds swept_ids)

text \<open>An evaluation that does not follow a CURRENT judgment leaves the escalation as it is.\<close>

lemma escalation_state_steps [step_simps]:
  "e_escalation_state (evaluation_metrics d e) = e_escalation_state e"
  "e_escalation_state (update_failure_metrics c now e) = e_escalation_state e"
  "e_escalation_state (update_stale_positive_metric j now dl e) = e_escalation_state e"
  "e_escalation_state (evaluation_expiries now e) = e_escalation_state e"
  "e_escalation_state (fst (evaluation_clock rn e)) = e_escalation_state e"
  by (simp_all add: evaluation_metrics_def update_failure_metrics_def evaluation_expiries_def
      update_stale_positive_metric_def evaluation_clock_def go_blind_def monitor_event_def
      sparse_event_def Let_def split: option.split)

lemma escalation_state_transition [step_simps]:
  "e_escalation_state (fst (evaluation_transition sha j now e)) = e_escalation_state e"
  by (simp add: evaluation_transition_def build_transition_def Let_def step_simps)

lemma escalating_state: "e_escalation_state (escalating sha rn e) = e_escalation_state e"
  by (simp add: escalating_def Let_def step_simps evaluated_state_def)

lemma evaluate_escalation_kept:
  assumes "map_option ju_category (e_last_judgment e) \<noteq> Some Current"
  shows "e_escalation_state (fst (evaluate sha rn e)) = e_escalation_state e"
    and "eo_escalation_request (evaluated_output sha rn e) = None"
proof -
  have last: "e_last_judgment (evaluation_metrics (evaluated_derived rn e) (evaluated_state rn e)) = e_last_judgment e"
    by (simp add: evaluation_metrics_def evaluated_state_def evaluation_expiries_def clock_fields)
  have from': "jt_from t \<noteq> Some Current" if "eo_transition (evaluated_output sha rn e) = Some t" for t
    using evaluation_transition_ends(1) [OF that [unfolded evaluate_escalation(3)]] assms by (simp add: last)
  then have "evaluation_escalation sha (e_reevaluation_barrier e) (eo_transition (evaluated_output sha rn e))
      (evaluated_judgment sha rn e) (evaluated_now rn e) (escalating sha rn e) = (escalating sha rn e, None)"
    by (auto simp: evaluation_escalation_def maybe_escalate_def split: option.split)
  then show "e_escalation_state (fst (evaluate sha rn e)) = e_escalation_state e"
    "eo_escalation_request (evaluated_output sha rn e) = None"
    by (simp_all add: evaluate_desk(2) evaluate_escalation(1,2) escalating_state)
qed

lemma recorded_state:
  assumes "run_op sha op e = (e', Inr out)" and "op \<in> {RecordDisposition d now, RecordReceipt rc now}"
    and "map_option ju_category (e_last_judgment e) \<noteq> Some Current"
  shows "e_escalation_state e' = e_escalation_state (prepared sha op e)" and "eo_escalation_request out = None"
    and "e_issued_requests e' = e_issued_requests e"
proof -
  have last: "map_option ju_category (e_last_judgment (prepared sha op e)) \<noteq> Some Current"
    using assms(3) by (simp del: prepared.simps)
  note kept = evaluate_escalation_kept [OF last, of sha "op_time op"]
  show "e_escalation_state e' = e_escalation_state (prepared sha op e)" "eo_escalation_request out = None"
    using kept run_op_ok(1,4) [OF assms(1)] by simp_all
  have "quiet (escalating sha (op_time op) (prepared sha op e)) e'"
    using evaluate_requests [where sha = sha and rn = "op_time op" and e = "prepared sha op e"] kept(2)
    by (simp add: run_op_ok(1) [OF assms(1)])
  then show "e_issued_requests e' = e_issued_requests e"
    using escalating_fields(1) [of sha "op_time op" "prepared sha op e"] by (simp add: quiet_def desk_def)
qed


lemma issued_request:
  assumes run: "run_op sha op e = (e', Inr out)" and r: "eo_escalation_request out = Some r"
  shows "bt_get (e_issued_requests e') (rq_request_id r) = Some r" and "request_ok sha r"
    and "rq_clock_id r = e_clock_id e'" and "map_option ju_category (e_last_judgment e') \<noteq> Some Current"
proof -
  let ?p = "prepared sha op e" and ?rn = "op_time op"
  have req: "issues sha r (evaluated_now ?rn ?p) (escalating sha ?rn ?p) e'"
    "ds_category (evaluated_derived ?rn ?p) \<noteq> Current"
    using evaluate_requests [where sha = sha and rn = ?rn and e = ?p] r
    by (simp_all add: run_op_ok(1,4) [OF run])
  then show "bt_get (e_issued_requests e') (rq_request_id r) = Some r" "request_ok sha r"
    by (auto simp: issues_def desk_def bt_get_insert)
  show "rq_clock_id r = e_clock_id e'"
    using req(1) by (simp add: issues_def escalating_fields run_op_ok(1) [OF run])
  show "map_option ju_category (e_last_judgment e') \<noteq> Some Current"
    using req(2) by (simp add: run_op_time(3) [OF run] run_op_ok(2) [OF run])
qed

text \<open>
  C16: the bridge closes the escalation the evaluator opened. If an operation returns a request, and a
  bridge with a non-empty identity and on the evaluator's clock, which has not answered that request yet,
  handles it, at any time, then the evaluator in the state that operation left accepts the disposition,
  and its escalation takes the state that names it; and if there is a receipt, the evaluator accepts that
  too, at the time the run completed. If the judgment returned with the disposition is not CURRENT, the
  receipt completes the escalation.
\<close>

theorem bridge_closes_escalation:
  assumes run: "run_op sha op e0 = (e, Inr out)" and r: "eo_escalation_request out = Some r"
    and clock: "sb_clock_id b = e_clock_id e" and bridge: "sb_bridge_id b \<noteq> []"
    and fresh: "bt_get (sb_outcomes b) (rq_request_id r) = None" and h: "handle sha r now b = (b', x)"
  shows "\<exists>e1 out1. record_escalation_disposition sha (bo_disposition x) now e = (e1, Inr out1)
     \<and> e_escalation_state e1 = disposition_state (bo_disposition x) \<and> eo_escalation_request out1 = None
     \<and> (\<forall>rc. bo_receipt x = Some rc \<longrightarrow>
          (\<exists>e2 out2. record_diagnostic_receipt sha rc (dr_completed_at_ms rc) e1 = (e2, Inr out2)
             \<and> (ju_category (eo_judgment out1) \<noteq> Current \<longrightarrow>
                  e_escalation_state e2 = Completed (rq_request_id r) (dr_receipt_id rc))))"
proof -
  note issued = issued_request [OF run r]
  have x: "x = bridge_decide sha r now (swept now b)" using handle_fresh(1) [OF fresh, of sha now] h by simp
  obtain e1 out1 where d: "run_op sha (RecordDisposition (bo_disposition x) now) e = (e1, Inr out1)"
    using stub.disposition_recorded [OF issued(1) clock [symmetric] bridge] unfolding x by blast
  note state = recorded_state [OF d insertI1 issued(4)]
  have clock1: "e_clock_id e1 = sb_clock_id b" by (simp add: run_op_ok(1) [OF d] clock del: prepared.simps)
  have "\<exists>e2 out2. run_op sha (RecordReceipt rc (dr_completed_at_ms rc)) e1 = (e2, Inr out2)
      \<and> (ju_category (eo_judgment out1) \<noteq> Current \<longrightarrow> e_escalation_state e2 = Completed (rq_request_id r) (dr_receipt_id rc))"
    if rc: "bo_receipt x = Some rc" for rc
  proof -
    have id: "dr_request_id rc = rq_request_id r"
      using stub.receipt_binds [OF rc [unfolded x]] by (simp add: receipt_unbound_def)
    obtain e2 out2 where rr: "run_op sha (RecordReceipt rc (dr_completed_at_ms rc)) e1 = (e2, Inr out2)"
      using stub.receipt_recorded [OF _ clock1 rc [unfolded x]] issued(1) state(3) by metis
    have "e_escalation_state e2 = Completed (rq_request_id r) (dr_receipt_id rc)"
      if "ju_category (eo_judgment out1) \<noteq> Current"
      using recorded_state(1) [OF rr, of undefined "dr_completed_at_ms rc" rc] that
      by (simp add: run_op_time(3) [OF d] id step_simps)
    then show ?thesis using rr by blast
  qed
  then show ?thesis using d state by (auto simp: step_simps)
qed


definition sample_registry :: stub_bridge where
  "sample_registry = sample_bridge\<lparr>sb_profile := \<lparr>dp_name = ''local.readonly.summary'', dp_version = 1,
     dp_semantic_digest = sample_digest\<rparr>\<rparr>"

text \<open>The request of the sample evaluator is run at 1101 and its receipt completes the escalation.\<close>

theorem bridge_closes_escalation_witness:
  "\<exists>e out r b x e1 out1 rc e2 out2. run_op sample_sha (Tick 1100) sample_current = (e, Inr out)
     \<and> eo_escalation_request out = Some r \<and> handle sample_sha r 1101 sample_registry = (b, x)
     \<and> record_escalation_disposition sample_sha (bo_disposition x) 1101 e = (e1, Inr out1)
     \<and> e_escalation_state e1 = disposition_state (bo_disposition x) \<and> bo_receipt x = Some rc
     \<and> record_diagnostic_receipt sample_sha rc (dr_completed_at_ms rc) e1 = (e2, Inr out2)"
proof -
  obtain e out r where run: "run_op sample_sha (Tick 1100) sample_current = (e, Inr out)"
    and r: "eo_escalation_request out = Some r" "rq_created_at_ms r = 1100" "rq_expires_at_ms r = 1600"
    by (rule sample_asks)
  obtain b x where h: "handle sample_sha r 1101 sample_registry = (b, x)" by fastforce
  have f: "bt_get (sb_outcomes sample_registry) (rq_request_id r) = None"
    by (simp add: sample_registry_def sample_bridge_def bridge_new_def)
  have clock: "sb_clock_id sample_registry = e_clock_id e" "sb_bridge_id sample_registry \<noteq> []"
    by (simp_all add: run_op_ok(1) [OF run] sample_registry_def sample_bridge_def bridge_new_def)
  have "drafted_from sample_policy r"
    using evaluate_requests [where sha = sample_sha and rn = 1100 and e = sample_current] r(1)
    by (simp add: run_op_ok(4) [OF run])
  then have "rq_diagnostic_profile r = sb_profile sample_registry" "fits_within (rq_bounds r) (sb_bounds sample_registry)"
    by (auto simp: drafted_from_def sample_policy_def sample_registry_def sample_bridge_def bridge_new_def fits_within_def)
  then have "was_run (bridge_decide sample_sha r 1101 (swept 1101 sample_registry))"
    using issued_request(2,3) [OF run r(1)] clock(1) r(2,3)
    by (simp add: decide_accept_iff swept_def) (simp add: sample_registry_def sample_bridge_def bridge_new_def bt_retain_def)
  then obtain rc where rc: "bo_receipt x = Some rc"
    using decide_receipt [of sample_sha r 1101 "swept 1101 sample_registry"] handle_fresh(1) [OF f, of sample_sha 1101] h
    by auto
  from bridge_closes_escalation [OF run r(1) clock f h] rc show ?thesis using run r(1) h by blast
qed

section \<open>What a diagnostic does not do\<close>

text \<open>Recording an answer or a receipt leaves all that a judgment is derived from.\<close>

lemma recorded_kept:
  "kept (prepared sha (RecordDisposition d at) e) = kept e" "kept (prepared sha (RecordReceipt rc at) e) = kept e"
  "e_reevaluation_barrier (prepared sha (RecordDisposition d at) e) = e_reevaluation_barrier e"
  "e_reevaluation_barrier (prepared sha (RecordReceipt rc at) e) = e_reevaluation_barrier e"
  by (simp_all add: step_simps) (simp_all add: kept_def hot_def)

lemma clock_kept_cong:
  assumes "kept e = kept e'" and "e_last_evaluation_ms e = e_last_evaluation_ms e'"
  shows "kept (fst (evaluation_clock rn e)) = kept (fst (evaluation_clock rn e'))"
    and "evaluated_now rn e = evaluated_now rn e'"
  using assms by (auto simp: evaluated_now_def evaluation_clock_def go_blind_def monitor_event_def sparse_event_def
      kept_def hot_def Let_def split: option.split)

lemma derived_cong:
  assumes "kept e = kept e'" and "e_last_evaluation_ms e = e_last_evaluation_ms e'"
    and "e_reevaluation_barrier e = e_reevaluation_barrier e'"
  shows "evaluated_derived rn e = evaluated_derived rn e'"
proof -
  have "hot (evaluated_state rn e) = hot (evaluated_state rn e')"
    using kept_hot [OF clock_kept_cong(1) [OF assms(1,2), of rn]] by (simp add: evaluated_state_hot)
  then show ?thesis
    using hot_derive [of "evaluated_state rn e" "evaluated_state rn e'"] clock_kept_cong(2) [OF assms(1,2), of rn]
      assms(3) by (simp add: evaluated_derived_def)
qed

text \<open>
  C17: a diagnostic gives no standing. Recording a bridge's disposition or a diagnostic receipt yields
  the judgment a bare tick at that time would yield, with the same category, dimensions, coverage and
  deadline, and leaves the evidence, its expiries, the contradictions, the subject incarnation and the
  monitor capability as the tick would.
\<close>

theorem diagnostics_give_no_standing:
  assumes op: "op = RecordDisposition d at \<or> op = RecordReceipt rc at"
    and run: "run_op sha op e = (e1, Inr out1)" and tick: "run_op sha (Tick at) e = (e2, Inr out2)"
  shows "ju_category (eo_judgment out1) = ju_category (eo_judgment out2)
    \<and> ju_dimensions (eo_judgment out1) = ju_dimensions (eo_judgment out2)
    \<and> ju_coverage (eo_judgment out1) = ju_coverage (eo_judgment out2)
    \<and> ju_support_expires_at_ms (eo_judgment out1) = ju_support_expires_at_ms (eo_judgment out2)
    \<and> e_observers e1 = e_observers e2 \<and> e_contradictions e1 = e_contradictions e2
    \<and> e_current_subject_incarnation e1 = e_current_subject_incarnation e2
    \<and> e_monitor_capability e1 = e_monitor_capability e2"
proof -
  have t: "op_time op = at" using op by auto
  have k: "kept (prepared sha op e) = kept e" "e_reevaluation_barrier (prepared sha op e) = e_reevaluation_barrier e"
    using op recorded_kept by metis+
  have "evaluated_derived at (prepared sha op e) = evaluated_derived at e"
    by (rule derived_cong) (simp_all only: k prepared_fields)
  moreover have "kept e1 = kept e2"
    using clock_kept_cong(1) [OF k(1), of at]
    by (simp add: run_op_ok(1) [OF run] run_op_ok(1) [OF tick] evaluate_kept t)
  ultimately show ?thesis
    by (simp add: run_op_ok(2) [OF run] run_op_ok(2) [OF tick] t kept_def hot_def)
qed

text \<open>The receipt of the sample escalation leaves the judgment UNKNOWN, as a tick would.\<close>

theorem diagnostics_give_no_standing_witness:
  "\<exists>e d e1 out1 e2 out2. run_op sample_sha (RecordDisposition d 1101) e = (e1, Inr out1)
     \<and> run_op sample_sha (Tick 1101) e = (e2, Inr out2)
     \<and> ju_category (eo_judgment out1) = ju_category (eo_judgment out2)"
proof -
  obtain e out r where run: "run_op sample_sha (Tick 1100) sample_current = (e, Inr out)"
    and r: "eo_escalation_request out = Some r" by (rule sample_asks)
  have clock: "e_clock_id e = sb_clock_id sample_bridge" "sb_bridge_id sample_bridge \<noteq> []"
    by (simp_all add: run_op_ok(1) [OF run] sample_bridge_def bridge_new_def)
  obtain d e1 out1 where d: "run_op sample_sha (RecordDisposition d 1101) e = (e1, Inr out1)"
    using stub.disposition_recorded [OF issued_request(1) [OF run r] clock] by metis
  obtain e2 out2 where t: "run_op sample_sha (Tick 1101) e = (e2, Inr out2)"
    by (simp add: tick_def) (metis evaluate_pair)
  from diagnostics_give_no_standing [OF disjI1 [OF refl] d t] show ?thesis using d t by blast
qed

end
