(* ===== verification/RuntimeStanding.thy ===== *)
theory RuntimeStanding
  imports RuntimeRuns Bridge
begin

text \<open>
  The guarantees of the monitor runtime: what its operations do to the standing of its consumers and to
  the custody it keeps.
\<close>

section \<open>Scheduler runs\<close>

text \<open>
  C5: a scheduler run always returns. From any runtime and for any clock reading, \<open>run_until\<close> processes
  the due inputs and deadlines and ends with an output or an error: a deadline it reschedules is later
  than the clock, so the work due now only shrinks.
\<close>

theorem run_until_returns: "\<exists>rt' r. run_until en now rt = Some (rt', r)"
proof (cases "now < rt_current_ms rt")
  case False
  obtain c' res where "run_loop en now (begin_run now rt) = Some (c', res)" using run_loop_returns by (metis prod.collapse)
  with False show ?thesis by (cases res) (simp_all add: run_until_def split_beta Let_def)
qed (simp add: run_until_def split_beta Let_def)

text \<open>What a run that ends without an error leaves behind.\<close>

lemma take_not_current: "runtime_current (fst (take_pending_output rt)) k = runtime_current rt k"
  by (simp add: take_pending_output_def runtime_current_def)

lemma flush_not_current: "runtime_current (fst (flush_pending_output c)) k = runtime_current (fst c) k"
  using silent_flush [of c] by (simp add: silent_def runtime_current_def)

lemma latch_history_not_current:
  "\<not> rt_history_blindness_latched rt \<Longrightarrow> \<not> runtime_current (latch_history_blindness en at rt) k"
  by (simp add: latch_history_blindness_def latch_all_not_current)

lemma finish_run_current:
  "runtime_current (fst (finish_run en now c)) k \<Longrightarrow> rt_consumers (fst (finish_run en now c)) = rt_consumers (fst c)"
proof (cases "rt_history_exhausted (fst c) \<and> \<not> rt_history_blindness_latched (fst c)")
  case True
  then have "\<not> runtime_current (fst (finish_run en now c)) k"
    by (simp add: finish_run_def flush_not_current latch_history_not_current)
  then show "runtime_current (fst (finish_run en now c)) k \<Longrightarrow> ?thesis" by simp
next
  case False
  then show ?thesis
    using silent_flush [of "(fst c, snd c)"] by (auto simp: finish_run_def latch_history_blindness_def silent_def)
qed

lemma certificate_current: "current_certificate rt s c = Some cert \<Longrightarrow> sc_judgment cert = Current \<Longrightarrow> runtime_current rt (s, c)"
  by (auto simp: current_certificate_def runtime_current_def is_current_def split: option.splits)

text \<open>
  C4: nothing expired is CURRENT after a run. When every CURRENT certificate is valid and has its deadline
  scheduled (\<open>reachable_runtime_is_scheduled\<close> shows it of every reachable runtime), a run to time \<open>now\<close> that ends without an
  error leaves only CURRENT certificates that are valid, are held under their own subject and consumer
  and expire after \<open>now\<close>; a run whose clock went backwards leaves none.
\<close>

theorem current_after_run:
  assumes "runtime_ok en rt" and run: "run_until en now rt = Some (rt', Inr out)"
    and cert: "current_certificate rt' subject consumer = Some cert" "sc_judgment cert = Current"
  shows "rt_current_ms rt \<le> now \<and> certificate_validate (en_sha en) (en_custody en) cert = Inr ()
    \<and> sc_consumer cert = consumer \<and> ss_subject (sc_subject_scope cert) = subject
    \<and> (\<exists>d. sc_earliest_support_expiry_ms cert = Some d \<and> now < d)"
proof (cases "now < rt_current_ms rt")
  case True
  then have "\<not> runtime_current rt' (subject, consumer)"
    using run by (auto simp: run_until_def Let_def split_beta take_not_current latch_all_not_current)
  then show ?thesis using certificate_current [OF cert] by simp
next
  case False
  then obtain c' u where l: "run_loop en now (begin_run now rt) = Some (c', Inr u)" and rt': "rt' = fst (finish_run en now c')"
    using run by (auto simp: run_until_def Let_def split_beta split: option.splits sum.splits)
  have "runtime_ok en (fst c')"
    using advances_trans [OF adv_begin_run] run_loop_advances [OF l] assms(1) by (metis advances_def)
  moreover have "current_certificate (fst c') subject consumer = Some cert"
    using cert finish_run_current [OF certificate_current [OF cert, unfolded rt']]
    by (simp add: current_certificate_def rt')
  ultimately show ?thesis
    using certified_after_loop [OF _ _ _ cert(2)] run_loop_advances [OF l] False by (auto simp: is_ok_def)
qed

lemma sample_standing_run: "run_until sample_env 200 sample_standing =
    Some (fst (begin_run 200 sample_standing), Inr (snd (begin_run 200 sample_standing)))"
proof -
  have "next_due 200 (fst (begin_run 200 sample_standing)) = None"
    by (simp add: begin_run_def take_pending_output_def next_due_def next_pending_def next_schedule_def)
  then have "run_loop sample_env 200 (begin_run 200 sample_standing) = Some (begin_run 200 sample_standing, Inr ())"
    by (subst run_loop.simps) simp
  then show ?thesis
    by (simp add: run_until_def finish_run_def begin_run_def take_pending_output_def)
qed

theorem current_after_run_witness:
  "(\<exists>rt' out. run_until sample_env 200 sample_standing = Some (rt', Inr out)
     \<and> current_certificate rt' ''host-a'' ''display'' = Some sample_certificate)
   \<and> (\<exists>d. sc_earliest_support_expiry_ms sample_certificate = Some d \<and> 200 < d)"
proof -
  have "current_certificate (fst (begin_run 200 sample_standing)) ''host-a'' ''display'' = Some sample_certificate"
    by (simp add: current_certificate_def begin_run_def take_pending_output_def sample_key_def sample_state_def bt_get_def)
  then show ?thesis
    using current_after_run [OF sample_standing_ok sample_standing_run] sample_standing_run by auto
qed

text \<open>
  C6: in every reachable runtime each CURRENT certificate is valid, belongs to the consumer that holds
  it and has its expiry scheduled, and what the runtime stores stays within the configured bounds:
  sparse history, open requests, diagnostic receipts, receiver streams and pending inputs. Reachable is
  by starting or recovering and then by any sequence of registrations, activations, lifecycle facts,
  inputs, runs and declared blindness, with any arguments and whether or not they fail.
\<close>

theorem reachable_runtime_is_scheduled:
  assumes "runtime_reachable en rt"
  shows "runtime_ok en rt \<and> length (rt_sparse_history rt) \<le> mb_sparse_events (cf_bounds (rt_config rt))
    \<and> length (rt_request_owners rt) \<le> mb_active_escalations (cf_bounds (rt_config rt))
    \<and> length (rt_diagnostic_receipts rt) \<le> mb_diagnostic_receipts (cf_bounds (rt_config rt))
    \<and> length (rt_receiver_streams rt) \<le> mb_receiver_streams (cf_bounds (rt_config rt))
    \<and> length (rt_pending rt) \<le> mb_pending_inputs (cf_bounds (rt_config rt))"
  using reachable_ok [OF assms] by (simp add: runtime_within_def stored_within_def Let_def)

theorem reachable_runtime_is_scheduled_witness:
  "runtime_ok sample_env (fst (enqueue sample_env 100 (Reevaluate ''host-a'' ''display'')
      (fst (register_consumer sample_env sample_registration 10 sample_runtime))))"
  using reachable_runtime_is_scheduled
    [OF reach_enqueue [OF reach_register [OF reach_new [OF sample_runtime_new, of sample_env]]]] by blast

section \<open>Withdrawing standing\<close>

text \<open>
  C8: a refused input withdraws all standing, once. When \<open>enqueue\<close> refuses an input (the queue is full,
  time went backwards, the history or the ingress numbers are exhausted), the queue is unchanged and the
  recorded history is only appended to, and no consumer is CURRENT afterwards, with one exception: if the
  history is exhausted and blindness was latched for that before, every consumer keeps the certificate it
  has, also one it regained since through inputs that were already queued.
\<close>

theorem refused_input_withdraws_standing:
  assumes "enqueue en at input rt = (rt', Inl r)"
  shows "rt_pending rt' = rt_pending rt \<and> prefix (rt_sparse_history rt) (rt_sparse_history rt')
    \<and> (if rt_history_exhausted rt \<and> rt_history_blindness_latched rt then rt_consumers rt' = rt_consumers rt
       else \<not> runtime_current rt' k)"
proof -
  have l: "rt_history_blindness_latched (fst (refuse_input en cl t b n d rt)) = rt_history_blindness_latched rt"
    "rt_consumers (fst (refuse_input en cl t b n d rt)) = rt_consumers rt" for cl t b n d
    using silent_refuse_input [of rt en cl t b n d] by (simp_all add: silent_def)
  have "if rt_history_exhausted rt \<and> rt_history_blindness_latched rt then rt_consumers rt' = rt_consumers rt
      else \<not> runtime_current rt' k"
    using assms unfolding enqueue_def Let_def split_beta
    by (auto simp: latch_all_not_current latch_history_not_current latch_history_blindness_def l split: if_splits)
  then show ?thesis using enqueue_refused [OF assms] by (simp add: keeps_def grows_def)
qed

theorem refused_input_withdraws_standing_witness:
  "runtime_current sample_standing sample_key
   \<and> (\<exists>rt' r. enqueue sample_env 109 (Reevaluate ''host-a'' ''display'') sample_standing = (rt', Inl r)
        \<and> \<not> runtime_current rt' sample_key)"
proof -
  have "runtime_current sample_standing sample_key"
    by (simp add: runtime_current_def is_current_def bt_get_def sample_state_def)
  moreover obtain rt' r where e: "enqueue sample_env 109 (Reevaluate ''host-a'' ''display'') sample_standing = (rt', Inl r)"
    by (simp add: enqueue_def Let_def split_beta)
  moreover have "\<not> runtime_current rt' sample_key"
    using refused_input_withdraws_standing [OF e] by simp
  ultimately show ?thesis by blast
qed

text \<open>
  C7: only a qualified consumer is CURRENT. Applying an evaluation leaves its consumer CURRENT only if
  the evaluation is CURRENT and the qualified binding is intact: accepted and matched, for the
  consumer's own context, with an executable that still reads as activated and with every active
  artifact measured as it was at activation. Otherwise the consumer is not CURRENT afterwards, whatever
  it was before.
\<close>

theorem unqualified_is_not_current:
  assumes "bt_get (rt_consumers (fst c)) key = Some state"
    and "\<not> (ju_category (eo_judgment ev) = Current \<and> binding_intact en key state (fst c))"
  shows "\<not> runtime_current (fst (fst (apply_evaluation en key ev at c))) key"
  using apply_current [OF assms(1)] assms(2) by blast

theorem unqualified_is_not_current_witness:
  "\<exists>ev. ju_category (eo_judgment ev) = Current \<and> runtime_current sample_standing sample_key
     \<and> \<not> runtime_current (fst (fst (apply_evaluation sample_env sample_key ev 120 (sample_standing, output_default)))) sample_key"
proof -
  obtain ev where "run_op sample_sha (Ingest sample_received 110) sample_evaluator = (sample_current, Inr ev)"
    and cur: "ju_category (eo_judgment ev) = Current" by (rule sample_run)
  have "runtime_current sample_standing sample_key"
    by (simp add: runtime_current_def is_current_def bt_get_def sample_state_def)
  moreover have "\<not> binding_intact sample_env sample_key sample_state sample_standing"
    by (simp add: binding_intact_def bt_get_def)
  ultimately show ?thesis
    using cur unqualified_is_not_current [of "(sample_standing, output_default)" sample_key sample_state ev sample_env 120]
    by (auto simp: bt_get_def)
qed

section \<open>Restarts\<close>

lemma barrier_not_current:
  assumes "snd (install_reevaluation_barrier sha b at e) = Inr ev"
  shows "ju_category (eo_judgment ev) \<noteq> Current"
proof -
  obtain e' where run: "run_op sha (InstallBarrier b at) e = (e', Inr ev)"
    using assms by (metis prod.collapse run_op.simps(7))
  show ?thesis by (simp add: run_op_category(1) [OF run])
qed

lemma evaluates_others:
  "k \<noteq> key \<Longrightarrow> bt_get (rt_consumers (fst (fst (consumer_evaluates en key state result at c)))) k = bt_get (rt_consumers (fst c)) k"
  by (simp add: consumer_evaluates_def without_consumer_def put_consumer_def apply_others btree_simps split: sum.split)

lemma barred_not_current:
  "\<not> runtime_current (fst (fst (consumer_evaluates en key state
      (install_reevaluation_barrier sha b at e) at c))) key"
  using barrier_not_current apply_not_current
  by (auto simp: consumer_evaluates_def without_consumer_def runtime_current_def btree_simps split: sum.split)

lemma bar_each_not_current:
  "snd (bar_each en at keys c) = Inr u \<Longrightarrow> k \<in> set keys \<or> \<not> runtime_current (fst c) k \<Longrightarrow>
   \<not> runtime_current (fst (fst (bar_each en at keys c))) k"
proof (induction keys arbitrary: c)
  case (Cons key keys)
  obtain state where state: "bt_get (rt_consumers (fst c)) key = Some state"
    using Cons.prems(1) by (auto split: option.splits)
  define s where "s = consumer_evaluates en key state (install_reevaluation_barrier (en_sha en)
      (ReceiverRestart ''historical custody was recovered without hot evidence or current standing'')
      at (ks_evaluator state)) at c"
  have step: "bar_each en at (key # keys) c = cbind s (\<lambda>_. bar_each en at keys)" by (simp add: state s_def)
  obtain v where v: "snd s = Inr v" using Cons.prems(1) unfolding step cbind_def by (cases "snd s") auto
  have "k \<in> set keys \<or> \<not> runtime_current (fst (fst s)) k"
    using Cons.prems(2) barred_not_current [of en key state] evaluates_others [of k key en state]
    by (cases "k = key") (auto simp: s_def runtime_current_def)
  moreover have tail: "bar_each en at (key # keys) c = bar_each en at keys (fst s)"
    unfolding step by (simp add: cbind_def v)
  ultimately show ?case using Cons.IH Cons.prems(1) unfolding tail by blast
qed simp

text \<open>
  C9: a restart recovers custody and no standing. When \<open>recover\<close> succeeds, no consumer is CURRENT and no
  input is pending, whatever was recovered; the recovered sparse events are the beginning of the new
  history; and the runtime keeps its certificates scheduled and its bounds.
\<close>

theorem restart_recovers_no_standing:
  assumes "recover en config regs h at = Inr c"
  shows "\<not> runtime_current (fst c) k \<and> rt_pending (fst c) = []
    \<and> prefix (hs_sparse_events h) (rt_sparse_history (fst c)) \<and> runtime_ok en (fst c) \<and> runtime_within (fst c)"
proof -
  obtain rt0 rt1 rt3 out u where b: "snd (bar_each en at (consumer_keys None rt3) (rt3, out)) = Inr u"
    and c: "c = finish_recovery en at (fst (bar_each en at (consumer_keys None rt3) (rt3, out)))"
    by (rule recover_stages [OF assms])
  have "\<not> runtime_current (fst (fst (bar_each en at (consumer_keys None rt3) (rt3, out)))) k"
    by (rule bar_each_not_current [OF b]) (use current_is_consumer [of rt3 k] in auto)
  then have "\<not> runtime_current (fst c) k"
    using silent_record_sparse [of "fst (bar_each en at (consumer_keys None rt3) (rt3, out))"]
    by (simp add: c finish_recovery_def Let_def split_beta runtime_current_def silent_def)
  moreover obtain rt where new: "runtime_new config = Inr rt" and adv: "advances en (recover_history h rt) (fst c)"
    by (rule recover_advances [OF assms])
  ultimately show ?thesis
    using reachable_ok [OF reach_recover [OF assms]] new_ok [OF new, of en]
    by (auto simp: advances_def grows_def recover_history_def)
qed

definition sample_history :: runtime_historical_state where
  "sample_history =
     \<lparr>hs_schema_version = SCHEMA_VERSION_V1,
      hs_sparse_events = [\<lparr>ev_schema_version = SCHEMA_VERSION_V1, ev_event_id = ''event-1'', ev_at_ms = 5,
        ev_event = RuntimeRestarted ''r-boot-0'' ''clock-0'' 0 0 False\<rparr>],
      hs_contradictions = [], hs_diagnostic_receipts = [], hs_nonclaims = history_nonclaims\<rparr>"

theorem restart_recovers_no_standing_witness:
  "\<exists>c. recover sample_env sample_config [] sample_history 10 = Inr c
     \<and> prefix (hs_sparse_events sample_history) (rt_sparse_history (fst c))"
proof -
  have "\<not> history_over_capacity sample_config sample_history"
    by (simp add: history_over_capacity_def sample_history_def qualification_bounds_def)
  then obtain c where c: "recover sample_env sample_config [] sample_history 10 = Inr c"
    by (simp add: recover_def result_simps sample_config_ok sample_runtime_new history_validate_def sample_history_def
        recover_history_def blocking_contradictions_def consumer_keys_def)
  then show ?thesis using restart_recovers_no_standing [OF c] by blast
qed

section \<open>Receipts\<close>

text \<open>
  C37: a diagnostic receipt that does not bind its request takes its consumer out of the runtime. If the
  receipt store has room, the request has an owner (in a well-formed map of owners), the owner is
  registered and its evaluator issued the request, but the receipt does not bind it, then processing the receipt ends with the error
  \<open>receipt_binding_mismatch\<close> and the owner is no longer a consumer: it is removed before the receipt is
  checked and not put back when the check fails. The request keeps naming it as its owner, so that a
  disposition of that request at the start of the next run, with no registration in between, panics if
  the run is before the request expires, and ends without an error if it is not.
\<close>

theorem unbound_receipt_loses_consumer:
  assumes "length (rt_diagnostic_receipts (fst c)) < mb_diagnostic_receipts (cf_bounds (rt_config (fst c)))"
    and "bt_get (rt_request_owners (fst c)) (dr_request_id r) = Some (owner, deadline)"
    and "bt_get (rt_consumers (fst c)) owner = Some state"
    and "bt_get (e_issued_requests (ks_evaluator state)) (dr_request_id r) = Some q"
    and "receipt_unbound r q (e_clock_id (ks_evaluator state)) at" and "bt_ok (rt_request_owners (fst c))"
  shows "(\<exists>err. snd (process_receipt en r at c) = Inl (RuntimeFault err) \<and> re_code err = ''receipt_binding_mismatch'')
    \<and> bt_get (rt_consumers (fst (fst (process_receipt en r at c)))) owner = None
    \<and> (\<forall>d now. ed_request_id d = dr_request_id r \<longrightarrow>
         snd (process_disposition en d now (begin_run now (fst (fst (process_receipt en r at c))))) =
           (if now < deadline then Inl (RuntimePanic ''request owner consumer exists'') else Inr ()))"
proof -
  let ?err = "evaluator_error_new ''receipt_binding_mismatch'' ''diagnostic receipt does not exactly bind its request''"
  have r: "process_receipt en r at c =
      ((without_consumer owner (fst c), snd c), Inl (RuntimeFault (from_evaluator ?err)))"
    using assms by (simp add: process_receipt_def record_diagnostic_receipt_def consumer_evaluates_def)
  then show ?thesis
    using assms(2,6) by (simp add: from_evaluator_def runtime_error_new_def evaluator_error_new_def
        process_disposition_def without_consumer_def begin_run_def take_pending_output_def bt_get_retain btree_simps)
qed

definition sample_owner :: runtime where
  "sample_owner = sample_standing\<lparr>
     rt_consumers := [(sample_key, sample_state\<lparr>ks_evaluator :=
       sample_current\<lparr>e_issued_requests := [(''request-1'', sample_request)]\<rparr>\<rparr>)],
     rt_request_owners := [(''request-1'', (sample_key, 1600))]\<rparr>"

definition foreign_receipt :: diagnostic_receipt where
  "foreign_receipt =
     \<lparr>dr_schema_version = SCHEMA_VERSION_V1, dr_receipt_id = ''receipt-1'', dr_run_id = ''run-1'',
      dr_request_id = ''request-1'', dr_causal_transition_id = rq_causal_transition_id sample_request,
      dr_deduplication_key = rq_deduplication_key sample_request,
      dr_evidence_window_digest = rq_evidence_window_digest sample_request,
      dr_subject_scope = rq_subject_scope sample_request, dr_consumer = rq_consumer sample_request,
      dr_policy_generation = rq_policy_generation sample_request,
      dr_observation_policy_generation = rq_observation_policy_generation sample_request,
      dr_diagnostic_profile = rq_diagnostic_profile sample_request, dr_bridge_id = ''bridge-1'',
      dr_clock_id = ''clock-2'', dr_started_at_ms = 1110, dr_completed_at_ms = 1120,
      dr_applicable_until_ms = 1400, dr_status = DiagnosticCompleted, dr_results = [], dr_observed_coverage = [],
      dr_result_digest = sample_digest, dr_nonclaims = [], dr_mutation_authority = NoAuthority\<rparr>"

theorem unbound_receipt_loses_consumer_witness:
  "bt_contains (rt_consumers sample_owner) sample_key
   \<and> bt_get (rt_consumers (fst (fst (process_receipt sample_env foreign_receipt 1130 (sample_owner, output_default))))) sample_key
     = None"
proof -
  have "receipt_unbound foreign_receipt sample_request ''clock-1'' 1130"
    by (simp add: receipt_unbound_def foreign_receipt_def)
  then show ?thesis
    using unbound_receipt_loses_consumer [of "(sample_owner, output_default)" foreign_receipt sample_key 1600
        "sample_state\<lparr>ks_evaluator := sample_current\<lparr>e_issued_requests := [(''request-1'', sample_request)]\<rparr>\<rparr>"
        sample_request 1130 sample_env]
    by (simp add: sample_owner_def bt_get_def bt_contains_def bt_ok_def foreign_receipt_def qualification_bounds_def)
qed

end
