(* ===== verification/Spec2Isabelle.thy ===== *)
theory Spec2Isabelle
  imports Wire Transcripts EventLog Evidence RuntimeStanding
begin

text \<open>
  A verification development of the Pulse components of Constellation Monitor, the Rust workspace under
  \<open>src/crates\<close>.

  \<^bold>\<open>The program.\<close> Observers send pulse frames about a subject (\<open>pulse-types\<close>). A receiver annotates each
  frame with its arrival, authentication and sequence disposition (\<open>ReceiverTracker\<close>, \<open>pulse-evaluator\<close>).
  An evaluator per consumer policy (\<open>Evaluator\<close>, \<open>pulse-evaluator\<close>) keeps the latest
  evidence of every observer and judges on each operation whether the consumer may rely on the subject now:
  CURRENT, DEGRADED, UNKNOWN or CONTRADICTED. When a judgment stops being CURRENT it may issue a bounded
  diagnostic request, which a bridge answers (\<open>pulse-l3-bridge\<close>). The receiver/scheduler runtime
  (\<open>ReceiverSchedulerRuntime\<close>, \<open>pulse-runtime\<close>) owns one evaluator per consumer, takes inputs in order,
  issues support certificates, and withdraws them when their deadline passes, when input is lost, or when
  the qualified binding of the running program no longer measures as it did at activation.

  \<^bold>\<open>Conventions.\<close> A \<open>Result\<close> is \<open>'e + 'a\<close>, an error on the left; \<open>rbind\<close> is \<open>?\<close>. An operation on \<open>&mut self\<close>
  returns the new state beside its result, since several change the state before they fail; a failed
  \<open>expect\<close> is the result \<open>RuntimePanic\<close>. Machine integers are words of their width; \<open>sat_add\<close> is
  \<open>saturating_add\<close>. A \<open>String\<close> is a list of bytes. \<open>BTreeMap\<close> and \<open>BTreeSet\<close> are ascending lists behind the
  locale \<open>ordered_map\<close>. A newtype identity is a string.

  \<^bold>\<open>The theories.\<close>
  \<^item> \<open>Prelude\<close>, \<open>BTree\<close>, \<open>Text\<close>, \<open>F64\<close>: the parts of the language and its library the sources use: results,
    words, ordered containers, UTF-8, formatting, and binary64 with exact rounding.
  \<^item> \<open>Identity\<close> (\<open>ids.rs\<close>, \<open>digest.rs\<close>), \<open>Pulse\<close> and \<open>Wire\<close> (\<open>pulse.rs\<close>: records, \<open>validate\<close>, \<open>seal\<close>;
    \<open>encode_wire\<close>, \<open>decode_wire\<close>), \<open>Judgment\<close> (\<open>judgment.rs\<close>), \<open>Escalation\<close> (\<open>escalation.rs\<close>, \<open>event.rs\<close>),
    \<open>Qualified\<close> (\<open>qualification.rs\<close>), \<open>Admission\<close> (\<open>custody.rs\<close>) and \<open>Certificates\<close> (\<open>runtime.rs\<close>): the crate
    \<open>pulse-types\<close>.
  \<^item> \<open>Policy\<close> (\<open>policy.rs\<close>), \<open>Receiver\<close> (\<open>receiver.rs\<close>), \<open>Assess\<close> and \<open>Evaluator\<close> (\<open>evaluator.rs\<close>: the functions
    on \<open>&self\<close>, then those on \<open>&mut self\<close>): the crate \<open>pulse-evaluator\<close>.
  \<^item> \<open>Bridge\<close>: the crate \<open>pulse-l3-bridge\<close> (\<open>handle\<close>, \<open>set_available\<close>) and its composition with the evaluator.
  \<^item> \<open>RuntimeState\<close>, \<open>Runtime\<close>, \<open>Management\<close> (\<open>lib.rs\<close>: the data; \<open>enqueue\<close>, \<open>run_until\<close> and what they call; the
    other public operations) and \<open>Artifacts\<close> (\<open>binding.rs\<close>): the crate \<open>pulse-runtime\<close>.
  \<^item> \<open>Lineage\<close> is the contract of a custodian of sequences; \<open>Support\<close>, \<open>EvalSteps\<close>, \<open>Standing\<close>, \<open>Schedule\<close> and
    \<open>RuntimeRuns\<close> hold the invariants and step relations; \<open>Samples\<close> and \<open>RuntimeSamples\<close> the inputs at which
    the witnesses evaluate the model.

  \<^bold>\<open>Interfaces.\<close> \<open>ordered_map\<close> is the contract of the containers. \<open>codec\<close> relates a writer of the wire format
  to its reader, and is interpreted once per field; \<open>marked_blocks\<close> is what makes a digested list of parts
  readable back. \<open>sequence_custodian\<close> is the contract of sequence custody, implemented twice: by the tracker
  (\<open>annotate\<close>) and by the evaluator (\<open>classify_arrival\<close>, \<open>update_lineage\<close>). \<open>evaluator_invariant\<close> turns what
  an invariant owes to the preparations and to \<open>evaluate\<close> into its truth in every \<open>reachable\<close> evaluator, and is
  interpreted for policies, identities, requests, evidence, lineages and event ids. \<open>diagnostic_responder\<close> is
  what the evaluator relies on in a bridge.

  \<^bold>\<open>What is shown.\<close>
  \<^item> \<open>Reliance\<close>: exactly when a judgment is CURRENT and for exactly how long; what context changes, clock
    regression, blindness, contradictions and failed operations do to it. "Operation" is there one that
    returns a judgment (\<open>run_op\<close>); \<open>import_contradictions\<close>, which returns none, is a rule of \<open>reachable\<close> and is
    stated separately where it differs.
  \<^item> \<open>Evidence\<close>: what the evidence held is bound to, how silence ends CURRENT, and that a refused pulse has the
    effect of a tick. \<open>Custody\<close>, \<open>Receiver\<close>: no occurrence is accepted twice; retired subject incarnations stay
    retired; the tracker and the evaluator agree arrival by arrival, and where they part.
  \<^item> \<open>Requests\<close>, \<open>Bridge\<close>: when a diagnostic request is issued, that no question is open twice, when the bridge
    runs one, that its answer is final, is accepted by the evaluator, and gives no standing. \<open>EventLog\<close>: the
    log of sparse events and its numbering.
  \<^item> \<open>Wire\<close>, \<open>Transcripts\<close>, \<open>Policy\<close>: the wire format is canonical and round-trips; observation and policy
    digests identify what they digest.
  \<^item> \<open>RuntimeStanding\<close>: a scheduler run returns and leaves nothing expired CURRENT; reachable runtimes keep
    their certificates scheduled and their stores bounded; refused input, restart and an unqualified binding
    leave no standing, with the exceptions stated there.

  \<^bold>\<open>Hypotheses.\<close> SHA-256 (crate \<open>sha2\<close>) is the parameter \<open>sha\<close>. Where a digest must be well formed it is assumed
  to be 32 bytes long (\<open>hash_32\<close>); where digests identify content, not to collide on the two inputs compared.
  \<open>frame_utf8\<close> states the UTF-8 invariant of \<open>String\<close>. \<open>serde_json::to_vec\<close>, the measurement of the running
  executable, the runtime version and the target platform are fields of \<open>runtime_env\<close>, and
  \<open>verify_local_activation\<close> is an argument of the activation; nothing is assumed of them.

  \<^bold>\<open>Termination.\<close> No definition has fuel. The scheduler loop \<open>run_loop\<close> is a partial function that is shown to
  return from every runtime: each turn removes a pending input or a due deadline, and what it schedules is
  later than the time of the run.

  \<^bold>\<open>Not modelled.\<close> The journal file, the reactor, campaign and crash drivers of \<open>pulse-runtime\<close> (files, clocks,
  sockets and threads); the signed custody sessions of its \<open>custody.rs\<close>, of which only the verified
  observation enters the model; assembling a qualification package in \<open>binding.rs\<close>, and the manifests, reports
  and certificates of a qualification campaign with \<open>verify_local_activation\<close> in \<open>qualification.rs\<close>;
  \<open>live_support.rs\<close>, which no modelled component uses; the derived \<open>serde\<close> and \<open>Display\<close> code. The crates
  \<open>pulse-agent\<close>, \<open>pulse-replay\<close>, \<open>pulse-qualification\<close>, \<open>pulse-transport-canary\<close>, \<open>pulse-m2-support\<close>, \<open>pulse-nq-*\<close>,
  \<open>pulse-project-predicate-support\<close>, \<open>monitor-project-concerns\<close> and \<open>constellation-*\<close> are drivers, adapters and
  I/O around these components or independent of them.
\<close>

end
